(* ===== verification/Prelude.thy ===== *)
theory Prelude
  imports Main "HOL-Library.Finite_Map" "HOL-Library.Sublist"
begin

text \<open>
  Shared vocabulary of the development: Go errors and outcomes, the state-and-error
  operations in which the effectful code is written, Go maps of strings, and the generic
  lemmas the component theories use.

  A Go function that talks to its environment (the Kubernetes API, the file system) is an
  operation \<open>'w \<Rightarrow> 'a outcome \<times> 'w\<close> over an abstract world \<open>'w\<close>.  \<open>Ok\<close> and \<open>Err\<close> are the two
  sides of Go's \<open>(value, error)\<close> result; \<open>Abort\<close> is an exit of the process (\<open>log.Fatal\<close>) or a
  panic, which no caller of the modelled code intercepts.
\<close>

named_theorems op_simps "unfolding of the operation combinators"

section \<open>Errors and outcomes\<close>

text \<open>The part of \<open>apierrors.ReasonForError\<close> that the operator distinguishes.\<close>

datatype status_reason = NotFound | AlreadyExists | Conflict | OtherReason

datatype error = Error (err_reason: status_reason) (err_text: string)

definition Errorf :: "string \<Rightarrow> error" where
  "Errorf msg = Error OtherReason msg"

text \<open>\<open>fmt.Errorf("...: %w", err)\<close> keeps the wrapped error's reason, \<open>%v\<close> does not.\<close>

definition Wrap :: "string \<Rightarrow> error \<Rightarrow> error" where
  "Wrap pre e = Error (err_reason e) (pre @ err_text e)"

definition Flatten :: "string \<Rightarrow> error \<Rightarrow> error" where
  "Flatten pre e = Error OtherReason (pre @ err_text e)"

definition IsNotFound :: "error \<Rightarrow> bool" where
  "IsNotFound e \<longleftrightarrow> err_reason e = NotFound"

lemma IsNotFound_Wrap [simp]: "IsNotFound (Wrap pre e) = IsNotFound e"
  by (simp add: IsNotFound_def Wrap_def)

lemma IsNotFound_Flatten [simp]: "\<not> IsNotFound (Flatten pre e)"
  by (simp add: IsNotFound_def Flatten_def)

lemma IsNotFound_Errorf [simp]: "\<not> IsNotFound (Errorf msg)"
  by (simp add: IsNotFound_def Errorf_def)

datatype 'a outcome = Ok 'a | Err error | Abort string

fun is_ok :: "'a outcome \<Rightarrow> bool" where
  "is_ok (Ok _) = True"
| "is_ok _ = False"

lemma is_ok_iff: "is_ok r \<longleftrightarrow> (\<exists>x. r = Ok x)"
  by (cases r) auto

fun outcome_bind :: "'a outcome \<Rightarrow> ('a \<Rightarrow> 'b outcome) \<Rightarrow> 'b outcome" where
  "outcome_bind (Ok x) f = f x"
| "outcome_bind (Err e) f = Err e"
| "outcome_bind (Abort s) f = Abort s"

lemma outcome_bind_Ok_iff [simp]:
  "outcome_bind r f = Ok y \<longleftrightarrow> (\<exists>x. r = Ok x \<and> f x = Ok y)"
  by (cases r) auto

section \<open>Operations over a world\<close>

type_synonym ('w, 'a) op = "'w \<Rightarrow> 'a outcome \<times> 'w"

text \<open>A single request to the environment: it answers with an error or a value.\<close>

type_synonym ('w, 'a) api = "'w \<Rightarrow> (error + 'a) \<times> 'w"

definition ret :: "'a \<Rightarrow> ('w, 'a) op" where
  "ret x = (\<lambda>w. (Ok x, w))"

definition fail :: "error \<Rightarrow> ('w, 'a) op" where
  "fail e = (\<lambda>w. (Err e, w))"

definition lift_outcome :: "'a outcome \<Rightarrow> ('w, 'a) op" where
  "lift_outcome r = (\<lambda>w. (r, w))"

definition bind :: "('w, 'a) op \<Rightarrow> ('a \<Rightarrow> ('w, 'b) op) \<Rightarrow> ('w, 'b) op" where
  "bind m f = (\<lambda>w. case m w of
      (Ok x, w') \<Rightarrow> f x w'
    | (Err e, w') \<Rightarrow> (Err e, w')
    | (Abort s, w') \<Rightarrow> (Abort s, w'))"

definition catch :: "('w, 'a) op \<Rightarrow> (error \<Rightarrow> ('w, 'a) op) \<Rightarrow> ('w, 'a) op" where
  "catch m h = (\<lambda>w. case m w of
      (Ok x, w') \<Rightarrow> (Ok x, w')
    | (Err e, w') \<Rightarrow> h e w'
    | (Abort s, w') \<Rightarrow> (Abort s, w'))"

definition call :: "('w, 'a) api \<Rightarrow> ('w, 'a) op" where
  "call m = (\<lambda>w. case m w of (Inl e, w') \<Rightarrow> (Err e, w') | (Inr x, w') \<Rightarrow> (Ok x, w'))"

text \<open>
  \<open>seqE [a, b, c]\<close> is the Go idiom
  \<open>if err := a(); err != nil { return err } ...\<close>: the operations run in order up to the
  first one that does not return \<open>Ok\<close>.
\<close>

fun seqE :: "('w, unit) op list \<Rightarrow> ('w, unit) op" where
  "seqE [] = ret ()"
| "seqE (m # ms) = bind m (\<lambda>_. seqE ms)"

definition whenE :: "bool \<Rightarrow> ('w, unit) op list \<Rightarrow> ('w, unit) op" where
  "whenE b ms = (if b then seqE ms else ret ())"

text \<open>The end of \<open>main\<close>: \<open>os.Exit(1)\<close> after an error.\<close>

definition orExit :: "('w, 'a) op \<Rightarrow> ('w, 'a) op" where
  "orExit m = catch m (\<lambda>_. lift_outcome (Abort ''exit 1''))"

lemmas op_defs = ret_def fail_def lift_outcome_def bind_def catch_def call_def whenE_def

lemma bind_ret [simp, op_simps]: "bind (ret x) f = f x"
  by (simp add: ret_def bind_def)

lemma bind_fail [simp, op_simps]: "bind (fail e) f = fail e"
  by (simp add: fail_def bind_def)

lemma bind_ret_right [simp, op_simps]: "bind m ret = m"
  by (auto simp: ret_def bind_def fun_eq_iff split: prod.splits outcome.splits)

lemma bind_assoc: "bind (bind m f) g = bind m (\<lambda>x. bind (f x) g)"
  by (auto simp: bind_def fun_eq_iff split: prod.splits outcome.splits)

lemma bind_OkE:
  assumes "bind m f w = (Ok y, w'')"
  obtains x w' where "m w = (Ok x, w')" and "f x w' = (Ok y, w'')"
  using assms by (auto simp: bind_def split: prod.splits outcome.splits)

lemma orExit_not_Err: "orExit m w \<noteq> (Err e, w')"
  by (auto simp: orExit_def catch_def lift_outcome_def split: prod.splits outcome.splits)

lemma orExit_Ok [simp]: "orExit m w = (Ok x, w') \<longleftrightarrow> m w = (Ok x, w')"
  by (auto simp: orExit_def catch_def lift_outcome_def split: prod.splits outcome.splits)

lemma bind_Ok: "m w = (Ok x, w') \<Longrightarrow> bind m f w = f x w'"
  by (simp add: bind_def)

lemma bind_Err: "m w = (Err e, w') \<Longrightarrow> bind m f w = (Err e, w')"
  by (simp add: bind_def)

lemma bind_Abort: "m w = (Abort s, w') \<Longrightarrow> bind m f w = (Abort s, w')"
  by (simp add: bind_def)

lemma seqE_append: "seqE (ms @ ns) = bind (seqE ms) (\<lambda>_. seqE ns)"
  by (induction ms) (simp_all add: bind_assoc)

text \<open>The first operation that does not return \<open>Ok\<close> ends the sequence.\<close>

lemma seqE_stops:
  assumes "seqE ms w = (Ok (), w')" and "m w' = (r, w'')" and "\<not> is_ok r"
  shows "seqE (ms @ m # ns) w = (r, w'')"
  using assms by (cases r) (auto simp: seqE_append bind_def)

text \<open>Every operation of a sequence that returns \<open>Ok\<close> returned \<open>Ok\<close> itself.\<close>

lemma seqE_Ok_mem:
  assumes "seqE ms w = (Ok (), w')" and "m \<in> set ms"
  shows "\<exists>v v'. m v = (Ok (), v')"
  using assms
proof (induction ms arbitrary: w)
  case Nil
  then show ?case by simp
next
  case (Cons a ms)
  from Cons.prems(1) obtain u v where "a w = (Ok u, v)" and "seqE ms v = (Ok (), w')"
    by (auto elim: bind_OkE)
  with Cons show ?case by auto
qed

section \<open>Go maps of strings\<close>

text \<open>
  \<open>map[string]string\<close> is a finite map.  Go's nil map and the empty map are one value here: both
  read as empty, both are left out of the JSON sent to the API server, and the modelled code
  writes to a map only where it is known to be non-nil.
\<close>

type_synonym strmap = "(string, string) fmap"

text \<open>A read of an absent key gives the empty string.\<close>

definition map_get :: "strmap \<Rightarrow> string \<Rightarrow> string" where
  "map_get m k = (case fmlookup m k of None \<Rightarrow> [] | Some v \<Rightarrow> v)"

definition map_has :: "strmap \<Rightarrow> string \<Rightarrow> bool" where
  "map_has m k \<longleftrightarrow> fmlookup m k \<noteq> None"

definition map_lit :: "(string \<times> string) list \<Rightarrow> strmap" where
  "map_lit kvs = fmap_of_list kvs"

lemma fmlookup_map_lit [simp]: "fmlookup (map_lit kvs) k = map_of kvs k"
  by (simp add: map_lit_def fmlookup_of_list)

lemma map_has_add [simp]: "map_has (m ++\<^sub>f n) k \<longleftrightarrow> map_has m k \<or> map_has n k"
  by (auto simp: map_has_def)

lemma map_get_add:
  "map_get (m ++\<^sub>f n) k = (if map_has n k then map_get n k else map_get m k)"
  by (auto simp: map_get_def map_has_def split: option.splits)

lemma fmadd_self [simp]: "m ++\<^sub>f (m :: strmap) = m"
  by (rule fmap_ext) (auto split: if_splits dest: fmdom_notD)

lemma fmadd_absorb [simp]: "(m ++\<^sub>f n) ++\<^sub>f n = m ++\<^sub>f (n :: strmap)"
  by (rule fmap_ext) auto

section \<open>Lists\<close>

lemma find_append:
  "find P (xs @ ys) = (case find P xs of None \<Rightarrow> find P ys | Some x \<Rightarrow> Some x)"
  by (induction xs) auto

lemma find_cong_None: "(\<And>x. x \<in> set xs \<Longrightarrow> \<not> P x) \<Longrightarrow> find P xs = None"
  by (simp add: find_None_iff)

end
