(* ===== verification/K8s_Types.thy ===== *)
theory K8s_Types
  imports Go_Strings
begin

text \<open>
  The Kubernetes API types the operator reads and writes (vendored \<open>k8s.io/api\<close> and
  \<open>k8s.io/apimachinery\<close>), with the fields the operator touches; a field that the operator
  neither reads nor writes is left out.  Pointers to scalars are \<open>option\<close>s, Go slices are lists
  (nil and empty slices coincide), quantities are their textual form.
\<close>

section \<open>Object metadata\<close>

record OwnerReference =
  or_APIVersion :: string
  or_Kind :: string
  or_Name :: string
  or_UID :: string
  or_Controller :: "bool option"
  or_BlockOwnerDeletion :: "bool option"

record ObjectMeta =
  om_Name :: string
  om_Namespace :: string
  om_UID :: string
  om_ResourceVersion :: string
  om_Generation :: int
  om_Labels :: strmap
  om_Annotations :: strmap
  om_OwnerReferences :: "OwnerReference list"

definition empty_meta :: ObjectMeta where
  "empty_meta = \<lparr>om_Name = [], om_Namespace = [], om_UID = [], om_ResourceVersion = [],
     om_Generation = 0, om_Labels = fmempty, om_Annotations = fmempty, om_OwnerReferences = []\<rparr>"

text \<open>\<open>types.NamespacedName\<close>: a namespace and a name.\<close>

record ObjectKey =
  ok_Namespace :: string
  ok_Name :: string

definition key_of_meta :: "ObjectMeta \<Rightarrow> ObjectKey" where
  "key_of_meta m = \<lparr>ok_Namespace = om_Namespace m, ok_Name = om_Name m\<rparr>"

section \<open>Scheduling\<close>

record Toleration =
  tol_Key :: string
  tol_Operator :: string
  tol_Value :: string
  tol_Effect :: string
  tol_TolerationSeconds :: "int option"

record NodeSelectorRequirement =
  nsr_Key :: string
  nsr_Operator :: string
  nsr_Values :: "string list"

record NodeSelectorTerm =
  nst_MatchExpressions :: "NodeSelectorRequirement list"
  nst_MatchFields :: "NodeSelectorRequirement list"

record PreferredSchedulingTerm =
  pst_Weight :: int
  pst_Preference :: NodeSelectorTerm

text \<open>\<open>Required...\<close> is a pointer to a \<open>NodeSelector\<close>, whose only field is the list of terms.\<close>

record NodeAffinity =
  na_Required :: "NodeSelectorTerm list option"
  na_Preferred :: "PreferredSchedulingTerm list"

record PodAffinityTerm =
  pat_MatchLabels :: strmap
  pat_Namespaces :: "string list"
  pat_TopologyKey :: string

record WeightedPodAffinityTerm =
  wpt_Weight :: int
  wpt_Term :: PodAffinityTerm

text \<open>\<open>PodAffinity\<close> and \<open>PodAntiAffinity\<close> are structs of the same two fields.\<close>

record PodAffinity =
  pa_Required :: "PodAffinityTerm list"
  pa_Preferred :: "WeightedPodAffinityTerm list"

record Affinity =
  af_NodeAffinity :: "NodeAffinity option"
  af_PodAffinity :: "PodAffinity option"
  af_PodAntiAffinity :: "PodAffinity option"

section \<open>Containers and pods\<close>

record ResourceRequirements =
  rr_Requests :: strmap
  rr_Limits :: strmap

datatype EnvVarSource = FieldRef (fr_APIVersion: string) (fr_FieldPath: string)
  | OtherEnvVarSource string

record EnvVar =
  ev_Name :: string
  ev_Value :: string
  ev_ValueFrom :: "EnvVarSource option"

record VolumeMount =
  vm_Name :: string
  vm_MountPath :: string
  vm_SubPath :: string
  vm_ReadOnly :: bool
  vm_MountPropagation :: "string option"

record SecurityContext =
  sc_Privileged :: "bool option"
  sc_RunAsUser :: "int option"
  sc_RunAsGroup :: "int option"
  sc_ReadOnlyRootFilesystem :: "bool option"
  sc_SELinuxLevel :: "string option"

record Probe =
  pr_Command :: "string list"
  pr_TimeoutSeconds :: int
  pr_PeriodSeconds :: int
  pr_FailureThreshold :: int

record ContainerPort =
  cp_Name :: string
  cp_ContainerPort :: int
  cp_HostPort :: int
  cp_Protocol :: string

text \<open>\<open>Lifecycle\<close> is modelled by the command of its \<open>PreStop\<close> exec handler.\<close>

record Container =
  co_Name :: string
  co_Image :: string
  co_ImagePullPolicy :: string
  co_Command :: "string list"
  co_Args :: "string list"
  co_Env :: "EnvVar list"
  co_Resources :: ResourceRequirements
  co_VolumeMounts :: "VolumeMount list"
  co_SecurityContext :: "SecurityContext option"
  co_PreStop :: "string list option"
  co_StartupProbe :: "Probe option"
  co_Ports :: "ContainerPort list"

record KeyToPath =
  kp_Key :: string
  kp_Path :: string
  kp_Mode :: "int option"

datatype VolumeSource =
    HostPath (hp_Path: string) (hp_Type: "string option")
  | ConfigMapVolume (cmv_Name: string) (cmv_Items: "KeyToPath list") (cmv_DefaultMode: "int option")

record Volume =
  vo_Name :: string
  vo_Source :: VolumeSource

record PodSpec =
  ps_ServiceAccountName :: string
  ps_NodeSelector :: strmap
  ps_Affinity :: "Affinity option"
  ps_Tolerations :: "Toleration list"
  ps_ImagePullSecrets :: "string list"
  ps_PriorityClassName :: string
  ps_Volumes :: "Volume list"
  ps_InitContainers :: "Container list"
  ps_Containers :: "Container list"
  ps_HostNetwork :: bool
  ps_HostPID :: bool
  ps_TerminationGracePeriodSeconds :: "int option"

definition empty_resources :: ResourceRequirements where
  "empty_resources = \<lparr>rr_Requests = fmempty, rr_Limits = fmempty\<rparr>"

definition empty_container :: Container where
  "empty_container = \<lparr>co_Name = [], co_Image = [], co_ImagePullPolicy = [], co_Command = [],
     co_Args = [], co_Env = [], co_Resources = empty_resources, co_VolumeMounts = [],
     co_SecurityContext = None, co_PreStop = None, co_StartupProbe = None, co_Ports = []\<rparr>"

definition empty_podSpec :: PodSpec where
  "empty_podSpec = \<lparr>ps_ServiceAccountName = [], ps_NodeSelector = fmempty, ps_Affinity = None,
     ps_Tolerations = [], ps_ImagePullSecrets = [], ps_PriorityClassName = [], ps_Volumes = [],
     ps_InitContainers = [], ps_Containers = [], ps_HostNetwork = False, ps_HostPID = False,
     ps_TerminationGracePeriodSeconds = None\<rparr>"

section \<open>Objects\<close>

record DaemonSetStatus =
  dst_DesiredNumberScheduled :: int
  dst_NumberReady :: int
  dst_NumberUnavailable :: int

record DaemonSet =
  ds_Meta :: ObjectMeta
  ds_MatchLabels :: strmap
  ds_TemplateLabels :: strmap
  ds_PodSpec :: PodSpec
  ds_UpdateStrategyType :: string
  ds_Status :: DaemonSetStatus

record ServiceAccount =
  sa_Meta :: ObjectMeta

record PolicyRule =
  rule_APIGroups :: "string list"
  rule_Resources :: "string list"
  rule_ResourceNames :: "string list"
  rule_Verbs :: "string list"

record Role =
  role_Meta :: ObjectMeta
  role_Rules :: "PolicyRule list"

record RoleRef =
  rref_APIGroup :: string
  rref_Kind :: string
  rref_Name :: string

record Subject =
  sub_Kind :: string
  sub_Name :: string
  sub_Namespace :: string

record RoleBinding =
  rb_Meta :: ObjectMeta
  rb_RoleRef :: RoleRef
  rb_Subjects :: "Subject list"

record ConfigMap =
  cm_Meta :: ObjectMeta
  cm_Data :: strmap

record ServicePort =
  sp_Name :: string
  sp_Port :: int

record Service =
  svc_Meta :: ObjectMeta
  svc_Selector :: strmap
  svc_Ports :: "ServicePort list"
  svc_InternalTrafficPolicy :: "string option"

record Node =
  node_Meta :: ObjectMeta
  node_ContainerRuntimeVersion :: string

definition empty_status :: DaemonSetStatus where
  "empty_status = \<lparr>dst_DesiredNumberScheduled = 0, dst_NumberReady = 0, dst_NumberUnavailable = 0\<rparr>"

section \<open>Status conditions\<close>

text \<open>
  \<open>metav1.Time\<close> counts from the zero time, which \<open>IsZero\<close> recognises; the clock's reading is
  a parameter of every operation that stamps a condition.
\<close>

type_synonym Time = nat

record Condition =
  cond_Type :: string
  cond_Status :: string
  cond_Reason :: string
  cond_Message :: string
  cond_LastTransitionTime :: Time
  cond_ObservedGeneration :: int

abbreviation ConditionTrue :: string where "ConditionTrue \<equiv> ''True''"
abbreviation ConditionFalse :: string where "ConditionFalse \<equiv> ''False''"

definition FindStatusCondition :: "Condition list \<Rightarrow> string \<Rightarrow> Condition option" where
  "FindStatusCondition cs t = find (\<lambda>c. cond_Type c = t) cs"

text \<open>The in-place update of an existing condition, with its \<open>changed\<close> flag.\<close>

definition updateCondition :: "Time \<Rightarrow> Condition \<Rightarrow> Condition \<Rightarrow> Condition \<times> bool" where
  "updateCondition now new old =
     (let c1 = (if cond_Status old \<noteq> cond_Status new
                then old\<lparr>cond_Status := cond_Status new,
                         cond_LastTransitionTime :=
                           (if cond_LastTransitionTime new \<noteq> 0 then cond_LastTransitionTime new
                            else now)\<rparr>
                else old);
          c2 = c1\<lparr>cond_Reason := cond_Reason new\<rparr>;
          c3 = c2\<lparr>cond_Message := cond_Message new\<rparr>;
          c4 = c3\<lparr>cond_ObservedGeneration := cond_ObservedGeneration new\<rparr>
      in (c4, cond_Status old \<noteq> cond_Status new \<or> cond_Reason old \<noteq> cond_Reason new
              \<or> cond_Message old \<noteq> cond_Message new
              \<or> cond_ObservedGeneration old \<noteq> cond_ObservedGeneration new))"

fun updateFirst :: "Time \<Rightarrow> Condition \<Rightarrow> Condition list \<Rightarrow> Condition list \<times> bool" where
  "updateFirst now new [] = ([], False)"
| "updateFirst now new (c # cs) =
     (if cond_Type c = cond_Type new
      then (let (c', b) = updateCondition now new c in (c' # cs, b))
      else (let (cs', b) = updateFirst now new cs in (c # cs', b)))"

definition SetStatusCondition :: "Time \<Rightarrow> Condition list \<Rightarrow> Condition \<Rightarrow> Condition list \<times> bool" where
  "SetStatusCondition now cs new =
     (case FindStatusCondition cs (cond_Type new) of
        None \<Rightarrow> (cs @ [if cond_LastTransitionTime new = 0
                      then new\<lparr>cond_LastTransitionTime := now\<rparr> else new], True)
      | Some _ \<Rightarrow> updateFirst now new cs)"

text \<open>A condition literal with the fields the operator leaves unset at their zero value.\<close>

definition mkCondition :: "string \<Rightarrow> string \<Rightarrow> string \<Rightarrow> string \<Rightarrow> Condition" where
  "mkCondition t st r m = \<lparr>cond_Type = t, cond_Status = st, cond_Reason = r, cond_Message = m,
     cond_LastTransitionTime = 0, cond_ObservedGeneration = 0\<rparr>"

lemma mkCondition_simps [simp]:
  "cond_Type (mkCondition t st r m) = t"
  "cond_Status (mkCondition t st r m) = st"
  "cond_Reason (mkCondition t st r m) = r"
  "cond_Message (mkCondition t st r m) = m"
  "cond_LastTransitionTime (mkCondition t st r m) = 0"
  "cond_ObservedGeneration (mkCondition t st r m) = 0"
  by (simp_all add: mkCondition_def)

subsection \<open>What \<open>SetStatusCondition\<close> guarantees\<close>

lemma updateCondition_type [simp]: "cond_Type (fst (updateCondition now new old)) = cond_Type old"
  by (simp add: updateCondition_def Let_def)

lemma updateCondition_fields [simp]:
  "cond_Status (fst (updateCondition now new old)) = cond_Status new"
  "cond_Reason (fst (updateCondition now new old)) = cond_Reason new"
  "cond_Message (fst (updateCondition now new old)) = cond_Message new"
  "cond_ObservedGeneration (fst (updateCondition now new old)) = cond_ObservedGeneration new"
  by (simp_all add: updateCondition_def Let_def)

lemma updateCondition_time:
  "cond_LastTransitionTime (fst (updateCondition now new old)) =
     (if cond_Status old = cond_Status new then cond_LastTransitionTime old
      else if cond_LastTransitionTime new \<noteq> 0 then cond_LastTransitionTime new else now)"
  by (simp add: updateCondition_def Let_def)

lemma updateCondition_unchanged: "\<not> snd (updateCondition now new old) \<Longrightarrow> fst (updateCondition now new old) = old"
  by (simp add: updateCondition_def Let_def)

lemma updateCondition_changed: "snd (updateCondition now new old) \<Longrightarrow> fst (updateCondition now new old) \<noteq> old"
  by (auto simp: updateCondition_def Let_def dest: arg_cong [where f = cond_Status]
      arg_cong [where f = cond_Reason] arg_cong [where f = cond_Message]
      arg_cong [where f = cond_ObservedGeneration] split: if_splits)

lemma updateCondition_changed_iff:
  "snd (updateCondition now new old) \<longleftrightarrow> fst (updateCondition now new old) \<noteq> old"
  using updateCondition_changed updateCondition_unchanged by blast

lemma updateFirst_Cons:
  "fst (updateFirst now new (c # cs)) =
     (if cond_Type c = cond_Type new then fst (updateCondition now new c) # cs
      else c # fst (updateFirst now new cs))"
  "snd (updateFirst now new (c # cs)) =
     (if cond_Type c = cond_Type new then snd (updateCondition now new c)
      else snd (updateFirst now new cs))"
  by (simp_all add: case_prod_beta Let_def)

lemmas updateFirst_simps = updateFirst.simps(1) updateFirst_Cons

declare updateFirst.simps [simp del]
declare updateFirst_simps [simp]

lemma FindStatusCondition_simps [simp]:
  "FindStatusCondition [] t = None"
  "FindStatusCondition (c # cs) t = (if cond_Type c = t then Some c else FindStatusCondition cs t)"
  by (simp_all add: FindStatusCondition_def)

lemma FindStatusCondition_None_iff:
  "FindStatusCondition cs t = None \<longleftrightarrow> t \<notin> set (map cond_Type cs)"
  by (induction cs) auto

lemma FindStatusCondition_append:
  "FindStatusCondition (xs @ ys) t =
     (case FindStatusCondition xs t of None \<Rightarrow> FindStatusCondition ys t | Some c \<Rightarrow> Some c)"
  by (induction xs) auto

lemma map_type_updateFirst [simp]: "map cond_Type (fst (updateFirst now new cs)) = map cond_Type cs"
  by (induction cs) auto

lemma types_SetStatusCondition:
  "map cond_Type (fst (SetStatusCondition now cs new)) =
     map cond_Type cs @ (if cond_Type new \<in> set (map cond_Type cs) then [] else [cond_Type new])"
proof (cases "FindStatusCondition cs (cond_Type new)")
  case None
  then show ?thesis
    using FindStatusCondition_None_iff [of cs "cond_Type new"] by (simp add: SetStatusCondition_def)
next
  case (Some old)
  then show ?thesis
    using FindStatusCondition_None_iff [of cs "cond_Type new"] by (simp add: SetStatusCondition_def)
qed

lemma Find_updateFirst:
  assumes "FindStatusCondition cs (cond_Type new) = Some old"
  shows "FindStatusCondition (fst (updateFirst now new cs)) (cond_Type new)
           = Some (fst (updateCondition now new old))"
  using assms by (induction cs) (auto split: if_splits)

lemma Find_updateFirst_other:
  assumes "t \<noteq> cond_Type new"
  shows "FindStatusCondition (fst (updateFirst now new cs)) t = FindStatusCondition cs t"
  using assms by (induction cs) auto

lemma Find_SetStatusCondition:
  "FindStatusCondition (fst (SetStatusCondition now cs new)) (cond_Type new) =
     Some (case FindStatusCondition cs (cond_Type new) of
             None \<Rightarrow> (if cond_LastTransitionTime new = 0 then new\<lparr>cond_LastTransitionTime := now\<rparr> else new)
           | Some old \<Rightarrow> fst (updateCondition now new old))"
proof (cases "FindStatusCondition cs (cond_Type new)")
  case None
  then show ?thesis
    by (auto simp: SetStatusCondition_def FindStatusCondition_append)
next
  case (Some old)
  then show ?thesis by (simp add: SetStatusCondition_def Find_updateFirst)
qed

lemma Find_SetStatusCondition_other:
  assumes "t \<noteq> cond_Type new"
  shows "FindStatusCondition (fst (SetStatusCondition now cs new)) t = FindStatusCondition cs t"
proof (cases "FindStatusCondition cs (cond_Type new)")
  case None
  with assms show ?thesis
    by (auto simp: SetStatusCondition_def FindStatusCondition_append split: option.splits)
next
  case (Some old)
  with assms show ?thesis by (simp add: SetStatusCondition_def Find_updateFirst_other)
qed

lemma updateFirst_changed_iff: "snd (updateFirst now new cs) \<longleftrightarrow> fst (updateFirst now new cs) \<noteq> cs"
  by (induction cs) (auto simp: updateCondition_changed_iff)

lemma SetStatusCondition_changed_iff:
  "snd (SetStatusCondition now cs new) \<longleftrightarrow> fst (SetStatusCondition now cs new) \<noteq> cs"
  by (simp add: SetStatusCondition_def updateFirst_changed_iff split: option.splits)

end
