(* ===== verification/K8s_Builders.thy ===== *)
theory K8s_Builders
  imports K8s_Types
begin

text \<open>
  \<open>internal/utils/k8s\<close>: the label predicates, the map helpers and the builders, and the owner
  references (vendored \<open>controllerutil\<close>) that every builder's \<open>WithOwner\<close> sets.  A builder is the
  object it builds; a chain of \<open>With...\<close> calls is the list of its steps, applied in order.
\<close>

definition build :: "'a \<Rightarrow> ('a \<Rightarrow> 'a) list \<Rightarrow> 'a" where
  "build obj steps = foldl (\<lambda>x f. f x) obj steps"

lemma build_simps [simp]:
  "build obj [] = obj"
  "build obj (f # fs) = build (f obj) fs"
  by (simp_all add: build_def)

section \<open>Map helpers (\<open>common.go\<close>)\<close>

definition MergeMaps :: "strmap \<Rightarrow> strmap \<Rightarrow> strmap" where
  "MergeMaps base override =
     (if base = fmempty \<and> override = fmempty then fmempty else base ++\<^sub>f override)"

definition FilterMapWithPrefix :: "strmap \<Rightarrow> string \<Rightarrow> strmap" where
  "FilterMapWithPrefix m pre = fmfilter (\<lambda>k. HasPrefix k pre) m"

lemma MergeMaps_eq [simp]: "MergeMaps base override = base ++\<^sub>f override"
  by (simp add: MergeMaps_def)

lemma fmlookup_FilterMapWithPrefix [simp]:
  "fmlookup (FilterMapWithPrefix m pre) k = (if HasPrefix k pre then fmlookup m k else None)"
  by (simp add: FilterMapWithPrefix_def)

section \<open>Node label predicates (\<open>labels.go\<close>)\<close>

abbreviation NFDLabelPrefix :: string where
  "NFDLabelPrefix \<equiv> ''feature.node.kubernetes.io/''"

abbreviation RBLNPresentLabelKey :: string where
  "RBLNPresentLabelKey \<equiv> ''rebellions.ai/npu.present''"

abbreviation RBLNWorkloadConfigLabelKey :: string where
  "RBLNWorkloadConfigLabelKey \<equiv> ''rebellions.ai/npu.workload.config''"

definition IsControlPlane :: "strmap \<Rightarrow> bool" where
  "IsControlPlane labels = map_has labels ''node-role.kubernetes.io/control-plane''"

definition IsNfdProvisioned :: "strmap \<Rightarrow> bool" where
  "IsNfdProvisioned labels = fBex (fmdom labels) (\<lambda>key. HasPrefix key NFDLabelPrefix)"

definition IsRblnNode :: "strmap \<Rightarrow> bool" where
  "IsRblnNode labels =
     (if map_has labels RBLNPresentLabelKey
      then map_get labels RBLNPresentLabelKey = ''true'' else False)"

definition GetWorkloadType :: "strmap \<Rightarrow> string \<Rightarrow> string" where
  "GetWorkloadType labels defaultWorkload =
     (case fmlookup labels RBLNWorkloadConfigLabelKey of
        Some workloadType \<Rightarrow> workloadType
      | None \<Rightarrow> defaultWorkload)"

section \<open>Owner references (\<open>controllerutil\<close>)\<close>

text \<open>What \<open>SetControllerReference\<close> reads of an owner; the scheme gives its group, version and kind.\<close>

record Owner =
  own_APIVersion :: string
  own_Kind :: string
  own_Name :: string
  own_Namespace :: string
  own_UID :: string

text \<open>The group of an \<open>APIVersion\<close> string; \<open>None\<close> where \<open>ParseGroupVersion\<close> fails.\<close>

definition ParseGroup :: "string \<Rightarrow> string option" where
  "ParseGroup gv =
     (if gv = [] \<or> gv = ''/'' then Some []
      else (case split_char (CHR ''/'') gv of
              [v] \<Rightarrow> Some []
            | [g, v] \<Rightarrow> Some g
            | _ \<Rightarrow> None))"

definition referSameObject :: "OwnerReference \<Rightarrow> OwnerReference \<Rightarrow> bool" where
  "referSameObject a b =
     (case ParseGroup (or_APIVersion a) of
        None \<Rightarrow> False
      | Some aGroup \<Rightarrow>
          (case ParseGroup (or_APIVersion b) of
             None \<Rightarrow> False
           | Some bGroup \<Rightarrow>
               aGroup = bGroup \<and> or_Kind a = or_Kind b \<and> or_Name a = or_Name b))"

definition GetControllerOf :: "ObjectMeta \<Rightarrow> OwnerReference option" where
  "GetControllerOf m = find (\<lambda>r. or_Controller r = Some True) (om_OwnerReferences m)"

definition validateOwner :: "Owner \<Rightarrow> ObjectMeta \<Rightarrow> error option" where
  "validateOwner owner m =
     (if own_Namespace owner \<noteq> [] then
        (if om_Namespace m = [] then
           Some (Errorf (''cluster-scoped resource must not have a namespace-scoped owner, owner's namespace ''
                         @ own_Namespace owner))
         else if own_Namespace owner \<noteq> om_Namespace m then
           Some (Errorf (''cross-namespace owner references are disallowed, owner's namespace ''
                         @ own_Namespace owner @ '', obj's namespace '' @ om_Namespace m))
         else None)
      else None)"

fun upsertOwnerRef :: "OwnerReference \<Rightarrow> OwnerReference list \<Rightarrow> OwnerReference list" where
  "upsertOwnerRef ref [] = [ref]"
| "upsertOwnerRef ref (r # rs) =
     (if referSameObject r ref then ref # rs else r # upsertOwnerRef ref rs)"

definition controllerRef :: "Owner \<Rightarrow> OwnerReference" where
  "controllerRef owner = \<lparr>or_APIVersion = own_APIVersion owner, or_Kind = own_Kind owner,
     or_Name = own_Name owner, or_UID = own_UID owner, or_Controller = Some True,
     or_BlockOwnerDeletion = Some True\<rparr>"

definition SetControllerReference :: "Owner \<Rightarrow> ObjectMeta \<Rightarrow> error + ObjectMeta" where
  "SetControllerReference owner m =
     (case validateOwner owner m of
        Some e \<Rightarrow> Inl e
      | None \<Rightarrow>
          (let ref = controllerRef owner in
           case GetControllerOf m of
             Some existing \<Rightarrow>
               (if \<not> referSameObject existing ref
                then Inl (Errorf (''Object '' @ om_Namespace m @ ''/'' @ om_Name m
                            @ '' is already owned by another '' @ or_Kind existing
                            @ '' controller '' @ or_Name existing))
                else Inr (m\<lparr>om_OwnerReferences := upsertOwnerRef ref (om_OwnerReferences m)\<rparr>))
           | None \<Rightarrow> Inr (m\<lparr>om_OwnerReferences := upsertOwnerRef ref (om_OwnerReferences m)\<rparr>)))"

text \<open>\<open>WithOwner\<close>: \<open>log.Fatal\<close> ends the process when the reference cannot be set.\<close>

definition WithOwner :: "Owner \<Rightarrow> ObjectMeta \<Rightarrow> ObjectMeta outcome" where
  "WithOwner owner m =
     (case SetControllerReference owner m of
        Inl e \<Rightarrow> Abort (err_text e @ ''Failed to set controller reference'')
      | Inr m' \<Rightarrow> Ok m')"

lemma referSameObject_refl: "ParseGroup (or_APIVersion r) \<noteq> None \<Longrightarrow> referSameObject r r"
  by (auto simp: referSameObject_def split: option.splits)

lemma upsertOwnerRef_mem: "ref \<in> set (upsertOwnerRef ref rs)"
  by (induction rs) auto

lemma upsertOwnerRef_idem:
  "referSameObject ref ref \<Longrightarrow> upsertOwnerRef ref (upsertOwnerRef ref rs) = upsertOwnerRef ref rs"
  by (induction rs) auto

text \<open>The reference replaces one to the same object or is added; no other reference is lost.\<close>

lemma upsertOwnerRef_keeps:
  "r \<in> set rs \<Longrightarrow> \<not> referSameObject r ref \<Longrightarrow> r \<in> set (upsertOwnerRef ref rs)"
  by (induction rs) auto

lemma GetControllerOf_upsert:
  assumes "find (\<lambda>r. or_Controller r = Some True) rs = None \<or>
           (\<exists>e. find (\<lambda>r. or_Controller r = Some True) rs = Some e \<and> referSameObject e ref)"
    and "or_Controller ref = Some True" and "referSameObject ref ref"
  shows "\<exists>c. find (\<lambda>r. or_Controller r = Some True) (upsertOwnerRef ref rs) = Some c \<and> referSameObject c ref"
  using assms by (induction rs) (auto split: if_splits)

lemma SetControllerReference_Inr_iff:
  "SetControllerReference owner m = Inr m' \<longleftrightarrow>
     validateOwner owner m = None \<and>
     (\<forall>e. GetControllerOf m = Some e \<longrightarrow> referSameObject e (controllerRef owner)) \<and>
     m' = m\<lparr>om_OwnerReferences := upsertOwnerRef (controllerRef owner) (om_OwnerReferences m)\<rparr>"
  by (auto simp: SetControllerReference_def Let_def split: option.splits)

lemma WithOwner_Ok_iff:
  "WithOwner owner m = Ok m' \<longleftrightarrow>
     validateOwner owner m = None \<and>
     (\<forall>e. GetControllerOf m = Some e \<longrightarrow> referSameObject e (controllerRef owner)) \<and>
     m' = m\<lparr>om_OwnerReferences := upsertOwnerRef (controllerRef owner) (om_OwnerReferences m)\<rparr>"
proof -
  have "WithOwner owner m = Ok m' \<longleftrightarrow> SetControllerReference owner m = Inr m'"
    by (auto simp: WithOwner_def split: sum.splits)
  then show ?thesis by (simp only: SetControllerReference_Inr_iff)
qed

text \<open>An owner whose API version parses; the scheme's versions \<open>rebellions.ai/v1...\<close> all do.\<close>

definition wf_owner :: "Owner \<Rightarrow> bool" where
  "wf_owner owner \<longleftrightarrow> ParseGroup (own_APIVersion owner) \<noteq> None"

lemma referSameObject_controllerRef: "wf_owner owner \<Longrightarrow> referSameObject (controllerRef owner) (controllerRef owner)"
  by (auto simp: wf_owner_def controllerRef_def intro: referSameObject_refl)

lemma validateOwner_refs [simp]:
  "validateOwner owner (m\<lparr>om_OwnerReferences := rs\<rparr>) = validateOwner owner m"
  by (simp add: validateOwner_def)

lemma WithOwner_controls:
  assumes "WithOwner owner m = Ok m'" and "wf_owner owner"
  shows "\<exists>r. GetControllerOf m' = Some r \<and> referSameObject r (controllerRef owner)"
proof -
  have "or_Controller (controllerRef owner) = Some True" by (simp add: controllerRef_def)
  with assms show ?thesis
    by (auto simp: WithOwner_Ok_iff GetControllerOf_def referSameObject_controllerRef
        intro!: GetControllerOf_upsert)
qed

lemma WithOwner_idem:
  assumes "WithOwner owner m = Ok m'" and "wf_owner owner"
  shows "WithOwner owner m' = Ok m'"
proof -
  obtain r where "GetControllerOf m' = Some r" "referSameObject r (controllerRef owner)"
    using WithOwner_controls [OF assms] by blast
  with assms show ?thesis
    by (auto simp: WithOwner_Ok_iff upsertOwnerRef_idem referSameObject_controllerRef)
qed

lemma WithOwner_frame:
  assumes "WithOwner owner m = Ok m'"
  shows "om_Name m' = om_Name m" "om_Namespace m' = om_Namespace m"
    "om_Labels m' = om_Labels m" "om_Annotations m' = om_Annotations m"
    "om_UID m' = om_UID m" "om_ResourceVersion m' = om_ResourceVersion m"
    "om_Generation m' = om_Generation m"
  using assms by (auto simp: WithOwner_Ok_iff)

section \<open>Containers (\<open>container.go\<close>)\<close>

abbreviation PullAlways :: string where "PullAlways \<equiv> ''Always''"
abbreviation PullIfNotPresent :: string where "PullIfNotPresent \<equiv> ''IfNotPresent''"

definition WithImage :: "string \<Rightarrow> string \<Rightarrow> string \<Rightarrow> Container \<Rightarrow> Container" where
  "WithImage img tag imgPullPolicy c =
     (let tag' = (if tag = [] then ''latest'' else tag);
          pullPolicy = (if tag' = ''latest'' then PullAlways else imgPullPolicy)
      in c\<lparr>co_Image := img @ '':'' @ tag', co_ImagePullPolicy := pullPolicy\<rparr>)"

definition WithResources :: "ResourceRequirements \<Rightarrow> string \<Rightarrow> string \<Rightarrow> Container \<Rightarrow> Container" where
  "WithResources resources defaultCPUReq defaultMemoryReq c =
     (let req0 = rr_Requests resources;
          req1 = (if map_has req0 ''cpu'' then req0 else fmupd ''cpu'' defaultCPUReq req0);
          req2 = (if map_has req1 ''memory'' then req1 else fmupd ''memory'' defaultMemoryReq req1)
      in c\<lparr>co_Resources := resources\<lparr>rr_Requests := req2\<rparr>\<rparr>)"

definition WithName :: "string \<Rightarrow> Container \<Rightarrow> Container" where
  "WithName name c = c\<lparr>co_Name := name\<rparr>"

definition WithVolumeMounts :: "VolumeMount list \<Rightarrow> Container \<Rightarrow> Container" where
  "WithVolumeMounts mounts c = c\<lparr>co_VolumeMounts := mounts\<rparr>"

definition WithCommands :: "string list \<Rightarrow> Container \<Rightarrow> Container" where
  "WithCommands cmd c = c\<lparr>co_Command := cmd\<rparr>"

definition WithArgs :: "string list \<Rightarrow> Container \<Rightarrow> Container" where
  "WithArgs args c = c\<lparr>co_Args := args\<rparr>"

definition WithSecurityContext :: "SecurityContext \<Rightarrow> Container \<Rightarrow> Container" where
  "WithSecurityContext securityCtx c = c\<lparr>co_SecurityContext := Some securityCtx\<rparr>"

definition WithLifeCycle :: "string list \<Rightarrow> Container \<Rightarrow> Container" where
  "WithLifeCycle preStop c = c\<lparr>co_PreStop := Some preStop\<rparr>"

definition WithEnvs :: "EnvVar list \<Rightarrow> Container \<Rightarrow> Container" where
  "WithEnvs envs c = c\<lparr>co_Env := envs\<rparr>"

lemmas container_steps = WithImage_def WithResources_def WithName_def WithVolumeMounts_def
  WithCommands_def WithArgs_def WithSecurityContext_def WithLifeCycle_def WithEnvs_def Let_def

section \<open>Pod specs (\<open>podspec.go\<close>)\<close>

definition WithAffinity :: "Affinity option \<Rightarrow> PodSpec \<Rightarrow> PodSpec" where
  "WithAffinity affinity p = p\<lparr>ps_Affinity := affinity\<rparr>"

definition WithTolerations :: "Toleration list \<Rightarrow> PodSpec \<Rightarrow> PodSpec" where
  "WithTolerations tolerations p = p\<lparr>ps_Tolerations := tolerations\<rparr>"

definition WithImagePullSecrets :: "string list \<Rightarrow> PodSpec \<Rightarrow> PodSpec" where
  "WithImagePullSecrets secrets p = p\<lparr>ps_ImagePullSecrets := secrets\<rparr>"

definition WithPriorityClassName :: "string \<Rightarrow> PodSpec \<Rightarrow> PodSpec" where
  "WithPriorityClassName priorityClass p = p\<lparr>ps_PriorityClassName := priorityClass\<rparr>"

definition WithVolumes :: "Volume list \<Rightarrow> PodSpec \<Rightarrow> PodSpec" where
  "WithVolumes volumes p = p\<lparr>ps_Volumes := volumes\<rparr>"

definition WithNodeSelector :: "strmap \<Rightarrow> PodSpec \<Rightarrow> PodSpec" where
  "WithNodeSelector selector p = p\<lparr>ps_NodeSelector := selector\<rparr>"

definition WithContainers :: "Container list \<Rightarrow> PodSpec \<Rightarrow> PodSpec" where
  "WithContainers containers p = p\<lparr>ps_Containers := containers\<rparr>"

definition WithInitContainers :: "Container list \<Rightarrow> PodSpec \<Rightarrow> PodSpec" where
  "WithInitContainers containers p = p\<lparr>ps_InitContainers := containers\<rparr>"

definition WithHostNetwork :: "bool \<Rightarrow> PodSpec \<Rightarrow> PodSpec" where
  "WithHostNetwork enabled p = p\<lparr>ps_HostNetwork := enabled\<rparr>"

definition WithHostPID :: "bool \<Rightarrow> PodSpec \<Rightarrow> PodSpec" where
  "WithHostPID enabled p = p\<lparr>ps_HostPID := enabled\<rparr>"

definition WithTerminationGracePeriodSeconds :: "int \<Rightarrow> PodSpec \<Rightarrow> PodSpec" where
  "WithTerminationGracePeriodSeconds seconds p = p\<lparr>ps_TerminationGracePeriodSeconds := Some seconds\<rparr>"

definition WithServiceAccountName :: "string \<Rightarrow> PodSpec \<Rightarrow> PodSpec" where
  "WithServiceAccountName n p = p\<lparr>ps_ServiceAccountName := n\<rparr>"

lemmas podSpec_steps = WithAffinity_def WithTolerations_def WithImagePullSecrets_def
  WithPriorityClassName_def WithVolumes_def WithNodeSelector_def WithContainers_def
  WithInitContainers_def WithHostNetwork_def WithHostPID_def
  WithTerminationGracePeriodSeconds_def WithServiceAccountName_def

section \<open>Affinity merging\<close>

definition mergeNodeAffinity :: "NodeAffinity option \<Rightarrow> NodeAffinity option \<Rightarrow> NodeAffinity option" where
  "mergeNodeAffinity def usr =
     (let merged = (if usr \<noteq> None then usr else def) in
      case (merged, def, usr) of
        (Some m, Some d, Some u) \<Rightarrow>
          (let m1 = (case na_Required d of
                       None \<Rightarrow> m
                     | Some dTerms \<Rightarrow>
                         (case na_Required m of
                            None \<Rightarrow> m\<lparr>na_Required := Some dTerms\<rparr>
                          | Some mTerms \<Rightarrow> m\<lparr>na_Required := Some (mTerms @ dTerms)\<rparr>));
               m2 = (if na_Preferred d \<noteq> []
                     then m1\<lparr>na_Preferred := na_Preferred m1 @ na_Preferred d\<rparr>
                     else m1)
           in Some m2)
      | _ \<Rightarrow> merged)"

definition mergePodAffinity :: "PodAffinity option \<Rightarrow> PodAffinity option \<Rightarrow> PodAffinity option" where
  "mergePodAffinity def usr =
     (let merged = (if usr \<noteq> None then usr else def) in
      case (merged, def, usr) of
        (Some m, Some d, Some u) \<Rightarrow>
          (let m1 = (if pa_Required d \<noteq> []
                     then m\<lparr>pa_Required := pa_Required m @ pa_Required d\<rparr> else m);
               m2 = (if pa_Preferred d \<noteq> []
                     then m1\<lparr>pa_Preferred := pa_Preferred m1 @ pa_Preferred d\<rparr> else m1)
           in Some m2)
      | _ \<Rightarrow> merged)"

text \<open>The pod and the anti-affinity blocks of the source are the same code on two fields.\<close>

definition MergeAffinity :: "Affinity option \<Rightarrow> Affinity option \<Rightarrow> Affinity option" where
  "MergeAffinity defaultAffinity userAffinity =
     (case userAffinity of
        None \<Rightarrow> defaultAffinity
      | Some u \<Rightarrow>
          (case defaultAffinity of
             None \<Rightarrow> userAffinity
           | Some d \<Rightarrow> Some \<lparr>
               af_NodeAffinity = mergeNodeAffinity (af_NodeAffinity d) (af_NodeAffinity u),
               af_PodAffinity = mergePodAffinity (af_PodAffinity d) (af_PodAffinity u),
               af_PodAntiAffinity = mergePodAffinity (af_PodAntiAffinity d) (af_PodAntiAffinity u)\<rparr>))"

section \<open>Namespaced objects\<close>

text \<open>\<open>NewOwnableBuilder\<close>: a zero object with its name and namespace.\<close>

definition new_meta :: "string \<Rightarrow> string \<Rightarrow> ObjectMeta" where
  "new_meta name namespace = empty_meta\<lparr>om_Name := name, om_Namespace := namespace\<rparr>"

definition NewServiceAccountBuilder :: "string \<Rightarrow> string \<Rightarrow> ServiceAccount" where
  "NewServiceAccountBuilder name namespace = \<lparr>sa_Meta = new_meta name namespace\<rparr>"

definition NewRoleBuilder :: "string \<Rightarrow> string \<Rightarrow> Role" where
  "NewRoleBuilder name namespace = \<lparr>role_Meta = new_meta name namespace, role_Rules = []\<rparr>"

definition WithRules :: "PolicyRule list \<Rightarrow> Role \<Rightarrow> Role" where
  "WithRules rules r = r\<lparr>role_Rules := rules\<rparr>"

definition NewRoleBindingBuilder :: "string \<Rightarrow> string \<Rightarrow> RoleBinding" where
  "NewRoleBindingBuilder name namespace = \<lparr>rb_Meta = new_meta name namespace,
     rb_RoleRef = \<lparr>rref_APIGroup = [], rref_Kind = [], rref_Name = []\<rparr>, rb_Subjects = []\<rparr>"

definition WithRoleRef :: "RoleRef \<Rightarrow> RoleBinding \<Rightarrow> RoleBinding" where
  "WithRoleRef roleRef b = b\<lparr>rb_RoleRef := roleRef\<rparr>"

definition WithSubjects :: "Subject list \<Rightarrow> RoleBinding \<Rightarrow> RoleBinding" where
  "WithSubjects subjects b = b\<lparr>rb_Subjects := subjects\<rparr>"

definition NewConfigMapBuilder :: "string \<Rightarrow> string \<Rightarrow> ConfigMap" where
  "NewConfigMapBuilder name namespace = \<lparr>cm_Meta = new_meta name namespace, cm_Data = fmempty\<rparr>"

definition WithData :: "strmap \<Rightarrow> ConfigMap \<Rightarrow> ConfigMap" where
  "WithData data m = m\<lparr>cm_Data := data\<rparr>"

definition NewServiceBuilder :: "string \<Rightarrow> string \<Rightarrow> Service" where
  "NewServiceBuilder name namespace = \<lparr>svc_Meta = new_meta name namespace,
     svc_Selector = fmempty, svc_Ports = [], svc_InternalTrafficPolicy = None\<rparr>"

definition Service_WithAnnotations :: "strmap \<Rightarrow> Service \<Rightarrow> Service" where
  "Service_WithAnnotations annotations s = s\<lparr>svc_Meta := (svc_Meta s)\<lparr>om_Annotations := annotations\<rparr>\<rparr>"

definition Service_WithLabels :: "strmap \<Rightarrow> Service \<Rightarrow> Service" where
  "Service_WithLabels labels s = s\<lparr>svc_Meta := (svc_Meta s)\<lparr>om_Labels := labels\<rparr>\<rparr>"

definition WithSelector :: "strmap \<Rightarrow> Service \<Rightarrow> Service" where
  "WithSelector selector s = s\<lparr>svc_Selector := selector\<rparr>"

definition WithPorts :: "ServicePort list \<Rightarrow> Service \<Rightarrow> Service" where
  "WithPorts ports s = s\<lparr>svc_Ports := ports\<rparr>"

section \<open>DaemonSets (\<open>daemonset.go\<close>)\<close>

definition NewDaemonSetBuilder :: "string \<Rightarrow> string \<Rightarrow> DaemonSet" where
  "NewDaemonSetBuilder name namespace = \<lparr>ds_Meta = new_meta name namespace,
     ds_MatchLabels = fmempty, ds_TemplateLabels = fmempty, ds_PodSpec = empty_podSpec,
     ds_UpdateStrategyType = [], ds_Status = empty_status\<rparr>"

definition WithLabelSelectors :: "strmap \<Rightarrow> DaemonSet \<Rightarrow> DaemonSet" where
  "WithLabelSelectors labels d = d\<lparr>ds_Meta := (ds_Meta d)\<lparr>om_Labels := labels\<rparr>,
     ds_MatchLabels := labels, ds_TemplateLabels := labels\<rparr>"

definition WithLabels :: "strmap \<Rightarrow> DaemonSet \<Rightarrow> DaemonSet" where
  "WithLabels labels d =
     d\<lparr>ds_Meta := (ds_Meta d)\<lparr>om_Labels := MergeMaps (om_Labels (ds_Meta d)) labels\<rparr>\<rparr>"

definition WithAnnotations :: "strmap \<Rightarrow> DaemonSet \<Rightarrow> DaemonSet" where
  "WithAnnotations annotations d = d\<lparr>ds_Meta := (ds_Meta d)\<lparr>om_Annotations := annotations\<rparr>\<rparr>"

definition WithPodSpec :: "PodSpec \<Rightarrow> DaemonSet \<Rightarrow> DaemonSet" where
  "WithPodSpec podSpec d = d\<lparr>ds_PodSpec := podSpec\<rparr>"

lemmas daemonSet_steps = WithLabelSelectors_def WithLabels_def WithAnnotations_def WithPodSpec_def

lemmas object_steps = WithRules_def WithRoleRef_def WithSubjects_def WithData_def
  Service_WithAnnotations_def Service_WithLabels_def WithSelector_def WithPorts_def

section \<open>Properties\<close>

text \<open>
  \<open>WithOwner\<close> either leaves the object controlled by the owner, with all other metadata kept and
  nothing left to do the second time, or panics; it never returns an error and panics only when
  \<open>SetControllerReference\<close> refuses.
\<close>

theorem WithOwner_contract:
  assumes "wf_owner owner"
  shows "case WithOwner owner m of
      Ok m' \<Rightarrow> (\<exists>r. GetControllerOf m' = Some r \<and> referSameObject r (controllerRef owner)) \<and>
        WithOwner owner m' = Ok m' \<and> om_Name m' = om_Name m \<and> om_Namespace m' = om_Namespace m \<and>
        om_Labels m' = om_Labels m \<and> om_Annotations m' = om_Annotations m
    | Err e \<Rightarrow> False
    | Abort s \<Rightarrow> (\<exists>e. SetControllerReference owner m = Inl e)"
proof (cases "WithOwner owner m")
  case (Ok m')
  then show ?thesis
    using WithOwner_controls [OF Ok assms] WithOwner_idem [OF Ok assms] WithOwner_frame [OF Ok] by simp
qed (auto simp: WithOwner_def split: sum.splits)

theorem WithOwner_contract_witness:
  "\<exists>m' r. WithOwner \<lparr>own_APIVersion = ''rebellions.ai/v1beta1'', own_Kind = ''RBLNClusterPolicy'',
       own_Name = ''policy'', own_Namespace = [], own_UID = ''1''\<rparr> (new_meta ''rbln-daemon'' ''rbln'') = Ok m' \<and>
     GetControllerOf m' = Some r"
proof -
  let ?o = "\<lparr>own_APIVersion = ''rebellions.ai/v1beta1'', own_Kind = ''RBLNClusterPolicy'',
       own_Name = ''policy'', own_Namespace = [], own_UID = ''1''\<rparr>"
  have "wf_owner ?o" by code_simp
  from WithOwner_contract [OF this, of "new_meta ''rbln-daemon'' ''rbln''"]
  have "is_ok (WithOwner ?o (new_meta ''rbln-daemon'' ''rbln'')) \<longrightarrow> ?thesis"
    by (auto split: outcome.splits)
  moreover have "is_ok (WithOwner ?o (new_meta ''rbln-daemon'' ''rbln''))" by code_simp
  ultimately show ?thesis by blast
qed

end
