(* ===== verification/Api_Types.thy ===== *)
theory Api_Types
  imports K8s_Builders
begin

text \<open>
  The operator's own API: \<open>RBLNClusterPolicy\<close> (\<open>api/v1beta1\<close>) and \<open>RBLNDriver\<close> (\<open>api/v1alpha1\<close>),
  their specs and statuses, and the methods on them that compute image references and node
  selectors.

  The seven component specs are Go structs that share the fields \<open>Enabled\<close>, \<open>Image\<close>, \<open>Registry\<close>,
  \<open>Version\<close>, the embedded \<open>PodSpec\<close> and \<open>PriorityClassName\<close>, which \<open>syncSpec\<close> finds by reflection;
  here they are extensions of one record with these fields.
\<close>

section \<open>\<open>v1beta1\<close>: the cluster policy\<close>

record DaemonsetsSpec =
  dss_Labels :: strmap
  dss_Annotations :: strmap
  dss_Affinity :: "Affinity option"
  dss_Tolerations :: "Toleration list"
  dss_PriorityClassName :: string

record ComponentPodSpec =
  cps_ImagePullPolicy :: string
  cps_ImagePullSecrets :: "string list"
  cps_Resources :: ResourceRequirements
  cps_Labels :: strmap
  cps_Annotations :: strmap
  cps_Affinity :: "Affinity option"
  cps_Tolerations :: "Toleration list"

record ComponentSpec =
  cs_Enabled :: bool
  cs_Image :: string
  cs_Registry :: string
  cs_Version :: string
  cs_PodSpec :: ComponentPodSpec
  cs_PriorityClassName :: string

record VFIOCheckerSpec =
  vc_Image :: string
  vc_Registry :: string
  vc_Version :: string

record RBLNDevicePluginResourceSpec =
  rs_ResourceName :: string
  rs_ResourcePrefix :: string
  rs_ProductCardNames :: "string list"

type_synonym RBLNVFIOManagerSpec = ComponentSpec

record RBLNSandboxDevicePluginSpec = ComponentSpec +
  sdp_VFIOChecker :: VFIOCheckerSpec
  sdp_ResourceList :: "RBLNDevicePluginResourceSpec list"

record RBLNDevicePluginSpec = ComponentSpec +
  dp_HostBinPath :: string
  dp_ResourceList :: "RBLNDevicePluginResourceSpec list"

type_synonym RBLNMetricsExporterSpec = ComponentSpec

record RBLNDaemonSpec = ComponentSpec +
  rd_Args :: "string list"
  rd_Env :: "EnvVar list"
  rd_HostPort :: int

type_synonym RBLNNPUFeatureDiscoverySpec = ComponentSpec

record RBLNContainerToolkitSpec = ComponentSpec +
  ct_Args :: "string list"
  ct_Env :: "EnvVar list"

text \<open>
  The four validator specs \<open>Plugin\<close>, \<open>Toolkit\<close>, \<open>Driver\<close> and \<open>VFIOPCI\<close> are structs with one field, a
  list of environment variables.
\<close>

record ValidatorSpec =
  vs_Plugin_Env :: "EnvVar list"
  vs_Toolkit_Env :: "EnvVar list"
  vs_Driver_Env :: "EnvVar list"
  vs_VFIOPCI_Env :: "EnvVar list"
  vs_Registry :: string
  vs_Image :: string
  vs_Version :: string
  vs_ImagePullPolicy :: string
  vs_ImagePullSecrets :: "string list"
  vs_Resources :: "ResourceRequirements option"
  vs_Args :: "string list"
  vs_Env :: "EnvVar list"

record RBLNClusterPolicySpec =
  cp_BaseName :: string
  cp_Namespace :: string
  cp_WorkloadType :: string
  cp_Daemonsets :: "DaemonsetsSpec option"
  cp_VFIOManager :: RBLNVFIOManagerSpec
  cp_SandboxDevicePlugin :: RBLNSandboxDevicePluginSpec
  cp_DevicePlugin :: RBLNDevicePluginSpec
  cp_MetricsExporter :: RBLNMetricsExporterSpec
  cp_RBLNDaemon :: RBLNDaemonSpec
  cp_NPUFeatureDiscovery :: RBLNNPUFeatureDiscoverySpec
  cp_ContainerToolkit :: RBLNContainerToolkitSpec
  cp_Validator :: ValidatorSpec

text \<open>\<open>ClusterState\<close> is a string type; a policy that was never reconciled has the empty state.\<close>

datatype ClusterState = ClusterStateEmpty | ClusterReady | ClusterNotReady | ClusterIgnored

datatype ComponentState = ComponentStateReady | ComponentStateNotReady

record RBLNComponentStatus =
  rcs_Name :: string
  rcs_Namespace :: string
  rcs_State :: ComponentState
  rcs_Condition :: "Condition list"

record RBLNClusterPolicyStatus =
  cpst_State :: ClusterState
  cpst_Components :: "RBLNComponentStatus list"
  cpst_Conditions :: "Condition list"

record RBLNClusterPolicy =
  cp_Meta :: ObjectMeta
  cp_Spec :: RBLNClusterPolicySpec
  cp_Status :: RBLNClusterPolicyStatus

definition IsEnabled :: "'a ComponentSpec_scheme \<Rightarrow> bool" where
  "IsEnabled s = cs_Enabled s"

definition SetStatus :: "ClusterState \<Rightarrow> RBLNClusterPolicy \<Rightarrow> RBLNClusterPolicy" where
  "SetStatus s p = p\<lparr>cp_Status := (cp_Status p)\<lparr>cpst_State := s\<rparr>\<rparr>"

definition GetValidatorImage :: "ValidatorSpec \<Rightarrow> error + string" where
  "GetValidatorImage v =
     (let img = TrimPrefix (TrimSpace (vs_Image v)) ''/'' in
      if img = [] then Inl (Errorf ''validator image is required'')
      else
        (let registry = TrimSuffix (TrimSpace (vs_Registry v)) ''/'';
             img1 = (if registry \<noteq> [] then registry @ ''/'' @ img else img);
             version = TrimSpace (vs_Version v);
             img2 = (if version \<noteq> [] then img1 @ '':'' @ version else img1)
         in Inr img2))"

text \<open>The owner that the policy is for the objects it deploys; the scheme registers its kind.\<close>

definition policy_owner :: "RBLNClusterPolicy \<Rightarrow> Owner" where
  "policy_owner p = \<lparr>own_APIVersion = ''rebellions.ai/v1beta1'', own_Kind = ''RBLNClusterPolicy'',
     own_Name = om_Name (cp_Meta p), own_Namespace = om_Namespace (cp_Meta p),
     own_UID = om_UID (cp_Meta p)\<rparr>"

section \<open>Zero values\<close>

definition zero_ComponentPodSpec :: ComponentPodSpec where
  "zero_ComponentPodSpec = \<lparr>cps_ImagePullPolicy = [], cps_ImagePullSecrets = [],
     cps_Resources = empty_resources, cps_Labels = fmempty, cps_Annotations = fmempty,
     cps_Affinity = None, cps_Tolerations = []\<rparr>"

definition zero_ComponentSpec :: ComponentSpec where
  "zero_ComponentSpec = \<lparr>cs_Enabled = False, cs_Image = [], cs_Registry = [], cs_Version = [],
     cs_PodSpec = zero_ComponentPodSpec, cs_PriorityClassName = []\<rparr>"

definition zero_SandboxDevicePluginSpec :: RBLNSandboxDevicePluginSpec where
  "zero_SandboxDevicePluginSpec = ComponentSpec.extend zero_ComponentSpec
     (RBLNSandboxDevicePluginSpec.fields \<lparr>vc_Image = [], vc_Registry = [], vc_Version = []\<rparr> [])"

definition zero_DevicePluginSpec :: RBLNDevicePluginSpec where
  "zero_DevicePluginSpec = ComponentSpec.extend zero_ComponentSpec (RBLNDevicePluginSpec.fields [] [])"

definition zero_DaemonSpec :: RBLNDaemonSpec where
  "zero_DaemonSpec = ComponentSpec.extend zero_ComponentSpec (RBLNDaemonSpec.fields [] [] 0)"

definition zero_ContainerToolkitSpec :: RBLNContainerToolkitSpec where
  "zero_ContainerToolkitSpec = ComponentSpec.extend zero_ComponentSpec (RBLNContainerToolkitSpec.fields [] [])"

definition zero_ValidatorSpec :: ValidatorSpec where
  "zero_ValidatorSpec = \<lparr>vs_Plugin_Env = [], vs_Toolkit_Env = [], vs_Driver_Env = [],
     vs_VFIOPCI_Env = [], vs_Registry = [], vs_Image = [], vs_Version = [],
     vs_ImagePullPolicy = [], vs_ImagePullSecrets = [], vs_Resources = None, vs_Args = [],
     vs_Env = []\<rparr>"

definition zero_ClusterPolicySpec :: RBLNClusterPolicySpec where
  "zero_ClusterPolicySpec = \<lparr>cp_BaseName = [], cp_Namespace = [], cp_WorkloadType = [],
     cp_Daemonsets = None, cp_VFIOManager = zero_ComponentSpec,
     cp_SandboxDevicePlugin = zero_SandboxDevicePluginSpec,
     cp_DevicePlugin = zero_DevicePluginSpec, cp_MetricsExporter = zero_ComponentSpec,
     cp_RBLNDaemon = zero_DaemonSpec, cp_NPUFeatureDiscovery = zero_ComponentSpec,
     cp_ContainerToolkit = zero_ContainerToolkitSpec, cp_Validator = zero_ValidatorSpec\<rparr>"

definition zero_ClusterPolicy :: RBLNClusterPolicy where
  "zero_ClusterPolicy = \<lparr>cp_Meta = empty_meta, cp_Spec = zero_ClusterPolicySpec,
     cp_Status = \<lparr>cpst_State = ClusterStateEmpty, cpst_Components = [], cpst_Conditions = []\<rparr>\<rparr>"

section \<open>\<open>v1alpha1\<close>: the driver\<close>

datatype DriverState = DriverStateEmpty | DriverStateReady | DriverStateNotReady

record DriverEnvVar =
  dev_Name :: string
  dev_Value :: string

record DriverManagerSpec =
  dms_Registry :: string
  dms_Image :: string
  dms_Version :: string
  dms_ImagePullPolicy :: string
  dms_ImagePullSecrets :: "string list"
  dms_Env :: "DriverEnvVar list"

record RBLNDriverSpec =
  drs_Registry :: string
  drs_Image :: string
  drs_Version :: string
  drs_ImagePullPolicy :: string
  drs_ImagePullSecrets :: "string list"
  drs_Manager :: DriverManagerSpec
  drs_NodeSelector :: strmap
  drs_NodeAffinity :: "NodeAffinity option"
  drs_Tolerations :: "Toleration list"
  drs_Labels :: strmap
  drs_Annotations :: strmap
  drs_PriorityClassName :: string
  drs_Resources :: ResourceRequirements
  drs_Args :: "string list"
  drs_Env :: "EnvVar list"

record RBLNDriverStatus =
  drst_State :: DriverState
  drst_Conditions :: "Condition list"

record RBLNDriver =
  dr_Meta :: ObjectMeta
  dr_Spec :: RBLNDriverSpec
  dr_Status :: RBLNDriverStatus

definition driver_owner :: "RBLNDriver \<Rightarrow> Owner" where
  "driver_owner d = \<lparr>own_APIVersion = ''rebellions.ai/v1alpha1'', own_Kind = ''RBLNDriver'',
     own_Name = om_Name (dr_Meta d), own_Namespace = om_Namespace (dr_Meta d),
     own_UID = om_UID (dr_Meta d)\<rparr>"

definition GetPrecompiledImagePath :: "RBLNDriverSpec \<Rightarrow> string \<Rightarrow> string \<Rightarrow> error + string" where
  "GetPrecompiledImagePath d osVersion kernelVersion =
     (if osVersion = [] \<or> kernelVersion = [] then
        Inl (Errorf ''osVersion and kernelVersion are required'')
      else
        (let registry = TrimSuffix (TrimSpace (drs_Registry d)) ''/'';
             img = TrimPrefix (TrimSpace (drs_Image d)) ''/'';
             version = TrimSpace (drs_Version d)
         in if version = [] then Inl (Errorf ''driver version is required'')
            else if Contains img ''@sha256:'' \<or> Contains version ''sha256:'' then
              Inl (Errorf ''specifying image digest is not supported when precompiled is enabled'')
            else Inr (registry @ ''/'' @ img @ '':'' @ version @ ''-'' @ kernelVersion @ ''-'' @ osVersion)))"

definition GetNodeSelector :: "RBLNDriver \<Rightarrow> strmap" where
  "GetNodeSelector d =
     (if drs_NodeSelector (dr_Spec d) = fmempty
      then map_lit [(''rebellions.ai/npu.deploy.driver'', ''true'')]
      else drs_NodeSelector (dr_Spec d))"

definition zero_DriverSpec :: RBLNDriverSpec where
  "zero_DriverSpec = \<lparr>drs_Registry = [], drs_Image = [], drs_Version = [], drs_ImagePullPolicy = [],
     drs_ImagePullSecrets = [],
     drs_Manager = \<lparr>dms_Registry = [], dms_Image = [], dms_Version = [], dms_ImagePullPolicy = [],
       dms_ImagePullSecrets = [], dms_Env = []\<rparr>,
     drs_NodeSelector = fmempty, drs_NodeAffinity = None, drs_Tolerations = [], drs_Labels = fmempty,
     drs_Annotations = fmempty, drs_PriorityClassName = [], drs_Resources = empty_resources,
     drs_Args = [], drs_Env = []\<rparr>"

definition zero_Driver :: RBLNDriver where
  "zero_Driver = \<lparr>dr_Meta = empty_meta, dr_Spec = zero_DriverSpec,
     dr_Status = \<lparr>drst_State = DriverStateEmpty, drst_Conditions = []\<rparr>\<rparr>"

section \<open>Lemmas\<close>

lemma wf_policy_owner [simp]: "wf_owner (policy_owner p)"
  by (simp add: wf_owner_def policy_owner_def ParseGroup_def)

lemma wf_driver_owner [simp]: "wf_owner (driver_owner d)"
  by (simp add: wf_owner_def driver_owner_def ParseGroup_def)

lemma SetStatus_simps [simp]:
  "cp_Meta (SetStatus s p) = cp_Meta p"
  "cp_Spec (SetStatus s p) = cp_Spec p"
  "cpst_State (cp_Status (SetStatus s p)) = s"
  "cpst_Components (cp_Status (SetStatus s p)) = cpst_Components (cp_Status p)"
  "cpst_Conditions (cp_Status (SetStatus s p)) = cpst_Conditions (cp_Status p)"
  by (simp_all add: SetStatus_def)

lemma zero_not_enabled [simp]:
  "\<not> cs_Enabled zero_ComponentSpec"
  "\<not> cs_Enabled zero_SandboxDevicePluginSpec"
  "\<not> cs_Enabled zero_DevicePluginSpec"
  "\<not> cs_Enabled zero_DaemonSpec"
  "\<not> cs_Enabled zero_ContainerToolkitSpec"
  by (simp_all add: zero_ComponentSpec_def zero_SandboxDevicePluginSpec_def zero_DevicePluginSpec_def
      zero_DaemonSpec_def zero_ContainerToolkitSpec_def ComponentSpec.defs)

end
