(* ===== verification/Client.thy ===== *)
theory Client
  imports Api_Types
begin

text \<open>
  The Kubernetes API as the operator uses it.  The API server is a parameter: a \<open>client\<close> is a
  record with, for every kind of object, the requests of \<open>client.Client\<close> as functions over an
  abstract world.  On top of it stand the vendored \<open>controllerutil.CreateOrPatch\<close> and the
  delete-if-present idiom, and two ways to reason about operations: the trace of requests an
  operation issues, whatever the server answers, and the store a server that keeps the laws of
  \<open>store_law\<close> holds afterwards.
\<close>

section \<open>Kinds and requests\<close>

datatype kind = ServiceAccountKind | RoleKind | RoleBindingKind | ClusterRoleKind
  | ClusterRoleBindingKind | ConfigMapKind | ServiceKind | DaemonSetKind | NodeKind
  | ClusterPolicyKind | DriverKind

text \<open>
  How a kind of object is read: its metadata, the object with other metadata, whether two objects
  have the same status, an object without its status, and an object with another one's status.
\<close>

record 'o object_kind =
  k_kind :: kind
  k_meta :: "'o \<Rightarrow> ObjectMeta"
  k_setMeta :: "ObjectMeta \<Rightarrow> 'o \<Rightarrow> 'o"
  k_sameStatus :: "'o \<Rightarrow> 'o \<Rightarrow> bool"
  k_stripStatus :: "'o \<Rightarrow> 'o"
  k_copyStatus :: "'o \<Rightarrow> 'o \<Rightarrow> 'o"

definition plain_kind ::
  "kind \<Rightarrow> ('o \<Rightarrow> ObjectMeta) \<Rightarrow> (ObjectMeta \<Rightarrow> 'o \<Rightarrow> 'o) \<Rightarrow> 'o object_kind" where
  "plain_kind k mt st = \<lparr>k_kind = k, k_meta = mt, k_setMeta = st, k_sameStatus = (\<lambda>_ _. True),
     k_stripStatus = (\<lambda>x. x), k_copyStatus = (\<lambda>_ x. x)\<rparr>"

definition key_of :: "'o object_kind \<Rightarrow> 'o \<Rightarrow> ObjectKey" where
  "key_of kd x = key_of_meta (k_meta kd x)"

definition serviceAccount_kind :: "ServiceAccount object_kind" where
  "serviceAccount_kind = plain_kind ServiceAccountKind sa_Meta (\<lambda>m x. x\<lparr>sa_Meta := m\<rparr>)"

definition role_kind :: "Role object_kind" where
  "role_kind = plain_kind RoleKind role_Meta (\<lambda>m x. x\<lparr>role_Meta := m\<rparr>)"

definition roleBinding_kind :: "RoleBinding object_kind" where
  "roleBinding_kind = plain_kind RoleBindingKind rb_Meta (\<lambda>m x. x\<lparr>rb_Meta := m\<rparr>)"

text \<open>Cluster roles and their bindings have the fields of roles and bindings, and no namespace.\<close>

definition clusterRole_kind :: "Role object_kind" where
  "clusterRole_kind = plain_kind ClusterRoleKind role_Meta (\<lambda>m x. x\<lparr>role_Meta := m\<rparr>)"

definition clusterRoleBinding_kind :: "RoleBinding object_kind" where
  "clusterRoleBinding_kind = plain_kind ClusterRoleBindingKind rb_Meta (\<lambda>m x. x\<lparr>rb_Meta := m\<rparr>)"

definition configMap_kind :: "ConfigMap object_kind" where
  "configMap_kind = plain_kind ConfigMapKind cm_Meta (\<lambda>m x. x\<lparr>cm_Meta := m\<rparr>)"

definition service_kind :: "Service object_kind" where
  "service_kind = plain_kind ServiceKind svc_Meta (\<lambda>m x. x\<lparr>svc_Meta := m\<rparr>)"

definition daemonSet_kind :: "DaemonSet object_kind" where
  "daemonSet_kind = \<lparr>k_kind = DaemonSetKind, k_meta = ds_Meta,
     k_setMeta = (\<lambda>m x. x\<lparr>ds_Meta := m\<rparr>),
     k_sameStatus = (\<lambda>a b. ds_Status a = ds_Status b),
     k_stripStatus = (\<lambda>d. d\<lparr>ds_Status := empty_status\<rparr>),
     k_copyStatus = (\<lambda>a b. b\<lparr>ds_Status := ds_Status a\<rparr>)\<rparr>"

text \<open>\<open>WithOwner\<close> of the builders: the owner reference is set on the object's metadata.\<close>

definition ownedBy :: "'o object_kind \<Rightarrow> Owner \<Rightarrow> 'o \<Rightarrow> 'o outcome" where
  "ownedBy kd owner x = outcome_bind (WithOwner owner (k_meta kd x)) (\<lambda>m. Ok (k_setMeta kd m x))"

lemmas kind_defs = plain_kind_def serviceAccount_kind_def role_kind_def roleBinding_kind_def
  clusterRole_kind_def clusterRoleBinding_kind_def configMap_kind_def service_kind_def
  daemonSet_kind_def

section \<open>The client\<close>

text \<open>\<open>client.InNamespace\<close> and \<open>client.MatchingLabels\<close>; the empty namespace is all namespaces.\<close>

record ListOptions =
  lo_Namespace :: string
  lo_MatchingLabels :: strmap

definition all_objects :: ListOptions where
  "all_objects = \<lparr>lo_Namespace = [], lo_MatchingLabels = fmempty\<rparr>"

text \<open>A request that writes an object answers with the object as the server stored it.\<close>

record ('w, 'o) resource_api =
  api_Get :: "ObjectKey \<Rightarrow> ('w, 'o) api"
  api_List :: "ListOptions \<Rightarrow> ('w, 'o list) api"
  api_Create :: "'o \<Rightarrow> ('w, 'o) api"
  api_Update :: "'o \<Rightarrow> ('w, 'o) api"
  api_Patch :: "'o \<Rightarrow> 'o \<Rightarrow> ('w, 'o) api"
  api_Delete :: "ObjectKey \<Rightarrow> ('w, unit) api"
  api_StatusUpdate :: "'o \<Rightarrow> ('w, 'o) api"
  api_StatusPatch :: "'o \<Rightarrow> 'o \<Rightarrow> ('w, 'o) api"

text \<open>\<open>now\<close> is \<open>metav1.Now\<close>.\<close>

record 'w client =
  serviceAccounts :: "('w, ServiceAccount) resource_api"
  roles :: "('w, Role) resource_api"
  roleBindings :: "('w, RoleBinding) resource_api"
  clusterRoles :: "('w, Role) resource_api"
  clusterRoleBindings :: "('w, RoleBinding) resource_api"
  configMaps :: "('w, ConfigMap) resource_api"
  services :: "('w, Service) resource_api"
  daemonSets :: "('w, DaemonSet) resource_api"
  nodes :: "('w, Node) resource_api"
  clusterPolicies :: "('w, RBLNClusterPolicy) resource_api"
  drivers :: "('w, RBLNDriver) resource_api"
  now :: "'w \<Rightarrow> Time \<times> 'w"

definition read_clock :: "'w client \<Rightarrow> ('w, Time) op" where
  "read_clock c = (\<lambda>w. case now c w of (t, w') \<Rightarrow> (Ok t, w'))"

section \<open>\<open>CreateOrPatch\<close>\<close>

datatype OperationResult = ResultNone | ResultCreated | ResultUpdated | ResultUpdatedStatus
  | ResultUpdatedStatusOnly

definition mutate :: "'o object_kind \<Rightarrow> ('o \<Rightarrow> 'o outcome) \<Rightarrow> ObjectKey \<Rightarrow> 'o \<Rightarrow> 'o outcome" where
  "mutate kd f key x =
     outcome_bind (f x) (\<lambda>y.
       if key \<noteq> key_of kd y
       then Err (Errorf ''MutateFn cannot mutate object name and/or object namespace'')
       else Ok y)"

text \<open>The branch of an existing object: patch what differs, then patch the status if it differs.\<close>

definition patchExisting ::
  "'o object_kind \<Rightarrow> ('w, 'o) resource_api \<Rightarrow> 'o \<Rightarrow> 'o \<Rightarrow> ('w, OperationResult) op" where
  "patchExisting kd api before after =
     bind (if k_stripStatus kd before \<noteq> k_stripStatus kd after
           then bind (call (api_Patch api before after)) (\<lambda>x. ret (ResultUpdated, x))
           else ret (ResultNone, after)) (\<lambda>(res, x).
     if \<not> k_sameStatus kd before after
     then bind (call (api_StatusPatch api before
                  (if res = ResultUpdated then k_copyStatus kd after x else x)))
               (\<lambda>_. ret (if res = ResultUpdated then ResultUpdatedStatus else ResultUpdatedStatusOnly))
     else ret res)"

definition CreateOrPatch ::
  "'o object_kind \<Rightarrow> ('w, 'o) resource_api \<Rightarrow> 'o \<Rightarrow> ('o \<Rightarrow> 'o outcome) \<Rightarrow> ('w, OperationResult) op" where
  "CreateOrPatch kd api obj f =
     (let key = key_of kd obj in
      bind (catch (bind (call (api_Get api key)) (\<lambda>x. ret (Some x)))
                  (\<lambda>e. if \<not> IsNotFound e then fail e else ret None)) (\<lambda>found.
      case found of
        None \<Rightarrow>
          bind (lift_outcome (mutate kd f key obj)) (\<lambda>y.
          bind (call (api_Create api y)) (\<lambda>_. ret ResultCreated))
      | Some x \<Rightarrow>
          bind (lift_outcome (mutate kd f key x)) (\<lambda>y. patchExisting kd api x y)))"

text \<open>
  The handlers of the patchers: \<open>CreateOrPatch\<close> on a fresh builder, the result only logged.
\<close>

definition reconcile ::
  "'o object_kind \<Rightarrow> ('w, 'o) resource_api \<Rightarrow> 'o \<Rightarrow> ('o \<Rightarrow> 'o outcome) \<Rightarrow> ('w, unit) op" where
  "reconcile kd api obj f = bind (CreateOrPatch kd api obj f) (\<lambda>_. ret ())"

text \<open>\<open>if err := c.Delete(ctx, obj); err != nil && !IsNotFound(err) { return err }\<close>\<close>

definition deleteIfPresent :: "('w, 'o) resource_api \<Rightarrow> string \<Rightarrow> string \<Rightarrow> ('w, unit) op" where
  "deleteIfPresent api name namespace =
     catch (call (api_Delete api \<lparr>ok_Namespace = namespace, ok_Name = name\<rparr>))
           (\<lambda>e. if \<not> IsNotFound e then fail e else ret ())"

end
