(* ===== verification/Client_Logic.thy ===== *)
theory Client_Logic
  imports Client
begin

text \<open>
  Reasoning about operations on the API.

  \<^item> \<open>recording c\<close> is the client \<open>c\<close> with a log of its requests, and \<open>footprint m R K\<close> says that the
    operation \<open>m\<close> over it sends requests of the verbs \<open>R\<close> to the objects \<open>K\<close> only, and to each of
    them when it succeeds.  No assumption on the server is involved.
  \<^item> \<open>store_law\<close> says how a server that stores what it is sent answers; \<open>converges view K m\<close> says
    that \<open>m\<close> changes the objects \<open>K\<close> only and that, once it has succeeded, running it again changes
    nothing.
  \<^item> The locale \<open>mutator\<close> is the contract between \<open>CreateOrPatch\<close> and the functions the patchers
    pass to it.
\<close>

section \<open>Requests\<close>

datatype verb = GetVerb | ListVerb | CreateVerb | UpdateVerb | PatchVerb | DeleteVerb | StatusVerb

datatype request = Request (rq_verb: verb) (rq_kind: kind) (rq_key: ObjectKey)

definition rq_object :: "request \<Rightarrow> kind \<times> ObjectKey" where
  "rq_object q = (rq_kind q, rq_key q)"

definition logged :: "request \<Rightarrow> ('w, 'a) api \<Rightarrow> ('w \<times> request list, 'a) api" where
  "logged q m = (\<lambda>(w, l). case m w of (x, w') \<Rightarrow> (x, (w', l @ [q])))"

definition recording_api ::
  "'o object_kind \<Rightarrow> ('w, 'o) resource_api \<Rightarrow> ('w \<times> request list, 'o) resource_api" where
  "recording_api kd api = \<lparr>
     api_Get = (\<lambda>k. logged (Request GetVerb (k_kind kd) k) (api_Get api k)),
     api_List = (\<lambda>opt. logged (Request ListVerb (k_kind kd) \<lparr>ok_Namespace = lo_Namespace opt, ok_Name = []\<rparr>)
                              (api_List api opt)),
     api_Create = (\<lambda>x. logged (Request CreateVerb (k_kind kd) (key_of kd x)) (api_Create api x)),
     api_Update = (\<lambda>x. logged (Request UpdateVerb (k_kind kd) (key_of kd x)) (api_Update api x)),
     api_Patch = (\<lambda>x y. logged (Request PatchVerb (k_kind kd) (key_of kd y)) (api_Patch api x y)),
     api_Delete = (\<lambda>k. logged (Request DeleteVerb (k_kind kd) k) (api_Delete api k)),
     api_StatusUpdate = (\<lambda>x. logged (Request StatusVerb (k_kind kd) (key_of kd x)) (api_StatusUpdate api x)),
     api_StatusPatch = (\<lambda>x y. logged (Request StatusVerb (k_kind kd) (key_of kd y)) (api_StatusPatch api x y))\<rparr>"

definition node_kind :: "Node object_kind" where
  "node_kind = plain_kind NodeKind node_Meta (\<lambda>m x. x\<lparr>node_Meta := m\<rparr>)"

definition policy_kind :: "RBLNClusterPolicy object_kind" where
  "policy_kind = plain_kind ClusterPolicyKind cp_Meta (\<lambda>m x. x\<lparr>cp_Meta := m\<rparr>)"

definition driver_kind :: "RBLNDriver object_kind" where
  "driver_kind = plain_kind DriverKind dr_Meta (\<lambda>m x. x\<lparr>dr_Meta := m\<rparr>)"

definition recording :: "'w client \<Rightarrow> ('w \<times> request list) client" where
  "recording c = \<lparr>
     serviceAccounts = recording_api serviceAccount_kind (serviceAccounts c),
     roles = recording_api role_kind (roles c),
     roleBindings = recording_api roleBinding_kind (roleBindings c),
     clusterRoles = recording_api clusterRole_kind (clusterRoles c),
     clusterRoleBindings = recording_api clusterRoleBinding_kind (clusterRoleBindings c),
     configMaps = recording_api configMap_kind (configMaps c),
     services = recording_api service_kind (services c),
     daemonSets = recording_api daemonSet_kind (daemonSets c),
     nodes = recording_api node_kind (nodes c),
     clusterPolicies = recording_api policy_kind (clusterPolicies c),
     drivers = recording_api driver_kind (drivers c),
     now = (\<lambda>(w, l). case now c w of (t, w') \<Rightarrow> (t, (w', l)))\<rparr>"

lemma recording_simps [simp]:
  "serviceAccounts (recording c) = recording_api serviceAccount_kind (serviceAccounts c)"
  "roles (recording c) = recording_api role_kind (roles c)"
  "roleBindings (recording c) = recording_api roleBinding_kind (roleBindings c)"
  "clusterRoles (recording c) = recording_api clusterRole_kind (clusterRoles c)"
  "clusterRoleBindings (recording c) = recording_api clusterRoleBinding_kind (clusterRoleBindings c)"
  "configMaps (recording c) = recording_api configMap_kind (configMaps c)"
  "services (recording c) = recording_api service_kind (services c)"
  "daemonSets (recording c) = recording_api daemonSet_kind (daemonSets c)"
  "nodes (recording c) = recording_api node_kind (nodes c)"
  "clusterPolicies (recording c) = recording_api policy_kind (clusterPolicies c)"
  "drivers (recording c) = recording_api driver_kind (drivers c)"
  by (simp_all add: recording_def)

text \<open>\<open>emits m P\<close>: the requests that \<open>m\<close> appends to the log and its outcome satisfy \<open>P\<close>.\<close>

definition emits ::
  "('w \<times> request list, 'a) op \<Rightarrow> ('a outcome \<Rightarrow> request list \<Rightarrow> bool) \<Rightarrow> bool" where
  "emits m P \<longleftrightarrow> (\<forall>w l. \<exists>l'. snd (snd (m (w, l))) = l @ l' \<and> P (fst (m (w, l))) l')"

lemma emitsD: "emits m P \<Longrightarrow> \<exists>l'. snd (snd (m (w, l))) = l @ l' \<and> P (fst (m (w, l))) l'"
  by (simp add: emits_def)

lemma emits_mono: "emits m P \<Longrightarrow> (\<And>r l. P r l \<Longrightarrow> Q r l) \<Longrightarrow> emits m Q"
  unfolding emits_def by blast

lemma emits_ret: "P (Ok x) [] \<Longrightarrow> emits (ret x) P"
  by (simp add: emits_def ret_def)

lemma emits_fail: "P (Err e) [] \<Longrightarrow> emits (fail e) P"
  by (simp add: emits_def fail_def)

lemma emits_lift: "P r [] \<Longrightarrow> emits (lift_outcome r) P"
  by (simp add: emits_def lift_outcome_def)

lemma emits_call: "(\<And>r. \<forall>s. r \<noteq> Abort s \<Longrightarrow> P r [q]) \<Longrightarrow> emits (call (logged q m)) P"
  by (auto simp: emits_def call_def logged_def split: prod.splits sum.splits)

lemma emits_bind:
  assumes m: "emits m Q"
    and f: "\<And>x l. Q (Ok x) l \<Longrightarrow> emits (f x) (\<lambda>r l'. P r (l @ l'))"
    and e: "\<And>e l. Q (Err e) l \<Longrightarrow> P (Err e) l"
    and a: "\<And>s l. Q (Abort s) l \<Longrightarrow> P (Abort s) l"
  shows "emits (bind m f) P"
  unfolding emits_def
proof (intro allI)
  fix w l
  obtain r w' l'' where mw: "m (w, l) = (r, (w', l''))" by (metis prod.exhaust)
  then obtain l' where l': "l'' = l @ l'" "Q r l'" using emitsD [OF m, of w l] by auto
  show "\<exists>l'. snd (snd (bind m f (w, l))) = l @ l' \<and> P (fst (bind m f (w, l))) l'"
  proof (cases r)
    case (Ok x)
    then obtain k where "snd (snd (f x (w', l @ l'))) = (l @ l') @ k" "P (fst (f x (w', l @ l'))) (l' @ k)"
      using l' emitsD [OF f, of x l' w' "l @ l'"] by auto
    then show ?thesis using mw l' Ok by (simp add: bind_Ok)
  qed (use mw l' e a in \<open>auto simp: bind_def\<close>)
qed

lemma emits_catch:
  assumes m: "emits m Q"
    and h: "\<And>e l. Q (Err e) l \<Longrightarrow> emits (h e) (\<lambda>r l'. P r (l @ l'))"
    and x: "\<And>x l. Q (Ok x) l \<Longrightarrow> P (Ok x) l"
    and a: "\<And>s l. Q (Abort s) l \<Longrightarrow> P (Abort s) l"
  shows "emits (catch m h) P"
  unfolding emits_def
proof (intro allI)
  fix w l
  obtain r w' l'' where mw: "m (w, l) = (r, (w', l''))" by (metis prod.exhaust)
  then obtain l' where l': "l'' = l @ l'" "Q r l'" using emitsD [OF m, of w l] by auto
  show "\<exists>l'. snd (snd (catch m h (w, l))) = l @ l' \<and> P (fst (catch m h (w, l))) l'"
  proof (cases r)
    case (Err e)
    then obtain k where "snd (snd (h e (w', l @ l'))) = (l @ l') @ k" "P (fst (h e (w', l @ l'))) (l' @ k)"
      using l' emitsD [OF h, of e l' w' "l @ l'"] by auto
    then show ?thesis using mw l' Err by (simp add: catch_def)
  qed (use mw l' x a in \<open>auto simp: catch_def\<close>)
qed

section \<open>Footprints\<close>

definition footprint :: "verb set \<Rightarrow> (kind \<times> ObjectKey) set \<Rightarrow> ('w \<times> request list, 'a) op \<Rightarrow> bool" where
  "footprint V K m \<longleftrightarrow> emits m (\<lambda>r l. rq_verb ` set l \<subseteq> V \<and> rq_object ` set l \<subseteq> K \<and>
     (is_ok r \<longrightarrow> rq_object ` set l = K))"

lemma footprint_seqE_Nil: "footprint V {} (seqE [])"
  by (simp add: footprint_def emits_ret)

lemma footprint_bind:
  fixes m :: "('w \<times> request list, 'a) op"
  assumes "footprint V K m" and "\<And>x. footprint V K' (f x)"
  shows "footprint V (K \<union> K') (bind m f)"
  unfolding footprint_def
proof (rule emits_bind [OF assms(1) [unfolded footprint_def]])
  fix x :: 'a and l
  assume l: "rq_verb ` set l \<subseteq> V \<and> rq_object ` set l \<subseteq> K \<and> (is_ok (Ok x) \<longrightarrow> rq_object ` set l = K)"
  show "emits (f x) (\<lambda>r l'. rq_verb ` set (l @ l') \<subseteq> V \<and> rq_object ` set (l @ l') \<subseteq> K \<union> K' \<and>
     (is_ok r \<longrightarrow> rq_object ` set (l @ l') = K \<union> K'))"
    by (rule emits_mono [OF assms(2) [unfolded footprint_def, of x]]) (use l in auto)
qed auto

lemma footprint_seqE_Cons:
  "footprint V K m \<Longrightarrow> footprint V K' (seqE ms) \<Longrightarrow> footprint V (K \<union> K') (seqE (m # ms))"
  by (simp add: footprint_bind)

lemma footprint_whenE:
  "footprint V K (seqE ms) \<Longrightarrow> footprint V (if b then K else {}) (whenE b ms)"
  using footprint_seqE_Nil by (auto simp: whenE_def)

lemma footprint_ret: "footprint V {} (ret x)"
  by (simp add: footprint_def emits_ret)

lemma footprint_deleteIfPresent:
  "footprint {DeleteVerb} {(k_kind kd, \<lparr>ok_Namespace = ns, ok_Name = n\<rparr>)}
     (deleteIfPresent (recording_api kd api) n ns)"
  unfolding footprint_def deleteIfPresent_def recording_api_def resource_api.select_convs
  by (rule emits_catch [where Q = "\<lambda>r l. l = [Request DeleteVerb (k_kind kd) \<lparr>ok_Namespace = ns, ok_Name = n\<rparr>]"])
     (auto intro: emits_call emits_ret emits_fail simp: rq_object_def)

section \<open>The contract of a mutate function\<close>

text \<open>Equality up to the metadata that the server assigns.\<close>

definition sameMeta :: "ObjectMeta \<Rightarrow> ObjectMeta \<Rightarrow> bool" where
  "sameMeta m n \<longleftrightarrow> om_Name m = om_Name n \<and> om_Namespace m = om_Namespace n \<and>
     om_Labels m = om_Labels n \<and> om_Annotations m = om_Annotations n \<and>
     om_OwnerReferences m = om_OwnerReferences n"

definition sameObject :: "'o object_kind \<Rightarrow> 'o \<Rightarrow> 'o \<Rightarrow> bool" where
  "sameObject kd x y \<longleftrightarrow> sameMeta (k_meta kd x) (k_meta kd y) \<and> x = k_setMeta kd (k_meta kd x) y"

text \<open>What makes an \<open>object_kind\<close> a proper reading of a Go type: metadata and status are fields of it.\<close>

locale api_object =
  fixes kd :: "'o object_kind"
  assumes meta_setMeta [simp]: "k_meta kd (k_setMeta kd m x) = m"
    and setMeta_meta [simp]: "k_setMeta kd (k_meta kd x) x = x"
    and setMeta_setMeta [simp]: "k_setMeta kd m (k_setMeta kd n x) = k_setMeta kd m x"
    and sameStatus_refl [simp]: "k_sameStatus kd x x"
    and sameStatus_setMeta [simp]: "k_sameStatus kd x (k_setMeta kd m y) = k_sameStatus kd x y"
    and object_eqI: "k_stripStatus kd x = k_stripStatus kd y \<Longrightarrow> k_sameStatus kd x y \<Longrightarrow> x = y"
begin

lemma sameObject_refl [simp]: "sameObject kd x x"
  by (simp add: sameObject_def sameMeta_def)

lemma sameObject_key: "sameObject kd x y \<Longrightarrow> key_of kd x = key_of kd y"
  by (simp add: sameObject_def sameMeta_def key_of_def key_of_meta_def)

end

interpretation serviceAccount: api_object serviceAccount_kind
  by unfold_locales (auto simp: kind_defs)

interpretation role: api_object role_kind
  by unfold_locales (auto simp: kind_defs)

interpretation roleBinding: api_object roleBinding_kind
  by unfold_locales (auto simp: kind_defs)

interpretation clusterRole: api_object clusterRole_kind
  by unfold_locales (auto simp: kind_defs)

interpretation clusterRoleBinding: api_object clusterRoleBinding_kind
  by unfold_locales (auto simp: kind_defs)

interpretation configMap: api_object configMap_kind
  by unfold_locales (auto simp: kind_defs)

interpretation service: api_object service_kind
  by unfold_locales (auto simp: kind_defs)

lemma daemonSet_eqI:
  "x\<lparr>ds_Status := s\<rparr> = y\<lparr>ds_Status := s\<rparr> \<Longrightarrow> ds_Status x = ds_Status y \<Longrightarrow> x = (y :: DaemonSet)"
  by (cases x, cases y) simp

interpretation daemonSet: api_object daemonSet_kind
  by unfold_locales (auto simp: kind_defs intro: daemonSet_eqI)

text \<open>
  \<open>CreateOrPatch\<close> relies on a mutate function that keeps the object's name and status, and the
  operator's convergence on one that has nothing more to do on an object it has already mutated.
\<close>

locale mutator = api_object kd
  for kd :: "'o object_kind" +
  fixes f :: "'o \<Rightarrow> 'o outcome"
  assumes keeps_key: "f x = Ok y \<Longrightarrow> key_of kd y = key_of kd x"
    and keeps_status: "f x = Ok y \<Longrightarrow> k_sameStatus kd x y"
    and no_error: "f x \<noteq> Err e"
    and stable: "f x = Ok y \<Longrightarrow> sameObject kd z y \<Longrightarrow> f z = Ok z"
begin

lemma mutate_eq: "key = key_of kd x \<Longrightarrow> mutate kd f key x = f x"
  using keeps_key no_error by (cases "f x") (auto simp: mutate_def)

lemma mutate_Ok:
  assumes "mutate kd f key x = Ok y"
  shows "f x = Ok y" and "key_of kd y = key" and "key_of kd x = key" and "k_sameStatus kd x y"
proof -
  show fx: "f x = Ok y" and k: "key_of kd y = key"
    using assms by (auto simp: mutate_def split: if_splits)
  show "key_of kd x = key" using keeps_key [OF fx] k by simp
  show "k_sameStatus kd x y" by (rule keeps_status [OF fx])
qed

lemma patchExisting_eq:
  "k_sameStatus kd x y \<Longrightarrow> patchExisting kd api x y =
     (if k_stripStatus kd x \<noteq> k_stripStatus kd y
      then bind (call (api_Patch api x y)) (\<lambda>_. ret ResultUpdated) else ret ResultNone)"
  by (simp add: patchExisting_def bind_assoc)

lemma footprint_patchExisting:
  assumes "mutate kd f key x = Ok y"
  shows "emits (patchExisting kd (recording_api kd api) x y)
     (\<lambda>r l. l = [] \<or> l = [Request PatchVerb (k_kind kd) key])"
proof -
  have "emits (call (logged (Request PatchVerb (k_kind kd) key) (api_Patch api x y)))
     (\<lambda>r l. l = [Request PatchVerb (k_kind kd) key])"
    by (rule emits_call) simp
  then have "emits (bind (call (logged (Request PatchVerb (k_kind kd) key) (api_Patch api x y))) (\<lambda>_. ret ResultUpdated))
     (\<lambda>r l. l = [] \<or> l = [Request PatchVerb (k_kind kd) key])"
    by (rule emits_bind) (auto intro: emits_ret)
  then show ?thesis
    using mutate_Ok [OF assms] by (auto simp: patchExisting_eq recording_api_def intro: emits_ret)
qed

text \<open>The requests of one \<open>CreateOrPatch\<close>: a read, then at most one write of the same object.\<close>

lemma CreateOrPatch_requests:
  defines "q \<equiv> \<lambda>v obj. Request v (k_kind kd) (key_of kd obj)"
  shows "emits (CreateOrPatch kd (recording_api kd api) obj f)
     (\<lambda>r l. l = [q GetVerb obj] \<or> l = [q GetVerb obj, q CreateVerb obj] \<or> l = [q GetVerb obj, q PatchVerb obj])"
  (is "emits _ ?P")
proof -
  let ?get = "catch (bind (call (api_Get (recording_api kd api) (key_of kd obj))) (\<lambda>x. ret (Some x)))
                    (\<lambda>e. if \<not> IsNotFound e then fail e else ret None)"
  have get: "emits ?get (\<lambda>r l. l = [q GetVerb obj])"
    by (rule emits_catch [where Q = "\<lambda>r l. l = [q GetVerb obj]"],
        rule emits_bind [where Q = "\<lambda>r l. l = [q GetVerb obj]"])
       (auto simp: recording_api_def q_def intro: emits_ret emits_fail emits_call)
  have create: "emits (bind (lift_outcome (mutate kd f (key_of kd obj) obj)) (\<lambda>y.
      bind (call (api_Create (recording_api kd api) y)) (\<lambda>_. ret ResultCreated)))
      (\<lambda>r l. ?P r (q GetVerb obj # l))"
  proof (rule emits_bind [where Q = "\<lambda>r l. l = [] \<and> mutate kd f (key_of kd obj) obj = r"])
    fix y and l :: "request list" assume "l = [] \<and> mutate kd f (key_of kd obj) obj = Ok y"
    then show "emits (bind (call (api_Create (recording_api kd api) y)) (\<lambda>_. ret ResultCreated))
        (\<lambda>r l'. ?P r (q GetVerb obj # l @ l'))"
      using mutate_Ok(2)
      by (intro emits_bind [where Q = "\<lambda>r l. l = [q CreateVerb obj]"])
         (auto simp: recording_api_def q_def intro: emits_ret emits_call)
  qed (auto intro: emits_lift)
  have exst: "emits (bind (lift_outcome (mutate kd f (key_of kd obj) x))
      (\<lambda>y. patchExisting kd (recording_api kd api) x y)) (\<lambda>r l. ?P r (q GetVerb obj # l))" for x
    by (rule emits_bind [where Q = "\<lambda>r l. l = [] \<and> mutate kd f (key_of kd obj) x = r"])
       (auto simp: q_def intro: emits_lift emits_mono [OF footprint_patchExisting])
  show ?thesis
    unfolding CreateOrPatch_def Let_def
    by (rule emits_bind [OF get]) (use create exst in \<open>auto split: option.splits\<close>)
qed

lemma footprint_reconcile:
  "footprint {GetVerb, CreateVerb, PatchVerb} {(k_kind kd, key_of kd obj)}
     (reconcile kd (recording_api kd api) obj f)"
  unfolding footprint_def reconcile_def
  by (rule emits_bind [OF CreateOrPatch_requests]) (auto simp: rq_object_def intro!: emits_ret)

end

section \<open>Mutate functions of the patchers\<close>

definition agreeMeta :: "ObjectMeta \<Rightarrow> ObjectMeta \<Rightarrow> bool" where
  "agreeMeta m n \<longleftrightarrow> om_Name m = om_Name n \<and> om_Namespace m = om_Namespace n \<and>
     om_Labels m = om_Labels n \<and> om_Annotations m = om_Annotations n"

text \<open>The owner reference, once set, is kept by every object equal up to server metadata.\<close>

lemma WithOwner_sameMeta:
  assumes "WithOwner owner m = Ok m'" and "wf_owner owner" and "sameMeta n m'"
  shows "WithOwner owner n = Ok n"
proof -
  have idem: "WithOwner owner m' = Ok m'" by (rule WithOwner_idem [OF assms(1,2)])
  then have "m' = m'\<lparr>om_OwnerReferences := upsertOwnerRef (controllerRef owner) (om_OwnerReferences m')\<rparr>"
    by (simp add: WithOwner_Ok_iff)
  then have "upsertOwnerRef (controllerRef owner) (om_OwnerReferences m') = om_OwnerReferences m'"
    by (metis ObjectMeta.select_convs(8) ObjectMeta.surjective ObjectMeta.update_convs(8))
  moreover have "om_OwnerReferences n = om_OwnerReferences m'" "om_Namespace n = om_Namespace m'"
    using assms(3) by (simp_all add: sameMeta_def)
  moreover have "validateOwner owner n = validateOwner owner m'" "GetControllerOf n = GetControllerOf m'"
    using calculation by (simp_all add: validateOwner_def GetControllerOf_def)
  ultimately show ?thesis using idem by (simp add: WithOwner_Ok_iff)
qed

context api_object
begin

lemma ownedBy_Ok_iff:
  "ownedBy kd owner x = Ok y \<longleftrightarrow> (\<exists>m. WithOwner owner (k_meta kd x) = Ok m \<and> y = k_setMeta kd m x)"
  by (auto simp: ownedBy_def)

text \<open>Fields set to constants, then the owner: the shape of every handler of a policy's patcher.\<close>

lemma mutator_ownedBy:
  assumes owner: "wf_owner owner"
    and key: "\<And>x. key_of kd (g x) = key_of kd x"
    and status: "\<And>x. k_sameStatus kd x (g x)"
    and idem: "\<And>x m. agreeMeta m (k_meta kd (g x)) \<Longrightarrow> g (k_setMeta kd m (g x)) = k_setMeta kd m (g x)"
  shows "mutator kd (\<lambda>x. ownedBy kd owner (g x))"
proof unfold_locales
  fix x y assume "ownedBy kd owner (g x) = Ok y"
  then obtain m where m: "WithOwner owner (k_meta kd (g x)) = Ok m" and y: "y = k_setMeta kd m (g x)"
    by (auto simp: ownedBy_Ok_iff)
  show "key_of kd y = key_of kd x"
    using WithOwner_frame(1,2) [OF m] key [of x] y by (simp add: key_of_def key_of_meta_def)
  show "k_sameStatus kd x y" using status y by simp
next
  fix x e show "ownedBy kd owner (g x) \<noteq> Err e"
    by (auto simp: ownedBy_def WithOwner_def split: sum.splits)
next
  fix x y z assume "ownedBy kd owner (g x) = Ok y" and zy: "sameObject kd z y"
  then obtain m where m: "WithOwner owner (k_meta kd (g x)) = Ok m" and y: "y = k_setMeta kd m (g x)"
    by (auto simp: ownedBy_Ok_iff)
  have sm: "sameMeta (k_meta kd z) m" and z: "z = k_setMeta kd (k_meta kd z) (g x)"
    using zy y by (simp_all add: sameObject_def)
  have "agreeMeta (k_meta kd z) (k_meta kd (g x))"
    using sm WithOwner_frame [OF m] by (simp add: agreeMeta_def sameMeta_def)
  then have gz: "g z = z" using idem [of "k_meta kd z" x] z by simp
  have "WithOwner owner (k_meta kd z) = Ok (k_meta kd z)" by (rule WithOwner_sameMeta [OF m owner sm])
  then show "ownedBy kd owner (g z) = Ok z" using gz by (simp add: ownedBy_Ok_iff)
qed

text \<open>The handlers of the driver's shared objects set fields and no owner.\<close>

lemma mutator_plain:
  assumes "\<And>x. key_of kd (g x) = key_of kd x"
    and "\<And>x. k_sameStatus kd x (g x)"
    and idem: "\<And>x m. agreeMeta m (k_meta kd (g x)) \<Longrightarrow> g (k_setMeta kd m (g x)) = k_setMeta kd m (g x)"
  shows "mutator kd (\<lambda>x. Ok (g x))"
proof unfold_locales
  fix x y z assume "Ok (g x) = Ok y" and zy: "sameObject kd z y"
  then have "agreeMeta (k_meta kd z) (k_meta kd (g x))" "z = k_setMeta kd (k_meta kd z) (g x)"
    by (auto simp: sameObject_def agreeMeta_def sameMeta_def)
  then show "Ok (g z) = Ok z" using idem by metis
qed (use assms in auto)

end

end
