(* ===== verification/Store_Logic.thy ===== *)
theory Store_Logic
  imports Client_Logic
begin

text \<open>
  What the operator's writes achieve on an API server that stores the objects it is sent, up to the
  metadata the server assigns (\<open>store_law\<close>).  Requests may fail at any time and then change
  nothing.  \<open>holds view K m Q\<close> and \<open>converges view K m\<close> compose along \<open>seqE\<close> for operations on
  disjoint sets of objects.  An in-memory server that keeps the laws ends the theory.
\<close>

section \<open>The store of a server\<close>

datatype object = SA ServiceAccount | RO Role | RB RoleBinding | CR Role | CRB RoleBinding
  | CM ConfigMap | SV Service | DS DaemonSet

type_synonym store = "kind \<times> ObjectKey \<Rightarrow> object option"

definition get_law :: "('w \<Rightarrow> store) \<Rightarrow> 'o object_kind \<Rightarrow> ('o \<Rightarrow> object) \<Rightarrow> ('w, 'o) resource_api \<Rightarrow> bool" where
  "get_law view kd mk api \<longleftrightarrow> (\<forall>k w. view (snd (api_Get api k w)) = view w \<and>
     (case fst (api_Get api k w) of
        Inr x \<Rightarrow> view w (k_kind kd, k) = Some (mk x) \<and> key_of kd x = k
      | Inl e \<Rightarrow> IsNotFound e \<longrightarrow> view w (k_kind kd, k) = None))"

definition create_law :: "('w \<Rightarrow> store) \<Rightarrow> 'o object_kind \<Rightarrow> ('o \<Rightarrow> object) \<Rightarrow> ('w, 'o) resource_api \<Rightarrow> bool" where
  "create_law view kd mk api \<longleftrightarrow> (\<forall>x w.
     (case fst (api_Create api x w) of
        Inr y \<Rightarrow> sameObject kd y x \<and>
          view (snd (api_Create api x w)) = (view w)((k_kind kd, key_of kd x) \<mapsto> mk y)
      | Inl e \<Rightarrow> view (snd (api_Create api x w)) = view w))"

text \<open>A merge patch computed from the stored object turns it into the patched one.\<close>

definition patch_law :: "('w \<Rightarrow> store) \<Rightarrow> 'o object_kind \<Rightarrow> ('o \<Rightarrow> object) \<Rightarrow> ('w, 'o) resource_api \<Rightarrow> bool" where
  "patch_law view kd mk api \<longleftrightarrow> (\<forall>x y w.
     view w (k_kind kd, key_of kd y) = Some (mk x) \<longrightarrow> k_sameStatus kd x y \<longrightarrow>
     (case fst (api_Patch api x y w) of
        Inr z \<Rightarrow> sameObject kd z y \<and>
          view (snd (api_Patch api x y w)) = (view w)((k_kind kd, key_of kd y) \<mapsto> mk z)
      | Inl e \<Rightarrow> view (snd (api_Patch api x y w)) = view w))"

definition delete_law :: "('w \<Rightarrow> store) \<Rightarrow> 'o object_kind \<Rightarrow> ('w, 'o) resource_api \<Rightarrow> bool" where
  "delete_law view kd api \<longleftrightarrow> (\<forall>k w.
     (case fst (api_Delete api k w) of
        Inr _ \<Rightarrow> view (snd (api_Delete api k w)) = (view w)((k_kind kd, k) := None)
      | Inl e \<Rightarrow> view (snd (api_Delete api k w)) = view w \<and>
          (IsNotFound e \<longrightarrow> view w (k_kind kd, k) = None)))"

definition store_law :: "('w \<Rightarrow> store) \<Rightarrow> 'o object_kind \<Rightarrow> ('o \<Rightarrow> object) \<Rightarrow> ('w, 'o) resource_api \<Rightarrow> bool" where
  "store_law view kd mk api \<longleftrightarrow> get_law view kd mk api \<and> create_law view kd mk api \<and>
     patch_law view kd mk api \<and> delete_law view kd api"

lemma get_lawD:
  assumes "store_law view kd mk api" and "api_Get api k w = (r, w')"
  shows "view w' = view w" and "case r of Inr x \<Rightarrow> view w (k_kind kd, k) = Some (mk x) \<and> key_of kd x = k
      | Inl e \<Rightarrow> IsNotFound e \<longrightarrow> view w (k_kind kd, k) = None"
proof -
  have "view (snd (api_Get api k w)) = view w \<and> (case fst (api_Get api k w) of
        Inr x \<Rightarrow> view w (k_kind kd, k) = Some (mk x) \<and> key_of kd x = k
      | Inl e \<Rightarrow> IsNotFound e \<longrightarrow> view w (k_kind kd, k) = None)"
    using assms(1) unfolding store_law_def get_law_def by blast
  then show "view w' = view w" and "case r of Inr x \<Rightarrow> view w (k_kind kd, k) = Some (mk x) \<and> key_of kd x = k
      | Inl e \<Rightarrow> IsNotFound e \<longrightarrow> view w (k_kind kd, k) = None" by (simp_all add: assms(2))
qed

lemma create_lawD:
  assumes "store_law view kd mk api" and "api_Create api x w = (r, w')"
  shows "case r of Inr y \<Rightarrow> sameObject kd y x \<and> view w' = (view w)((k_kind kd, key_of kd x) \<mapsto> mk y)
      | Inl e \<Rightarrow> view w' = view w"
proof -
  have "case fst (api_Create api x w) of
        Inr y \<Rightarrow> sameObject kd y x \<and>
          view (snd (api_Create api x w)) = (view w)((k_kind kd, key_of kd x) \<mapsto> mk y)
      | Inl e \<Rightarrow> view (snd (api_Create api x w)) = view w"
    using assms(1) unfolding store_law_def create_law_def by blast
  then show ?thesis by (cases r) (simp_all add: assms(2))
qed

lemma patch_lawD:
  assumes "store_law view kd mk api" and "api_Patch api x y w = (r, w')"
    and "view w (k_kind kd, key_of kd y) = Some (mk x)" and "k_sameStatus kd x y"
  shows "case r of Inr z \<Rightarrow> sameObject kd z y \<and> view w' = (view w)((k_kind kd, key_of kd y) \<mapsto> mk z)
      | Inl e \<Rightarrow> view w' = view w"
proof -
  have "case fst (api_Patch api x y w) of
        Inr z \<Rightarrow> sameObject kd z y \<and>
          view (snd (api_Patch api x y w)) = (view w)((k_kind kd, key_of kd y) \<mapsto> mk z)
      | Inl e \<Rightarrow> view (snd (api_Patch api x y w)) = view w"
    using assms(1,3,4) unfolding store_law_def patch_law_def by blast
  then show ?thesis by (cases r) (simp_all add: assms(2))
qed

definition lawful_client :: "('w \<Rightarrow> store) \<Rightarrow> 'w client \<Rightarrow> bool" where
  "lawful_client view c \<longleftrightarrow>
     store_law view serviceAccount_kind SA (serviceAccounts c) \<and>
     store_law view role_kind RO (roles c) \<and>
     store_law view roleBinding_kind RB (roleBindings c) \<and>
     store_law view clusterRole_kind CR (clusterRoles c) \<and>
     store_law view clusterRoleBinding_kind CRB (clusterRoleBindings c) \<and>
     store_law view configMap_kind CM (configMaps c) \<and>
     store_law view service_kind SV (services c) \<and>
     store_law view daemonSet_kind DS (daemonSets c)"

lemma lawful_clientD:
  assumes "lawful_client view c"
  shows "store_law view serviceAccount_kind SA (serviceAccounts c)"
    "store_law view role_kind RO (roles c)"
    "store_law view roleBinding_kind RB (roleBindings c)"
    "store_law view clusterRole_kind CR (clusterRoles c)"
    "store_law view clusterRoleBinding_kind CRB (clusterRoleBindings c)"
    "store_law view configMap_kind CM (configMaps c)"
    "store_law view service_kind SV (services c)"
    "store_law view daemonSet_kind DS (daemonSets c)"
  using assms by (simp_all add: lawful_client_def)

section \<open>Convergence\<close>

definition frame :: "('w \<Rightarrow> store) \<Rightarrow> (kind \<times> ObjectKey) set \<Rightarrow> ('w, 'a) op \<Rightarrow> bool" where
  "frame view K m \<longleftrightarrow> (\<forall>w k. k \<notin> K \<longrightarrow> view (snd (m w)) k = view w k)"

definition converges :: "('w \<Rightarrow> store) \<Rightarrow> (kind \<times> ObjectKey) set \<Rightarrow> ('w, 'a) op \<Rightarrow> bool" where
  "converges view K m \<longleftrightarrow> frame view K m \<and>
     (\<forall>w v. is_ok (fst (m w)) \<longrightarrow> (\<forall>k\<in>K. view v k = view (snd (m w)) k) \<longrightarrow>
        view (snd (m v)) = view v)"

lemma frame_bind: "frame view K m \<Longrightarrow> (\<And>x. frame view K' (f x)) \<Longrightarrow> frame view (K \<union> K') (bind m f)"
  by (auto simp: frame_def bind_def split: prod.splits outcome.splits) (metis snd_conv)+

lemma converges_ret: "converges view {} (ret x)"
  by (simp add: converges_def frame_def ret_def)

lemma converges_bind:
  assumes m: "converges view K m" and f: "converges view K' f" and disj: "K \<inter> K' = {}"
  shows "converges view (K \<union> K') (bind m (\<lambda>_. f))"
proof -
  have "frame view (K \<union> K') (bind m (\<lambda>_. f))"
    using m f by (intro frame_bind) (auto simp: converges_def)
  moreover have "view (snd (bind m (\<lambda>_. f) v)) = view v"
    if ok: "is_ok (fst (bind m (\<lambda>_. f) w))"
      and eq: "\<forall>k\<in>K \<union> K'. view v k = view (snd (bind m (\<lambda>_. f) w)) k" for w v
  proof -
    from ok obtain x w' where mw: "m w = (Ok x, w')" and fw: "is_ok (fst (f w'))"
      by (auto simp: bind_def split: prod.splits outcome.splits)
    have eq': "\<forall>k\<in>K \<union> K'. view v k = view (snd (f w')) k" using eq mw by (simp add: bind_Ok)
    have "\<forall>k\<in>K. view v k = view w' k"
    proof
      fix k assume "k \<in> K"
      then have "k \<notin> K'" using disj by blast
      then have "view (snd (f w')) k = view w' k" using f unfolding converges_def frame_def by blast
      then show "view v k = view w' k" using eq' \<open>k \<in> K\<close> by auto
    qed
    moreover have "is_ok (fst (m w))" "snd (m w) = w'" using mw by simp_all
    ultimately have mv: "view (snd (m v)) = view v" using m unfolding converges_def by blast
    have fv: "view (snd (f u)) = view u" if "view u = view v" for u
      using f fw eq' that by (auto simp: converges_def)
    show ?thesis
    proof (cases "fst (m v)")
      case (Ok y)
      then have "bind m (\<lambda>_. f) v = f (snd (m v))" by (metis bind_Ok prod.collapse)
      then show ?thesis using fv [OF mv] mv by simp
    qed (use mv in \<open>auto simp: bind_def split: prod.splits outcome.splits\<close>)
  qed
  ultimately show ?thesis by (auto simp: converges_def)
qed

lemma converges_seqE_Cons:
  "converges view K m \<Longrightarrow> converges view K' (seqE ms) \<Longrightarrow> K \<inter> K' = {} \<Longrightarrow>
   converges view (K \<union> K') (seqE (m # ms))"
  by (simp add: converges_bind)

lemma converges_seqE_Nil: "converges view {} (seqE [])"
  by (simp add: converges_ret)

lemma converges_whenE:
  "converges view K (seqE ms) \<Longrightarrow> converges view (if b then K else {}) (whenE b ms)"
  using converges_ret by (auto simp: whenE_def)

text \<open>Deleting an object that may be absent leaves it absent.\<close>

lemma deleteIfPresent_eq:
  "deleteIfPresent api n ns w =
     (case api_Delete api \<lparr>ok_Namespace = ns, ok_Name = n\<rparr> w of
        (Inr _, w') \<Rightarrow> (Ok (), w')
      | (Inl e, w') \<Rightarrow> (if IsNotFound e then Ok () else Err e, w'))"
  by (auto simp: deleteIfPresent_def op_defs split: prod.splits sum.splits)

lemma deleteIfPresent_view:
  fixes ns n :: string
  assumes law: "store_law view kd mk api"
  defines "k \<equiv> (k_kind kd, \<lparr>ok_Namespace = ns, ok_Name = n\<rparr>)"
  shows "view (snd (deleteIfPresent api n ns w)) =
     (if is_ok (fst (deleteIfPresent api n ns w)) then (view w)(k := None) else view w)"
proof -
  let ?k = "\<lparr>ok_Namespace = ns, ok_Name = n\<rparr>"
  obtain r w' where rw: "api_Delete api ?k w = (r, w')" by fastforce
  have "case r of Inr _ \<Rightarrow> view w' = (view w)(k := None)
      | Inl e \<Rightarrow> view w' = view w \<and> (IsNotFound e \<longrightarrow> view w k = None)"
    using law rw unfolding store_law_def delete_law_def k_def by (metis fst_conv snd_conv)
  then show ?thesis
    using rw by (cases r) (auto simp: deleteIfPresent_eq fun_upd_idem_iff)
qed

lemma converges_deleteIfPresent:
  assumes "store_law view kd mk api"
  shows "converges view {(k_kind kd, \<lparr>ok_Namespace = ns, ok_Name = n\<rparr>)} (deleteIfPresent api n ns)"
  using deleteIfPresent_view [OF assms, of n ns]
  by (auto simp: converges_def frame_def fun_upd_idem_iff)

text \<open>After a \<open>CreateOrPatch\<close> that succeeds, the store holds the mutated object.\<close>

context mutator
begin

lemma reconcile_notFound:
  assumes "api_Get api (key_of kd obj) w = (Inl e, w1)" and "IsNotFound e"
  shows "reconcile kd api obj f w =
     (case f obj of
        Ok y \<Rightarrow> (case api_Create api y w1 of (Inl e', w2) \<Rightarrow> (Err e', w2) | (Inr _, w2) \<Rightarrow> (Ok (), w2))
      | Err e' \<Rightarrow> (Err e', w1)
      | Abort s \<Rightarrow> (Abort s, w1))"
  using assms by (auto simp: reconcile_def CreateOrPatch_def Let_def mutate_eq op_defs
      split: prod.splits sum.splits outcome.splits)

lemma reconcile_getError:
  assumes "api_Get api (key_of kd obj) w = (Inl e, w1)" and "\<not> IsNotFound e"
  shows "reconcile kd api obj f w = (Err e, w1)"
  using assms by (simp add: reconcile_def CreateOrPatch_def Let_def op_defs)

lemma reconcile_found:
  assumes "api_Get api (key_of kd obj) w = (Inr x, w1)" and "key_of kd x = key_of kd obj"
  shows "reconcile kd api obj f w =
     (case f x of
        Ok y \<Rightarrow> (if x = y then (Ok (), w1)
                else (case api_Patch api x y w1 of (Inl e', w2) \<Rightarrow> (Err e', w2) | (Inr _, w2) \<Rightarrow> (Ok (), w2)))
      | Err e' \<Rightarrow> (Err e', w1)
      | Abort s \<Rightarrow> (Abort s, w1))"
proof (cases "f x")
  case (Ok y)
  then have "k_sameStatus kd x y" by (rule keeps_status)
  moreover from this have "k_stripStatus kd x = k_stripStatus kd y \<longleftrightarrow> x = y" using object_eqI by metis
  ultimately show ?thesis
    using assms Ok
    by (auto simp: reconcile_def CreateOrPatch_def Let_def mutate_eq patchExisting_eq op_defs
        split: prod.splits sum.splits)
qed (use assms in \<open>simp_all add: reconcile_def CreateOrPatch_def Let_def mutate_eq op_defs\<close>)

text \<open>A \<open>CreateOrPatch\<close> fails without effect, finds nothing to do, or stores the mutated object.\<close>

lemma reconcile_cases:
  assumes law: "store_law view kd mk api"
  obtains (failed) "\<not> is_ok (fst (reconcile kd api obj f w))"
      "view (snd (reconcile kd api obj f w)) = view w"
  | (unchanged) x where "f x = Ok x" "view w (k_kind kd, key_of kd obj) = Some (mk x)"
      "is_ok (fst (reconcile kd api obj f w))" "view (snd (reconcile kd api obj f w)) = view w"
  | (stored) x y z where "f x = Ok y" "sameObject kd z y"
      "view w (k_kind kd, key_of kd obj) = None \<and> x = obj \<or>
       view w (k_kind kd, key_of kd obj) = Some (mk x) \<and> x \<noteq> y"
      "is_ok (fst (reconcile kd api obj f w))"
      "view (snd (reconcile kd api obj f w)) = (view w)((k_kind kd, key_of kd obj) \<mapsto> mk z)"
proof -
  obtain r w1 where get: "api_Get api (key_of kd obj) w = (r, w1)" by fastforce
  note g = get_lawD [OF law get]
  show thesis
  proof (cases r)
    case (Inl e)
    show thesis
    proof (cases "IsNotFound e \<and> is_ok (f obj)")
      case True
      then obtain y where y: "f obj = Ok y" by (auto simp: is_ok_iff)
      obtain c w2 where create: "api_Create api y w1 = (c, w2)" by fastforce
      have c: "case c of Inr z \<Rightarrow> sameObject kd z y \<and> view w2 = (view w)((k_kind kd, key_of kd obj) \<mapsto> mk z)
          | Inl e \<Rightarrow> view w2 = view w"
        using create_lawD [OF law create] g(1) keeps_key [OF y] by (cases c) simp_all
      have rec: "reconcile kd api obj f w =
          (case c of Inl e' \<Rightarrow> (Err e', w2) | Inr _ \<Rightarrow> (Ok (), w2))"
        using reconcile_notFound [OF get [unfolded Inl]] True y create by (simp split: sum.splits)
      show thesis
        using c rec y g Inl True failed stored [of obj y] by (cases c) auto
    next
      case False
      then show thesis
        using failed g get Inl
        by (cases "f obj"; cases "IsNotFound e") (auto simp: reconcile_notFound reconcile_getError)
    qed
  next
    case (Inr x)
    note rec = reconcile_found [OF get [unfolded Inr]]
    show thesis
    proof (cases "f x")
      case (Ok y)
      show thesis
      proof (cases "x = y")
        case True
        then show thesis using unchanged [of x] Ok rec g Inr by simp
      next
        case False
        obtain c w2 where patch: "api_Patch api x y w1 = (c, w2)" by fastforce
        have y: "view w1 (k_kind kd, key_of kd y) = Some (mk x)" "key_of kd y = key_of kd obj"
          using g Inr keeps_key [OF Ok] by auto
        have c: "case c of Inr z \<Rightarrow> sameObject kd z y \<and> view w2 = (view w)((k_kind kd, key_of kd obj) \<mapsto> mk z)
            | Inl e \<Rightarrow> view w2 = view w"
          using patch_lawD [OF law patch y(1) keeps_status [OF Ok]] g(1) y(2) by (cases c) simp_all
        show thesis
          using c rec Ok patch g Inr False failed stored [of x y] by (cases c) auto
      qed
    qed (use failed rec g Inr in auto)
  qed
qed

lemma reconcile_stores:
  assumes "store_law view kd mk api" and "is_ok (fst (reconcile kd api obj f w))"
  obtains z where "f z = Ok z" and "view (snd (reconcile kd api obj f w)) (k_kind kd, key_of kd obj) = Some (mk z)"
  using assms(2) by (cases rule: reconcile_cases [OF assms(1), of obj w]) (auto dest: stable)

lemma converges_reconcile:
  assumes law: "store_law view kd mk api" and inj: "\<And>x y. mk x = mk y \<Longrightarrow> x = y"
  shows "converges view {(k_kind kd, key_of kd obj)} (reconcile kd api obj f)"
  unfolding converges_def frame_def
proof (intro conjI allI impI)
  fix w k assume "k \<notin> {(k_kind kd, key_of kd obj)}"
  then show "view (snd (reconcile kd api obj f w)) k = view w k"
    by (cases rule: reconcile_cases [OF law, of obj w]) auto
next
  fix w v assume ok: "is_ok (fst (reconcile kd api obj f w))"
    and eq: "\<forall>k\<in>{(k_kind kd, key_of kd obj)}. view v k = view (snd (reconcile kd api obj f w)) k"
  obtain z where fz: "f z = Ok z" and z: "view v (k_kind kd, key_of kd obj) = Some (mk z)"
    using reconcile_stores [OF law ok] eq by auto
  show "view (snd (reconcile kd api obj f v)) = view v"
    using fz z inj by (cases rule: reconcile_cases [OF law, of obj v]) fastforce+
qed

end

section \<open>An in-memory server\<close>

text \<open>
  A server that keeps the laws: a store of the deployed objects, lists of nodes, policies and
  drivers, and a clock that ticks at every reading.  The concrete instances of the properties run
  on it.
\<close>

record cluster =
  cl_store :: store
  cl_nodes :: "Node list"
  cl_policies :: "RBLNClusterPolicy list"
  cl_drivers :: "RBLNDriver list"
  cl_time :: nat

definition empty_cluster :: cluster where
  "empty_cluster = \<lparr>cl_store = (\<lambda>_. None), cl_nodes = [], cl_policies = [], cl_drivers = [], cl_time = 1\<rparr>"

definition notFound :: error where
  "notFound = Error NotFound ''not found''"

definition mem_read :: "'o object_kind \<Rightarrow> (object \<Rightarrow> 'o option) \<Rightarrow> ObjectKey \<Rightarrow> cluster \<Rightarrow> error + 'o" where
  "mem_read kd un k w = (case cl_store w (k_kind kd, k) of
      None \<Rightarrow> Inl notFound
    | Some ob \<Rightarrow> (case un ob of
          Some x \<Rightarrow> if key_of kd x = k then Inr x else Inl (Errorf ''corrupt'')
        | None \<Rightarrow> Inl (Errorf ''corrupt'')))"

definition mem_write :: "'o object_kind \<Rightarrow> ('o \<Rightarrow> object) \<Rightarrow> 'o \<Rightarrow> cluster \<Rightarrow> cluster" where
  "mem_write kd mk x w = w\<lparr>cl_store := (cl_store w)((k_kind kd, key_of kd x) \<mapsto> mk x)\<rparr>"

definition mem_api ::
  "'o object_kind \<Rightarrow> ('o \<Rightarrow> object) \<Rightarrow> (object \<Rightarrow> 'o option) \<Rightarrow> (cluster, 'o) resource_api" where
  "mem_api kd mk un = \<lparr>
     api_Get = (\<lambda>k w. (mem_read kd un k w, w)),
     api_List = (\<lambda>_ w. (Inr [], w)),
     api_Create = (\<lambda>x w. if cl_store w (k_kind kd, key_of kd x) = None
                         then (Inr x, mem_write kd mk x w)
                         else (Inl (Error AlreadyExists ''exists''), w)),
     api_Update = (\<lambda>x w. (Inr x, mem_write kd mk x w)),
     api_Patch = (\<lambda>_ y w. (Inr y, mem_write kd mk y w)),
     api_Delete = (\<lambda>k w. if cl_store w (k_kind kd, k) = None then (Inl notFound, w)
                         else (Inr (), w\<lparr>cl_store := (cl_store w)((k_kind kd, k) := None)\<rparr>)),
     api_StatusUpdate = (\<lambda>x w. (Inr x, mem_write kd mk x w)),
     api_StatusPatch = (\<lambda>_ y w. (Inr y, mem_write kd mk y w))\<rparr>"

definition list_write :: "'o object_kind \<Rightarrow> 'o \<Rightarrow> 'o list \<Rightarrow> 'o list" where
  "list_write kd x xs = List.map (\<lambda>y. if key_of kd y = key_of kd x then x else y) xs"

definition list_api ::
  "'o object_kind \<Rightarrow> (cluster \<Rightarrow> 'o list) \<Rightarrow> ('o list \<Rightarrow> cluster \<Rightarrow> cluster) \<Rightarrow> (cluster, 'o) resource_api" where
  "list_api kd get put = \<lparr>
     api_Get = (\<lambda>k w. (case find (\<lambda>x. key_of kd x = k) (get w) of
                         None \<Rightarrow> Inl notFound | Some x \<Rightarrow> Inr x, w)),
     api_List = (\<lambda>opt w. (Inr (filter (\<lambda>x. fmsubset (lo_MatchingLabels opt) (om_Labels (k_meta kd x))) (get w)), w)),
     api_Create = (\<lambda>x w. (Inr x, put (get w @ [x]) w)),
     api_Update = (\<lambda>x w. (Inr x, put (list_write kd x (get w)) w)),
     api_Patch = (\<lambda>_ y w. (Inr y, put (list_write kd y (get w)) w)),
     api_Delete = (\<lambda>k w. (Inr (), put (filter (\<lambda>x. key_of kd x \<noteq> k) (get w)) w)),
     api_StatusUpdate = (\<lambda>x w. (Inr x, put (list_write kd x (get w)) w)),
     api_StatusPatch = (\<lambda>_ y w. (Inr y, put (list_write kd y (get w)) w))\<rparr>"

definition mem_client :: "cluster client" where
  "mem_client = \<lparr>
     serviceAccounts = mem_api serviceAccount_kind SA (\<lambda>ob. case ob of SA x \<Rightarrow> Some x | _ \<Rightarrow> None),
     roles = mem_api role_kind RO (\<lambda>ob. case ob of RO x \<Rightarrow> Some x | _ \<Rightarrow> None),
     roleBindings = mem_api roleBinding_kind RB (\<lambda>ob. case ob of RB x \<Rightarrow> Some x | _ \<Rightarrow> None),
     clusterRoles = mem_api clusterRole_kind CR (\<lambda>ob. case ob of CR x \<Rightarrow> Some x | _ \<Rightarrow> None),
     clusterRoleBindings = mem_api clusterRoleBinding_kind CRB (\<lambda>ob. case ob of CRB x \<Rightarrow> Some x | _ \<Rightarrow> None),
     configMaps = mem_api configMap_kind CM (\<lambda>ob. case ob of CM x \<Rightarrow> Some x | _ \<Rightarrow> None),
     services = mem_api service_kind SV (\<lambda>ob. case ob of SV x \<Rightarrow> Some x | _ \<Rightarrow> None),
     daemonSets = mem_api daemonSet_kind DS (\<lambda>ob. case ob of DS x \<Rightarrow> Some x | _ \<Rightarrow> None),
     nodes = list_api node_kind cl_nodes (\<lambda>xs w. w\<lparr>cl_nodes := xs\<rparr>),
     clusterPolicies = list_api policy_kind cl_policies (\<lambda>xs w. w\<lparr>cl_policies := xs\<rparr>),
     drivers = list_api driver_kind cl_drivers (\<lambda>xs w. w\<lparr>cl_drivers := xs\<rparr>),
     now = (\<lambda>w. (cl_time w, w\<lparr>cl_time := Suc (cl_time w)\<rparr>))\<rparr>"

lemma mem_api_law:
  assumes "api_object kd" and un: "\<And>ob x. un ob = Some x \<longleftrightarrow> ob = mk x"
  shows "store_law cl_store kd mk (mem_api kd mk un)"
  using api_object.sameObject_refl [OF assms(1)] un
  by (auto simp: store_law_def get_law_def create_law_def patch_law_def delete_law_def mem_api_def
      mem_read_def mem_write_def notFound_def IsNotFound_def Errorf_def split: option.splits)

lemma mem_client_lawful: "lawful_client cl_store mem_client"
  unfolding lawful_client_def mem_client_def client.simps
  by (intro conjI mem_api_law serviceAccount.api_object_axioms role.api_object_axioms
      roleBinding.api_object_axioms clusterRole.api_object_axioms clusterRoleBinding.api_object_axioms
      configMap.api_object_axioms service.api_object_axioms daemonSet.api_object_axioms)
     (auto split: object.splits)

end
