(* ===== verification/Json.thy ===== *)
theory Json
  imports Go_Strings
begin

text \<open>
  \<open>encoding/json.MarshalIndent(v, "", "  ")\<close> on values made of structs, slices and strings: the
  escaping of strings (with the HTML-safe escapes of \<open>Marshal\<close>) and the indented layout.  Strings
  are valid UTF-8, as all strings that reach the operator through the API are.  \<open>unescape\<close> decodes
  a string's escapes; \<open>unescape_escape\<close> is the round trip.
\<close>

datatype json = JString string | JArray "json list" | JObject "(string \<times> json) list"

definition hex_digit :: "nat \<Rightarrow> char" where
  "hex_digit n = (if n < 10 then char_of (48 + n) else char_of (87 + n))"

text \<open>The escape of one ASCII byte; \<open>None\<close> for a byte that is copied.\<close>

definition escape_char :: "char \<Rightarrow> string option" where
  "escape_char c =
     (let n = (of_char c :: nat) in
      if n = 92 \<or> n = 34 then Some [CHR 0x5C, c]
      else if n = 8 then Some [CHR 0x5C, CHR ''b'']
      else if n = 12 then Some [CHR 0x5C, CHR ''f'']
      else if n = 10 then Some [CHR 0x5C, CHR ''n'']
      else if n = 13 then Some [CHR 0x5C, CHR ''r'']
      else if n = 9 then Some [CHR 0x5C, CHR ''t'']
      else if n < 32 \<or> n = 60 \<or> n = 62 \<or> n = 38
        then Some ([CHR 0x5C, CHR ''u'', CHR ''0'', CHR ''0'', hex_digit (n div 16), hex_digit (n mod 16)])
      else None)"

text \<open>U+2028 and U+2029 are escaped too.\<close>

fun escape :: "string \<Rightarrow> string" where
  "escape [] = []"
| "escape (c # cs) =
     (if c = CHR 0xE2 \<and> take 2 cs = [CHR 0x80, CHR 0xA8] then CHR 0x5C # ''u2028'' @ escape (drop 2 cs)
      else if c = CHR 0xE2 \<and> take 2 cs = [CHR 0x80, CHR 0xA9] then CHR 0x5C # ''u2029'' @ escape (drop 2 cs)
      else (case escape_char c of Some e \<Rightarrow> e | None \<Rightarrow> [c]) @ escape cs)"

definition quote :: "string \<Rightarrow> string" where
  "quote s = CHR 0x22 # escape s @ [CHR 0x22]"

definition newline :: "nat \<Rightarrow> string" where
  "newline depth = CHR 0x0A # replicate (2 * depth) (CHR '' '')"

text \<open>\<open>MarshalIndent\<close>: empty arrays and objects stay on one line.\<close>

fun marshal :: "nat \<Rightarrow> json \<Rightarrow> string" where
  "marshal d (JString s) = quote s"
| "marshal d (JArray xs) =
     (if xs = [] then ''[]''
      else ''['' @ Join (List.map (\<lambda>x. newline (Suc d) @ marshal (Suc d) x) xs) '','' @ newline d @ '']'')"
| "marshal d (JObject fs) =
     (if fs = [] then ''{}''
      else ''{'' @ Join (List.map (\<lambda>f. newline (Suc d) @ quote (fst f) @ '': '' @ marshal (Suc d) (snd f)) fs) '',''
           @ newline d @ ''}'')"

definition MarshalIndent :: "json \<Rightarrow> string" where
  "MarshalIndent v = marshal 0 v"

section \<open>Decoding\<close>

definition hex_value :: "char \<Rightarrow> nat option" where
  "hex_value c =
     (let n = (of_char c :: nat) in
      if 48 \<le> n \<and> n < 58 then Some (n - 48)
      else if 97 \<le> n \<and> n < 103 then Some (n - 87)
      else if 65 \<le> n \<and> n < 71 then Some (n - 55)
      else None)"

definition hex4 :: "char \<Rightarrow> char \<Rightarrow> char \<Rightarrow> char \<Rightarrow> nat option" where
  "hex4 a b c d =
     (case (hex_value a, hex_value b, hex_value c, hex_value d) of
        (Some i, Some j, Some k, Some l) \<Rightarrow> Some (((i * 16 + j) * 16 + k) * 16 + l)
      | _ \<Rightarrow> None)"

text \<open>The UTF-8 bytes of a code point of the basic plane.\<close>

definition utf8 :: "nat \<Rightarrow> string" where
  "utf8 n = (if n < 128 then [char_of n]
     else if n < 2048 then [char_of (192 + n div 64), char_of (128 + n mod 64)]
     else [char_of (224 + n div 4096), char_of (128 + n div 64 mod 64), char_of (128 + n mod 64)])"

definition short_escape :: "char \<Rightarrow> char option" where
  "short_escape c =
     map_of [(CHR 0x22, CHR 0x22), (CHR 0x5C, CHR 0x5C), (CHR ''/'', CHR ''/''), (CHR ''b'', CHR 0x08),
       (CHR ''f'', CHR 0x0C), (CHR ''n'', CHR 0x0A), (CHR ''r'', CHR 0x0D), (CHR ''t'', CHR 0x09)] c"

fun unescape :: "string \<Rightarrow> string option" where
  "unescape [] = Some []"
| "unescape (c # cs) =
     (if c \<noteq> CHR 0x5C then map_option (Cons c) (unescape cs)
      else (case cs of
          [] \<Rightarrow> None
        | e # r \<Rightarrow>
            if e = CHR ''u'' then
              (case r of
                 h1 # h2 # h3 # h4 # r' \<Rightarrow>
                   (case hex4 h1 h2 h3 h4 of None \<Rightarrow> None | Some n \<Rightarrow> map_option (append (utf8 n)) (unescape r'))
               | _ \<Rightarrow> None)
            else (case short_escape e of None \<Rightarrow> None | Some x \<Rightarrow> map_option (Cons x) (unescape r))))"

lemma hex_value_digit: "n < 16 \<Longrightarrow> hex_value (hex_digit n) = Some n"
  by (auto simp: hex_value_def hex_digit_def Let_def of_char_of)

lemma hex4_byte: "n < 256 \<Longrightarrow> hex4 (CHR ''0'') (CHR ''0'') (hex_digit (n div 16)) (hex_digit (n mod 16)) = Some n"
  by (simp add: hex4_def hex_value_digit less_mult_imp_div_less) (simp add: hex_value_def Let_def)

lemma unescape_u:
  "n < 128 \<Longrightarrow> unescape (CHR 0x5C # CHR ''u'' # CHR ''0'' # CHR ''0'' # hex_digit (n div 16) # hex_digit (n mod 16) # r)
     = map_option (Cons (char_of n)) (unescape r)"
  by (simp add: hex4_byte utf8_def append_def)

lemma char_eqI: "(of_char c :: nat) = n \<Longrightarrow> c = char_of n"
  by auto

lemma unescape_escape_char:
  assumes "escape_char c = Some e"
  shows "unescape (e @ r) = map_option (Cons c) (unescape r)"
proof (cases "of_char c \<in> {92, 34, 8, 12, 10, 13, 9 :: nat}")
  case True
  then have "c \<in> {CHR 0x5C, CHR 0x22, CHR 0x08, CHR 0x0C, CHR 0x0A, CHR 0x0D, CHR 0x09}"
    by (auto dest!: char_eqI simp: char_of_def bit_0)
  then show ?thesis using assms by (auto simp: escape_char_def short_escape_def)
next
  case False
  let ?n = "of_char c :: nat"
  have e: "?n < 128" "e = [CHR 0x5C, CHR ''u'', CHR ''0'', CHR ''0'', hex_digit (?n div 16), hex_digit (?n mod 16)]"
    using False assms by (auto simp: escape_char_def Let_def split: if_splits)
  then show ?thesis using unescape_u [of ?n r] by simp
qed

lemma escape_char_backslash: "escape_char c = None \<Longrightarrow> c \<noteq> CHR 0x5C"
  by (auto simp: escape_char_def)

lemma unescape_separator:
  "unescape (CHR 0x5C # CHR ''u'' # CHR ''2'' # CHR ''0'' # CHR ''2'' # CHR ''8'' # r) =
     map_option (append [CHR 0xE2, CHR 0x80, CHR 0xA8]) (unescape r)"
  "unescape (CHR 0x5C # CHR ''u'' # CHR ''2'' # CHR ''0'' # CHR ''2'' # CHR ''9'' # r) =
     map_option (append [CHR 0xE2, CHR 0x80, CHR 0xA9]) (unescape r)"
  by (simp_all add: hex4_def hex_value_def utf8_def Let_def char_of_def bit_0)

text \<open>No two strings have the same encoding: a decoder reads back what was written.\<close>

lemma unescape_escape: "unescape (escape s) = Some s"
proof (induction s rule: escape.induct)
  case (2 c cs)
  have t: "[a, b] @ drop 2 cs = cs" if "take 2 cs = [a, b]" for a b
    using that by (metis append_take_drop_id)
  consider "c = CHR 0xE2 \<and> take 2 cs = [CHR 0x80, CHR 0xA8]" | "c = CHR 0xE2 \<and> take 2 cs = [CHR 0x80, CHR 0xA9]"
    | "\<not> (c = CHR 0xE2 \<and> take 2 cs = [CHR 0x80, CHR 0xA8])" "\<not> (c = CHR 0xE2 \<and> take 2 cs = [CHR 0x80, CHR 0xA9])"
    by blast
  then show ?case
  proof cases
    case 1
    then show ?thesis using 2(1) t by (simp add: unescape_separator del: unescape.simps)
  next
    case 2
    then show ?thesis using "2.IH"(2) t by (simp add: unescape_separator del: unescape.simps)
  next
    case 3
    then have IH: "unescape (escape cs) = Some cs" using 2(3) by blast
    show ?thesis
    proof (cases "escape_char c")
      case None
      then show ?thesis using 3 IH escape_char_backslash [OF None] by auto
    next
      case (Some e)
      then show ?thesis using 3 IH unescape_escape_char [OF Some] by (auto simp del: unescape.simps)
    qed
  qed
qed simp

end
