(* ===== verification/Patch_Util.thy ===== *)
theory Patch_Util
  imports Store_Logic Json
begin

text \<open>
  What the patchers share (\<open>internal/scope/patch/util.go\<close>, \<open>consts.go\<close>, \<open>patcher.go\<close> and
  \<open>internal/consts\<close>): image references, the merge of a component's spec with the policy's
  \<open>daemonsets\<close> defaults, the device lists of the plugin configurations, and the pieces of code that
  recur in every patcher.
\<close>

section \<open>Constants\<close>

abbreviation DaemonSetReady :: string where "DaemonSetReady \<equiv> ''DaemonSetReady''"
abbreviation DaemonSetNotFound :: string where "DaemonSetNotFound \<equiv> ''DeamonSetNotFound''"
abbreviation DaemonSetPodsNotReady :: string where "DaemonSetPodsNotReady \<equiv> ''DaemonSetAllPodsNotReady''"
abbreviation DaemonSetAllPodsReady :: string where "DaemonSetAllPodsReady \<equiv> ''DaemonSetAllPodsReady''"
abbreviation hostUsrBinVolumeName :: string where "hostUsrBinVolumeName \<equiv> ''host-usr-bin''"
abbreviation hostUsrBinPath :: string where "hostUsrBinPath \<equiv> ''/usr/bin''"
abbreviation validationsVolumeName :: string where "validationsVolumeName \<equiv> ''run-rbln-validations''"
abbreviation validationsMountPath :: string where "validationsMountPath \<equiv> ''/run/rbln/validations''"

abbreviation DirectoryOrCreate :: "string option" where "DirectoryOrCreate \<equiv> Some ''DirectoryOrCreate''"
abbreviation Directory :: "string option" where "Directory \<equiv> Some ''Directory''"
abbreviation HostToContainer :: "string option" where "HostToContainer \<equiv> Some ''HostToContainer''"
abbreviation Bidirectional :: "string option" where "Bidirectional \<equiv> Some ''Bidirectional''"

section \<open>Literals\<close>

text \<open>Composite literals with the unset fields at their zero value.\<close>

definition mkMount :: "string \<Rightarrow> string \<Rightarrow> bool \<Rightarrow> VolumeMount" where
  "mkMount n p ro = \<lparr>vm_Name = n, vm_MountPath = p, vm_SubPath = [], vm_ReadOnly = ro,
     vm_MountPropagation = None\<rparr>"

definition hostPathVolume :: "string \<Rightarrow> string \<Rightarrow> string option \<Rightarrow> Volume" where
  "hostPathVolume n p t = \<lparr>vo_Name = n, vo_Source = HostPath p t\<rparr>"

definition privileged :: SecurityContext where
  "privileged = \<lparr>sc_Privileged = Some True, sc_RunAsUser = None, sc_RunAsGroup = None,
     sc_ReadOnlyRootFilesystem = None, sc_SELinuxLevel = None\<rparr>"

definition envValue :: "string \<Rightarrow> string \<Rightarrow> EnvVar" where
  "envValue n v = \<lparr>ev_Name = n, ev_Value = v, ev_ValueFrom = None\<rparr>"

definition envField :: "string \<Rightarrow> string \<Rightarrow> string \<Rightarrow> EnvVar" where
  "envField n apiVersion path =
     \<lparr>ev_Name = n, ev_Value = [], ev_ValueFrom = Some (FieldRef apiVersion path)\<rparr>"

lemmas literal_defs = mkMount_def hostPathVolume_def privileged_def envValue_def envField_def

section \<open>Images and specs (\<open>util.go\<close>)\<close>

definition ComposeImageReference :: "string \<Rightarrow> string \<Rightarrow> string" where
  "ComposeImageReference registry img =
     (let registry' = TrimSuffix (TrimSpace registry) ''/'';
          img' = TrimPrefix (TrimSpace img) ''/''
      in registry' @ ''/'' @ img')"

text \<open>
  \<open>syncSpec\<close> at one of the component spec types, with the zero value of that type.  The embedded
  pod spec's fields are the promoted fields that reflection finds.
\<close>

definition syncSpec ::
  "RBLNClusterPolicySpec \<Rightarrow> 'a ComponentSpec_scheme \<Rightarrow> 'a ComponentSpec_scheme \<Rightarrow> 'a ComponentSpec_scheme" where
  "syncSpec cpSpec zero componentSpec =
     (if \<not> IsEnabled componentSpec then zero
      else (case cp_Daemonsets cpSpec of
          None \<Rightarrow> componentSpec
        | Some ds \<Rightarrow>
            (let p0 = cs_PodSpec componentSpec;
                 p1 = p0\<lparr>cps_Labels := MergeMaps (dss_Labels ds) (cps_Labels p0)\<rparr>;
                 p2 = p1\<lparr>cps_Annotations := MergeMaps (dss_Annotations ds) (cps_Annotations p1)\<rparr>;
                 p3 = (if cps_Affinity p2 = None \<and> dss_Affinity ds \<noteq> None
                       then p2\<lparr>cps_Affinity := dss_Affinity ds\<rparr> else p2);
                 p4 = (if cps_Tolerations p3 = [] \<and> dss_Tolerations ds \<noteq> []
                       then p3\<lparr>cps_Tolerations := dss_Tolerations ds\<rparr> else p3);
                 s1 = componentSpec\<lparr>cs_PodSpec := p4\<rparr>
             in if cs_PriorityClassName s1 = [] \<and> dss_PriorityClassName ds \<noteq> []
                then s1\<lparr>cs_PriorityClassName := dss_PriorityClassName ds\<rparr> else s1)))"

definition DeviceMapping :: "string \<Rightarrow> string list option" where
  "DeviceMapping = map_of [
     (''RBLN-CA12'', [''1120'', ''1121'']),
     (''RBLN-CA22'', [''1220'', ''1221'']),
     (''RBLN-CA25'', [''1250'', ''1251'']),
     (''RBLN-CR03'', [''2030'', ''2031''])]"

fun collectDevices :: "string list \<Rightarrow> error + string list" where
  "collectDevices [] = Inr []"
| "collectDevices (n # ns) =
     (case DeviceMapping n of
        None \<Rightarrow> Inl (Errorf (''unknown product card name: '' @ n))
      | Some deviceList \<Rightarrow>
          (case collectDevices ns of Inl e \<Rightarrow> Inl e | Inr devices \<Rightarrow> Inr (deviceList @ devices)))"

record deviceSelector =
  sel_Vendors :: "string list"
  sel_Devices :: "string list"
  sel_Drivers :: "string list"

record configResource =
  cr_ResourceName :: string
  cr_ResourcePrefix :: string
  cr_DeviceType :: string
  cr_Selectors :: deviceSelector

text \<open>The JSON of a \<open>configResourceList\<close>, with the field names of the struct tags.\<close>

definition selector_json :: "deviceSelector \<Rightarrow> json" where
  "selector_json s = JObject [
     (''vendors'', JArray (List.map JString (sel_Vendors s))),
     (''devices'', JArray (List.map JString (sel_Devices s))),
     (''drivers'', JArray (List.map JString (sel_Drivers s)))]"

definition resource_json :: "configResource \<Rightarrow> json" where
  "resource_json r = JObject [
     (''resourceName'', JString (cr_ResourceName r)),
     (''resourcePrefix'', JString (cr_ResourcePrefix r)),
     (''deviceType'', JString (cr_DeviceType r)),
     (''selectors'', selector_json (cr_Selectors r))]"

definition resourceList_json :: "configResource list \<Rightarrow> json" where
  "resourceList_json rs = JObject [(''resourceList'', JArray (List.map resource_json rs))]"

text \<open>The loop of the two plugins' config builders, at the name of the kernel driver they select.\<close>

fun configResources :: "string \<Rightarrow> RBLNDevicePluginResourceSpec list \<Rightarrow> error + configResource list" where
  "configResources driverName [] = Inr []"
| "configResources driverName (r # rs) =
     (case collectDevices (rs_ProductCardNames r) of
        Inl e \<Rightarrow> Inl e
      | Inr devices \<Rightarrow>
          (case configResources driverName rs of
             Inl e \<Rightarrow> Inl e
           | Inr crs \<Rightarrow> Inr (\<lparr>cr_ResourceName = rs_ResourceName r,
                 cr_ResourcePrefix = rs_ResourcePrefix r, cr_DeviceType = ''accelerator'',
                 cr_Selectors = \<lparr>sel_Vendors = [''1eff''], sel_Devices = devices,
                   sel_Drivers = [driverName]\<rparr>\<rparr> # crs)))"

section \<open>Patchers\<close>

text \<open>
  The fields of a patcher struct besides the client, the logger and the scheme.  \<open>desiredSpec\<close> is a
  pointer: \<open>None\<close> is nil.
\<close>

record 's patcher =
  desiredSpec :: "'s option"
  name :: string
  namespace :: string
  openshiftVersion :: string

text \<open>The interface \<open>Patcher\<close>: the methods that the scope calls, for a patcher and a policy.\<close>

record 'w Patcher =
  pt_IsEnabled :: bool
  pt_Patch :: "RBLNClusterPolicy \<Rightarrow> ('w, unit) op"
  pt_CleanUp :: "RBLNClusterPolicy \<Rightarrow> ('w, unit) op"
  pt_ConditionReport :: "RBLNClusterPolicy \<Rightarrow> ('w, Condition list) op"
  pt_ComponentName :: string
  pt_ComponentNamespace :: string

text \<open>A method that dereferences a nil \<open>desiredSpec\<close> panics.\<close>

definition withSpec :: "('s, 'm) patcher_scheme \<Rightarrow> ('s \<Rightarrow> ('w, unit) op) \<Rightarrow> ('w, unit) op" where
  "withSpec h f = (case desiredSpec h of
      None \<Rightarrow> lift_outcome (Abort ''nil pointer dereference'')
    | Some s \<Rightarrow> f s)"

definition patcher_IsEnabled :: "('a ComponentSpec_scheme, 'm) patcher_scheme \<Rightarrow> bool" where
  "patcher_IsEnabled h = (case desiredSpec h of None \<Rightarrow> False | Some s \<Rightarrow> IsEnabled s)"

lemma withSpec_enabled:
  "desiredSpec h = Some s \<Longrightarrow> IsEnabled s \<Longrightarrow>
   withSpec h (\<lambda>s. if \<not> IsEnabled s then ret () else f s) = f s"
  by (simp add: withSpec_def)

lemma patcher_IsEnabledE:
  assumes "patcher_IsEnabled h"
  obtains s where "desiredSpec h = Some s" and "IsEnabled s"
  using assms by (auto simp: patcher_IsEnabled_def split: option.splits)

definition daemonSet_ready :: "DaemonSetStatus \<Rightarrow> bool" where
  "daemonSet_ready st \<longleftrightarrow> dst_DesiredNumberScheduled st > 0 \<and>
     dst_NumberReady st = dst_DesiredNumberScheduled st \<and> dst_NumberUnavailable st = 0"

text \<open>
  \<open>ConditionReport\<close> of the eight policy patchers, whose bodies are the same: the condition of the
  component's DaemonSet.
\<close>

definition daemonSetConditionReport ::
  "'w client \<Rightarrow> string \<Rightarrow> string \<Rightarrow> ('w, Condition list) op" where
  "daemonSetConditionReport c nm ns =
     bind (catch (bind (call (api_Get (daemonSets c) \<lparr>ok_Namespace = ns, ok_Name = nm\<rparr>)) (\<lambda>ds. ret (Inr ds)))
                 (\<lambda>e. ret (Inl e))) (\<lambda>res.
     bind (read_clock c) (\<lambda>t.
     case res of
       Inl e \<Rightarrow> ret [(mkCondition DaemonSetReady ConditionFalse DaemonSetNotFound
           (''DaemonSet '' @ ns @ ''/'' @ nm @ '' could not be found: '' @ err_text e))
             \<lparr>cond_LastTransitionTime := t\<rparr>]
     | Inr ds \<Rightarrow>
         (if \<not> daemonSet_ready (ds_Status ds) then
            ret [(mkCondition DaemonSetReady ConditionFalse DaemonSetPodsNotReady
              (''DaemonSet '' @ ns @ ''/'' @ nm @ '' is progressing: ''
                @ show_int (dst_NumberReady (ds_Status ds)) @ '' of ''
                @ show_int (dst_DesiredNumberScheduled (ds_Status ds)) @ '' pods are Ready (''
                @ show_int (dst_NumberUnavailable (ds_Status ds)) @ '' unavailable)''))
                \<lparr>cond_LastTransitionTime := t, cond_ObservedGeneration := om_Generation (ds_Meta ds)\<rparr>]
          else
            ret [(mkCondition DaemonSetReady ConditionTrue DaemonSetAllPodsReady
              (''All pods in DaemonSet '' @ ns @ ''/'' @ nm @ '' are running''))
                \<lparr>cond_LastTransitionTime := t, cond_ObservedGeneration := om_Generation (ds_Meta ds)\<rparr>])))"

text \<open>The role of most components: the use of the privileged security context constraint.\<close>

definition privilegedSCCRule :: PolicyRule where
  "privilegedSCCRule = \<lparr>rule_APIGroups = [''security.openshift.io''],
     rule_Resources = [''securitycontextconstraints''], rule_ResourceNames = [''privileged''],
     rule_Verbs = [''use'']\<rparr>"

definition ownRoleRef :: "string \<Rightarrow> RoleRef" where
  "ownRoleRef n = \<lparr>rref_APIGroup = ''rbac.authorization.k8s.io'', rref_Kind = ''Role'', rref_Name = n\<rparr>"

definition ownSubject :: "string \<Rightarrow> string \<Rightarrow> Subject" where
  "ownSubject n ns = \<lparr>sub_Kind = ''ServiceAccount'', sub_Name = n, sub_Namespace = ns\<rparr>"

lemma collectDevices_Inr_iff:
  "collectDevices ns = Inr ds \<longleftrightarrow>
     (\<forall>n\<in>set ns. DeviceMapping n \<noteq> None) \<and> ds = concat (List.map (\<lambda>n. the (DeviceMapping n)) ns)"
proof (induction ns arbitrary: ds)
  case (Cons n ns)
  show ?case
    using Cons [of "concat (List.map (\<lambda>n. the (DeviceMapping n)) ns)"] Cons
    by (cases "DeviceMapping n"; cases "collectDevices ns") auto
qed auto

lemma configResources_Inr_iff:
  "configResources drv rs = Inr crs \<longleftrightarrow>
     (\<forall>r\<in>set rs. \<forall>n\<in>set (rs_ProductCardNames r). DeviceMapping n \<noteq> None) \<and>
     crs = List.map (\<lambda>r. \<lparr>cr_ResourceName = rs_ResourceName r, cr_ResourcePrefix = rs_ResourcePrefix r,
       cr_DeviceType = ''accelerator'',
       cr_Selectors = \<lparr>sel_Vendors = [''1eff''],
         sel_Devices = concat (List.map (\<lambda>n. the (DeviceMapping n)) (rs_ProductCardNames r)),
         sel_Drivers = [drv]\<rparr>\<rparr>) rs"
proof (induction rs arbitrary: crs)
  case (Cons r rs)
  show ?case
  proof (cases "collectDevices (rs_ProductCardNames r)")
    case (Inl e)
    then have "\<not> (\<forall>n\<in>set (rs_ProductCardNames r). DeviceMapping n \<noteq> None)"
      using collectDevices_Inr_iff [of "rs_ProductCardNames r"] by fastforce
    then show ?thesis using Inl by auto
  next
    case (Inr ds)
    then have ds: "\<forall>n\<in>set (rs_ProductCardNames r). DeviceMapping n \<noteq> None"
        "ds = concat (List.map (\<lambda>n. the (DeviceMapping n)) (rs_ProductCardNames r))"
      by (simp_all add: collectDevices_Inr_iff)
    show ?thesis
      using Cons ds Inr by (cases "configResources drv rs") (fastforce simp: ds(2))+
  qed
qed auto

lemma configResources_fields:
  fixes rs :: "RBLNDevicePluginResourceSpec list" and P :: "RBLNDevicePluginResourceSpec list \<Rightarrow> bool"
  shows "P rs \<and> crs = List.map (\<lambda>r. \<lparr>cr_ResourceName = rs_ResourceName r, cr_ResourcePrefix = rs_ResourcePrefix r,
       cr_DeviceType = t, cr_Selectors = f r\<rparr>) rs \<longleftrightarrow>
     P rs \<and> List.map cr_ResourceName crs = List.map rs_ResourceName rs \<and>
     List.map cr_ResourcePrefix crs = List.map rs_ResourcePrefix rs \<and>
     List.map cr_Selectors crs = List.map f rs \<and> (\<forall>cr\<in>set crs. cr_DeviceType cr = t)"
proof -
  have "crs = List.map (\<lambda>r. \<lparr>cr_ResourceName = rs_ResourceName r, cr_ResourcePrefix = rs_ResourcePrefix r,
       cr_DeviceType = t, cr_Selectors = f r\<rparr>) rs \<longleftrightarrow>
     List.map cr_ResourceName crs = List.map rs_ResourceName rs \<and>
     List.map cr_ResourcePrefix crs = List.map rs_ResourcePrefix rs \<and>
     List.map cr_Selectors crs = List.map f rs \<and> (\<forall>cr\<in>set crs. cr_DeviceType cr = t)"
  proof (induction rs arbitrary: crs)
    case (Cons r rs)
    then show ?case by (cases crs) (auto simp: configResource.equality)
  qed auto
  then show ?thesis by simp
qed

text \<open>The merge prefers the component's own entry.\<close>

lemma syncSpec_lookup:
  "fmlookup (common ++\<^sub>f own) k = (case fmlookup own k of Some v \<Rightarrow> Some v | None \<Rightarrow> fmlookup common k)"
  for common own :: strmap
  by (auto simp: fmdom_notI fmdomI split: option.splits)

lemma syncSpec_enabled:
  assumes "IsEnabled s" and "cp_Daemonsets spec = Some ds"
  shows "syncSpec spec zero s = s\<lparr>
     cs_PodSpec := (cs_PodSpec s)\<lparr>
       cps_Labels := dss_Labels ds ++\<^sub>f cps_Labels (cs_PodSpec s),
       cps_Annotations := dss_Annotations ds ++\<^sub>f cps_Annotations (cs_PodSpec s),
       cps_Affinity := (case cps_Affinity (cs_PodSpec s) of Some a \<Rightarrow> Some a | None \<Rightarrow> dss_Affinity ds),
       cps_Tolerations := (if cps_Tolerations (cs_PodSpec s) \<noteq> [] then cps_Tolerations (cs_PodSpec s) else dss_Tolerations ds)\<rparr>,
     cs_PriorityClassName := (if cs_PriorityClassName s \<noteq> [] then cs_PriorityClassName s else dss_PriorityClassName ds)\<rparr>"
  using assms by (cases "cps_Affinity (cs_PodSpec s)") (simp_all add: syncSpec_def Let_def)

section \<open>Properties\<close>

text \<open>
  The resources of a device plugin's configuration exist exactly when every product card name is
  known, and then list, resource by resource, the device ids of its cards.
\<close>

theorem configResources_correct:
  "configResources drv rs = Inr crs \<longleftrightarrow>
     list_all (\<lambda>r. list_all (\<lambda>n. DeviceMapping n \<noteq> None) (rs_ProductCardNames r)) rs \<and>
     List.map cr_ResourceName crs = List.map rs_ResourceName rs \<and>
     List.map cr_ResourcePrefix crs = List.map rs_ResourcePrefix rs \<and>
     List.map cr_Selectors crs =
       List.map (\<lambda>r. \<lparr>sel_Vendors = [''1eff''],
         sel_Devices = concat (List.map (\<lambda>n. the (DeviceMapping n)) (rs_ProductCardNames r)),
         sel_Drivers = [drv]\<rparr>) rs \<and>
     list_all (\<lambda>cr. cr_DeviceType cr = ''accelerator'') crs"
  unfolding configResources_Inr_iff list_all_iff
  by (rule configResources_fields)

text \<open>
  For an enabled component \<open>syncSpec\<close> keeps every setting the component makes itself, fills the
  ones it leaves unset from the common DaemonSet settings, and never changes the image or whether the
  component is enabled.
\<close>

theorem syncSpec_correct:
  assumes "IsEnabled s" and "cp_Daemonsets spec = Some ds"
  shows "IsEnabled (syncSpec spec zero s) \<and> cs_Registry (syncSpec spec zero s) = cs_Registry s \<and>
    cs_Image (syncSpec spec zero s) = cs_Image s \<and> cs_Version (syncSpec spec zero s) = cs_Version s \<and>
    fmlookup (cps_Labels (cs_PodSpec (syncSpec spec zero s))) k =
      (case fmlookup (cps_Labels (cs_PodSpec s)) k of Some v \<Rightarrow> Some v | None \<Rightarrow> fmlookup (dss_Labels ds) k) \<and>
    fmlookup (cps_Annotations (cs_PodSpec (syncSpec spec zero s))) k =
      (case fmlookup (cps_Annotations (cs_PodSpec s)) k of Some v \<Rightarrow> Some v | None \<Rightarrow> fmlookup (dss_Annotations ds) k) \<and>
    cps_Affinity (cs_PodSpec (syncSpec spec zero s)) =
      (case cps_Affinity (cs_PodSpec s) of Some a \<Rightarrow> Some a | None \<Rightarrow> dss_Affinity ds) \<and>
    cps_Tolerations (cs_PodSpec (syncSpec spec zero s)) =
      (if cps_Tolerations (cs_PodSpec s) \<noteq> [] then cps_Tolerations (cs_PodSpec s) else dss_Tolerations ds) \<and>
    cs_PriorityClassName (syncSpec spec zero s) =
      (if cs_PriorityClassName s \<noteq> [] then cs_PriorityClassName s else dss_PriorityClassName ds)"
  unfolding syncSpec_enabled [OF assms]
  using assms(1) by (simp add: IsEnabled_def syncSpec_lookup del: fmlookup_add)

theorem syncSpec_correct_witness:
  "cs_PriorityClassName (syncSpec (zero_ClusterPolicySpec\<lparr>cp_Daemonsets := Some \<lparr>dss_Labels = fmempty,
       dss_Annotations = fmempty, dss_Affinity = None, dss_Tolerations = [], dss_PriorityClassName = ''high''\<rparr>\<rparr>)
     zero_ComponentSpec (zero_ComponentSpec\<lparr>cs_Enabled := True\<rparr>)) = ''high''"
  using syncSpec_correct [of "zero_ComponentSpec\<lparr>cs_Enabled := True\<rparr>"
      "zero_ClusterPolicySpec\<lparr>cp_Daemonsets := Some \<lparr>dss_Labels = fmempty,
       dss_Annotations = fmempty, dss_Affinity = None, dss_Tolerations = [], dss_PriorityClassName = ''high''\<rparr>\<rparr>"
      _ zero_ComponentSpec "[]"]
  by (simp add: IsEnabled_def zero_ComponentSpec_def)

end
