(* ===== verification/Patcher.thy ===== *)
theory Patcher
  imports Patch_Util
begin

text \<open>
  The objects that the policy's patchers deploy, as the functions they pass to \<open>CreateOrPatch\<close>, and
  the contract of a patcher: which objects \<open>Patch\<close> and \<open>CleanUp\<close> address, what they leave in the
  store, and that both converge.
\<close>

section \<open>Mutate functions\<close>

definition ownedServiceAccount :: "RBLNClusterPolicy \<Rightarrow> ServiceAccount \<Rightarrow> ServiceAccount outcome" where
  "ownedServiceAccount owner sa = ownedBy serviceAccount_kind (policy_owner owner) sa"

definition ownedRole :: "PolicyRule list \<Rightarrow> RBLNClusterPolicy \<Rightarrow> Role \<Rightarrow> Role outcome" where
  "ownedRole rules owner r = ownedBy role_kind (policy_owner owner) (build r [WithRules rules])"

definition ownedRoleBinding ::
  "RoleRef \<Rightarrow> Subject list \<Rightarrow> RBLNClusterPolicy \<Rightarrow> RoleBinding \<Rightarrow> RoleBinding outcome" where
  "ownedRoleBinding ref subjects owner b =
     ownedBy roleBinding_kind (policy_owner owner) (build b [WithRoleRef ref, WithSubjects subjects])"

definition ownedConfigMap :: "strmap \<Rightarrow> RBLNClusterPolicy \<Rightarrow> ConfigMap \<Rightarrow> ConfigMap outcome" where
  "ownedConfigMap data owner m = ownedBy configMap_kind (policy_owner owner) (build m [WithData data])"

definition ownedDaemonSet ::
  "strmap \<Rightarrow> strmap \<Rightarrow> strmap \<Rightarrow> PodSpec \<Rightarrow> RBLNClusterPolicy \<Rightarrow> DaemonSet \<Rightarrow> DaemonSet outcome" where
  "ownedDaemonSet selectors labels annotations podSpec owner ds =
     ownedBy daemonSet_kind (policy_owner owner)
       (build ds [WithLabelSelectors selectors, WithLabels labels, WithAnnotations annotations,
          WithPodSpec podSpec])"

interpretation ownedSA: mutator serviceAccount_kind "ownedServiceAccount owner" for owner
proof -
  have "mutator serviceAccount_kind (\<lambda>x. ownedBy serviceAccount_kind (policy_owner owner) ((\<lambda>y. y) x))"
    by (rule serviceAccount.mutator_ownedBy) simp_all
  then show "mutator serviceAccount_kind (ownedServiceAccount owner)"
    by (simp add: ownedServiceAccount_def [abs_def])
qed

interpretation ownedRO: mutator role_kind "ownedRole rules owner" for rules owner
  unfolding ownedRole_def [abs_def]
  by (rule role.mutator_ownedBy) (auto simp: kind_defs key_of_def object_steps)

interpretation ownedRB: mutator roleBinding_kind "ownedRoleBinding ref subjects owner" for ref subjects owner
  unfolding ownedRoleBinding_def [abs_def]
  by (rule roleBinding.mutator_ownedBy) (auto simp: kind_defs key_of_def object_steps)

interpretation ownedCM: mutator configMap_kind "ownedConfigMap data owner" for data owner
  unfolding ownedConfigMap_def [abs_def]
  by (rule configMap.mutator_ownedBy) (auto simp: kind_defs key_of_def object_steps)

interpretation ownedDS: mutator daemonSet_kind "ownedDaemonSet selectors labels annotations podSpec owner"
  for selectors labels annotations podSpec owner
  unfolding ownedDaemonSet_def [abs_def]
  by (rule daemonSet.mutator_ownedBy)
     (auto simp: kind_defs key_of_def key_of_meta_def daemonSet_steps agreeMeta_def)

text \<open>
  Objects without an owner: the cluster-scoped ones of the validator, and those that all drivers
  share.
\<close>

definition setClusterRole :: "PolicyRule list \<Rightarrow> Role \<Rightarrow> Role outcome" where
  "setClusterRole rules r = Ok (build r [WithRules rules])"

definition setClusterRoleBinding :: "RoleRef \<Rightarrow> Subject list \<Rightarrow> RoleBinding \<Rightarrow> RoleBinding outcome" where
  "setClusterRoleBinding ref subjects b = Ok (build b [WithRoleRef ref, WithSubjects subjects])"

definition sharedServiceAccount :: "ServiceAccount \<Rightarrow> ServiceAccount outcome" where
  "sharedServiceAccount sa = Ok (build sa [])"

definition sharedRole :: "PolicyRule list \<Rightarrow> Role \<Rightarrow> Role outcome" where
  "sharedRole rules r = Ok (build r [WithRules rules])"

definition sharedRoleBinding :: "RoleRef \<Rightarrow> Subject list \<Rightarrow> RoleBinding \<Rightarrow> RoleBinding outcome" where
  "sharedRoleBinding ref subjects b = Ok (build b [WithRoleRef ref, WithSubjects subjects])"

definition sharedConfigMap :: "strmap \<Rightarrow> ConfigMap \<Rightarrow> ConfigMap outcome" where
  "sharedConfigMap data m = Ok (build m [WithData data])"

interpretation setCR: mutator clusterRole_kind "setClusterRole rules" for rules
  unfolding setClusterRole_def [abs_def]
  by (rule clusterRole.mutator_plain) (auto simp: kind_defs key_of_def object_steps)

interpretation setCRB: mutator clusterRoleBinding_kind "setClusterRoleBinding ref subjects" for ref subjects
  unfolding setClusterRoleBinding_def [abs_def]
  by (rule clusterRoleBinding.mutator_plain) (auto simp: kind_defs key_of_def object_steps)

interpretation sharedSA: mutator serviceAccount_kind sharedServiceAccount
  unfolding sharedServiceAccount_def [abs_def]
  by (rule serviceAccount.mutator_plain) simp_all

interpretation sharedRO: mutator role_kind "sharedRole rules" for rules
  unfolding sharedRole_def [abs_def]
  by (rule role.mutator_plain) (auto simp: kind_defs key_of_def object_steps)

interpretation sharedRB: mutator roleBinding_kind "sharedRoleBinding ref subjects" for ref subjects
  unfolding sharedRoleBinding_def [abs_def]
  by (rule roleBinding.mutator_plain) (auto simp: kind_defs key_of_def object_steps)

interpretation sharedCM: mutator configMap_kind "sharedConfigMap data" for data
  unfolding sharedConfigMap_def [abs_def]
  by (rule configMap.mutator_plain) (auto simp: kind_defs key_of_def object_steps)

section \<open>Presence and absence\<close>

text \<open>\<open>establishes view K Q m\<close>: \<open>m\<close> changes \<open>K\<close> only, and when it succeeds \<open>Q\<close> holds of every entry of \<open>K\<close>.\<close>

definition establishes ::
  "('w \<Rightarrow> store) \<Rightarrow> (kind \<times> ObjectKey) set \<Rightarrow> (object option \<Rightarrow> bool) \<Rightarrow> ('w, 'a) op \<Rightarrow> bool" where
  "establishes view K Q m \<longleftrightarrow> frame view K m \<and>
     (\<forall>w k. is_ok (fst (m w)) \<longrightarrow> k \<in> K \<longrightarrow> Q (view (snd (m w)) k))"

lemma establishesD: "establishes view K Q m \<Longrightarrow> is_ok (fst (m w)) \<Longrightarrow> k \<in> K \<Longrightarrow> Q (view (snd (m w)) k)"
  unfolding establishes_def by blast

lemma establishes_ret: "establishes view {} Q (ret x)"
  by (simp add: establishes_def frame_def ret_def)

lemma establishes_bind:
  assumes m: "establishes view K Q m" and f: "establishes view K' Q f" and disj: "K \<inter> K' = {}"
  shows "establishes view (K \<union> K') Q (bind m (\<lambda>_. f))"
proof -
  have "frame view (K \<union> K') (bind m (\<lambda>_. f))"
    using m f by (intro frame_bind) (auto simp: establishes_def)
  moreover have "Q (view (snd (bind m (\<lambda>_. f) w)) k)"
    if ok: "is_ok (fst (bind m (\<lambda>_. f) w))" and k: "k \<in> K \<union> K'" for w k
  proof -
    from ok obtain x w' where mw: "m w = (Ok x, w')" and fw: "is_ok (fst (f w'))"
      by (auto simp: bind_def split: prod.splits outcome.splits)
    show ?thesis
    proof (cases "k \<in> K'")
      case True
      then show ?thesis using establishesD [OF f fw] mw by (simp add: bind_Ok)
    next
      case False
      then have "view (snd (f w')) k = view w' k"
        using f unfolding establishes_def frame_def by blast
      moreover have "Q (view w' k)" using establishesD [OF m, of w k] mw k False by simp
      ultimately show ?thesis using mw by (simp add: bind_Ok)
    qed
  qed
  ultimately show ?thesis unfolding establishes_def by blast
qed

lemma establishes_delete:
  assumes "store_law view kd mk api"
  shows "establishes view {(k_kind kd, \<lparr>ok_Namespace = ns, ok_Name = n\<rparr>)} (\<lambda>x. x = None) (deleteIfPresent api n ns)"
  using deleteIfPresent_view [OF assms, of n ns] by (auto simp: establishes_def frame_def)

context mutator
begin

lemma establishes_reconcile:
  assumes "store_law view kd mk api"
  shows "establishes view {(k_kind kd, key_of kd obj)} (\<lambda>x. x \<noteq> None) (reconcile kd api obj f)"
  unfolding establishes_def
proof (intro conjI allI impI)
  show "frame view {(k_kind kd, key_of kd obj)} (reconcile kd api obj f)"
    unfolding frame_def
  proof (intro allI impI)
    fix w k assume "k \<notin> {(k_kind kd, key_of kd obj)}"
    then show "view (snd (reconcile kd api obj f w)) k = view w k"
      by (cases rule: reconcile_cases [OF assms, of obj w]) auto
  qed
next
  fix w k assume "is_ok (fst (reconcile kd api obj f w))" and "k \<in> {(k_kind kd, key_of kd obj)}"
  then show "view (snd (reconcile kd api obj f w)) k \<noteq> None"
    using reconcile_stores [OF assms, of obj w] by auto
qed

end

section \<open>Managed objects\<close>

text \<open>
  \<open>manages view c V Q K m mr\<close>, for an operation \<open>m\<close> over the client \<open>c\<close> and the same operation \<open>mr\<close>
  over \<open>recording c\<close>: it sends requests of the verbs \<open>V\<close> to the objects \<open>K\<close>, to each of them when it
  succeeds; and if \<open>c\<close>'s server keeps the store laws, success establishes \<open>Q\<close> on \<open>K\<close>, nothing else
  changes, and a second run changes nothing.
\<close>

definition manages ::
  "('w \<Rightarrow> store) \<Rightarrow> 'w client \<Rightarrow> verb set \<Rightarrow> (object option \<Rightarrow> bool) \<Rightarrow> (kind \<times> ObjectKey) set \<Rightarrow>
   ('w, 'a) op \<Rightarrow> ('w \<times> request list, 'a) op \<Rightarrow> bool" where
  "manages view c V Q K m mr \<longleftrightarrow> footprint V K mr \<and>
     (lawful_client view c \<longrightarrow> converges view K m \<and> establishes view K Q m)"

abbreviation applyVerbs :: "verb set" where
  "applyVerbs \<equiv> {GetVerb, CreateVerb, PatchVerb}"

definition objectOf :: "'o object_kind \<Rightarrow> string \<Rightarrow> string \<Rightarrow> kind \<times> ObjectKey" where
  "objectOf kd n ns = (k_kind kd, \<lparr>ok_Namespace = ns, ok_Name = n\<rparr>)"

named_theorems manages_intros "composition of managed operations"

lemma manages_seqE_Nil [manages_intros]: "manages view c V Q {} (seqE []) (seqE [])"
  by (simp add: manages_def footprint_ret converges_ret establishes_ret)

lemma manages_seqE_Cons [manages_intros]:
  assumes "manages view c V Q K m mr" and "manages view c V Q K' (seqE ms) (seqE mrs)"
    and "K \<inter> K' = {}"
  shows "manages view c V Q (K \<union> K') (seqE (m # ms)) (seqE (mr # mrs))"
  using assms by (simp add: manages_def footprint_bind converges_bind establishes_bind)

lemma manages_whenE [manages_intros]:
  assumes "manages view c V Q K (seqE ms) (seqE mrs)"
  shows "manages view c V Q (if b then K else {}) (whenE b ms) (whenE b mrs)"
  using assms by (simp add: manages_def whenE_def footprint_ret converges_ret establishes_ret)

lemma manages_delete:
  assumes "lawful_client view c \<Longrightarrow> store_law view kd mk api"
  shows "manages view c {DeleteVerb} (\<lambda>x. x = None) {objectOf kd n ns}
     (deleteIfPresent api n ns) (deleteIfPresent (recording_api kd api) n ns)"
  using assms footprint_deleteIfPresent converges_deleteIfPresent establishes_delete
  unfolding manages_def objectOf_def by blast

lemma manages_deletes [manages_intros]:
  "manages view c {DeleteVerb} (\<lambda>x. x = None) {objectOf serviceAccount_kind n ns}
     (deleteIfPresent (serviceAccounts c) n ns) (deleteIfPresent (serviceAccounts (recording c)) n ns)"
  "manages view c {DeleteVerb} (\<lambda>x. x = None) {objectOf role_kind n ns}
     (deleteIfPresent (roles c) n ns) (deleteIfPresent (roles (recording c)) n ns)"
  "manages view c {DeleteVerb} (\<lambda>x. x = None) {objectOf roleBinding_kind n ns}
     (deleteIfPresent (roleBindings c) n ns) (deleteIfPresent (roleBindings (recording c)) n ns)"
  "manages view c {DeleteVerb} (\<lambda>x. x = None) {objectOf clusterRole_kind n ns}
     (deleteIfPresent (clusterRoles c) n ns) (deleteIfPresent (clusterRoles (recording c)) n ns)"
  "manages view c {DeleteVerb} (\<lambda>x. x = None) {objectOf clusterRoleBinding_kind n ns}
     (deleteIfPresent (clusterRoleBindings c) n ns) (deleteIfPresent (clusterRoleBindings (recording c)) n ns)"
  "manages view c {DeleteVerb} (\<lambda>x. x = None) {objectOf configMap_kind n ns}
     (deleteIfPresent (configMaps c) n ns) (deleteIfPresent (configMaps (recording c)) n ns)"
  "manages view c {DeleteVerb} (\<lambda>x. x = None) {objectOf service_kind n ns}
     (deleteIfPresent (services c) n ns) (deleteIfPresent (services (recording c)) n ns)"
  "manages view c {DeleteVerb} (\<lambda>x. x = None) {objectOf daemonSet_kind n ns}
     (deleteIfPresent (daemonSets c) n ns) (deleteIfPresent (daemonSets (recording c)) n ns)"
  unfolding recording_simps by (rule manages_delete, erule lawful_clientD)+

context mutator
begin

lemma manages_reconcile:
  assumes "lawful_client view c \<Longrightarrow> store_law view kd mk api" and "\<And>x y. mk x = mk y \<Longrightarrow> x = y"
    and "key_of kd obj = \<lparr>ok_Namespace = ns, ok_Name = n\<rparr>"
  shows "manages view c applyVerbs (\<lambda>x. x \<noteq> None) {objectOf kd n ns}
     (reconcile kd api obj f) (reconcile kd (recording_api kd api) obj f)"
  using assms footprint_reconcile [of obj api] converges_reconcile [of view mk api obj]
    establishes_reconcile [of view mk api obj]
  unfolding manages_def objectOf_def by simp

end

lemma builder_keys [simp]:
  "key_of serviceAccount_kind (NewServiceAccountBuilder n ns) = \<lparr>ok_Namespace = ns, ok_Name = n\<rparr>"
  "key_of role_kind (NewRoleBuilder n ns) = \<lparr>ok_Namespace = ns, ok_Name = n\<rparr>"
  "key_of roleBinding_kind (NewRoleBindingBuilder n ns) = \<lparr>ok_Namespace = ns, ok_Name = n\<rparr>"
  "key_of clusterRole_kind (NewRoleBuilder n ns) = \<lparr>ok_Namespace = ns, ok_Name = n\<rparr>"
  "key_of clusterRoleBinding_kind (NewRoleBindingBuilder n ns) = \<lparr>ok_Namespace = ns, ok_Name = n\<rparr>"
  "key_of configMap_kind (NewConfigMapBuilder n ns) = \<lparr>ok_Namespace = ns, ok_Name = n\<rparr>"
  "key_of service_kind (NewServiceBuilder n ns) = \<lparr>ok_Namespace = ns, ok_Name = n\<rparr>"
  "key_of daemonSet_kind (NewDaemonSetBuilder n ns) = \<lparr>ok_Namespace = ns, ok_Name = n\<rparr>"
  by (simp_all add: key_of_def key_of_meta_def kind_defs new_meta_def NewServiceAccountBuilder_def
      NewRoleBuilder_def NewRoleBindingBuilder_def NewConfigMapBuilder_def NewServiceBuilder_def
      NewDaemonSetBuilder_def)

lemma manages_applies [manages_intros]:
  "manages view c applyVerbs (\<lambda>x. x \<noteq> None) {objectOf serviceAccount_kind n ns}
     (reconcile serviceAccount_kind (serviceAccounts c) (NewServiceAccountBuilder n ns) (ownedServiceAccount owner))
     (reconcile serviceAccount_kind (serviceAccounts (recording c)) (NewServiceAccountBuilder n ns) (ownedServiceAccount owner))"
  "manages view c applyVerbs (\<lambda>x. x \<noteq> None) {objectOf role_kind n ns}
     (reconcile role_kind (roles c) (NewRoleBuilder n ns) (ownedRole rules owner))
     (reconcile role_kind (roles (recording c)) (NewRoleBuilder n ns) (ownedRole rules owner))"
  "manages view c applyVerbs (\<lambda>x. x \<noteq> None) {objectOf roleBinding_kind n ns}
     (reconcile roleBinding_kind (roleBindings c) (NewRoleBindingBuilder n ns) (ownedRoleBinding ref subj owner))
     (reconcile roleBinding_kind (roleBindings (recording c)) (NewRoleBindingBuilder n ns) (ownedRoleBinding ref subj owner))"
  "manages view c applyVerbs (\<lambda>x. x \<noteq> None) {objectOf configMap_kind n ns}
     (reconcile configMap_kind (configMaps c) (NewConfigMapBuilder n ns) (ownedConfigMap data owner))
     (reconcile configMap_kind (configMaps (recording c)) (NewConfigMapBuilder n ns) (ownedConfigMap data owner))"
  "manages view c applyVerbs (\<lambda>x. x \<noteq> None) {objectOf daemonSet_kind n ns}
     (reconcile daemonSet_kind (daemonSets c) (NewDaemonSetBuilder n ns) (ownedDaemonSet sel lb an ps owner))
     (reconcile daemonSet_kind (daemonSets (recording c)) (NewDaemonSetBuilder n ns) (ownedDaemonSet sel lb an ps owner))"
  unfolding recording_simps
  by (rule ownedSA.manages_reconcile ownedRO.manages_reconcile ownedRB.manages_reconcile
        ownedCM.manages_reconcile ownedDS.manages_reconcile, erule lawful_clientD; simp)+

lemma manages_shared [manages_intros]:
  "manages view c applyVerbs (\<lambda>x. x \<noteq> None) {objectOf clusterRole_kind n ns}
     (reconcile clusterRole_kind (clusterRoles c) (NewRoleBuilder n ns) (setClusterRole rules))
     (reconcile clusterRole_kind (clusterRoles (recording c)) (NewRoleBuilder n ns) (setClusterRole rules))"
  "manages view c applyVerbs (\<lambda>x. x \<noteq> None) {objectOf clusterRoleBinding_kind n ns}
     (reconcile clusterRoleBinding_kind (clusterRoleBindings c) (NewRoleBindingBuilder n ns) (setClusterRoleBinding ref subj))
     (reconcile clusterRoleBinding_kind (clusterRoleBindings (recording c)) (NewRoleBindingBuilder n ns) (setClusterRoleBinding ref subj))"
  "manages view c applyVerbs (\<lambda>x. x \<noteq> None) {objectOf serviceAccount_kind n ns}
     (reconcile serviceAccount_kind (serviceAccounts c) (NewServiceAccountBuilder n ns) sharedServiceAccount)
     (reconcile serviceAccount_kind (serviceAccounts (recording c)) (NewServiceAccountBuilder n ns) sharedServiceAccount)"
  "manages view c applyVerbs (\<lambda>x. x \<noteq> None) {objectOf role_kind n ns}
     (reconcile role_kind (roles c) (NewRoleBuilder n ns) (sharedRole rules))
     (reconcile role_kind (roles (recording c)) (NewRoleBuilder n ns) (sharedRole rules))"
  "manages view c applyVerbs (\<lambda>x. x \<noteq> None) {objectOf roleBinding_kind n ns}
     (reconcile roleBinding_kind (roleBindings c) (NewRoleBindingBuilder n ns) (sharedRoleBinding ref subj))
     (reconcile roleBinding_kind (roleBindings (recording c)) (NewRoleBindingBuilder n ns) (sharedRoleBinding ref subj))"
  "manages view c applyVerbs (\<lambda>x. x \<noteq> None) {objectOf configMap_kind n ns}
     (reconcile configMap_kind (configMaps c) (NewConfigMapBuilder n ns) (sharedConfigMap data))
     (reconcile configMap_kind (configMaps (recording c)) (NewConfigMapBuilder n ns) (sharedConfigMap data))"
  unfolding recording_simps
  by (rule setCR.manages_reconcile setCRB.manages_reconcile sharedSA.manages_reconcile
        sharedRO.manages_reconcile sharedRB.manages_reconcile sharedCM.manages_reconcile,
      erule lawful_clientD; simp)+

text \<open>An operation that fails before any request.\<close>

lemma manages_fail: "manages view c V Q K (fail e) (fail e)"
  by (simp add: manages_def footprint_def emits_def converges_def establishes_def frame_def fail_def)

lemma k_kind_simps [simp]:
  "k_kind serviceAccount_kind = ServiceAccountKind" "k_kind role_kind = RoleKind"
  "k_kind roleBinding_kind = RoleBindingKind" "k_kind clusterRole_kind = ClusterRoleKind"
  "k_kind clusterRoleBinding_kind = ClusterRoleBindingKind" "k_kind configMap_kind = ConfigMapKind"
  "k_kind service_kind = ServiceKind" "k_kind daemonSet_kind = DaemonSetKind"
  by (simp_all add: kind_defs)

lemma objectOf_eq_iff [simp]:
  "objectOf kd n ns = objectOf kd' n' ns' \<longleftrightarrow> k_kind kd = k_kind kd' \<and> n = n' \<and> ns = ns'"
  by (auto simp: objectOf_def)

lemma manages_eq: "manages view c V Q K' m mr \<Longrightarrow> K' = K \<Longrightarrow> manages view c V Q K m mr"
  by simp

text \<open>The objects of a component whose RBAC objects exist on OpenShift only.\<close>

definition rbacObjects :: "string \<Rightarrow> string \<Rightarrow> (kind \<times> ObjectKey) set" where
  "rbacObjects n ns = {objectOf role_kind n ns, objectOf roleBinding_kind n ns}"

section \<open>The contract\<close>

text \<open>
  \<open>p\<close> is a patcher over a client \<open>c\<close>, \<open>pr\<close> the same patcher over the recording client; \<open>K\<close> are the
  objects it manages.  \<open>Patch\<close> deploys exactly the objects that \<open>CleanUp\<close> removes.
\<close>

locale patcher_contract =
  fixes view :: "'w \<Rightarrow> store" and c :: "'w client" and p :: "'w Patcher"
    and pr :: "('w \<times> request list) Patcher" and K :: "(kind \<times> ObjectKey) set"
  assumes enabled_eq: "pt_IsEnabled pr = pt_IsEnabled p"
    and Patch_manages: "pt_IsEnabled p \<Longrightarrow>
      manages view c applyVerbs (\<lambda>x. x \<noteq> None) K (pt_Patch p owner) (pt_Patch pr owner)"
    and CleanUp_manages: "manages view c {DeleteVerb} (\<lambda>x. x = None) K (pt_CleanUp p owner) (pt_CleanUp pr owner)"

end
