(* ===== verification/Feature_Discovery.thy ===== *)
theory Feature_Discovery
  imports Patcher
begin

text \<open>
  \<open>npu_feature_discovery.go\<close>: the patcher of the NPU feature discovery, with its service account,
  OpenShift role and binding, and DaemonSet.
\<close>

definition NewNPUFeatureDiscoveryPatcher ::
  "string \<Rightarrow> RBLNClusterPolicySpec \<Rightarrow> string \<Rightarrow> RBLNNPUFeatureDiscoverySpec patcher" where
  "NewNPUFeatureDiscoveryPatcher ns cpSpec osVersion =
     \<lparr>desiredSpec = Some (syncSpec cpSpec zero_ComponentSpec (cp_NPUFeatureDiscovery cpSpec)),
      name = cp_BaseName cpSpec @ ''-'' @ ''npu-feature-discovery'',
      namespace = ns, openshiftVersion = osVersion\<rparr>"

text \<open>The init container that waits for the container toolkit, shared by several components.\<close>

definition toolkitValidation :: "ValidatorSpec \<Rightarrow> Container" where
  "toolkitValidation validatorSpec = build empty_container [
     WithName ''toolkit-validation'',
     WithImage (ComposeImageReference (vs_Registry validatorSpec) (vs_Image validatorSpec))
       (vs_Version validatorSpec) (vs_ImagePullPolicy validatorSpec),
     WithCommands [''sh'', ''-c''],
     WithArgs [''until [ -f '' @ validationsMountPath
       @ ''/toolkit-ready ]; do echo waiting for rbln container stack to be setup; sleep 5; done''],
     WithSecurityContext privileged,
     WithVolumeMounts [(mkMount validationsVolumeName validationsMountPath False)
       \<lparr>vm_MountPropagation := HostToContainer\<rparr>]]"

definition validationsVolume :: Volume where
  "validationsVolume = hostPathVolume validationsVolumeName validationsMountPath DirectoryOrCreate"

definition nfd_container :: "RBLNNPUFeatureDiscoverySpec patcher \<Rightarrow> RBLNNPUFeatureDiscoverySpec \<Rightarrow> Container" where
  "nfd_container h s = build empty_container [
     WithName (name h),
     WithImage (ComposeImageReference (cs_Registry s) (cs_Image s)) (cs_Version s)
       (cps_ImagePullPolicy (cs_PodSpec s)),
     WithEnvs [envField ''NODE_IP'' ''v1'' ''status.hostIP''],
     WithResources (cps_Resources (cs_PodSpec s)) ''250m'' ''40Mi'',
     WithArgs [''--rbln-daemon-url'', ''http://$(NODE_IP):50051''],
     WithVolumeMounts [mkMount ''features-dir'' ''/etc/kubernetes/node-feature-discovery/features.d'' False],
     WithSecurityContext (privileged\<lparr>sc_RunAsUser := Some 0\<rparr>)]"

definition nfd_podSpec ::
  "RBLNNPUFeatureDiscoverySpec patcher \<Rightarrow> RBLNNPUFeatureDiscoverySpec \<Rightarrow> RBLNClusterPolicy \<Rightarrow> PodSpec" where
  "nfd_podSpec h s owner = build empty_podSpec [
     WithServiceAccountName (name h),
     WithNodeSelector (map_lit [(''rebellions.ai/npu.deploy.npu-feature-discovery'', ''true'')]),
     WithAffinity (cps_Affinity (cs_PodSpec s)),
     WithTolerations (cps_Tolerations (cs_PodSpec s)),
     WithImagePullSecrets (cps_ImagePullSecrets (cs_PodSpec s)),
     WithVolumes [
       validationsVolume,
       hostPathVolume ''features-dir'' ''/etc/kubernetes/node-feature-discovery/features.d'' None],
     WithInitContainers [toolkitValidation (cp_Validator (cp_Spec owner))],
     WithTerminationGracePeriodSeconds 0,
     WithContainers [nfd_container h s]]"

definition nfd_handleServiceAccount ::
  "'w client \<Rightarrow> RBLNNPUFeatureDiscoverySpec patcher \<Rightarrow> RBLNClusterPolicy \<Rightarrow> ('w, unit) op" where
  "nfd_handleServiceAccount c h owner =
     reconcile serviceAccount_kind (serviceAccounts c) (NewServiceAccountBuilder (name h) (namespace h))
       (ownedServiceAccount owner)"

definition nfd_handleRole ::
  "'w client \<Rightarrow> RBLNNPUFeatureDiscoverySpec patcher \<Rightarrow> RBLNClusterPolicy \<Rightarrow> ('w, unit) op" where
  "nfd_handleRole c h owner =
     reconcile role_kind (roles c) (NewRoleBuilder (name h) (namespace h))
       (ownedRole [privilegedSCCRule] owner)"

definition nfd_handleRoleBinding ::
  "'w client \<Rightarrow> RBLNNPUFeatureDiscoverySpec patcher \<Rightarrow> RBLNClusterPolicy \<Rightarrow> ('w, unit) op" where
  "nfd_handleRoleBinding c h owner =
     reconcile roleBinding_kind (roleBindings c) (NewRoleBindingBuilder (name h) (namespace h))
       (ownedRoleBinding (ownRoleRef (name h)) [ownSubject (name h) (namespace h)] owner)"

definition nfd_handleDaemonSet ::
  "'w client \<Rightarrow> RBLNNPUFeatureDiscoverySpec patcher \<Rightarrow> RBLNNPUFeatureDiscoverySpec \<Rightarrow>
   RBLNClusterPolicy \<Rightarrow> ('w, unit) op" where
  "nfd_handleDaemonSet c h s owner =
     reconcile daemonSet_kind (daemonSets c) (NewDaemonSetBuilder (name h) (namespace h))
       (ownedDaemonSet (map_lit [(''app'', name h)]) (cps_Labels (cs_PodSpec s))
          (cps_Annotations (cs_PodSpec s)) (nfd_podSpec h s owner) owner)"

definition nfd_Patch ::
  "'w client \<Rightarrow> RBLNNPUFeatureDiscoverySpec patcher \<Rightarrow> RBLNClusterPolicy \<Rightarrow> ('w, unit) op" where
  "nfd_Patch c h owner = withSpec h (\<lambda>s.
     if \<not> IsEnabled s then ret ()
     else seqE [
       nfd_handleServiceAccount c h owner,
       whenE (openshiftVersion h \<noteq> []) [nfd_handleRole c h owner, nfd_handleRoleBinding c h owner],
       nfd_handleDaemonSet c h s owner])"

definition nfd_CleanUp ::
  "'w client \<Rightarrow> RBLNNPUFeatureDiscoverySpec patcher \<Rightarrow> RBLNClusterPolicy \<Rightarrow> ('w, unit) op" where
  "nfd_CleanUp c h owner = seqE [
     deleteIfPresent (daemonSets c) (name h) (namespace h),
     whenE (openshiftVersion h \<noteq> []) [
       deleteIfPresent (roleBindings c) (name h) (namespace h),
       deleteIfPresent (roles c) (name h) (namespace h)],
     deleteIfPresent (serviceAccounts c) (name h) (namespace h)]"

definition nfd_ConditionReport ::
  "'w client \<Rightarrow> RBLNNPUFeatureDiscoverySpec patcher \<Rightarrow> RBLNClusterPolicy \<Rightarrow> ('w, Condition list) op" where
  "nfd_ConditionReport c h owner = daemonSetConditionReport c (name h) (namespace h)"

definition nfd_Patcher :: "'w client \<Rightarrow> RBLNNPUFeatureDiscoverySpec patcher \<Rightarrow> 'w Patcher" where
  "nfd_Patcher c h = \<lparr>pt_IsEnabled = patcher_IsEnabled h, pt_Patch = nfd_Patch c h,
     pt_CleanUp = nfd_CleanUp c h, pt_ConditionReport = nfd_ConditionReport c h,
     pt_ComponentName = name h, pt_ComponentNamespace = namespace h\<rparr>"

section \<open>Contract\<close>

definition nfd_objects :: "('s, 'm) patcher_scheme \<Rightarrow> (kind \<times> ObjectKey) set" where
  "nfd_objects h = {objectOf serviceAccount_kind (name h) (namespace h), objectOf daemonSet_kind (name h) (namespace h)}
     \<union> (if openshiftVersion h \<noteq> [] then rbacObjects (name h) (namespace h) else {})"

lemmas nfd_methods = nfd_Patcher_def Patcher.simps nfd_Patch_def nfd_CleanUp_def
  nfd_handleServiceAccount_def nfd_handleRole_def nfd_handleRoleBinding_def nfd_handleDaemonSet_def

interpretation nfd: patcher_contract view c "nfd_Patcher c h" "nfd_Patcher (recording c) h" "nfd_objects h"
  for view c h
proof unfold_locales
  fix owner assume "pt_IsEnabled (nfd_Patcher c h)"
  then have "patcher_IsEnabled h" by (simp add: nfd_Patcher_def)
  then obtain s where s: "desiredSpec h = Some s" "IsEnabled s" by (rule patcher_IsEnabledE)
  show "manages view c applyVerbs (\<lambda>x. x \<noteq> None) (nfd_objects h)
      (pt_Patch (nfd_Patcher c h) owner) (pt_Patch (nfd_Patcher (recording c) h) owner)"
    unfolding nfd_methods withSpec_enabled [OF s]
    by (rule manages_eq, (rule manages_intros | simp; fail)+) (auto simp: nfd_objects_def rbacObjects_def)
next
  fix owner show "manages view c {DeleteVerb} (\<lambda>x. x = None) (nfd_objects h)
      (pt_CleanUp (nfd_Patcher c h) owner) (pt_CleanUp (nfd_Patcher (recording c) h) owner)"
    unfolding nfd_methods
    by (rule manages_eq, (rule manages_intros | simp; fail)+) (auto simp: nfd_objects_def rbacObjects_def)
qed (simp add: nfd_Patcher_def)

end
