(* ===== verification/Metrics_Exporter.thy ===== *)
theory Metrics_Exporter
  imports Feature_Discovery
begin

text \<open>
  \<open>metrics_exporter.go\<close>: the patcher of the metrics exporter, with its service account, OpenShift
  role and binding, DaemonSet and service.
\<close>

definition NewMetricsExporterPatcher ::
  "string \<Rightarrow> RBLNClusterPolicySpec \<Rightarrow> string \<Rightarrow> RBLNMetricsExporterSpec patcher" where
  "NewMetricsExporterPatcher ns cpSpec osVersion =
     \<lparr>desiredSpec = Some (syncSpec cpSpec zero_ComponentSpec (cp_MetricsExporter cpSpec)),
      name = cp_BaseName cpSpec @ ''-'' @ ''metrics-exporter'',
      namespace = ns, openshiftVersion = osVersion\<rparr>"

text \<open>
  The pull policy that most components give an init container from the validator's image: without a
  policy in the spec it is \<open>IfNotPresent\<close>, also for the tag \<open>latest\<close>.
\<close>

definition defaultPullPolicy :: "ValidatorSpec \<Rightarrow> Container \<Rightarrow> Container" where
  "defaultPullPolicy validatorSpec ct =
     (if vs_ImagePullPolicy validatorSpec = [] then ct\<lparr>co_ImagePullPolicy := PullIfNotPresent\<rparr> else ct)"

definition me_container :: "RBLNMetricsExporterSpec patcher \<Rightarrow> RBLNMetricsExporterSpec \<Rightarrow> Container" where
  "me_container h s = build empty_container [
     WithName (name h),
     WithImage (ComposeImageReference (cs_Registry s) (cs_Image s)) (cs_Version s)
       (cps_ImagePullPolicy (cs_PodSpec s)),
     WithVolumeMounts [
       mkMount ''pod-resources'' ''/var/lib/kubelet/pod-resources'' True,
       mkMount ''sysfs'' ''/sys'' True],
     WithEnvs [
       envField ''NODE_IP'' ''v1'' ''status.hostIP'',
       envField ''NODE_NAME'' [] ''spec.nodeName'',
       envValue ''RBLN_METRICS_EXPORTER_RBLN_DAEMON_URL'' ''http://$(NODE_IP):50051''],
     WithResources (cps_Resources (cs_PodSpec s)) ''250m'' ''40Mi'',
     WithSecurityContext (privileged\<lparr>sc_RunAsUser := Some 0, sc_RunAsGroup := Some 0,
       sc_ReadOnlyRootFilesystem := Some False\<rparr>)]"

definition me_podSpec ::
  "RBLNMetricsExporterSpec patcher \<Rightarrow> RBLNMetricsExporterSpec \<Rightarrow> RBLNClusterPolicy \<Rightarrow> PodSpec" where
  "me_podSpec h s owner =
     (let validatorSpec = cp_Validator (cp_Spec owner) in
      build empty_podSpec [
        WithServiceAccountName (name h),
        WithNodeSelector (map_lit [(''rebellions.ai/npu.deploy.metrics-exporter'', ''true'')]),
        WithAffinity (cps_Affinity (cs_PodSpec s)),
        WithTolerations (cps_Tolerations (cs_PodSpec s)),
        WithImagePullSecrets (cps_ImagePullSecrets (cs_PodSpec s)),
        WithVolumes [
          validationsVolume,
          hostPathVolume ''pod-resources'' ''/var/lib/kubelet/pod-resources'' Directory,
          hostPathVolume ''sysfs'' ''/sys'' Directory],
        WithInitContainers [defaultPullPolicy validatorSpec (toolkitValidation validatorSpec)],
        WithContainers [me_container h s],
        WithTerminationGracePeriodSeconds 0])"

definition me_handleServiceAccount ::
  "'w client \<Rightarrow> RBLNMetricsExporterSpec patcher \<Rightarrow> RBLNClusterPolicy \<Rightarrow> ('w, unit) op" where
  "me_handleServiceAccount c h owner =
     reconcile serviceAccount_kind (serviceAccounts c) (NewServiceAccountBuilder (name h) (namespace h))
       (ownedServiceAccount owner)"

definition me_handleRole ::
  "'w client \<Rightarrow> RBLNMetricsExporterSpec patcher \<Rightarrow> RBLNClusterPolicy \<Rightarrow> ('w, unit) op" where
  "me_handleRole c h owner =
     reconcile role_kind (roles c) (NewRoleBuilder (name h) (namespace h))
       (ownedRole [privilegedSCCRule] owner)"

definition me_handleRoleBinding ::
  "'w client \<Rightarrow> RBLNMetricsExporterSpec patcher \<Rightarrow> RBLNClusterPolicy \<Rightarrow> ('w, unit) op" where
  "me_handleRoleBinding c h owner =
     reconcile roleBinding_kind (roleBindings c) (NewRoleBindingBuilder (name h) (namespace h))
       (ownedRoleBinding (ownRoleRef (name h)) [ownSubject (name h) (namespace h)] owner)"

definition me_mutateService :: "string \<Rightarrow> RBLNClusterPolicy \<Rightarrow> Service \<Rightarrow> Service outcome" where
  "me_mutateService app owner svc =
     (let labelsMap = map_lit [(''app'', app)] in
      ownedBy service_kind (policy_owner owner) (build svc [
        Service_WithAnnotations (map_lit [(''prometheus.io/scrape'', ''true''),
          (''prometheus.io/path'', ''/metrics''), (''prometheus.io/port'', ''9090'')]),
        Service_WithLabels labelsMap,
        WithSelector labelsMap,
        WithPorts [\<lparr>sp_Name = ''http'', sp_Port = 9090\<rparr>]]))"

definition me_handleService ::
  "'w client \<Rightarrow> RBLNMetricsExporterSpec patcher \<Rightarrow> RBLNClusterPolicy \<Rightarrow> ('w, unit) op" where
  "me_handleService c h owner =
     reconcile service_kind (services c) (NewServiceBuilder (name h @ ''-service'') (namespace h))
       (me_mutateService (name h) owner)"

definition me_handleDaemonSet ::
  "'w client \<Rightarrow> RBLNMetricsExporterSpec patcher \<Rightarrow> RBLNMetricsExporterSpec \<Rightarrow> RBLNClusterPolicy \<Rightarrow> ('w, unit) op" where
  "me_handleDaemonSet c h s owner =
     reconcile daemonSet_kind (daemonSets c) (NewDaemonSetBuilder (name h) (namespace h))
       (ownedDaemonSet (map_lit [(''app'', name h)]) (cps_Labels (cs_PodSpec s))
          (cps_Annotations (cs_PodSpec s)) (me_podSpec h s owner) owner)"

definition me_Patch ::
  "'w client \<Rightarrow> RBLNMetricsExporterSpec patcher \<Rightarrow> RBLNClusterPolicy \<Rightarrow> ('w, unit) op" where
  "me_Patch c h owner = withSpec h (\<lambda>s.
     if \<not> IsEnabled s then ret ()
     else seqE [
       me_handleServiceAccount c h owner,
       whenE (openshiftVersion h \<noteq> []) [me_handleRole c h owner, me_handleRoleBinding c h owner],
       me_handleDaemonSet c h s owner,
       me_handleService c h owner])"

definition me_CleanUp ::
  "'w client \<Rightarrow> RBLNMetricsExporterSpec patcher \<Rightarrow> RBLNClusterPolicy \<Rightarrow> ('w, unit) op" where
  "me_CleanUp c h owner = seqE [
     deleteIfPresent (services c) (name h @ ''-service'') (namespace h),
     deleteIfPresent (daemonSets c) (name h) (namespace h),
     whenE (openshiftVersion h \<noteq> []) [
       deleteIfPresent (roleBindings c) (name h) (namespace h),
       deleteIfPresent (roles c) (name h) (namespace h)],
     deleteIfPresent (serviceAccounts c) (name h) (namespace h)]"

definition me_ConditionReport ::
  "'w client \<Rightarrow> RBLNMetricsExporterSpec patcher \<Rightarrow> RBLNClusterPolicy \<Rightarrow> ('w, Condition list) op" where
  "me_ConditionReport c h owner = daemonSetConditionReport c (name h) (namespace h)"

definition me_Patcher :: "'w client \<Rightarrow> RBLNMetricsExporterSpec patcher \<Rightarrow> 'w Patcher" where
  "me_Patcher c h = \<lparr>pt_IsEnabled = patcher_IsEnabled h, pt_Patch = me_Patch c h,
     pt_CleanUp = me_CleanUp c h, pt_ConditionReport = me_ConditionReport c h,
     pt_ComponentName = name h, pt_ComponentNamespace = namespace h\<rparr>"

section \<open>Contract\<close>

definition me_objects :: "('s, 'm) patcher_scheme \<Rightarrow> (kind \<times> ObjectKey) set" where
  "me_objects h = {objectOf serviceAccount_kind (name h) (namespace h), objectOf daemonSet_kind (name h) (namespace h), objectOf service_kind (name h @ ''-service'') (namespace h)}
     \<union> (if openshiftVersion h \<noteq> [] then rbacObjects (name h) (namespace h) else {})"

lemmas me_methods = me_Patcher_def Patcher.simps me_Patch_def me_CleanUp_def
  me_handleServiceAccount_def me_handleRole_def me_handleRoleBinding_def me_handleDaemonSet_def me_handleService_def

interpretation me_service: mutator service_kind "me_mutateService app owner" for app owner
  unfolding me_mutateService_def [abs_def] Let_def
  by (rule service.mutator_ownedBy)
     (auto simp: kind_defs key_of_def key_of_meta_def object_steps agreeMeta_def)

lemma me_manages_service:
  "manages view c applyVerbs (\<lambda>x. x \<noteq> None) {objectOf service_kind n ns}
     (reconcile service_kind (services c) (NewServiceBuilder n ns) (me_mutateService app owner))
     (reconcile service_kind (services (recording c)) (NewServiceBuilder n ns) (me_mutateService app owner))"
  unfolding recording_simps by (rule me_service.manages_reconcile, erule lawful_clientD; simp)

interpretation me: patcher_contract view c "me_Patcher c h" "me_Patcher (recording c) h" "me_objects h"
  for view c h
proof unfold_locales
  fix owner assume "pt_IsEnabled (me_Patcher c h)"
  then have "patcher_IsEnabled h" by (simp add: me_Patcher_def)
  then obtain s where s: "desiredSpec h = Some s" "IsEnabled s" by (rule patcher_IsEnabledE)
  show "manages view c applyVerbs (\<lambda>x. x \<noteq> None) (me_objects h)
      (pt_Patch (me_Patcher c h) owner) (pt_Patch (me_Patcher (recording c) h) owner)"
    unfolding me_methods withSpec_enabled [OF s]
    by (rule manages_eq, (rule manages_intros me_manages_service | simp; fail)+) (auto simp: me_objects_def rbacObjects_def)
next
  fix owner show "manages view c {DeleteVerb} (\<lambda>x. x = None) (me_objects h)
      (pt_CleanUp (me_Patcher c h) owner) (pt_CleanUp (me_Patcher (recording c) h) owner)"
    unfolding me_methods
    by (rule manages_eq, (rule manages_intros | simp; fail)+) (auto simp: me_objects_def rbacObjects_def)
qed (simp add: me_Patcher_def)

end
