(* ===== verification/Rbln_Daemon.thy ===== *)
theory Rbln_Daemon
  imports Metrics_Exporter
begin

text \<open>
  \<open>rbln_daemon.go\<close>: the patcher of the RBLN daemon, with its service account, OpenShift role and
  binding, DaemonSet and service.  Its objects are named after the component alone.
\<close>

definition NewRBLNDaemonPatcher ::
  "string \<Rightarrow> RBLNClusterPolicySpec \<Rightarrow> string \<Rightarrow> RBLNDaemonSpec patcher" where
  "NewRBLNDaemonPatcher ns cpSpec osVersion =
     \<lparr>desiredSpec = Some (syncSpec cpSpec zero_DaemonSpec (cp_RBLNDaemon cpSpec)),
      name = ''rbln-daemon'', namespace = ns, openshiftVersion = osVersion\<rparr>"

abbreviation rblnDaemonDefaultHostPort :: int where "rblnDaemonDefaultHostPort \<equiv> 50051"
abbreviation rblnDaemonPortName :: string where "rblnDaemonPortName \<equiv> ''rbln-daemon''"

definition daemon_container :: "RBLNDaemonSpec patcher \<Rightarrow> RBLNDaemonSpec \<Rightarrow> Container" where
  "daemon_container h s =
     (let hostPort = (if rd_HostPort s = 0 then rblnDaemonDefaultHostPort else rd_HostPort s);
          ct = build empty_container [
            WithName (name h),
            WithImage (ComposeImageReference (cs_Registry s) (cs_Image s)) (cs_Version s)
              (cps_ImagePullPolicy (cs_PodSpec s)),
            WithCommands [''/opt/rebellions/bin/rbln_daemon''],
            WithArgs (rd_Args s),
            WithEnvs (rd_Env s),
            WithResources (cps_Resources (cs_PodSpec s)) ''250m'' ''40Mi'',
            WithSecurityContext (privileged\<lparr>sc_RunAsUser := Some 0\<rparr>),
            WithVolumeMounts [
              mkMount ''host-var-run'' ''/var/run'' False,
              mkMount ''host-sys'' ''/sys'' True,
              mkMount ''host-debug'' ''/sys/kernel/debug'' False,
              mkMount ''host-log-rebellions'' ''/var/log/rebellions'' False]]
      in ct\<lparr>co_Ports := [\<lparr>cp_Name = rblnDaemonPortName, cp_ContainerPort = rblnDaemonDefaultHostPort,
           cp_HostPort = hostPort, cp_Protocol = ''TCP''\<rparr>]\<rparr>)"

definition daemon_podSpec ::
  "RBLNDaemonSpec patcher \<Rightarrow> RBLNDaemonSpec \<Rightarrow> RBLNClusterPolicy \<Rightarrow> PodSpec" where
  "daemon_podSpec h s owner =
     (let validatorSpec = cp_Validator (cp_Spec owner) in
      build empty_podSpec [
        WithServiceAccountName (name h),
        WithNodeSelector (map_lit [(''rebellions.ai/npu.deploy.rbln-daemon'', ''true'')]),
        WithAffinity (cps_Affinity (cs_PodSpec s)),
        WithTolerations (cps_Tolerations (cs_PodSpec s)),
        WithImagePullSecrets (cps_ImagePullSecrets (cs_PodSpec s)),
        WithPriorityClassName (cs_PriorityClassName s),
        WithVolumes [
          validationsVolume,
          hostPathVolume ''host-var-run'' ''/var/run'' Directory,
          hostPathVolume ''host-sys'' ''/sys'' Directory,
          hostPathVolume ''host-debug'' ''/sys/kernel/debug'' Directory,
          hostPathVolume ''host-log-rebellions'' ''/var/log/rebellions'' DirectoryOrCreate],
        WithInitContainers [defaultPullPolicy validatorSpec (toolkitValidation validatorSpec)],
        WithContainers [daemon_container h s],
        WithTerminationGracePeriodSeconds 0])"

definition daemon_handleServiceAccount ::
  "'w client \<Rightarrow> RBLNDaemonSpec patcher \<Rightarrow> RBLNClusterPolicy \<Rightarrow> ('w, unit) op" where
  "daemon_handleServiceAccount c h owner =
     reconcile serviceAccount_kind (serviceAccounts c) (NewServiceAccountBuilder (name h) (namespace h))
       (ownedServiceAccount owner)"

definition daemon_handleRole ::
  "'w client \<Rightarrow> RBLNDaemonSpec patcher \<Rightarrow> RBLNClusterPolicy \<Rightarrow> ('w, unit) op" where
  "daemon_handleRole c h owner =
     reconcile role_kind (roles c) (NewRoleBuilder (name h) (namespace h))
       (ownedRole [privilegedSCCRule] owner)"

definition daemon_handleRoleBinding ::
  "'w client \<Rightarrow> RBLNDaemonSpec patcher \<Rightarrow> RBLNClusterPolicy \<Rightarrow> ('w, unit) op" where
  "daemon_handleRoleBinding c h owner =
     reconcile roleBinding_kind (roleBindings c) (NewRoleBindingBuilder (name h) (namespace h))
       (ownedRoleBinding (ownRoleRef (name h)) [ownSubject (name h) (namespace h)] owner)"

text \<open>The traffic policy is set after the owner.\<close>

definition daemon_mutateService :: "string \<Rightarrow> RBLNClusterPolicy \<Rightarrow> Service \<Rightarrow> Service outcome" where
  "daemon_mutateService app owner svc =
     (let labelsMap = map_lit [(''app'', app)] in
      outcome_bind
        (ownedBy service_kind (policy_owner owner) (build svc [
          Service_WithLabels labelsMap,
          WithSelector labelsMap,
          WithPorts [\<lparr>sp_Name = rblnDaemonPortName, sp_Port = rblnDaemonDefaultHostPort\<rparr>]]))
        (\<lambda>svc'. Ok (svc'\<lparr>svc_InternalTrafficPolicy := Some ''Local''\<rparr>)))"

definition daemon_handleService ::
  "'w client \<Rightarrow> RBLNDaemonSpec patcher \<Rightarrow> RBLNClusterPolicy \<Rightarrow> ('w, unit) op" where
  "daemon_handleService c h owner =
     reconcile service_kind (services c) (NewServiceBuilder (name h) (namespace h))
       (daemon_mutateService (name h) owner)"

definition daemon_handleDaemonSet ::
  "'w client \<Rightarrow> RBLNDaemonSpec patcher \<Rightarrow> RBLNDaemonSpec \<Rightarrow> RBLNClusterPolicy \<Rightarrow> ('w, unit) op" where
  "daemon_handleDaemonSet c h s owner =
     reconcile daemonSet_kind (daemonSets c) (NewDaemonSetBuilder (name h) (namespace h))
       (ownedDaemonSet (map_lit [(''app'', name h)]) (cps_Labels (cs_PodSpec s))
          (cps_Annotations (cs_PodSpec s)) (daemon_podSpec h s owner) owner)"

definition daemon_Patch ::
  "'w client \<Rightarrow> RBLNDaemonSpec patcher \<Rightarrow> RBLNClusterPolicy \<Rightarrow> ('w, unit) op" where
  "daemon_Patch c h owner = withSpec h (\<lambda>s.
     if \<not> IsEnabled s then ret ()
     else seqE [
       daemon_handleServiceAccount c h owner,
       whenE (openshiftVersion h \<noteq> []) [daemon_handleRole c h owner, daemon_handleRoleBinding c h owner],
       daemon_handleDaemonSet c h s owner,
       daemon_handleService c h owner])"

definition daemon_CleanUp ::
  "'w client \<Rightarrow> RBLNDaemonSpec patcher \<Rightarrow> RBLNClusterPolicy \<Rightarrow> ('w, unit) op" where
  "daemon_CleanUp c h owner = seqE [
     deleteIfPresent (services c) (name h) (namespace h),
     deleteIfPresent (daemonSets c) (name h) (namespace h),
     whenE (openshiftVersion h \<noteq> []) [
       deleteIfPresent (roleBindings c) (name h) (namespace h),
       deleteIfPresent (roles c) (name h) (namespace h)],
     deleteIfPresent (serviceAccounts c) (name h) (namespace h)]"

definition daemon_ConditionReport ::
  "'w client \<Rightarrow> RBLNDaemonSpec patcher \<Rightarrow> RBLNClusterPolicy \<Rightarrow> ('w, Condition list) op" where
  "daemon_ConditionReport c h owner = daemonSetConditionReport c (name h) (namespace h)"

definition daemon_Patcher :: "'w client \<Rightarrow> RBLNDaemonSpec patcher \<Rightarrow> 'w Patcher" where
  "daemon_Patcher c h = \<lparr>pt_IsEnabled = patcher_IsEnabled h, pt_Patch = daemon_Patch c h,
     pt_CleanUp = daemon_CleanUp c h, pt_ConditionReport = daemon_ConditionReport c h,
     pt_ComponentName = name h, pt_ComponentNamespace = namespace h\<rparr>"

section \<open>Contract\<close>

definition daemon_objects :: "('s, 'm) patcher_scheme \<Rightarrow> (kind \<times> ObjectKey) set" where
  "daemon_objects h = {objectOf serviceAccount_kind (name h) (namespace h), objectOf daemonSet_kind (name h) (namespace h), objectOf service_kind (name h) (namespace h)}
     \<union> (if openshiftVersion h \<noteq> [] then rbacObjects (name h) (namespace h) else {})"

lemmas daemon_methods = daemon_Patcher_def Patcher.simps daemon_Patch_def daemon_CleanUp_def
  daemon_handleServiceAccount_def daemon_handleRole_def daemon_handleRoleBinding_def daemon_handleDaemonSet_def daemon_handleService_def

lemma daemon_mutateService_eq:
  "daemon_mutateService app owner svc =
     ownedBy service_kind (policy_owner owner)
       ((\<lambda>svc. (build svc [
          Service_WithLabels (map_lit [(''app'', app)]),
          WithSelector (map_lit [(''app'', app)]),
          WithPorts [\<lparr>sp_Name = rblnDaemonPortName, sp_Port = rblnDaemonDefaultHostPort\<rparr>]])
          \<lparr>svc_InternalTrafficPolicy := Some ''Local''\<rparr>) svc)"
  by (cases "WithOwner (policy_owner owner) ((svc_Meta svc)\<lparr>om_Labels := map_lit [(''app'', app)]\<rparr>)")
     (simp_all add: daemon_mutateService_def Let_def ownedBy_def kind_defs object_steps)

interpretation daemon_service: mutator service_kind "daemon_mutateService app owner" for app owner
  unfolding daemon_mutateService_eq [abs_def]
  by (rule service.mutator_ownedBy)
     (auto simp: kind_defs key_of_def key_of_meta_def object_steps agreeMeta_def)

lemma daemon_manages_service:
  "manages view c applyVerbs (\<lambda>x. x \<noteq> None) {objectOf service_kind n ns}
     (reconcile service_kind (services c) (NewServiceBuilder n ns) (daemon_mutateService app owner))
     (reconcile service_kind (services (recording c)) (NewServiceBuilder n ns) (daemon_mutateService app owner))"
  unfolding recording_simps by (rule daemon_service.manages_reconcile, erule lawful_clientD; simp)

interpretation daemon: patcher_contract view c "daemon_Patcher c h" "daemon_Patcher (recording c) h" "daemon_objects h"
  for view c h
proof unfold_locales
  fix owner assume "pt_IsEnabled (daemon_Patcher c h)"
  then have "patcher_IsEnabled h" by (simp add: daemon_Patcher_def)
  then obtain s where s: "desiredSpec h = Some s" "IsEnabled s" by (rule patcher_IsEnabledE)
  show "manages view c applyVerbs (\<lambda>x. x \<noteq> None) (daemon_objects h)
      (pt_Patch (daemon_Patcher c h) owner) (pt_Patch (daemon_Patcher (recording c) h) owner)"
    unfolding daemon_methods withSpec_enabled [OF s]
    by (rule manages_eq, (rule manages_intros daemon_manages_service | simp; fail)+) (auto simp: daemon_objects_def rbacObjects_def)
next
  fix owner show "manages view c {DeleteVerb} (\<lambda>x. x = None) (daemon_objects h)
      (pt_CleanUp (daemon_Patcher c h) owner) (pt_CleanUp (daemon_Patcher (recording c) h) owner)"
    unfolding daemon_methods
    by (rule manages_eq, (rule manages_intros | simp; fail)+) (auto simp: daemon_objects_def rbacObjects_def)
qed (simp add: daemon_Patcher_def)

end
