(* ===== verification/Device_Plugin.thy ===== *)
theory Device_Plugin
  imports Metrics_Exporter
begin

text \<open>
  \<open>device_plugin.go\<close>: the patcher of the device plugin, with its service account, OpenShift role and binding, the
  ConfigMap with the plugin's configuration, and its DaemonSet.
\<close>

definition NewDevicePluginPatcher ::
  "string \<Rightarrow> RBLNClusterPolicySpec \<Rightarrow> string \<Rightarrow> RBLNDevicePluginSpec patcher" where
  "NewDevicePluginPatcher ns cpSpec osVersion =
     \<lparr>desiredSpec = Some (syncSpec cpSpec zero_DevicePluginSpec (cp_DevicePlugin cpSpec)),
      name = cp_BaseName cpSpec @ ''-'' @ ''device-plugin'',
      namespace = ns, openshiftVersion = osVersion\<rparr>"

definition dp_container :: "RBLNDevicePluginSpec patcher \<Rightarrow> RBLNDevicePluginSpec \<Rightarrow> Container" where
  "dp_container h s = build empty_container [
     WithName (name h),
     WithImage (ComposeImageReference (cs_Registry s) (cs_Image s)) (cs_Version s)
       (cps_ImagePullPolicy (cs_PodSpec s)),
     WithResources (cps_Resources (cs_PodSpec s)) ''250m'' ''40Mi'',
     WithVolumeMounts [
       mkMount ''devicesock'' ''/var/lib/kubelet/device-plugins'' False,
       mkMount ''plugins-registry'' ''/var/lib/kubelet/plugins_registry'' False,
       mkMount ''log'' ''/var/log'' False,
       mkMount ''device-info'' ''/var/run/k8s.cni.cncf.io/devinfo/dp'' False,
       mkMount ''config-volume'' ''/etc/pcidp'' False,
       mkMount hostUsrBinVolumeName ''/host/usr/bin'' True,
       mkMount ''host-driver-usr-bin'' ''/host/driver/usr/bin'' True,
       mkMount ''host-dev'' ''/dev'' False,
       mkMount ''host-sys'' ''/sys'' False],
     WithSecurityContext (privileged\<lparr>sc_RunAsUser := Some 0\<rparr>)]"

definition dp_podSpec ::
  "RBLNDevicePluginSpec patcher \<Rightarrow> RBLNDevicePluginSpec \<Rightarrow> RBLNClusterPolicy \<Rightarrow> PodSpec" where
  "dp_podSpec h s owner =
     (let validatorSpec = cp_Validator (cp_Spec owner) in
      build empty_podSpec [
        WithServiceAccountName (name h),
        WithNodeSelector (map_lit [(''rebellions.ai/npu.deploy.device-plugin'', ''true'')]),
        WithAffinity (cps_Affinity (cs_PodSpec s)),
        WithTolerations (cps_Tolerations (cs_PodSpec s)),
        WithImagePullSecrets (cps_ImagePullSecrets (cs_PodSpec s)),
        WithVolumes [
          validationsVolume,
          hostPathVolume ''devicesock'' ''/var/lib/kubelet/device-plugin'' None,
          hostPathVolume ''plugins-registry'' ''/var/lib/kubelet/plugins_registry'' None,
          hostPathVolume ''log'' ''/var/log'' None,
          hostPathVolume ''device-info'' ''/var/run/k8s.cni.cncf.io/devinfo/dp'' DirectoryOrCreate,
          \<lparr>vo_Name = ''config-volume'', vo_Source = ConfigMapVolume (name h @ ''-config'')
             [\<lparr>kp_Key = ''config.json'', kp_Path = ''config.json'', kp_Mode = None\<rparr>] None\<rparr>,
          hostPathVolume ''host-sys'' ''/sys'' Directory,
          hostPathVolume ''host-dev'' ''/dev'' Directory,
          hostPathVolume hostUsrBinVolumeName hostUsrBinPath Directory,
          hostPathVolume ''host-driver-usr-bin'' ''/run/rbln/driver/usr/bin'' DirectoryOrCreate],
        WithInitContainers [defaultPullPolicy validatorSpec (toolkitValidation validatorSpec)],
        WithContainers [dp_container h s]])"

definition dp_handleServiceAccount ::
  "'w client \<Rightarrow> RBLNDevicePluginSpec patcher \<Rightarrow> RBLNClusterPolicy \<Rightarrow> ('w, unit) op" where
  "dp_handleServiceAccount c h owner =
     reconcile serviceAccount_kind (serviceAccounts c) (NewServiceAccountBuilder (name h) (namespace h))
       (ownedServiceAccount owner)"

definition dp_handleRole ::
  "'w client \<Rightarrow> RBLNDevicePluginSpec patcher \<Rightarrow> RBLNClusterPolicy \<Rightarrow> ('w, unit) op" where
  "dp_handleRole c h owner =
     reconcile role_kind (roles c) (NewRoleBuilder (name h) (namespace h))
       (ownedRole [privilegedSCCRule] owner)"

definition dp_handleRoleBinding ::
  "'w client \<Rightarrow> RBLNDevicePluginSpec patcher \<Rightarrow> RBLNClusterPolicy \<Rightarrow> ('w, unit) op" where
  "dp_handleRoleBinding c h owner =
     reconcile roleBinding_kind (roleBindings c) (NewRoleBindingBuilder (name h) (namespace h))
       (ownedRoleBinding (ownRoleRef (name h)) [ownSubject (name h) (namespace h)] owner)"

definition buildDevicePluginConfig :: "RBLNDevicePluginSpec \<Rightarrow> error + string" where
  "buildDevicePluginConfig s =
     (case configResources ''rebellions'' (dp_ResourceList s) of
        Inl e \<Rightarrow> Inl e
      | Inr crs \<Rightarrow> Inr (MarshalIndent (resourceList_json crs)))"

definition dp_handleConfigMap ::
  "'w client \<Rightarrow> RBLNDevicePluginSpec patcher \<Rightarrow> RBLNDevicePluginSpec \<Rightarrow> RBLNClusterPolicy \<Rightarrow> ('w, unit) op" where
  "dp_handleConfigMap c h s owner =
     (case buildDevicePluginConfig s of
        Inl e \<Rightarrow> fail e
      | Inr configData \<Rightarrow>
          reconcile configMap_kind (configMaps c) (NewConfigMapBuilder (name h @ ''-config'') (namespace h))
            (ownedConfigMap (map_lit [(''config.json'', configData)]) owner))"

definition dp_handleDaemonSet ::
  "'w client \<Rightarrow> RBLNDevicePluginSpec patcher \<Rightarrow> RBLNDevicePluginSpec \<Rightarrow> RBLNClusterPolicy \<Rightarrow> ('w, unit) op" where
  "dp_handleDaemonSet c h s owner =
     reconcile daemonSet_kind (daemonSets c) (NewDaemonSetBuilder (name h) (namespace h))
       (ownedDaemonSet (map_lit [(''app'', name h)]) (cps_Labels (cs_PodSpec s))
          (cps_Annotations (cs_PodSpec s)) (dp_podSpec h s owner) owner)"

definition dp_Patch ::
  "'w client \<Rightarrow> RBLNDevicePluginSpec patcher \<Rightarrow> RBLNClusterPolicy \<Rightarrow> ('w, unit) op" where
  "dp_Patch c h owner = withSpec h (\<lambda>s.
     if \<not> IsEnabled s then ret ()
     else seqE [
       dp_handleServiceAccount c h owner,
       whenE (openshiftVersion h \<noteq> []) [dp_handleRole c h owner, dp_handleRoleBinding c h owner],
       dp_handleConfigMap c h s owner,
       dp_handleDaemonSet c h s owner])"

definition dp_CleanUp ::
  "'w client \<Rightarrow> RBLNDevicePluginSpec patcher \<Rightarrow> RBLNClusterPolicy \<Rightarrow> ('w, unit) op" where
  "dp_CleanUp c h owner = seqE [
     deleteIfPresent (daemonSets c) (name h) (namespace h),
     deleteIfPresent (configMaps c) (name h @ ''-config'') (namespace h),
     whenE (openshiftVersion h \<noteq> []) [
       deleteIfPresent (roleBindings c) (name h) (namespace h),
       deleteIfPresent (roles c) (name h) (namespace h)],
     deleteIfPresent (serviceAccounts c) (name h) (namespace h)]"

definition dp_ConditionReport ::
  "'w client \<Rightarrow> RBLNDevicePluginSpec patcher \<Rightarrow> RBLNClusterPolicy \<Rightarrow> ('w, Condition list) op" where
  "dp_ConditionReport c h owner = daemonSetConditionReport c (name h) (namespace h)"

definition dp_Patcher :: "'w client \<Rightarrow> RBLNDevicePluginSpec patcher \<Rightarrow> 'w Patcher" where
  "dp_Patcher c h = \<lparr>pt_IsEnabled = patcher_IsEnabled h, pt_Patch = dp_Patch c h,
     pt_CleanUp = dp_CleanUp c h, pt_ConditionReport = dp_ConditionReport c h,
     pt_ComponentName = name h, pt_ComponentNamespace = namespace h\<rparr>"

section \<open>Contract\<close>

definition dp_objects :: "('s, 'm) patcher_scheme \<Rightarrow> (kind \<times> ObjectKey) set" where
  "dp_objects h = {objectOf serviceAccount_kind (name h) (namespace h), objectOf daemonSet_kind (name h) (namespace h), objectOf configMap_kind (name h @ ''-config'') (namespace h)}
     \<union> (if openshiftVersion h \<noteq> [] then rbacObjects (name h) (namespace h) else {})"

lemmas dp_methods = dp_Patcher_def Patcher.simps dp_Patch_def dp_CleanUp_def
  dp_handleServiceAccount_def dp_handleRole_def dp_handleRoleBinding_def dp_handleDaemonSet_def

lemma dp_manages_configMap:
  "manages view c applyVerbs (\<lambda>x. x \<noteq> None) {objectOf configMap_kind (name h @ ''-config'') (namespace h)}
     (dp_handleConfigMap c h s owner) (dp_handleConfigMap (recording c) h s owner)"
  unfolding dp_handleConfigMap_def
  by (cases "buildDevicePluginConfig s") (simp_all only: sum.case manages_fail manages_applies)

interpretation dp: patcher_contract view c "dp_Patcher c h" "dp_Patcher (recording c) h" "dp_objects h"
  for view c h
proof unfold_locales
  fix owner assume "pt_IsEnabled (dp_Patcher c h)"
  then have "patcher_IsEnabled h" by (simp add: dp_Patcher_def)
  then obtain s where s: "desiredSpec h = Some s" "IsEnabled s" by (rule patcher_IsEnabledE)
  show "manages view c applyVerbs (\<lambda>x. x \<noteq> None) (dp_objects h)
      (pt_Patch (dp_Patcher c h) owner) (pt_Patch (dp_Patcher (recording c) h) owner)"
    unfolding dp_methods withSpec_enabled [OF s]
    by (rule manages_eq, (rule manages_intros dp_manages_configMap | simp; fail)+) (auto simp: dp_objects_def rbacObjects_def)
next
  fix owner show "manages view c {DeleteVerb} (\<lambda>x. x = None) (dp_objects h)
      (pt_CleanUp (dp_Patcher c h) owner) (pt_CleanUp (dp_Patcher (recording c) h) owner)"
    unfolding dp_methods
    by (rule manages_eq, (rule manages_intros | simp; fail)+) (auto simp: dp_objects_def rbacObjects_def)
qed (simp add: dp_Patcher_def)

end
