(* ===== verification/Sandbox_Device_Plugin.thy ===== *)
theory Sandbox_Device_Plugin
  imports Metrics_Exporter
begin

text \<open>
  \<open>sandbox-device-plugin.go\<close>: the patcher of the sandbox device plugin, with its service account, OpenShift role and binding, the
  ConfigMap with the plugin's configuration, and its DaemonSet.
\<close>

text \<open>The only patcher whose \<open>desiredSpec\<close> stays nil when the component is disabled.\<close>

definition NewSandboxDevicePluginPatcher ::
  "string \<Rightarrow> RBLNClusterPolicySpec \<Rightarrow> string \<Rightarrow> RBLNSandboxDevicePluginSpec patcher" where
  "NewSandboxDevicePluginPatcher ns cpSpec osVersion =
     \<lparr>desiredSpec = (if IsEnabled (cp_SandboxDevicePlugin cpSpec)
        then Some (syncSpec cpSpec zero_SandboxDevicePluginSpec (cp_SandboxDevicePlugin cpSpec)) else None),
      name = cp_BaseName cpSpec @ ''-'' @ ''sandbox-device-plugin'',
      namespace = ns, openshiftVersion = osVersion\<rparr>"

definition driverReady :: "ValidatorSpec \<Rightarrow> Container" where
  "driverReady validatorSpec = defaultPullPolicy validatorSpec (build empty_container [
     WithName ''driver-ready'',
     WithImage (ComposeImageReference (vs_Registry validatorSpec) (vs_Image validatorSpec))
       (vs_Version validatorSpec) (vs_ImagePullPolicy validatorSpec),
     WithCommands [''sh'', ''-c''],
     WithArgs [''until [ -f '' @ validationsMountPath
       @ ''/.driver-ctr-ready ]; do echo waiting for rbln driver container to be ready; sleep 5; done''],
     WithSecurityContext privileged,
     WithVolumeMounts [(mkMount validationsVolumeName validationsMountPath False)
       \<lparr>vm_MountPropagation := HostToContainer\<rparr>]])"

definition vfioBindScript :: string where
  "vfioBindScript = Join [
       ''TIMEOUT=300'',
       ''START=$(date +%s)'',
       ''until /bin/vfio-manage.sh check_bind --all; do'',
       ''    if [ $(($(date +%s) - $START)) -gt $TIMEOUT ]; then'',
       ''        echo \"Timeout waiting for VFIO-PCI binding\"'',
       ''        exit 1'',
       ''    fi'',
       ''    echo \"Waiting for all VFIO-PCI bindings...\"'',
       ''    sleep 2'',
       ''done'',
       ''echo \"VFIO-PCI binding check completed.\"''] [CHR 0x0A]"

definition vfioBindChecker :: "RBLNSandboxDevicePluginSpec \<Rightarrow> RBLNClusterPolicy \<Rightarrow> Container" where
  "vfioBindChecker s owner = build empty_container [
     WithName ''vfio-bind-checker'',
     WithImage (ComposeImageReference (vc_Registry (sdp_VFIOChecker s)) (vc_Image (sdp_VFIOChecker s)))
       (vc_Version (sdp_VFIOChecker s)) (cps_ImagePullPolicy (cs_PodSpec s)),
     WithCommands [''/bin/sh'', ''-c'', vfioBindScript],
     WithSecurityContext (privileged\<lparr>sc_RunAsUser := Some 0\<rparr>),
     WithVolumeMounts [(mkMount (cp_BaseName (cp_Spec owner) @ ''-vfio-manager'') ''/bin/vfio-manage.sh'' True)
       \<lparr>vm_SubPath := ''vfio-manage.sh''\<rparr>]]"

definition sp_container :: "RBLNSandboxDevicePluginSpec patcher \<Rightarrow> RBLNSandboxDevicePluginSpec \<Rightarrow> Container" where
  "sp_container h s = build empty_container [
     WithName (name h),
     WithImage (ComposeImageReference (cs_Registry s) (cs_Image s)) (cs_Version s)
       (cps_ImagePullPolicy (cs_PodSpec s)),
     WithCommands [''/usr/bin/sriovdp''],
     WithArgs [''-v=10'', ''--logtostderr'', ''--use-cdi=false''],
     WithResources (cps_Resources (cs_PodSpec s)) ''250m'' ''40Mi'',
     WithVolumeMounts [
       mkMount ''devicesock'' ''/var/lib/kubelet/device-plugins'' False,
       mkMount ''plugins-registry'' ''/var/lib/kubelet/plugins_registry'' False,
       mkMount ''log'' ''/var/log'' False,
       mkMount ''device-info'' ''/var/run/k8s.cni.cncf.io/devinfo/dp'' False,
       mkMount ''config-volume'' ''/etc/pcidp'' False]]"

definition sp_podSpec ::
  "RBLNSandboxDevicePluginSpec patcher \<Rightarrow> RBLNSandboxDevicePluginSpec \<Rightarrow> RBLNClusterPolicy \<Rightarrow> PodSpec" where
  "sp_podSpec h s owner =
     (let validatorSpec = cp_Validator (cp_Spec owner) in
      build empty_podSpec [
        WithServiceAccountName (name h),
        WithNodeSelector (map_lit [(''rebellions.ai/npu.deploy.sandbox-device-plugin'', ''true'')]),
        WithAffinity (cps_Affinity (cs_PodSpec s)),
        WithTolerations (cps_Tolerations (cs_PodSpec s)),
        WithImagePullSecrets (cps_ImagePullSecrets (cs_PodSpec s)),
        WithVolumes [
          validationsVolume,
          hostPathVolume ''devicesock'' ''/var/lib/kubelet/device-plugin'' None,
          hostPathVolume ''plugins-registry'' ''/var/lib/kubelet/plugins_registry'' None,
          hostPathVolume ''log'' ''/var/log'' None,
          hostPathVolume ''device-info'' ''/var/run/k8s.cni.cncf.io/devinfo/dp'' DirectoryOrCreate,
          \<lparr>vo_Name = ''config-volume'', vo_Source = ConfigMapVolume (name h @ ''-config'')
             [\<lparr>kp_Key = ''config.json'', kp_Path = ''config.json'', kp_Mode = None\<rparr>] None\<rparr>,
          \<lparr>vo_Name = cp_BaseName (cp_Spec owner) @ ''-vfio-manager'',
           vo_Source = ConfigMapVolume (cp_BaseName (cp_Spec owner) @ ''-vfio-manager-config'') [] (Some 448)\<rparr>],
        WithInitContainers [driverReady validatorSpec, vfioBindChecker s owner],
        WithContainers [sp_container h s]])"

definition sp_handleServiceAccount ::
  "'w client \<Rightarrow> RBLNSandboxDevicePluginSpec patcher \<Rightarrow> RBLNClusterPolicy \<Rightarrow> ('w, unit) op" where
  "sp_handleServiceAccount c h owner =
     reconcile serviceAccount_kind (serviceAccounts c) (NewServiceAccountBuilder (name h) (namespace h))
       (ownedServiceAccount owner)"

definition sp_handleRole ::
  "'w client \<Rightarrow> RBLNSandboxDevicePluginSpec patcher \<Rightarrow> RBLNClusterPolicy \<Rightarrow> ('w, unit) op" where
  "sp_handleRole c h owner =
     reconcile role_kind (roles c) (NewRoleBuilder (name h) (namespace h))
       (ownedRole [privilegedSCCRule] owner)"

definition sp_handleRoleBinding ::
  "'w client \<Rightarrow> RBLNSandboxDevicePluginSpec patcher \<Rightarrow> RBLNClusterPolicy \<Rightarrow> ('w, unit) op" where
  "sp_handleRoleBinding c h owner =
     reconcile roleBinding_kind (roleBindings c) (NewRoleBindingBuilder (name h) (namespace h))
       (ownedRoleBinding (ownRoleRef (name h)) [ownSubject (name h) (namespace h)] owner)"

definition buildSandboxDevicePluginConfig :: "RBLNSandboxDevicePluginSpec \<Rightarrow> error + string" where
  "buildSandboxDevicePluginConfig s =
     (case configResources ''vfio-pci'' (sdp_ResourceList s) of
        Inl e \<Rightarrow> Inl e
      | Inr crs \<Rightarrow> Inr (MarshalIndent (resourceList_json crs)))"

definition sp_handleConfigMap ::
  "'w client \<Rightarrow> RBLNSandboxDevicePluginSpec patcher \<Rightarrow> RBLNSandboxDevicePluginSpec \<Rightarrow> RBLNClusterPolicy \<Rightarrow> ('w, unit) op" where
  "sp_handleConfigMap c h s owner =
     (case buildSandboxDevicePluginConfig s of
        Inl e \<Rightarrow> fail e
      | Inr configData \<Rightarrow>
          reconcile configMap_kind (configMaps c) (NewConfigMapBuilder (name h @ ''-config'') (namespace h))
            (ownedConfigMap (map_lit [(''config.json'', configData)]) owner))"

definition sp_handleDaemonSet ::
  "'w client \<Rightarrow> RBLNSandboxDevicePluginSpec patcher \<Rightarrow> RBLNSandboxDevicePluginSpec \<Rightarrow> RBLNClusterPolicy \<Rightarrow> ('w, unit) op" where
  "sp_handleDaemonSet c h s owner =
     reconcile daemonSet_kind (daemonSets c) (NewDaemonSetBuilder (name h) (namespace h))
       (ownedDaemonSet (map_lit [(''app'', name h)]) (cps_Labels (cs_PodSpec s))
          (cps_Annotations (cs_PodSpec s)) (sp_podSpec h s owner) owner)"

definition sp_Patch ::
  "'w client \<Rightarrow> RBLNSandboxDevicePluginSpec patcher \<Rightarrow> RBLNClusterPolicy \<Rightarrow> ('w, unit) op" where
  "sp_Patch c h owner = withSpec h (\<lambda>s.
     if \<not> IsEnabled s then ret ()
     else seqE [
       sp_handleServiceAccount c h owner,
       whenE (openshiftVersion h \<noteq> []) [sp_handleRole c h owner, sp_handleRoleBinding c h owner],
       sp_handleConfigMap c h s owner,
       sp_handleDaemonSet c h s owner])"

definition sp_CleanUp ::
  "'w client \<Rightarrow> RBLNSandboxDevicePluginSpec patcher \<Rightarrow> RBLNClusterPolicy \<Rightarrow> ('w, unit) op" where
  "sp_CleanUp c h owner = seqE [
     deleteIfPresent (daemonSets c) (name h) (namespace h),
     deleteIfPresent (configMaps c) (name h @ ''-config'') (namespace h),
     whenE (openshiftVersion h \<noteq> []) [
       deleteIfPresent (roleBindings c) (name h) (namespace h),
       deleteIfPresent (roles c) (name h) (namespace h)],
     deleteIfPresent (serviceAccounts c) (name h) (namespace h)]"

definition sp_ConditionReport ::
  "'w client \<Rightarrow> RBLNSandboxDevicePluginSpec patcher \<Rightarrow> RBLNClusterPolicy \<Rightarrow> ('w, Condition list) op" where
  "sp_ConditionReport c h owner = daemonSetConditionReport c (name h) (namespace h)"

definition sp_Patcher :: "'w client \<Rightarrow> RBLNSandboxDevicePluginSpec patcher \<Rightarrow> 'w Patcher" where
  "sp_Patcher c h = \<lparr>pt_IsEnabled = patcher_IsEnabled h, pt_Patch = sp_Patch c h,
     pt_CleanUp = sp_CleanUp c h, pt_ConditionReport = sp_ConditionReport c h,
     pt_ComponentName = name h, pt_ComponentNamespace = namespace h\<rparr>"

section \<open>Contract\<close>

definition sp_objects :: "('s, 'm) patcher_scheme \<Rightarrow> (kind \<times> ObjectKey) set" where
  "sp_objects h = {objectOf serviceAccount_kind (name h) (namespace h), objectOf daemonSet_kind (name h) (namespace h), objectOf configMap_kind (name h @ ''-config'') (namespace h)}
     \<union> (if openshiftVersion h \<noteq> [] then rbacObjects (name h) (namespace h) else {})"

lemmas sp_methods = sp_Patcher_def Patcher.simps sp_Patch_def sp_CleanUp_def
  sp_handleServiceAccount_def sp_handleRole_def sp_handleRoleBinding_def sp_handleDaemonSet_def

lemma sp_manages_configMap:
  "manages view c applyVerbs (\<lambda>x. x \<noteq> None) {objectOf configMap_kind (name h @ ''-config'') (namespace h)}
     (sp_handleConfigMap c h s owner) (sp_handleConfigMap (recording c) h s owner)"
  unfolding sp_handleConfigMap_def
  by (cases "buildSandboxDevicePluginConfig s") (simp_all only: sum.case manages_fail manages_applies)

interpretation sp: patcher_contract view c "sp_Patcher c h" "sp_Patcher (recording c) h" "sp_objects h"
  for view c h
proof unfold_locales
  fix owner assume "pt_IsEnabled (sp_Patcher c h)"
  then have "patcher_IsEnabled h" by (simp add: sp_Patcher_def)
  then obtain s where s: "desiredSpec h = Some s" "IsEnabled s" by (rule patcher_IsEnabledE)
  show "manages view c applyVerbs (\<lambda>x. x \<noteq> None) (sp_objects h)
      (pt_Patch (sp_Patcher c h) owner) (pt_Patch (sp_Patcher (recording c) h) owner)"
    unfolding sp_methods withSpec_enabled [OF s]
    by (rule manages_eq, (rule manages_intros sp_manages_configMap | simp; fail)+) (auto simp: sp_objects_def rbacObjects_def)
next
  fix owner show "manages view c {DeleteVerb} (\<lambda>x. x = None) (sp_objects h)
      (pt_CleanUp (sp_Patcher c h) owner) (pt_CleanUp (sp_Patcher (recording c) h) owner)"
    unfolding sp_methods
    by (rule manages_eq, (rule manages_intros | simp; fail)+) (auto simp: sp_objects_def rbacObjects_def)
qed (simp add: sp_Patcher_def)

end
