(* ===== verification/Vfio_Manager.thy ===== *)
theory Vfio_Manager
  imports Patcher
begin

text \<open>
  \<open>vfio_manager.go\<close>: the patcher of the VFIO manager, with its service account, OpenShift role and
  binding, the ConfigMap with the script \<open>vfio-manage.sh\<close>, and its DaemonSet.  The script
  is data of the ConfigMap here; what it does on the nodes is modelled in \<open>Vfio_Script\<close>.
\<close>

definition NewVFIOManagerPatcher ::
  "string \<Rightarrow> RBLNClusterPolicySpec \<Rightarrow> string \<Rightarrow> RBLNVFIOManagerSpec patcher" where
  "NewVFIOManagerPatcher ns cpSpec osVersion =
     \<lparr>desiredSpec = Some (syncSpec cpSpec zero_ComponentSpec (cp_VFIOManager cpSpec)),
      name = cp_BaseName cpSpec @ ''-'' @ ''vfio-manager'',
      namespace = ns, openshiftVersion = osVersion\<rparr>"

text \<open>The text of the script, line by line.\<close>

definition vfioManageScript :: string where
  "vfioManageScript = Join [
     ''#!/bin/bash'',
     [],
     ''set -Eeuo pipefail'',
     [],
     ''usage()'',
     ''{'',
     [CHR 0x09] @ ''cat >&2 <<EOF'',
     ''Usage: $0 COMMAND [OPTIONS]'',
     [],
     ''Commands:'',
     ''  bind        [-a|--all] [-d|--device-id <PCI_ADDR>]'',
     ''  unbind      [-a|--all] [-d|--device-id <PCI_ADDR>]'',
     ''  check_bind  [-a|--all] [-d|--device-id <PCI_ADDR>]'',
     ''  help        [-h|--help]'',
     ''EOF'',
     [CHR 0x09] @ ''exit 0'',
     ''}'',
     [],
     ''unbind_from_driver() {'',
     [CHR 0x09] @ ''local npu=$1'',
     [CHR 0x09] @ ''local existing_driver_name'',
     [CHR 0x09] @ ''local existing_driver'',
     [],
     [CHR 0x09] @ ''[ -e \"/sys/bus/pci/devices/$npu/driver\" ] || return 0'',
     [],
     [CHR 0x09] @ ''existing_driver=$(readlink -f \"/sys/bus/pci/devices/$npu/driver\")'',
     [CHR 0x09] @ ''existing_driver_name=$(basename \"$existing_driver\")'',
     [],
     [CHR 0x09] @ ''echo \"unbinding device $npu from driver $existing_driver_name\"'',
     [CHR 0x09] @ ''echo \"$npu\" > \"$existing_driver/unbind\"'',
     [CHR 0x09] @ ''echo > /sys/bus/pci/devices/$npu/driver_override'',
     ''}'',
     [],
     ''# unbind device from non vfio-pci driver'',
     ''unbind_from_other_driver() {'',
     [CHR 0x09] @ ''local npu=$1'',
     [CHR 0x09] @ ''local existing_driver_name'',
     [CHR 0x09] @ ''local existing_driver'',
     [],
     [CHR 0x09] @ ''[ -e \"/sys/bus/pci/devices/$npu/driver\" ] || return 0'',
     [],
     [CHR 0x09] @ ''existing_driver=$(readlink -f \"/sys/bus/pci/devices/$npu/driver\")'',
     [CHR 0x09] @ ''existing_driver_name=$(basename \"$existing_driver\")'',
     [],
     [CHR 0x09] @ ''# return if bound to vfio-pci'',
     [CHR 0x09] @ ''[ \"$existing_driver_name\" != \"vfio-pci\" ] || return 0'',
     [CHR 0x09] @ ''echo \"unbinding device $npu from driver $existing_driver_name\"'',
     [CHR 0x09] @ ''echo \"$npu\" > \"$existing_driver/unbind\"'',
     [CHR 0x09] @ ''echo > /sys/bus/pci/devices/$npu/driver_override'',
     ''}'',
     [],
     ''is_target_npu_device() {'',
     [CHR 0x09] @ ''local npu=$1'',
     [CHR 0x09] @ ''# make sure device class is for target npu'',
     [CHR 0x09] @ ''device_class_file=$(readlink -f \"/sys/bus/pci/devices/$npu/class\")'',
     [CHR 0x09] @ ''device_class=$(cat \"$device_class_file\")'',
     [],
     [CHR 0x09] @ ''# Check if device_class matches any of the values in the list'',
     [CHR 0x09] @ ''local valid_classes=(0x120000)'',
     [CHR 0x09] @ ''for valid_class in \"${valid_classes[@]}\"; do'',
     [CHR 0x09, CHR 0x09] @ ''if [ \"$device_class\" == \"$valid_class\" ]; then'',
     [CHR 0x09, CHR 0x09, CHR 0x09] @ ''return 0'',
     [CHR 0x09, CHR 0x09] @ ''fi'',
     [CHR 0x09] @ ''done'',
     [CHR 0x09] @ ''return 1'',
     ''}'',
     [],
     ''is_bound_to_vfio() {'',
     [CHR 0x09] @ ''local npu=$1'',
     [CHR 0x09] @ ''local existing_driver_name'',
     [CHR 0x09] @ ''local existing_driver'',
     [],
     [CHR 0x09] @ ''# return if not bound to any driver'',
     [CHR 0x09] @ ''[ -e \"/sys/bus/pci/devices/$npu/driver\" ] || return 1'',
     [],
     [CHR 0x09] @ ''existing_driver=$(readlink -f \"/sys/bus/pci/devices/$npu/driver\")'',
     [CHR 0x09] @ ''existing_driver_name=$(basename \"$existing_driver\")'',
     [],
     [CHR 0x09] @ ''[ \"$existing_driver_name\" == \"vfio-pci\" ] && return 0'',
     [CHR 0x09] @ ''return 1'',
     ''}'',
     [],
     ''unbind_device() {'',
     [CHR 0x09] @ ''local npu=$1'',
     [],
     [CHR 0x09] @ ''if ! is_target_npu_device $npu; then'',
     [CHR 0x09, CHR 0x09] @ ''return 0'',
     [CHR 0x09] @ ''fi'',
     [],
     [CHR 0x09] @ ''echo \"unbinding device $npu\"'',
     [CHR 0x09] @ ''unbind_from_driver $npu'',
     ''}'',
     [],
     ''unbind_all() {'',
     [CHR 0x09] @ ''for dev in /sys/bus/pci/devices/*; do'',
     [CHR 0x09, CHR 0x09] @ ''read vendor < $dev/vendor'',
     [CHR 0x09, CHR 0x09] @ ''if [ \"$vendor\" = \"0x1eff\" ]; then'',
     [CHR 0x09, CHR 0x09, CHR 0x09] @ ''local dev_id=$(basename $dev)'',
     [CHR 0x09, CHR 0x09, CHR 0x09] @ ''unbind_device $dev_id'',
     [CHR 0x09, CHR 0x09] @ ''fi'',
     [CHR 0x09] @ ''done'',
     ''}'',
     [],
     ''bind_pci_device() {'',
     [CHR 0x09] @ ''local npu=$1'',
     [],
     [CHR 0x09] @ ''if ! is_bound_to_vfio $npu; then'',
     [CHR 0x09, CHR 0x09] @ ''unbind_from_other_driver $npu'',
     [CHR 0x09, CHR 0x09] @ ''echo \"binding device $npu\"'',
     [CHR 0x09, CHR 0x09] @ ''echo \"vfio-pci\" > /sys/bus/pci/devices/$npu/driver_override'',
     [CHR 0x09, CHR 0x09] @ ''echo \"$npu\" > /sys/bus/pci/drivers/vfio-pci/bind'',
     [CHR 0x09] @ ''else'',
     [CHR 0x09, CHR 0x09] @ ''echo \"device $npu already bound to vfio-pci\"'',
     [CHR 0x09] @ ''fi'',
     ''}'',
     [],
     ''bind_device() {'',
     [CHR 0x09] @ ''local npu=$1'',
     [],
     [CHR 0x09] @ ''if ! is_target_npu_device $npu; then'',
     [CHR 0x09, CHR 0x09] @ ''echo \"device $npu is not a npu!\"'',
     [CHR 0x09, CHR 0x09] @ ''return 0'',
     [CHR 0x09] @ ''fi'',
     [],
     [CHR 0x09] @ ''bind_pci_device \"$npu\"'',
     ''}'',
     [],
     ''bind_all() {'',
     [CHR 0x09] @ ''for dev in /sys/bus/pci/devices/*; do'',
     [CHR 0x09, CHR 0x09] @ ''read vendor < $dev/vendor'',
     [CHR 0x09, CHR 0x09] @ ''if [ \"$vendor\" = \"0x1eff\" ]; then'',
     [CHR 0x09, CHR 0x09, CHR 0x09] @ ''local dev_id=$(basename $dev)'',
     [CHR 0x09, CHR 0x09, CHR 0x09] @ ''bind_device $dev_id'',
     [CHR 0x09, CHR 0x09] @ ''fi'',
     [CHR 0x09] @ ''done'',
     ''}'',
     [],
     ''check_bind_device() {'',
     ''    local npu=$1'',
     [],
     ''    if ! is_target_npu_device \"$npu\"; then'',
     ''        echo \"device $npu is not a Rebellions NPU!\"'',
     ''        return 0'',
     ''    fi'',
     [],
     ''    if is_bound_to_vfio \"$npu\"; then'',
     ''        echo \"Device $npu is bound to vfio-pci\"'',
     ''        return 0'',
     ''    else'',
     ''        echo \"Device $npu is not bound to vfio-pci\"'',
     ''        return 1'',
     ''    fi'',
     ''}'',
     [],
     ''check_bind_all() {'',
     ''    local VENDOR_ID=\"1eff\"'',
     ''    local DEVICE_COUNT=0'',
     ''    local ALL_BOUND=1'',
     [],
     ''    # Count Rebellions NPU devices'',
     ''    for dev in /sys/bus/pci/devices/*; do'',
     ''        if [ -f \"$dev/vendor\" ]; then'',
     ''            vendor=$(cat \"$dev/vendor\")'',
     ''            dev_id=$(basename \"$dev\")'',
     ''            if [ \"$vendor\" = \"0x$VENDOR_ID\" ] && is_target_npu_device \"$dev_id\"; then'',
     ''                DEVICE_COUNT=$((DEVICE_COUNT + 1))'',
     ''            fi'',
     ''        fi'',
     ''    done'',
     [],
     ''    # If no NPU devices found, return success'',
     ''    if [ $DEVICE_COUNT -eq 0 ]; then'',
     ''        echo \"No Rebellions NPU devices found.\"'',
     ''        return 0'',
     ''    fi'',
     [],
     ''    # Check if all NPU devices are bound to vfio-pci'',
     ''    for dev in /sys/bus/pci/devices/*; do'',
     ''        if [ -f \"$dev/vendor\" ]; then'',
     ''            vendor=$(cat \"$dev/vendor\")'',
     ''            dev_id=$(basename \"$dev\")'',
     ''            if [ \"$vendor\" = \"0x$VENDOR_ID\" ] && is_target_npu_device \"$dev_id\"; then'',
     ''                if ! is_bound_to_vfio \"$dev_id\"; then'',
     ''                    ALL_BOUND=0'',
     ''                    echo \"Device $dev_id is not bound to vfio-pci\"'',
     ''                else'',
     ''                    echo \"Device $dev_id is bound to vfio-pci\"'',
     ''                fi'',
     ''            fi'',
     ''        fi'',
     ''    done'',
     [],
     ''    if [ $ALL_BOUND -eq 1 ]; then'',
     ''        echo \"All $DEVICE_COUNT Rebellions NPU devices are bound to VFIO-PCI.\"'',
     ''        return 0'',
     ''    else'',
     ''        return 1'',
     ''    fi'',
     ''}'',
     [],
     ''handle_bind() {'',
     [CHR 0x09] @ ''chroot /host modprobe vfio-pci'',
     [CHR 0x09] @ ''if [ \"$DEVICE_ID\" != \"\" ]; then'',
     [CHR 0x09, CHR 0x09] @ ''bind_device $DEVICE_ID'',
     [CHR 0x09] @ ''elif [ \"$ALL_DEVICES\" = \"true\" ]; then'',
     [CHR 0x09, CHR 0x09] @ ''bind_all'',
     [CHR 0x09] @ ''else'',
     [CHR 0x09, CHR 0x09] @ ''usage'',
     [CHR 0x09] @ ''fi'',
     ''}'',
     [],
     ''handle_unbind() {'',
     [CHR 0x09] @ ''if [ \"$DEVICE_ID\" != \"\" ]; then'',
     [CHR 0x09, CHR 0x09] @ ''unbind_device $DEVICE_ID'',
     [CHR 0x09] @ ''elif [ \"$ALL_DEVICES\" = \"true\" ]; then'',
     [CHR 0x09, CHR 0x09] @ ''unbind_all'',
     [CHR 0x09] @ ''else'',
     [CHR 0x09, CHR 0x09] @ ''usage'',
     [CHR 0x09] @ ''fi'',
     ''}'',
     [],
     ''handle_check_bind() {'',
     ''    if [ \"$DEVICE_ID\" != \"\" ]; then'',
     ''        check_bind_device $DEVICE_ID'',
     ''    elif [ \"$ALL_DEVICES\" = \"true\" ]; then'',
     ''        check_bind_all'',
     ''    else'',
     ''        usage'',
     ''    fi'',
     ''}'',
     [],
     ''# ---------- entry ----------'',
     ''['' @ ''[ $# -gt 0 ]'' @ ''] || usage'',
     [],
     ''command=\"$1\"'',
     ''shift || true'',
     [],
     ''DEVICE_ID=\"\"'',
     ''ALL_DEVICES=false'',
     [],
     ''while ['' @ ''[ $# -gt 0 ]'' @ '']; do'',
     ''  case \"$1\" in'',
     ''    -a|--all)'',
     ''      ALL_DEVICES=true'',
     ''      shift'',
     ''      ;;'',
     ''    -d|--device-id)'',
     ''      if ['' @ ''[ $# -lt 2 ]'' @ '']; then'',
     ''        echo \"Error: missing value for $1\" >&2'',
     ''        exit 2'',
     ''      fi'',
     ''      DEVICE_ID=\"$2\"'',
     ''      shift 2'',
     ''      ;;'',
     ''    -h|--help)'',
     ''      usage'',
     ''      ;;'',
     ''    --) # end of options'',
     ''      shift'',
     ''      break'',
     ''      ;;'',
     ''    -*)'',
     ''      echo \"Unknown option: $1\" >&2'',
     ''      usage'',
     ''      ;;'',
     ''    *)'',
     ''      # unexpected positional argument'',
     ''      echo \"Unexpected argument: $1\" >&2'',
     ''      usage'',
     ''      ;;'',
     ''  esac'',
     ''done'',
     [],
     ''case \"$command\" in'',
     ''  help)        usage ;;'',
     ''  bind)        handle_bind ;;'',
     ''  unbind)      handle_unbind ;;'',
     ''  check_bind)  handle_check_bind ;;'',
     ''  *)'',
     ''    echo \"Unknown command: $command\" >&2'',
     ''    usage'',
     ''    ;;'',
     ''esac''] [CHR 0x0A]"

definition vfio_container :: "RBLNVFIOManagerSpec patcher \<Rightarrow> RBLNVFIOManagerSpec \<Rightarrow> Container" where
  "vfio_container h s = build empty_container [
     WithName (name h),
     WithImage (ComposeImageReference (cs_Registry s) (cs_Image s)) (cs_Version s)
       (cps_ImagePullPolicy (cs_PodSpec s)),
     WithCommands [''/bin/bash'', ''-c''],
     WithArgs [''/bin/vfio-manage.sh bind --all && sleep inf''],
     WithResources (cps_Resources (cs_PodSpec s)) ''100m'' ''200Mi'',
     WithVolumeMounts [
       (mkMount (name h) ''/bin/vfio-manage.sh'' True)\<lparr>vm_SubPath := ''vfio-manage.sh''\<rparr>,
       mkMount ''host-sys'' ''/sys'' False,
       mkMount ''host-root'' ''/host'' False],
     WithSecurityContext (privileged\<lparr>sc_RunAsUser := Some 0, sc_SELinuxLevel := Some ''s0''\<rparr>),
     WithLifeCycle [''/bin/sh'', ''-c'', ''/bin/vfio-manage.sh unbind --all'']]"

definition vfio_podSpec ::
  "RBLNVFIOManagerSpec patcher \<Rightarrow> RBLNVFIOManagerSpec \<Rightarrow> RBLNClusterPolicy \<Rightarrow> PodSpec" where
  "vfio_podSpec h s owner = build empty_podSpec [
     WithServiceAccountName (name h),
     WithNodeSelector (map_lit [(''rebellions.ai/npu.deploy.vfio-manager'', ''true'')]),
     WithAffinity (cps_Affinity (cs_PodSpec s)),
     WithTolerations (cps_Tolerations (cs_PodSpec s)),
     WithImagePullSecrets (cps_ImagePullSecrets (cs_PodSpec s)),
     WithPriorityClassName (cs_PriorityClassName s),
     WithTerminationGracePeriodSeconds 30,
     WithContainers [vfio_container h s],
     WithVolumes [
       \<lparr>vo_Name = name h, vo_Source = ConfigMapVolume (name h @ ''-config'') [] (Some 448)\<rparr>,
       hostPathVolume ''host-sys'' ''/sys'' Directory,
       hostPathVolume ''host-root'' ''/'' Directory]]"

definition vfio_handleServiceAccount ::
  "'w client \<Rightarrow> RBLNVFIOManagerSpec patcher \<Rightarrow> RBLNClusterPolicy \<Rightarrow> ('w, unit) op" where
  "vfio_handleServiceAccount c h owner =
     reconcile serviceAccount_kind (serviceAccounts c) (NewServiceAccountBuilder (name h) (namespace h))
       (ownedServiceAccount owner)"

definition vfio_handleRole ::
  "'w client \<Rightarrow> RBLNVFIOManagerSpec patcher \<Rightarrow> RBLNClusterPolicy \<Rightarrow> ('w, unit) op" where
  "vfio_handleRole c h owner =
     reconcile role_kind (roles c) (NewRoleBuilder (name h) (namespace h))
       (ownedRole [privilegedSCCRule] owner)"

definition vfio_handleRoleBinding ::
  "'w client \<Rightarrow> RBLNVFIOManagerSpec patcher \<Rightarrow> RBLNClusterPolicy \<Rightarrow> ('w, unit) op" where
  "vfio_handleRoleBinding c h owner =
     reconcile roleBinding_kind (roleBindings c) (NewRoleBindingBuilder (name h) (namespace h))
       (ownedRoleBinding (ownRoleRef (name h)) [ownSubject (name h) (namespace h)] owner)"

definition vfio_handleConfigMap ::
  "'w client \<Rightarrow> RBLNVFIOManagerSpec patcher \<Rightarrow> RBLNClusterPolicy \<Rightarrow> ('w, unit) op" where
  "vfio_handleConfigMap c h owner =
     reconcile configMap_kind (configMaps c) (NewConfigMapBuilder (name h @ ''-config'') (namespace h))
       (ownedConfigMap (map_lit [(''vfio-manage.sh'', vfioManageScript)]) owner)"

definition vfio_handleDaemonSet ::
  "'w client \<Rightarrow> RBLNVFIOManagerSpec patcher \<Rightarrow> RBLNVFIOManagerSpec \<Rightarrow> RBLNClusterPolicy \<Rightarrow> ('w, unit) op" where
  "vfio_handleDaemonSet c h s owner =
     reconcile daemonSet_kind (daemonSets c) (NewDaemonSetBuilder (name h) (namespace h))
       (ownedDaemonSet (map_lit [(''app'', name h)]) (cps_Labels (cs_PodSpec s))
          (cps_Annotations (cs_PodSpec s)) (vfio_podSpec h s owner) owner)"

definition vfio_Patch ::
  "'w client \<Rightarrow> RBLNVFIOManagerSpec patcher \<Rightarrow> RBLNClusterPolicy \<Rightarrow> ('w, unit) op" where
  "vfio_Patch c h owner = withSpec h (\<lambda>s.
     if \<not> IsEnabled s then ret ()
     else seqE [
       vfio_handleServiceAccount c h owner,
       whenE (openshiftVersion h \<noteq> []) [vfio_handleRole c h owner, vfio_handleRoleBinding c h owner],
       vfio_handleConfigMap c h owner,
       vfio_handleDaemonSet c h s owner])"

definition vfio_CleanUp ::
  "'w client \<Rightarrow> RBLNVFIOManagerSpec patcher \<Rightarrow> RBLNClusterPolicy \<Rightarrow> ('w, unit) op" where
  "vfio_CleanUp c h owner = seqE [
     deleteIfPresent (daemonSets c) (name h) (namespace h),
     deleteIfPresent (configMaps c) (name h @ ''-config'') (namespace h),
     whenE (openshiftVersion h \<noteq> []) [
       deleteIfPresent (roleBindings c) (name h) (namespace h),
       deleteIfPresent (roles c) (name h) (namespace h)],
     deleteIfPresent (serviceAccounts c) (name h) (namespace h)]"

definition vfio_ConditionReport ::
  "'w client \<Rightarrow> RBLNVFIOManagerSpec patcher \<Rightarrow> RBLNClusterPolicy \<Rightarrow> ('w, Condition list) op" where
  "vfio_ConditionReport c h owner = daemonSetConditionReport c (name h) (namespace h)"

definition vfio_Patcher :: "'w client \<Rightarrow> RBLNVFIOManagerSpec patcher \<Rightarrow> 'w Patcher" where
  "vfio_Patcher c h = \<lparr>pt_IsEnabled = patcher_IsEnabled h, pt_Patch = vfio_Patch c h,
     pt_CleanUp = vfio_CleanUp c h, pt_ConditionReport = vfio_ConditionReport c h,
     pt_ComponentName = name h, pt_ComponentNamespace = namespace h\<rparr>"

section \<open>Contract\<close>

definition vfio_objects :: "('s, 'm) patcher_scheme \<Rightarrow> (kind \<times> ObjectKey) set" where
  "vfio_objects h = {objectOf serviceAccount_kind (name h) (namespace h), objectOf daemonSet_kind (name h) (namespace h), objectOf configMap_kind (name h @ ''-config'') (namespace h)}
     \<union> (if openshiftVersion h \<noteq> [] then rbacObjects (name h) (namespace h) else {})"

lemmas vfio_methods = vfio_Patcher_def Patcher.simps vfio_Patch_def vfio_CleanUp_def
  vfio_handleServiceAccount_def vfio_handleRole_def vfio_handleRoleBinding_def vfio_handleDaemonSet_def vfio_handleConfigMap_def

interpretation vfio: patcher_contract view c "vfio_Patcher c h" "vfio_Patcher (recording c) h" "vfio_objects h"
  for view c h
proof unfold_locales
  fix owner assume "pt_IsEnabled (vfio_Patcher c h)"
  then have "patcher_IsEnabled h" by (simp add: vfio_Patcher_def)
  then obtain s where s: "desiredSpec h = Some s" "IsEnabled s" by (rule patcher_IsEnabledE)
  show "manages view c applyVerbs (\<lambda>x. x \<noteq> None) (vfio_objects h)
      (pt_Patch (vfio_Patcher c h) owner) (pt_Patch (vfio_Patcher (recording c) h) owner)"
    unfolding vfio_methods withSpec_enabled [OF s]
    by (rule manages_eq, (rule manages_intros | simp; fail)+) (auto simp: vfio_objects_def rbacObjects_def)
next
  fix owner show "manages view c {DeleteVerb} (\<lambda>x. x = None) (vfio_objects h)
      (pt_CleanUp (vfio_Patcher c h) owner) (pt_CleanUp (vfio_Patcher (recording c) h) owner)"
    unfolding vfio_methods
    by (rule manages_eq, (rule manages_intros | simp; fail)+) (auto simp: vfio_objects_def rbacObjects_def)
qed (simp add: vfio_Patcher_def)

end
