(* ===== verification/Container_Toolkit.thy ===== *)
theory Container_Toolkit
  imports Patcher
begin

text \<open>
  \<open>container_toolkit.go\<close>: the patcher of the container toolkit.  Its role and binding exist on every
  cluster; on OpenShift the role has one more rule.  The volumes depend on the container runtime that
  the operator detected.
\<close>

record containerToolkitPatcher = "RBLNContainerToolkitSpec patcher" +
  containerRuntime :: string

definition NewContainerToolkitPatcher ::
  "string \<Rightarrow> RBLNClusterPolicySpec \<Rightarrow> string \<Rightarrow> string \<Rightarrow> containerToolkitPatcher" where
  "NewContainerToolkitPatcher ns cpSpec osVersion runtime =
     \<lparr>desiredSpec = Some (syncSpec cpSpec zero_ContainerToolkitSpec (cp_ContainerToolkit cpSpec)),
      name = cp_BaseName cpSpec @ ''-'' @ ''container-toolkit'',
      namespace = ns, openshiftVersion = osVersion, containerRuntime = runtime\<rparr>"

abbreviation Containerd :: string where "Containerd \<equiv> ''containerd''"
abbreviation Docker :: string where "Docker \<equiv> ''docker''"
abbreviation CRIO :: string where "CRIO \<equiv> ''crio''"

section \<open>Environments\<close>

text \<open>One step of the merge: the first variable of that name is replaced, or the variable is added.\<close>

fun upsertEnv :: "EnvVar \<Rightarrow> EnvVar list \<Rightarrow> EnvVar list" where
  "upsertEnv env [] = [env]"
| "upsertEnv env (e # es) = (if ev_Name e = ev_Name env then env # es else e # upsertEnv env es)"

definition mergeContainerToolkitEnv :: "EnvVar list \<Rightarrow> EnvVar list list \<Rightarrow> EnvVar list" where
  "mergeContainerToolkitEnv base additions = foldl (foldl (\<lambda>merged env. upsertEnv env merged)) base additions"

definition containerToolkitValidatorArgs :: "string list \<Rightarrow> string list" where
  "containerToolkitValidatorArgs baseArgs =
     (let args = [''driver'', ''--with-wait''] in if baseArgs \<noteq> [] then args @ baseArgs else args)"

section \<open>Objects\<close>

definition entrypointConfigMapName :: "containerToolkitPatcher \<Rightarrow> string" where
  "entrypointConfigMapName h = name h @ ''-entrypoint''"

definition entrypointScript :: string where
  "entrypointScript = Join [
     ''#!/bin/sh'',
     [],
     ''until [ -f '' @ validationsMountPath @ ''/driver-ready ]'',
     ''do'',
     ''  echo \"waiting for the driver validations to be ready...\"'',
     ''  sleep 5'',
     ''done'',
     [],
     ''set -o allexport'',
     ''. '' @ validationsMountPath @ ''/driver-ready'',
     [],
     ''command -v rbln-ctk >/dev/null 2>&1 && rbln-ctk info || true'',
     ''command -v rbln-ctk >/dev/null 2>&1 && rbln-ctk version || true'',
     ''command -v rbln-ctk-daemon >/dev/null 2>&1 && rbln-ctk-daemon --version || true'',
     ''echo \"driver-ready contents:\"'',
     ''cat '' @ validationsMountPath @ ''/driver-ready || true'',
     [],
     ''exec rbln-ctk-daemon \"$@\"''] [CHR 0x0A] @ [CHR 0x0A]"

text \<open>The init container that validates the driver; \<open>driverMounts\<close> is shared with the validator.\<close>

definition driverMounts :: "VolumeMount list" where
  "driverMounts = [
     (mkMount ''host-root'' ''/host'' True)\<lparr>vm_MountPropagation := HostToContainer\<rparr>,
     mkMount hostUsrBinVolumeName ''/host-usr-bin'' True,
     (mkMount ''driver-install-dir'' ''/run/rbln/driver'' False)\<lparr>vm_MountPropagation := HostToContainer\<rparr>,
     (mkMount validationsVolumeName validationsMountPath False)\<lparr>vm_MountPropagation := Bidirectional\<rparr>]"

definition ct_driverInit :: "ValidatorSpec \<Rightarrow> Container" where
  "ct_driverInit validatorSpec = build empty_container [
     WithName ''driver-validation'',
     WithImage (ComposeImageReference (vs_Registry validatorSpec) (vs_Image validatorSpec))
       (vs_Version validatorSpec) (vs_ImagePullPolicy validatorSpec),
     WithCommands [''rbln-validator''],
     WithArgs (containerToolkitValidatorArgs (vs_Args validatorSpec)),
     WithEnvs (mergeContainerToolkitEnv (vs_Env validatorSpec)
       [[envField ''OPERATOR_NAMESPACE'' [] ''metadata.namespace''], vs_Driver_Env validatorSpec]),
     WithSecurityContext (privileged\<lparr>sc_RunAsUser := Some 0\<rparr>),
     WithVolumeMounts driverMounts]"

text \<open>What the runtime adds: its environment, its socket's mount and volume; nothing for another one.\<close>

definition runtimeSocket :: "string \<Rightarrow> (string \<times> string) option" where
  "runtimeSocket runtime = map_of [
     (Containerd, (''containerd-sock'', ''/run/containerd/containerd.sock'')),
     (Docker, (''docker-sock'', ''/var/run/docker.sock'')),
     (CRIO, (''crio-sock'', ''/var/run/crio/crio.sock''))] runtime"

definition runtimeEnv :: "string \<Rightarrow> EnvVar list" where
  "runtimeEnv runtime = (case runtimeSocket runtime of
      None \<Rightarrow> []
    | Some (_, sock) \<Rightarrow> [envValue ''RBLN_CTK_DAEMON_RUNTIME'' runtime, envValue ''RBLN_CTK_DAEMON_SOCKET'' sock])"

definition toolkitVolumeMounts :: "containerToolkitPatcher \<Rightarrow> VolumeMount list" where
  "toolkitVolumeMounts h = [
     mkMount validationsVolumeName validationsMountPath False,
     mkMount ''driver-install-dir'' ''/run/rbln/driver'' False,
     mkMount ''host-root'' ''/host'' True,
     mkMount ''cdi-root'' ''/var/run/cdi'' False,
     mkMount ''run-rbln'' ''/run/rbln'' False,
     mkMount ''host-bin'' ''/host/usr/local/bin'' False,
     (mkMount (entrypointConfigMapName h) ''/bin/entrypoint.sh'' True)\<lparr>vm_SubPath := ''entrypoint.sh''\<rparr>]
     @ (case runtimeSocket (containerRuntime h) of
          None \<Rightarrow> [] | Some (vol, sock) \<Rightarrow> [mkMount vol sock False])"

definition toolkitVolumes :: "containerToolkitPatcher \<Rightarrow> Volume list" where
  "toolkitVolumes h = [
     hostPathVolume validationsVolumeName validationsMountPath DirectoryOrCreate,
     hostPathVolume ''driver-install-dir'' ''/run/rbln/driver'' DirectoryOrCreate,
     hostPathVolume ''host-root'' ''/'' Directory,
     hostPathVolume hostUsrBinVolumeName hostUsrBinPath Directory,
     hostPathVolume ''cdi-root'' ''/var/run/cdi'' DirectoryOrCreate,
     hostPathVolume ''run-rbln'' ''/run/rbln'' DirectoryOrCreate,
     hostPathVolume ''host-bin'' ''/usr/local/bin'' DirectoryOrCreate,
     \<lparr>vo_Name = entrypointConfigMapName h, vo_Source = ConfigMapVolume (entrypointConfigMapName h)
        [\<lparr>kp_Key = ''entrypoint.sh'', kp_Path = ''entrypoint.sh'', kp_Mode = None\<rparr>] (Some 493)\<rparr>]
     @ (case runtimeSocket (containerRuntime h) of
          None \<Rightarrow> [] | Some (vol, sock) \<Rightarrow> [hostPathVolume vol sock (Some ''Socket'')])"

definition toolkitContainer :: "containerToolkitPatcher \<Rightarrow> RBLNContainerToolkitSpec \<Rightarrow> Container" where
  "toolkitContainer h s =
     (let policy = (if cps_ImagePullPolicy (cs_PodSpec s) = [] then PullIfNotPresent
                    else cps_ImagePullPolicy (cs_PodSpec s));
          ct = build empty_container [
            WithName (name h),
            WithImage (ComposeImageReference (cs_Registry s) (cs_Image s)) (cs_Version s) policy,
            WithCommands [''/bin/entrypoint.sh''],
            WithEnvs (mergeContainerToolkitEnv (runtimeEnv (containerRuntime h)) [ct_Env s]),
            WithSecurityContext (privileged\<lparr>sc_RunAsUser := Some 0\<rparr>),
            WithResources (cps_Resources (cs_PodSpec s)) ''250m'' ''40Mi'',
            WithVolumeMounts (toolkitVolumeMounts h)]
      in if ct_Args s \<noteq> [] then ct\<lparr>co_Args := ct_Args s\<rparr> else ct)"

definition ct_podSpec ::
  "containerToolkitPatcher \<Rightarrow> RBLNContainerToolkitSpec \<Rightarrow> RBLNClusterPolicy \<Rightarrow> PodSpec" where
  "ct_podSpec h s owner = build empty_podSpec [
     WithServiceAccountName (name h),
     WithNodeSelector (map_lit [(''rebellions.ai/npu.deploy.container-toolkit'', ''true'')]),
     WithAffinity (cps_Affinity (cs_PodSpec s)),
     WithTolerations (cps_Tolerations (cs_PodSpec s)),
     WithImagePullSecrets (cps_ImagePullSecrets (cs_PodSpec s)),
     WithPriorityClassName (cs_PriorityClassName s),
     WithHostPID True,
     WithVolumes (toolkitVolumes h),
     WithInitContainers [ct_driverInit (cp_Validator (cp_Spec owner))],
     WithContainers [toolkitContainer h s]]"

section \<open>Methods\<close>

definition ct_handleServiceAccount ::
  "'w client \<Rightarrow> containerToolkitPatcher \<Rightarrow> RBLNClusterPolicy \<Rightarrow> ('w, unit) op" where
  "ct_handleServiceAccount c h owner =
     reconcile serviceAccount_kind (serviceAccounts c) (NewServiceAccountBuilder (name h) (namespace h))
       (ownedServiceAccount owner)"

definition ct_rules :: "string \<Rightarrow> PolicyRule list" where
  "ct_rules osVersion = [\<lparr>rule_APIGroups = [''apps''], rule_Resources = [''daemonsets''],
       rule_ResourceNames = [], rule_Verbs = [''list'']\<rparr>]
     @ (if osVersion \<noteq> [] then [privilegedSCCRule] else [])"

definition ct_handleRole ::
  "'w client \<Rightarrow> containerToolkitPatcher \<Rightarrow> RBLNClusterPolicy \<Rightarrow> ('w, unit) op" where
  "ct_handleRole c h owner =
     reconcile role_kind (roles c) (NewRoleBuilder (name h) (namespace h))
       (ownedRole (ct_rules (openshiftVersion h)) owner)"

definition ct_handleRoleBinding ::
  "'w client \<Rightarrow> containerToolkitPatcher \<Rightarrow> RBLNClusterPolicy \<Rightarrow> ('w, unit) op" where
  "ct_handleRoleBinding c h owner =
     reconcile roleBinding_kind (roleBindings c) (NewRoleBindingBuilder (name h) (namespace h))
       (ownedRoleBinding (ownRoleRef (name h)) [ownSubject (name h) (namespace h)] owner)"

definition ct_handleConfigMap ::
  "'w client \<Rightarrow> containerToolkitPatcher \<Rightarrow> RBLNClusterPolicy \<Rightarrow> ('w, unit) op" where
  "ct_handleConfigMap c h owner =
     reconcile configMap_kind (configMaps c) (NewConfigMapBuilder (entrypointConfigMapName h) (namespace h))
       (ownedConfigMap (map_lit [(''entrypoint.sh'', entrypointScript)]) owner)"

definition ct_handleDaemonSet ::
  "'w client \<Rightarrow> containerToolkitPatcher \<Rightarrow> RBLNContainerToolkitSpec \<Rightarrow> RBLNClusterPolicy \<Rightarrow> ('w, unit) op" where
  "ct_handleDaemonSet c h s owner =
     reconcile daemonSet_kind (daemonSets c) (NewDaemonSetBuilder (name h) (namespace h))
       (ownedDaemonSet (map_lit [(''app'', name h)]) (cps_Labels (cs_PodSpec s))
          (cps_Annotations (cs_PodSpec s)) (ct_podSpec h s owner) owner)"

definition ct_Patch ::
  "'w client \<Rightarrow> containerToolkitPatcher \<Rightarrow> RBLNClusterPolicy \<Rightarrow> ('w, unit) op" where
  "ct_Patch c h owner =
     (if \<not> patcher_IsEnabled h then ret ()
      else seqE [
        ct_handleServiceAccount c h owner,
        ct_handleRole c h owner,
        ct_handleRoleBinding c h owner,
        ct_handleConfigMap c h owner,
        withSpec h (\<lambda>s. ct_handleDaemonSet c h s owner)])"

definition ct_CleanUp ::
  "'w client \<Rightarrow> containerToolkitPatcher \<Rightarrow> RBLNClusterPolicy \<Rightarrow> ('w, unit) op" where
  "ct_CleanUp c h owner = seqE [
     deleteIfPresent (daemonSets c) (name h) (namespace h),
     deleteIfPresent (roleBindings c) (name h) (namespace h),
     deleteIfPresent (roles c) (name h) (namespace h),
     deleteIfPresent (configMaps c) (entrypointConfigMapName h) (namespace h),
     deleteIfPresent (serviceAccounts c) (name h) (namespace h)]"

definition ct_ConditionReport ::
  "'w client \<Rightarrow> containerToolkitPatcher \<Rightarrow> RBLNClusterPolicy \<Rightarrow> ('w, Condition list) op" where
  "ct_ConditionReport c h owner = daemonSetConditionReport c (name h) (namespace h)"

definition ct_Patcher :: "'w client \<Rightarrow> containerToolkitPatcher \<Rightarrow> 'w Patcher" where
  "ct_Patcher c h = \<lparr>pt_IsEnabled = patcher_IsEnabled h, pt_Patch = ct_Patch c h,
     pt_CleanUp = ct_CleanUp c h, pt_ConditionReport = ct_ConditionReport c h,
     pt_ComponentName = name h, pt_ComponentNamespace = namespace h\<rparr>"

section \<open>Contract\<close>

definition ct_objects :: "containerToolkitPatcher \<Rightarrow> (kind \<times> ObjectKey) set" where
  "ct_objects h = {objectOf serviceAccount_kind (name h) (namespace h), objectOf daemonSet_kind (name h) (namespace h),
     objectOf configMap_kind (entrypointConfigMapName h) (namespace h)} \<union> rbacObjects (name h) (namespace h)"

lemmas ct_methods = ct_Patcher_def Patcher.simps ct_Patch_def ct_CleanUp_def
  ct_handleServiceAccount_def ct_handleRole_def ct_handleRoleBinding_def ct_handleConfigMap_def
  ct_handleDaemonSet_def

interpretation ct: patcher_contract view c "ct_Patcher c h" "ct_Patcher (recording c) h" "ct_objects h"
  for view c h
proof unfold_locales
  fix owner assume "pt_IsEnabled (ct_Patcher c h)"
  then have en: "patcher_IsEnabled h" by (simp add: ct_Patcher_def)
  then obtain s where s: "desiredSpec h = Some s" by (rule patcher_IsEnabledE)
  show "manages view c applyVerbs (\<lambda>x. x \<noteq> None) (ct_objects h)
      (pt_Patch (ct_Patcher c h) owner) (pt_Patch (ct_Patcher (recording c) h) owner)"
    unfolding ct_methods withSpec_def s option.case if_not_P [OF iffD2 [OF not_not en]]
    by (rule manages_eq, (rule manages_intros | simp; fail)+) (auto simp: ct_objects_def rbacObjects_def)
next
  fix owner show "manages view c {DeleteVerb} (\<lambda>x. x = None) (ct_objects h)
      (pt_CleanUp (ct_Patcher c h) owner) (pt_CleanUp (ct_Patcher (recording c) h) owner)"
    unfolding ct_methods
    by (rule manages_eq, (rule manages_intros | simp; fail)+) (auto simp: ct_objects_def rbacObjects_def)
qed (simp add: ct_Patcher_def)

end
