(* ===== verification/Validator_Patcher.thy ===== *)
theory Validator_Patcher
  imports Container_Toolkit
begin

text \<open>
  \<open>validator.go\<close>: the patcher of the operator validator, which is always deployed.  It manages a
  cluster role and binding without an owner besides the namespaced objects.
\<close>

record validatorPatcher = "ValidatorSpec patcher" +
  daemonsets :: "DaemonsetsSpec option"

definition NewValidatorPatcher :: "string \<Rightarrow> RBLNClusterPolicySpec \<Rightarrow> string \<Rightarrow> validatorPatcher" where
  "NewValidatorPatcher ns cpSpec osVersion =
     \<lparr>desiredSpec = Some (cp_Validator cpSpec),
      name = cp_BaseName cpSpec @ ''-'' @ ''operator-validator'',
      namespace = ns, openshiftVersion = osVersion, daemonsets = cp_Daemonsets cpSpec\<rparr>"

definition val_IsEnabled :: "validatorPatcher \<Rightarrow> bool" where
  "val_IsEnabled h \<longleftrightarrow> desiredSpec h \<noteq> None"

definition validatorComponentArgs :: "string list \<Rightarrow> string \<Rightarrow> bool \<Rightarrow> string list" where
  "validatorComponentArgs baseArgs component withWait =
     (let args = [component];
          args' = (if withWait then args @ [''--with-wait''] else args)
      in if baseArgs \<noteq> [] then args' @ baseArgs else args')"

definition mergeEnvVars :: "EnvVar list \<Rightarrow> EnvVar list list \<Rightarrow> EnvVar list" where
  "mergeEnvVars base additions = foldl (foldl (\<lambda>merged env. upsertEnv env merged)) base additions"

section \<open>Objects\<close>

definition val_pullPolicy :: "ValidatorSpec \<Rightarrow> string" where
  "val_pullPolicy v = (if vs_ImagePullPolicy v = [] then PullIfNotPresent else vs_ImagePullPolicy v)"

definition val_baseEnv :: "ValidatorSpec \<Rightarrow> EnvVar list" where
  "val_baseEnv v = mergeEnvVars [envValue ''TMPDIR'' validationsMountPath]
     [vs_Env v, [envField ''OPERATOR_NAMESPACE'' [] ''metadata.namespace'']]"

definition val_driverInit :: "ValidatorSpec \<Rightarrow> Container" where
  "val_driverInit v = build empty_container [
     WithName ''driver-validation'',
     WithImage (ComposeImageReference (vs_Registry v) (vs_Image v)) (vs_Version v) (val_pullPolicy v),
     WithCommands [''rbln-validator''],
     WithArgs (validatorComponentArgs (vs_Args v) ''driver'' True),
     WithEnvs (mergeEnvVars (val_baseEnv v) [vs_Driver_Env v]),
     WithSecurityContext (privileged\<lparr>sc_RunAsUser := Some 0\<rparr>),
     WithVolumeMounts driverMounts]"

definition val_toolkitInit :: "ValidatorSpec \<Rightarrow> Container" where
  "val_toolkitInit v = build empty_container [
     WithName ''toolkit-validation'',
     WithImage (ComposeImageReference (vs_Registry v) (vs_Image v)) (vs_Version v) (val_pullPolicy v),
     WithCommands [''rbln-validator''],
     WithArgs (validatorComponentArgs (vs_Args v) ''toolkit'' False),
     WithEnvs (mergeEnvVars (val_baseEnv v) [vs_Toolkit_Env v]),
     WithSecurityContext (privileged\<lparr>sc_RunAsUser := Some 0\<rparr>),
     WithVolumeMounts [
       (mkMount validationsVolumeName validationsMountPath False)\<lparr>vm_MountPropagation := Bidirectional\<rparr>,
       mkMount ''cdi-root'' ''/var/run/cdi'' False]]"

definition val_mainContainer :: "validatorPatcher \<Rightarrow> ValidatorSpec \<Rightarrow> Container" where
  "val_mainContainer h v =
     (let ct = build empty_container [
        WithName (name h),
        WithImage (ComposeImageReference (vs_Registry v) (vs_Image v)) (vs_Version v) (val_pullPolicy v),
        WithCommands [''sh'', ''-c''],
        WithArgs [''echo all validations are successful; while true; do sleep 86400; done''],
        WithEnvs (val_baseEnv v),
        WithSecurityContext (privileged\<lparr>sc_RunAsUser := Some 0\<rparr>),
        WithLifeCycle [''sh'', ''-c'', ''rm -f '' @ validationsMountPath @ ''/*-ready''],
        WithVolumeMounts [
          (mkMount validationsVolumeName validationsMountPath False)\<lparr>vm_MountPropagation := Bidirectional\<rparr>]]
      in case vs_Resources v of None \<Rightarrow> ct | Some r \<Rightarrow> WithResources r ''250m'' ''40Mi'' ct)"

definition val_podSpec :: "validatorPatcher \<Rightarrow> ValidatorSpec \<Rightarrow> PodSpec" where
  "val_podSpec h v = build empty_podSpec [
     WithServiceAccountName (name h),
     WithNodeSelector (map_lit [(''rebellions.ai/npu.deploy.operator-validator'', ''true'')]),
     WithAffinity (case daemonsets h of None \<Rightarrow> None | Some d \<Rightarrow> dss_Affinity d),
     WithTolerations (case daemonsets h of None \<Rightarrow> [] | Some d \<Rightarrow> dss_Tolerations d),
     WithImagePullSecrets (vs_ImagePullSecrets v),
     WithPriorityClassName (case daemonsets h of None \<Rightarrow> [] | Some d \<Rightarrow> dss_PriorityClassName d),
     WithVolumes [
       hostPathVolume validationsVolumeName validationsMountPath DirectoryOrCreate,
       hostPathVolume ''driver-install-dir'' ''/run/rbln/driver'' DirectoryOrCreate,
       hostPathVolume ''host-root'' ''/'' Directory,
       hostPathVolume hostUsrBinVolumeName hostUsrBinPath Directory,
       hostPathVolume ''cdi-root'' ''/var/run/cdi'' DirectoryOrCreate],
     WithInitContainers [val_driverInit v, val_toolkitInit v],
     WithContainers [val_mainContainer h v]]"

section \<open>Methods\<close>

definition val_handleServiceAccount ::
  "'w client \<Rightarrow> validatorPatcher \<Rightarrow> RBLNClusterPolicy \<Rightarrow> ('w, unit) op" where
  "val_handleServiceAccount c h owner =
     reconcile serviceAccount_kind (serviceAccounts c) (NewServiceAccountBuilder (name h) (namespace h))
       (ownedServiceAccount owner)"

definition val_rules :: "string \<Rightarrow> PolicyRule list" where
  "val_rules osVersion = [
     \<lparr>rule_APIGroups = [[]], rule_Resources = [''pods''], rule_ResourceNames = [],
       rule_Verbs = [''create'', ''get'', ''list'', ''watch'', ''update'', ''patch'', ''delete'']\<rparr>,
     \<lparr>rule_APIGroups = [''apps''], rule_Resources = [''daemonsets''], rule_ResourceNames = [],
       rule_Verbs = [''get'', ''list'', ''watch'']\<rparr>]
     @ (if osVersion \<noteq> [] then [privilegedSCCRule] else [])"

definition val_handleRole ::
  "'w client \<Rightarrow> validatorPatcher \<Rightarrow> RBLNClusterPolicy \<Rightarrow> ('w, unit) op" where
  "val_handleRole c h owner =
     reconcile role_kind (roles c) (NewRoleBuilder (name h) (namespace h))
       (ownedRole (val_rules (openshiftVersion h)) owner)"

definition val_handleRoleBinding ::
  "'w client \<Rightarrow> validatorPatcher \<Rightarrow> RBLNClusterPolicy \<Rightarrow> ('w, unit) op" where
  "val_handleRoleBinding c h owner =
     reconcile roleBinding_kind (roleBindings c) (NewRoleBindingBuilder (name h) (namespace h))
       (ownedRoleBinding (ownRoleRef (name h)) [ownSubject (name h) (namespace h)] owner)"

definition val_handleClusterRole :: "'w client \<Rightarrow> validatorPatcher \<Rightarrow> ('w, unit) op" where
  "val_handleClusterRole c h =
     reconcile clusterRole_kind (clusterRoles c) (NewRoleBuilder (name h) [])
       (setClusterRole [\<lparr>rule_APIGroups = [[]], rule_Resources = [''nodes''], rule_ResourceNames = [],
          rule_Verbs = [''get'', ''list'', ''watch'']\<rparr>])"

definition val_handleClusterRoleBinding :: "'w client \<Rightarrow> validatorPatcher \<Rightarrow> ('w, unit) op" where
  "val_handleClusterRoleBinding c h =
     reconcile clusterRoleBinding_kind (clusterRoleBindings c) (NewRoleBindingBuilder (name h) [])
       (setClusterRoleBinding \<lparr>rref_APIGroup = ''rbac.authorization.k8s.io'', rref_Kind = ''ClusterRole'',
          rref_Name = name h\<rparr> [ownSubject (name h) (namespace h)])"

definition val_handleDaemonSet ::
  "'w client \<Rightarrow> validatorPatcher \<Rightarrow> ValidatorSpec \<Rightarrow> RBLNClusterPolicy \<Rightarrow> ('w, unit) op" where
  "val_handleDaemonSet c h v owner =
     (let labels = map_lit [(''app'', name h)];
          labels' = (case daemonsets h of None \<Rightarrow> labels | Some d \<Rightarrow> MergeMaps labels (dss_Labels d));
          annotations = (case daemonsets h of None \<Rightarrow> fmempty | Some d \<Rightarrow> dss_Annotations d)
      in reconcile daemonSet_kind (daemonSets c) (NewDaemonSetBuilder (name h) (namespace h))
           (ownedDaemonSet (map_lit [(''app'', name h)]) labels' annotations (val_podSpec h v) owner))"

definition val_Patch ::
  "'w client \<Rightarrow> validatorPatcher \<Rightarrow> RBLNClusterPolicy \<Rightarrow> ('w, unit) op" where
  "val_Patch c h owner =
     (if \<not> val_IsEnabled h then ret ()
      else seqE [
        val_handleServiceAccount c h owner,
        val_handleRole c h owner,
        val_handleRoleBinding c h owner,
        val_handleClusterRole c h,
        val_handleClusterRoleBinding c h,
        withSpec h (\<lambda>v. val_handleDaemonSet c h v owner)])"

definition val_CleanUp ::
  "'w client \<Rightarrow> validatorPatcher \<Rightarrow> RBLNClusterPolicy \<Rightarrow> ('w, unit) op" where
  "val_CleanUp c h owner = seqE [
     deleteIfPresent (daemonSets c) (name h) (namespace h),
     deleteIfPresent (clusterRoleBindings c) (name h) [],
     deleteIfPresent (clusterRoles c) (name h) [],
     deleteIfPresent (roleBindings c) (name h) (namespace h),
     deleteIfPresent (roles c) (name h) (namespace h),
     deleteIfPresent (serviceAccounts c) (name h) (namespace h)]"

definition val_ConditionReport ::
  "'w client \<Rightarrow> validatorPatcher \<Rightarrow> RBLNClusterPolicy \<Rightarrow> ('w, Condition list) op" where
  "val_ConditionReport c h owner = daemonSetConditionReport c (name h) (namespace h)"

definition val_Patcher :: "'w client \<Rightarrow> validatorPatcher \<Rightarrow> 'w Patcher" where
  "val_Patcher c h = \<lparr>pt_IsEnabled = val_IsEnabled h, pt_Patch = val_Patch c h,
     pt_CleanUp = val_CleanUp c h, pt_ConditionReport = val_ConditionReport c h,
     pt_ComponentName = name h, pt_ComponentNamespace = namespace h\<rparr>"

section \<open>Contract\<close>

definition val_objects :: "validatorPatcher \<Rightarrow> (kind \<times> ObjectKey) set" where
  "val_objects h = {objectOf serviceAccount_kind (name h) (namespace h), objectOf daemonSet_kind (name h) (namespace h),
     objectOf clusterRole_kind (name h) [], objectOf clusterRoleBinding_kind (name h) []}
     \<union> rbacObjects (name h) (namespace h)"

lemmas val_methods = val_Patcher_def Patcher.simps val_Patch_def val_CleanUp_def
  val_handleServiceAccount_def val_handleRole_def val_handleRoleBinding_def val_handleClusterRole_def
  val_handleClusterRoleBinding_def val_handleDaemonSet_def

interpretation val: patcher_contract view c "val_Patcher c h" "val_Patcher (recording c) h" "val_objects h"
  for view c h
proof unfold_locales
  fix owner assume "pt_IsEnabled (val_Patcher c h)"
  then have en: "val_IsEnabled h" by (simp add: val_Patcher_def)
  then obtain v where v: "desiredSpec h = Some v" by (auto simp: val_IsEnabled_def)
  show "manages view c applyVerbs (\<lambda>x. x \<noteq> None) (val_objects h)
      (pt_Patch (val_Patcher c h) owner) (pt_Patch (val_Patcher (recording c) h) owner)"
    unfolding val_methods withSpec_def v option.case if_not_P [OF iffD2 [OF not_not en]] Let_def
    by (rule manages_eq, (rule manages_intros | simp; fail)+) (auto simp: val_objects_def rbacObjects_def)
next
  fix owner show "manages view c {DeleteVerb} (\<lambda>x. x = None) (val_objects h)
      (pt_CleanUp (val_Patcher c h) owner) (pt_CleanUp (val_Patcher (recording c) h) owner)"
    unfolding val_methods
    by (rule manages_eq, (rule manages_intros | simp; fail)+) (auto simp: val_objects_def rbacObjects_def)
qed (simp add: val_Patcher_def)

section \<open>Merged environments\<close>

definition envLookup :: "EnvVar list \<Rightarrow> string \<Rightarrow> EnvVar option" where
  "envLookup es n = find (\<lambda>e. ev_Name e = n) es"

lemma envLookup_simps [simp]:
  "envLookup [] n = None"
  "envLookup (e # es) n = (if ev_Name e = n then Some e else envLookup es n)"
  by (simp_all add: envLookup_def)

lemma envLookup_append:
  "envLookup (xs @ ys) n = (case envLookup xs n of Some e \<Rightarrow> Some e | None \<Rightarrow> envLookup ys n)"
  by (induction xs) simp_all

lemma envLookup_upsert: "envLookup (upsertEnv e es) n = (if ev_Name e = n then Some e else envLookup es n)"
  by (induction es) auto

lemma names_upsert:
  "List.map ev_Name (upsertEnv e es) =
     List.map ev_Name es @ (if ev_Name e \<in> ev_Name ` set es then [] else [ev_Name e])"
  by (induction es) auto

lemma mergeEnvVars_flat:
  "mergeEnvVars base additions = foldl (\<lambda>merged env. upsertEnv env merged) base (concat additions)"
  unfolding mergeEnvVars_def by (induction additions arbitrary: base) simp_all

lemma envLookup_fold:
  "envLookup (foldl (\<lambda>merged env. upsertEnv env merged) base es) n =
     (case envLookup (rev es) n of Some e \<Rightarrow> Some e | None \<Rightarrow> envLookup base n)"
  by (induction es arbitrary: base) (auto simp: envLookup_upsert envLookup_append split: option.splits)

lemma distinct_fold:
  "distinct (List.map ev_Name base) \<Longrightarrow>
   distinct (List.map ev_Name (foldl (\<lambda>merged env. upsertEnv env merged) base es))"
  by (induction es arbitrary: base) (auto simp: names_upsert)

lemma names_fold:
  "\<exists>rest. List.map ev_Name (foldl (\<lambda>merged env. upsertEnv env merged) base es) = List.map ev_Name base @ rest"
proof (induction es arbitrary: base)
  case (Cons e es)
  from Cons [of "upsertEnv e base"] show ?case by (auto simp: names_upsert)
qed simp

section \<open>Properties\<close>

text \<open>
  In a merged environment the last addition of a name wins over earlier ones and over the base,
  the base's variables keep their order at the front, and a base without duplicate names gives an
  environment without duplicate names.
\<close>

theorem mergeEnvVars_correct:
  "envLookup (mergeEnvVars base additions) n =
     (case envLookup (rev (concat additions)) n of Some e \<Rightarrow> Some e | None \<Rightarrow> envLookup base n) \<and>
   (\<exists>rest. List.map ev_Name (mergeEnvVars base additions) = List.map ev_Name base @ rest) \<and>
   (distinct (List.map ev_Name base) \<longrightarrow> distinct (List.map ev_Name (mergeEnvVars base additions)))"
  unfolding mergeEnvVars_flat using envLookup_fold names_fold distinct_fold by blast

theorem mergeEnvVars_correct_witness:
  "distinct (List.map ev_Name (mergeEnvVars [envValue ''A'' ''1'', envValue ''B'' ''2''] [[envValue ''B'' ''3'', envValue ''B'' ''4'']])) \<and>
   envLookup (mergeEnvVars [envValue ''A'' ''1'', envValue ''B'' ''2''] [[envValue ''B'' ''3'', envValue ''B'' ''4'']]) ''B'' =
     Some (envValue ''B'' ''4'')"
  using mergeEnvVars_correct [of "[envValue ''A'' ''1'', envValue ''B'' ''2'']" "[[envValue ''B'' ''3'', envValue ''B'' ''4'']]" "''B''"]
  by (simp add: envValue_def)

end
