(* ===== verification/Node_Labels.thy ===== *)
theory Node_Labels
  imports Store_Logic
begin

text \<open>
  The node labels of \<open>scope/cluster_policy.go\<close>: which components a node gets, from the devices that
  node feature discovery found on it and its workload configuration.  Maps are traversed in the order
  of their literals; the results do not depend on it.
\<close>

section \<open>Tables\<close>

definition rblnDeviceLabels :: strmap where
  "rblnDeviceLabels = map_lit [
     (''feature.node.kubernetes.io/pci-1200_1eff.present'', ''true''),
     (''feature.node.kubernetes.io/pci-1eff.present'', ''true'')]"

abbreviation WorkloadContainer :: string where "WorkloadContainer \<equiv> ''container''"
abbreviation WorkloadVMPassthrough :: string where "WorkloadVMPassthrough \<equiv> ''vm-passthrough''"

definition rblnComponentLabels :: "(string \<times> (string \<times> string) list) list" where
  "rblnComponentLabels = [
     (WorkloadContainer, [
       (''rebellions.ai/npu.deploy.driver'', ''true''),
       (''rebellions.ai/npu.deploy.device-plugin'', ''true''),
       (''rebellions.ai/npu.deploy.metrics-exporter'', ''true''),
       (''rebellions.ai/npu.deploy.rbln-daemon'', ''true''),
       (''rebellions.ai/npu.deploy.npu-feature-discovery'', ''true''),
       (''rebellions.ai/npu.deploy.operator-validator'', ''true''),
       (''rebellions.ai/npu.deploy.container-toolkit'', ''true'')]),
     (WorkloadVMPassthrough, [
       (''rebellions.ai/npu.deploy.vfio-manager'', ''true''),
       (''rebellions.ai/npu.deploy.sandbox-device-plugin'', ''true'')])]"

text \<open>A lookup of an unknown configuration gives the nil map.\<close>

definition componentLabels :: "string \<Rightarrow> (string \<times> string) list" where
  "componentLabels config = (case map_of rblnComponentLabels config of None \<Rightarrow> [] | Some m \<Rightarrow> m)"

section \<open>Functions on labels\<close>

definition hasNFDLabels :: "strmap \<Rightarrow> bool" where
  "hasNFDLabels labels = fBex (fmdom labels) (\<lambda>key. HasPrefix key NFDLabelPrefix)"

definition hasRBLNPresentLabel :: "strmap \<Rightarrow> bool" where
  "hasRBLNPresentLabel labels =
     (if map_has labels RBLNPresentLabelKey then map_get labels RBLNPresentLabelKey = ''true'' else False)"

definition hasRBLNDeviceLabel :: "strmap \<Rightarrow> bool" where
  "hasRBLNDeviceLabel labels = fBex (fmdom labels) (\<lambda>key.
     map_has rblnDeviceLabels key \<and> map_get rblnDeviceLabels key = map_get labels key)"

definition isValidWorkloadConfig :: "string \<Rightarrow> bool" where
  "isValidWorkloadConfig workloadConfig \<longleftrightarrow> map_of rblnComponentLabels workloadConfig \<noteq> None"

text \<open>The configuration, and the error that is only logged.\<close>

definition getWorkloadConfig :: "strmap \<Rightarrow> string \<Rightarrow> string \<times> error option" where
  "getWorkloadConfig labels defaultWorkload =
     (case fmlookup labels RBLNWorkloadConfigLabelKey of
        Some workloadConfig \<Rightarrow>
          (if isValidWorkloadConfig workloadConfig then (workloadConfig, None)
           else (defaultWorkload, Some (Errorf (''invalid NPU workload config: '' @ workloadConfig))))
      | None \<Rightarrow> (defaultWorkload, Some (Errorf ''no NPU workload config label found'')))"

definition removeAllRBLNComponentLabels :: "strmap \<Rightarrow> strmap" where
  "removeAllRBLNComponentLabels labels =
     foldl (\<lambda>ls entry. foldl (\<lambda>ls' kv. fmdrop (fst kv) ls') ls (snd entry)) labels rblnComponentLabels"

text \<open>One key of another configuration's map, and one entry of the configuration's own map.\<close>

definition dropOtherKey :: "string \<Rightarrow> strmap \<times> bool \<Rightarrow> string \<times> string \<Rightarrow> strmap \<times> bool" where
  "dropOtherKey config st kv =
     (if map_of (componentLabels config) (fst kv) \<noteq> None then st
      else if map_has (fst st) (fst kv) then (fmdrop (fst kv) (fst st), True)
      else st)"

definition addOwnKey :: "strmap \<times> bool \<Rightarrow> string \<times> string \<Rightarrow> strmap \<times> bool" where
  "addOwnKey st kv =
     (if \<not> map_has (fst st) (fst kv) then (fmupd (fst kv) (snd kv) (fst st), True) else st)"

definition updateRBLNComponentLabels :: "strmap \<Rightarrow> string \<Rightarrow> strmap \<times> bool" where
  "updateRBLNComponentLabels labels config =
     foldl addOwnKey
       (foldl (\<lambda>st entry. if fst entry = config then st else foldl (dropOtherKey config) st (snd entry))
          (labels, False) rblnComponentLabels)
       (componentLabels config)"

section \<open>\<open>LabelRblnNodes\<close>\<close>

text \<open>
  One iteration on a node's labels: the new labels, whether this iteration changed them, and whether
  the node counts as an RBLN node.
\<close>

definition labelNode :: "string \<Rightarrow> strmap \<Rightarrow> strmap \<times> bool \<times> bool" where
  "labelNode defaultWorkload labels =
     (let (labels1, changed1) =
            (if \<not> hasRBLNPresentLabel labels \<and> hasRBLNDeviceLabel labels
             then (fmupd RBLNPresentLabelKey ''true'' labels, True)
             else if hasRBLNPresentLabel labels \<and> \<not> hasRBLNDeviceLabel labels
             then (removeAllRBLNComponentLabels (fmupd RBLNPresentLabelKey ''false'' labels), True)
             else (labels, False))
      in if hasRBLNPresentLabel labels1
         then (let (workloadConfig, _) = getWorkloadConfig labels1 defaultWorkload;
                   (labels2, changed2) = updateRBLNComponentLabels labels1 workloadConfig
               in (labels2, changed1 \<or> changed2, True))
         else (labels1, changed1, False))"

definition SetLabels :: "strmap \<Rightarrow> Node \<Rightarrow> Node" where
  "SetLabels labels node = node\<lparr>node_Meta := (node_Meta node)\<lparr>om_Labels := labels\<rparr>\<rparr>"

text \<open>
  The loop.  \<open>updateLabels\<close> is declared outside it and never reset: after the first changed node,
  every later node is updated too.
\<close>

fun labelNodes ::
  "'w client \<Rightarrow> string \<Rightarrow> Node list \<Rightarrow> bool \<Rightarrow> nat \<Rightarrow> bool \<Rightarrow> ('w, bool \<times> nat) op" where
  "labelNodes c defaultWorkload [] nfdInstalled cnt updateLabels = ret (nfdInstalled, cnt)"
| "labelNodes c defaultWorkload (node # rest) nfdInstalled cnt updateLabels =
     (let labels = om_Labels (node_Meta node);
          nfdInstalled' = (nfdInstalled \<or> hasNFDLabels labels);
          (labels', changed, isRbln) = labelNode defaultWorkload labels;
          updateLabels' = (updateLabels \<or> changed);
          cnt' = (if isRbln then Suc cnt else cnt)
      in bind (if updateLabels'
               then catch (bind (call (api_Update (nodes c) (SetLabels labels' node))) (\<lambda>_. ret ()))
                      (\<lambda>e. fail (Errorf (''failed to label node '' @ om_Name (node_Meta node)
                                         @ '', err: '' @ err_text e)))
               else ret ())
           (\<lambda>_. labelNodes c defaultWorkload rest nfdInstalled' cnt' updateLabels'))"

definition LabelRblnNodes :: "'w client \<Rightarrow> RBLNClusterPolicy \<Rightarrow> ('w, bool \<times> nat) op" where
  "LabelRblnNodes c singleton =
     bind (catch (call (api_List (nodes c) all_objects))
             (\<lambda>e. fail (Errorf (''failed to list nodes: '' @ err_text e))))
       (\<lambda>nodeList. labelNodes c (cp_WorkloadType (cp_Spec singleton)) nodeList False 0 False)"

section \<open>What the labelling achieves\<close>

lemma drop_lookup:
  "fmlookup (fst (foldl (dropOtherKey config) st kvs)) k =
     (if k \<in> fst ` set kvs \<and> map_of (componentLabels config) k = None then None else fmlookup (fst st) k)"
  by (induction kvs arbitrary: st) (auto simp: dropOtherKey_def map_has_def)

lemma drop_flag:
  "snd (foldl (dropOtherKey config) st kvs) \<longleftrightarrow>
     snd st \<or> (\<exists>k\<in>fst ` set kvs. map_of (componentLabels config) k = None \<and> map_has (fst st) k)"
  by (induction kvs arbitrary: st) (auto simp: dropOtherKey_def map_has_def)

lemma add_lookup:
  "fmlookup (fst (foldl addOwnKey st kvs)) k =
     (case fmlookup (fst st) k of Some v \<Rightarrow> Some v | None \<Rightarrow> map_of kvs k)"
  by (induction kvs arbitrary: st) (auto simp: addOwnKey_def map_has_def split: option.splits)

lemma add_flag:
  "snd (foldl addOwnKey st kvs) \<longleftrightarrow> snd st \<or> (\<exists>k\<in>fst ` set kvs. \<not> map_has (fst st) k)"
  by (induction kvs arbitrary: st) (auto simp: addOwnKey_def map_has_def)

text \<open>The entries and keys of the other configurations.\<close>

definition otherEntries :: "string \<Rightarrow> (string \<times> string) list" where
  "otherEntries config = concat (List.map snd (filter (\<lambda>entry. fst entry \<noteq> config) rblnComponentLabels))"

definition otherKeys :: "string \<Rightarrow> string set" where
  "otherKeys config = {k \<in> fst ` set (otherEntries config). map_of (componentLabels config) k = None}"

lemma otherKeys_not_own: "k \<in> otherKeys config \<Longrightarrow> map_of (componentLabels config) k = None"
  by (simp add: otherKeys_def)

lemma updateRBLNComponentLabels_eq:
  "updateRBLNComponentLabels labels config =
     foldl addOwnKey (foldl (dropOtherKey config) (labels, False) (otherEntries config)) (componentLabels config)"
proof -
  have "foldl (\<lambda>st entry. if fst entry = config then st else foldl (dropOtherKey config) st (snd entry)) st entries
      = foldl (dropOtherKey config) st (concat (List.map snd (filter (\<lambda>entry. fst entry \<noteq> config) entries)))" for st entries
    by (induction entries arbitrary: st) simp_all
  then show ?thesis by (simp add: updateRBLNComponentLabels_def otherEntries_def)
qed

lemma dropOthers_lookup:
  "fmlookup (fst (foldl (dropOtherKey config) st (otherEntries config))) k =
     (if k \<in> otherKeys config then None else fmlookup (fst st) k)"
  by (simp add: drop_lookup otherKeys_def)

lemma dropOthers_flag:
  "snd (foldl (dropOtherKey config) st (otherEntries config)) \<longleftrightarrow>
     snd st \<or> (\<exists>k\<in>otherKeys config. map_has (fst st) k)"
  by (auto simp: drop_flag otherKeys_def)

text \<open>The labels after an update: own keys present, other configurations' keys gone, the rest kept.\<close>

lemma update_lookup:
  "fmlookup (fst (updateRBLNComponentLabels labels config)) k =
     (case map_of (componentLabels config) k of
        Some v \<Rightarrow> (case fmlookup labels k of Some u \<Rightarrow> Some u | None \<Rightarrow> Some v)
      | None \<Rightarrow> if k \<in> otherKeys config then None else fmlookup labels k)"
  using otherKeys_not_own [of k config]
  by (auto simp: updateRBLNComponentLabels_eq add_lookup dropOthers_lookup split: option.splits)

text \<open>The flag tells exactly whether there was something to change.\<close>

lemma update_flag:
  "snd (updateRBLNComponentLabels labels config) \<longleftrightarrow>
     (\<exists>k\<in>otherKeys config. map_has labels k) \<or>
     (\<exists>k\<in>fst ` set (componentLabels config). \<not> map_has labels k)"
proof -
  have own: "k \<notin> otherKeys config" if "k \<in> fst ` set (componentLabels config)" for k
    using that otherKeys_not_own [of k config] map_of_eq_None_iff [of "componentLabels config" k] by auto
  let ?st = "foldl (dropOtherKey config) (labels, False) (otherEntries config)"
  have "map_has (fst ?st) k = map_has labels k" if "k \<in> fst ` set (componentLabels config)" for k
    using own [OF that] by (simp add: map_has_def dropOthers_lookup)
  then show ?thesis
    unfolding updateRBLNComponentLabels_eq add_flag dropOthers_flag by auto
qed

lemma update_unchanged:
  assumes "\<not> snd (updateRBLNComponentLabels labels config)"
  shows "updateRBLNComponentLabels labels config = (labels, False)"
proof -
  have "fmlookup (fst (updateRBLNComponentLabels labels config)) k = fmlookup labels k" for k
  proof (cases "map_of (componentLabels config) k")
    case None
    then show ?thesis using assms by (auto simp: update_lookup update_flag map_has_def)
  next
    case (Some v)
    then have "k \<in> fst ` set (componentLabels config)" by (metis map_of_eq_None_iff option.distinct(1))
    then have "map_has labels k" using assms by (auto simp: update_flag)
    then show ?thesis using Some by (auto simp: update_lookup map_has_def)
  qed
  then have "fst (updateRBLNComponentLabels labels config) = labels" by (intro fmap_ext)
  with assms show ?thesis by (metis prod.collapse)
qed

lemma map_of_key: "k \<in> fst ` set kvs \<Longrightarrow> \<exists>v. map_of kvs k = Some v"
  by (metis map_of_eq_None_iff not_None_eq)

lemma update_idem:
  "updateRBLNComponentLabels (fst (updateRBLNComponentLabels labels config)) config =
     (fst (updateRBLNComponentLabels labels config), False)"
proof (rule update_unchanged)
  let ?new = "fst (updateRBLNComponentLabels labels config)"
  have "\<not> map_has ?new k" if "k \<in> otherKeys config" for k
    using that otherKeys_not_own [OF that] by (simp add: map_has_def update_lookup)
  moreover have "map_has ?new k" if "k \<in> fst ` set (componentLabels config)" for k
    using map_of_key [OF that] by (auto simp: map_has_def update_lookup split: option.splits)
  ultimately show "\<not> snd (updateRBLNComponentLabels ?new config)"
    unfolding update_flag by blast
qed

subsection \<open>A node\<close>

definition componentKeys :: "string list" where
  "componentKeys = List.map fst (concat (List.map snd rblnComponentLabels))"

lemma drops_lookup:
  fixes labels :: strmap and entries :: "(string \<times> (string \<times> string) list) list"
  shows "fmlookup (foldl (\<lambda>ls entry. foldl (\<lambda>ls' kv. fmdrop (fst kv) ls') ls (snd entry)) labels entries) k =
     (if k \<in> fst ` set (concat (List.map snd entries)) then None else fmlookup labels k)"
proof -
  have inner: "fmlookup (foldl (\<lambda>ls' kv. fmdrop (fst kv) ls') labels kvs) k =
      (if k \<in> fst ` set kvs then None else fmlookup labels k)" for labels :: strmap and kvs :: "(string \<times> string) list"
    by (induction kvs arbitrary: labels) auto
  show ?thesis by (induction entries arbitrary: labels) (auto simp: inner image_Un)
qed

lemma removeAll_lookup:
  "fmlookup (removeAllRBLNComponentLabels labels) k = (if k \<in> set componentKeys then None else fmlookup labels k)"
  by (simp add: removeAllRBLNComponentLabels_def componentKeys_def drops_lookup del: set_concat)

lemma reserved_keys:
  "RBLNPresentLabelKey \<notin> set componentKeys"
  "RBLNWorkloadConfigLabelKey \<notin> set componentKeys"
  by code_simp+

lemma device_keys: "map_has rblnDeviceLabels k \<Longrightarrow> k \<notin> set componentKeys \<and> k \<noteq> RBLNPresentLabelKey"
proof -
  have "list_all (\<lambda>d. d \<notin> set componentKeys \<and> d \<noteq> RBLNPresentLabelKey)
      [''feature.node.kubernetes.io/pci-1200_1eff.present'', ''feature.node.kubernetes.io/pci-1eff.present'']"
    by code_simp
  then show "map_has rblnDeviceLabels k \<Longrightarrow> k \<notin> set componentKeys \<and> k \<noteq> RBLNPresentLabelKey"
    by (auto simp: rblnDeviceLabels_def map_has_def simp del: set_map split: if_splits)
qed

lemma own_keys: "set (List.map fst (componentLabels config)) \<subseteq> set componentKeys"
proof (cases "map_of rblnComponentLabels config")
  case (Some m)
  have "(config, m) \<in> set rblnComponentLabels" by (rule map_of_SomeD [OF Some])
  then have "set m \<subseteq> set (concat (List.map snd rblnComponentLabels))" by force
  then have "fst ` set m \<subseteq> fst ` set (concat (List.map snd rblnComponentLabels))" by (rule image_mono)
  then show ?thesis using Some by (simp add: componentLabels_def componentKeys_def del: set_concat)
qed (simp add: componentLabels_def)

lemma other_keys: "otherKeys config \<subseteq> set componentKeys"
  by (auto simp: otherKeys_def otherEntries_def componentKeys_def)

lemma update_frame:
  assumes "k \<notin> set componentKeys"
  shows "fmlookup (fst (updateRBLNComponentLabels labels config)) k = fmlookup labels k"
proof -
  have "map_of (componentLabels config) k = None"
    using assms own_keys [of config] by (auto simp: map_of_eq_None_iff)
  moreover have "k \<notin> otherKeys config" using assms other_keys by blast
  ultimately show ?thesis by (simp add: update_lookup)
qed

text \<open>Labels that agree outside the component and the present labels have the same device labels.\<close>

lemma hasRBLNDeviceLabel_iff:
  "hasRBLNDeviceLabel labels \<longleftrightarrow> (\<exists>k v. fmlookup labels k = Some v \<and> fmlookup rblnDeviceLabels k = Some v)"
proof -
  have "hasRBLNDeviceLabel labels \<longleftrightarrow>
      (\<exists>k. fmlookup labels k \<noteq> None \<and> map_has rblnDeviceLabels k \<and> map_get rblnDeviceLabels k = map_get labels k)"
    by (auto simp: hasRBLNDeviceLabel_def fmlookup_dom_iff)
  moreover have "fmlookup labels k \<noteq> None \<and> map_has rblnDeviceLabels k \<and> map_get rblnDeviceLabels k = map_get labels k \<longleftrightarrow>
      (\<exists>v. fmlookup labels k = Some v \<and> fmlookup rblnDeviceLabels k = Some v)" for k
    by (auto simp: map_has_def map_get_def)
  ultimately show ?thesis by simp
qed

lemma device_cong:
  assumes "\<And>k. k \<notin> set componentKeys \<Longrightarrow> k \<noteq> RBLNPresentLabelKey \<Longrightarrow> fmlookup l k = fmlookup l' k"
  shows "hasRBLNDeviceLabel l = hasRBLNDeviceLabel l'"
  unfolding hasRBLNDeviceLabel_iff using assms device_keys by (fastforce simp: map_has_def)

lemma present_cong:
  "fmlookup l RBLNPresentLabelKey = fmlookup l' RBLNPresentLabelKey \<Longrightarrow> hasRBLNPresentLabel l = hasRBLNPresentLabel l'"
  by (simp add: hasRBLNPresentLabel_def map_has_def map_get_def)

lemma config_cong:
  "fmlookup l RBLNWorkloadConfigLabelKey = fmlookup l' RBLNWorkloadConfigLabelKey \<Longrightarrow>
   getWorkloadConfig l d = getWorkloadConfig l' d"
  by (simp add: getWorkloadConfig_def)

text \<open>The three cases of an iteration.\<close>

definition withPresent :: "strmap \<Rightarrow> strmap" where
  "withPresent labels = (if hasRBLNPresentLabel labels then labels else fmupd RBLNPresentLabelKey ''true'' labels)"

lemma present_withPresent: "hasRBLNPresentLabel (withPresent labels)"
  by (simp add: withPresent_def hasRBLNPresentLabel_def map_has_def map_get_def)

lemma labelNode_device:
  fixes d :: string
  assumes "hasRBLNDeviceLabel labels"
  defines "config \<equiv> fst (getWorkloadConfig labels d)"
  shows "labelNode d labels =
     (fst (updateRBLNComponentLabels (withPresent labels) config),
      \<not> hasRBLNPresentLabel labels \<or> snd (updateRBLNComponentLabels (withPresent labels) config), True)"
proof -
  have "getWorkloadConfig (withPresent labels) d = getWorkloadConfig labels d"
    by (rule config_cong) (simp add: withPresent_def)
  then show ?thesis
    using assms present_withPresent [of labels]
    by (cases "hasRBLNPresentLabel labels") (simp_all add: labelNode_def withPresent_def case_prod_beta)
qed

lemma labelNode_removed:
  assumes "\<not> hasRBLNDeviceLabel labels" and "hasRBLNPresentLabel labels"
  shows "labelNode d labels =
     (removeAllRBLNComponentLabels (fmupd RBLNPresentLabelKey ''false'' labels), True, False)"
proof -
  have "\<not> hasRBLNPresentLabel (removeAllRBLNComponentLabels (fmupd RBLNPresentLabelKey ''false'' labels))"
    using reserved_keys(1) by (simp add: hasRBLNPresentLabel_def map_has_def map_get_def removeAll_lookup)
  then show ?thesis using assms by (simp add: labelNode_def)
qed

lemma labelNode_other:
  assumes "\<not> hasRBLNDeviceLabel labels" and "\<not> hasRBLNPresentLabel labels"
  shows "labelNode d labels = (labels, False, False)"
  using assms by (simp add: labelNode_def)

text \<open>A second iteration on the labels finds nothing to do and counts the node alike.\<close>

lemma labelNode_idem:
  "labelNode d (fst (labelNode d labels)) = (fst (labelNode d labels), False, snd (snd (labelNode d labels)))"
proof (cases "hasRBLNDeviceLabel labels")
  case True
  define config where "config = fst (getWorkloadConfig labels d)"
  define new where "new = fst (updateRBLNComponentLabels (withPresent labels) config)"
  have r: "fst (labelNode d labels) = new" "snd (snd (labelNode d labels)) = True"
    using labelNode_device [OF True, of d] by (simp_all add: new_def config_def)
  have keep: "fmlookup new k = fmlookup (withPresent labels) k" if "k \<notin> set componentKeys" for k
    unfolding new_def by (rule update_frame [OF that])
  have dev: "hasRBLNDeviceLabel new"
    using True device_cong [of labels new] keep by (simp add: withPresent_def)
  have pres: "hasRBLNPresentLabel new"
    using present_cong [OF keep [OF reserved_keys(1)]] present_withPresent by simp
  have cfg: "fst (getWorkloadConfig new d) = config"
    using config_cong [of new labels d] keep [OF reserved_keys(2)] by (simp add: config_def withPresent_def)
  show ?thesis
    using labelNode_device [OF dev, of d] pres cfg update_idem [of "withPresent labels" config]
    by (simp add: r withPresent_def [of new] flip: new_def)
next
  case False
  show ?thesis
  proof (cases "hasRBLNPresentLabel labels")
    case True
    let ?new = "removeAllRBLNComponentLabels (fmupd RBLNPresentLabelKey ''false'' labels)"
    have "\<not> hasRBLNDeviceLabel ?new"
      using False device_cong [of ?new labels] by (simp add: removeAll_lookup)
    moreover have "\<not> hasRBLNPresentLabel ?new"
      using reserved_keys(1) by (simp add: hasRBLNPresentLabel_def map_has_def map_get_def removeAll_lookup)
    ultimately show ?thesis using labelNode_removed [OF False True] labelNode_other by simp
  qed (use False labelNode_other in simp)
qed

subsection \<open>All nodes\<close>

definition nodeLabels :: "Node \<Rightarrow> strmap" where
  "nodeLabels node = om_Labels (node_Meta node)"

text \<open>The updates of a run: all nodes from the first changed one on.\<close>

definition updatedNodes :: "string \<Rightarrow> bool \<Rightarrow> Node list \<Rightarrow> Node list" where
  "updatedNodes d pending ns =
     (if pending then ns else dropWhile (\<lambda>n. \<not> fst (snd (labelNode d (nodeLabels n)))) ns)"

definition nodeUpdate :: "Node \<Rightarrow> request" where
  "nodeUpdate n = Request UpdateVerb NodeKind (key_of node_kind n)"

lemma key_SetLabels [simp]: "key_of node_kind (SetLabels labels n) = key_of node_kind n"
  by (simp add: key_of_def key_of_meta_def node_kind_def plain_kind_def SetLabels_def)

lemma labelNode_counts: "snd (snd (labelNode d labels)) = hasRBLNDeviceLabel labels"
  by (cases "hasRBLNDeviceLabel labels"; cases "hasRBLNPresentLabel labels")
     (simp_all add: labelNode_device labelNode_removed labelNode_other)

definition nodesResult :: "Node list \<Rightarrow> bool \<Rightarrow> nat \<Rightarrow> bool \<times> nat" where
  "nodesResult ns nfd cnt = (nfd \<or> (\<exists>n\<in>set ns. hasNFDLabels (nodeLabels n)),
     cnt + length (filter (\<lambda>n. hasRBLNDeviceLabel (nodeLabels n)) ns))"

lemma labelNodes_emits:
  "emits (labelNodes (recording c) d ns nfd cnt pending) (\<lambda>r l.
     set l \<subseteq> nodeUpdate ` set ns \<and>
     (is_ok r \<longrightarrow> r = Ok (nodesResult ns nfd cnt) \<and> l = List.map nodeUpdate (updatedNodes d pending ns)))"
proof (induction ns arbitrary: nfd cnt pending)
  case Nil
  show ?case by (auto simp: updatedNodes_def nodesResult_def intro: emits_ret)
next
  case (Cons n ns)
  define pending' where "pending' = (pending \<or> fst (snd (labelNode d (nodeLabels n))))"
  define labels' where "labels' = fst (labelNode d (nodeLabels n))"
  let ?upd = "if pending' then catch (bind (call (api_Update (nodes (recording c)) (SetLabels labels' n))) (\<lambda>_. ret ()))
      (\<lambda>e. fail (Errorf (''failed to label node '' @ om_Name (node_Meta n) @ '', err: '' @ err_text e))) else ret ()"
  let ?cnt = "if hasRBLNDeviceLabel (nodeLabels n) then Suc cnt else cnt"
  let ?nfd = "nfd \<or> hasNFDLabels (nodeLabels n)"
  have step: "labelNodes (recording c) d (n # ns) nfd cnt pending =
      bind ?upd (\<lambda>_. labelNodes (recording c) d ns ?nfd ?cnt pending')"
    by (simp only: labelNodes.simps Let_def case_prod_beta labelNode_counts pending'_def labels'_def nodeLabels_def)
  have upd: "emits ?upd (\<lambda>r l. set l \<subseteq> {nodeUpdate n} \<and> (is_ok r \<longrightarrow> l = (if pending' then [nodeUpdate n] else [])))"
  proof (cases pending')
    case True
    have "emits (call (api_Update (nodes (recording c)) (SetLabels labels' n))) (\<lambda>r l. l = [nodeUpdate n])"
      by (auto simp: recording_api_def nodeUpdate_def node_kind_def plain_kind_def key_of_def
          key_of_meta_def SetLabels_def intro: emits_call)
    then have "emits (bind (call (api_Update (nodes (recording c)) (SetLabels labels' n))) (\<lambda>_. ret ()))
        (\<lambda>r l. l = [nodeUpdate n])"
      by (rule emits_bind) (auto intro: emits_ret)
    then show ?thesis using True by (simp del: recording_simps) (erule emits_catch; auto intro: emits_fail)
  qed (auto intro: emits_ret)
  have tl: "updatedNodes d pending (n # ns) = (if pending' then n # ns else updatedNodes d pending' ns)"
    by (auto simp: updatedNodes_def pending'_def)
  have res: "nodesResult ns ?nfd ?cnt = nodesResult (n # ns) nfd cnt"
    by (auto simp: nodesResult_def)
  show ?case
    unfolding step
  proof (rule emits_bind [OF upd])
    fix x :: unit and l
    assume l: "set l \<subseteq> {nodeUpdate n} \<and> (is_ok (Ok x) \<longrightarrow> l = (if pending' then [nodeUpdate n] else []))"
    show "emits (labelNodes (recording c) d ns ?nfd ?cnt pending') (\<lambda>r l'.
        set (l @ l') \<subseteq> nodeUpdate ` set (n # ns) \<and> (is_ok r \<longrightarrow> r = Ok (nodesResult (n # ns) nfd cnt) \<and>
          l @ l' = List.map nodeUpdate (updatedNodes d pending (n # ns))))"
      by (rule emits_mono [OF Cons.IH]) (use l in \<open>auto simp: tl res updatedNodes_def pending'_def split: if_splits\<close>)
  qed auto
qed

lemma update_changed_iff:
  "snd (updateRBLNComponentLabels labels config) \<longleftrightarrow> fst (updateRBLNComponentLabels labels config) \<noteq> labels"
proof
  let ?new = "fst (updateRBLNComponentLabels labels config)"
  assume "snd (updateRBLNComponentLabels labels config)"
  then consider k where "k \<in> otherKeys config" "map_has labels k"
    | k where "k \<in> fst ` set (componentLabels config)" "\<not> map_has labels k"
    unfolding update_flag by blast
  then show "?new \<noteq> labels"
  proof cases
    case 1
    then have "fmlookup ?new k \<noteq> fmlookup labels k"
      using otherKeys_not_own [of k config] by (auto simp: update_lookup map_has_def)
    then show ?thesis by auto
  next
    case 2
    then have "fmlookup ?new k \<noteq> fmlookup labels k"
      using map_of_key [of k "componentLabels config"] by (auto simp: update_lookup map_has_def)
    then show ?thesis by auto
  qed
next
  assume "fst (updateRBLNComponentLabels labels config) \<noteq> labels"
  then show "snd (updateRBLNComponentLabels labels config)" using update_unchanged by fastforce
qed

text \<open>A component's key belongs to the configuration or to another one.\<close>

lemma componentKeys_split:
  "map_of (componentLabels config) k = None \<Longrightarrow> k \<in> set componentKeys \<longleftrightarrow> k \<in> otherKeys config"
proof
  assume none: "map_of (componentLabels config) k = None" and "k \<in> set componentKeys"
  then obtain entry where e: "entry \<in> set rblnComponentLabels" "k \<in> fst ` set (snd entry)"
    by (auto simp: componentKeys_def)
  have dist: "distinct (List.map fst rblnComponentLabels)" by code_simp
  have "fst entry \<noteq> config"
  proof
    assume "fst entry = config"
    then have "map_of rblnComponentLabels config = Some (snd entry)"
      using e(1) dist by (metis map_of_is_SomeI prod.collapse)
    then show False using none e(2) by (simp add: componentLabels_def map_of_eq_None_iff)
  qed
  then show "k \<in> otherKeys config" using e none by (auto simp: otherKeys_def otherEntries_def)
qed (use other_keys in blast)


section \<open>Properties\<close>

text \<open>
  \<open>updateRBLNComponentLabels\<close> leaves on a node exactly the component labels of its workload
  configuration (keeping the value of those already set), removes those of the other configurations,
  keeps every other label, and its flag tells exactly whether the labels changed.
\<close>

theorem updateRBLNComponentLabels_correct:
  "fmlookup (fst (updateRBLNComponentLabels labels config)) k =
     (case map_of (componentLabels config) k of
        Some v \<Rightarrow> Some (case fmlookup labels k of Some u \<Rightarrow> u | None \<Rightarrow> v)
      | None \<Rightarrow> if k \<in> set componentKeys then None else fmlookup labels k) \<and>
   snd (updateRBLNComponentLabels labels config) = (fst (updateRBLNComponentLabels labels config) \<noteq> labels)"
  using update_lookup [of labels config k] update_changed_iff [of labels config] componentKeys_split [of config k]
  by (auto split: option.splits)



text \<open>
  Labelling is idempotent: on the labels it leaves, a second pass changes nothing, asks for no
  update and counts the node as before.
\<close>

theorem labelNode_idempotent:
  "labelNode d (fst (labelNode d labels)) = (fst (labelNode d labels), False, snd (snd (labelNode d labels)))"
  by (rule labelNode_idem)

text \<open>
  C27: Whatever the server answers, the loop over the nodes sends only updates of listed nodes; when it
  succeeds it has updated every node from the first changed one on, whether changed itself or not
  (the flag is not reset), and it reports whether NFD runs and the number of nodes with a device.
\<close>

theorem labelNodes_requests:
  "emits (labelNodes (recording c) d ns False 0 False) (\<lambda>r l.
     set l \<subseteq> nodeUpdate ` set ns \<and>
     (is_ok r \<longrightarrow>
        r = Ok (\<exists>n\<in>set ns. hasNFDLabels (nodeLabels n), length (filter (\<lambda>n. hasRBLNDeviceLabel (nodeLabels n)) ns)) \<and>
        l = List.map nodeUpdate (dropWhile (\<lambda>n. \<not> fst (snd (labelNode d (nodeLabels n)))) ns)))"
  by (rule emits_mono [OF labelNodes_emits]) (auto simp: nodesResult_def updatedNodes_def)

definition example_node :: "string \<Rightarrow> (string \<times> string) list \<Rightarrow> Node" where
  "example_node n labels = \<lparr>node_Meta = empty_meta\<lparr>om_Name := n, om_Labels := map_lit labels\<rparr>,
     node_ContainerRuntimeVersion = ''containerd://1.7''\<rparr>"

theorem labelNodes_requests_witness:
  "snd (snd (labelNodes (recording mem_client) ''container''
     [example_node ''a'' [], example_node ''b'' [(''feature.node.kubernetes.io/pci-1eff.present'', ''true'')], example_node ''c'' []]
     False 0 False (empty_cluster, []))) =
   [nodeUpdate (example_node ''b'' [(''feature.node.kubernetes.io/pci-1eff.present'', ''true'')]), nodeUpdate (example_node ''c'' [])]"
proof -
  let ?ns = "[example_node ''a'' [], example_node ''b'' [(''feature.node.kubernetes.io/pci-1eff.present'', ''true'')], example_node ''c'' []]"
  have "is_ok (fst (labelNodes (recording mem_client) ''container'' ?ns False 0 False (empty_cluster, [])))"
    by code_simp
  moreover have "List.map nodeUpdate (dropWhile (\<lambda>n. \<not> fst (snd (labelNode ''container'' (nodeLabels n)))) ?ns) =
      [nodeUpdate (example_node ''b'' [(''feature.node.kubernetes.io/pci-1eff.present'', ''true'')]), nodeUpdate (example_node ''c'' [])]"
    by code_simp
  ultimately show ?thesis
    using emitsD [OF labelNodes_requests [of mem_client "''container''" ?ns], of empty_cluster "[]"] by auto
qed

end
