(* ===== verification/Policy_Scope.thy ===== *)
theory Policy_Scope
  imports Feature_Discovery Metrics_Exporter Rbln_Daemon Device_Plugin Sandbox_Device_Plugin
    Vfio_Manager Container_Toolkit Validator_Patcher Node_Labels
begin

text \<open>
  \<open>scope/cluster_policy.go\<close>: the scope of one reconciliation of a cluster policy, which holds the
  eight patchers in their order, deploys or removes every component, and collects their conditions.
\<close>

record 'w RBLNClusterPolicyScope =
  sc_singleton :: RBLNClusterPolicy
  sc_namespace :: string
  sc_patcher :: "'w Patcher list"

text \<open>\<open>operatorNamespace\<close> is the environment variable \<open>OPERATOR_NAMESPACE\<close>.\<close>

definition resolveNamespace :: "string \<Rightarrow> RBLNClusterPolicySpec \<Rightarrow> string" where
  "resolveNamespace operatorNamespace spec =
     (if cp_Namespace spec \<noteq> [] then cp_Namespace spec else operatorNamespace)"

definition policyPatchers ::
  "'w client \<Rightarrow> string \<Rightarrow> RBLNClusterPolicySpec \<Rightarrow> string \<Rightarrow> string \<Rightarrow> 'w Patcher list" where
  "policyPatchers c ns spec osVersion runtime = [
     vfio_Patcher c (NewVFIOManagerPatcher ns spec osVersion),
     nfd_Patcher c (NewNPUFeatureDiscoveryPatcher ns spec osVersion),
     me_Patcher c (NewMetricsExporterPatcher ns spec osVersion),
     daemon_Patcher c (NewRBLNDaemonPatcher ns spec osVersion),
     dp_Patcher c (NewDevicePluginPatcher ns spec osVersion),
     sp_Patcher c (NewSandboxDevicePluginPatcher ns spec osVersion),
     ct_Patcher c (NewContainerToolkitPatcher ns spec osVersion runtime),
     val_Patcher c (NewValidatorPatcher ns spec osVersion)]"

definition NewRBLNClusterPolicyScope ::
  "'w client \<Rightarrow> string \<Rightarrow> RBLNClusterPolicy \<Rightarrow> string \<Rightarrow> string \<Rightarrow> error + 'w RBLNClusterPolicyScope" where
  "NewRBLNClusterPolicyScope c operatorNamespace clusterPolicy osVersion runtime =
     (let ns = resolveNamespace operatorNamespace (cp_Spec clusterPolicy) in
      if ns = []
      then Inl (Errorf ''namespace is not configured. Set OPERATOR_NAMESPACE env variable or namespace spec'')
      else Inr \<lparr>sc_singleton = clusterPolicy, sc_namespace = ns,
             sc_patcher = policyPatchers c ns (cp_Spec clusterPolicy) osVersion runtime\<rparr>)"

definition patchComponent :: "RBLNClusterPolicy \<Rightarrow> 'w Patcher \<Rightarrow> ('w, unit) op" where
  "patchComponent owner p =
     (if pt_IsEnabled p
      then catch (pt_Patch p owner) (\<lambda>e. fail (Flatten ''failed to patch component: '' e))
      else catch (pt_CleanUp p owner) (\<lambda>e. fail (Flatten ''failed to clean up component: '' e)))"

definition PatchComponents :: "'w RBLNClusterPolicyScope \<Rightarrow> ('w, unit) op" where
  "PatchComponents s = seqE (List.map (patchComponent (sc_singleton s)) (sc_patcher s))"

text \<open>The status of an enabled component: ready unless its condition report is an error.\<close>

definition componentStatus :: "RBLNClusterPolicy \<Rightarrow> 'w Patcher \<Rightarrow> ('w, RBLNComponentStatus) op" where
  "componentStatus owner p =
     bind (catch (bind (pt_ConditionReport p owner) (\<lambda>cs. ret (cs, True))) (\<lambda>e. ret ([], False)))
       (\<lambda>(cs, ok). ret \<lparr>rcs_Name = pt_ComponentName p, rcs_Namespace = pt_ComponentNamespace p,
          rcs_State = (if ok then ComponentStateReady else ComponentStateNotReady), rcs_Condition = cs\<rparr>)"

fun assembleConditions :: "RBLNClusterPolicy \<Rightarrow> 'w Patcher list \<Rightarrow> ('w, RBLNComponentStatus list) op" where
  "assembleConditions owner [] = ret []"
| "assembleConditions owner (p # ps) =
     (if pt_IsEnabled p
      then bind (componentStatus owner p) (\<lambda>st. bind (assembleConditions owner ps) (\<lambda>sts. ret (st # sts)))
      else assembleConditions owner ps)"

definition AssembleComponentConditions :: "'w RBLNClusterPolicyScope \<Rightarrow> ('w, RBLNComponentStatus list) op" where
  "AssembleComponentConditions s = assembleConditions (sc_singleton s) (sc_patcher s)"

section \<open>Objects of the components\<close>

text \<open>The objects each component manages, in the order of the patchers.\<close>

definition policyObjects :: "string \<Rightarrow> RBLNClusterPolicySpec \<Rightarrow> string \<Rightarrow> string \<Rightarrow> (kind \<times> ObjectKey) set list" where
  "policyObjects ns spec osVersion runtime = [
     vfio_objects (NewVFIOManagerPatcher ns spec osVersion),
     nfd_objects (NewNPUFeatureDiscoveryPatcher ns spec osVersion),
     me_objects (NewMetricsExporterPatcher ns spec osVersion),
     daemon_objects (NewRBLNDaemonPatcher ns spec osVersion),
     dp_objects (NewDevicePluginPatcher ns spec osVersion),
     sp_objects (NewSandboxDevicePluginPatcher ns spec osVersion),
     ct_objects (NewContainerToolkitPatcher ns spec osVersion runtime),
     val_objects (NewValidatorPatcher ns spec osVersion)]"

text \<open>Rewording an error keeps what an operation manages.\<close>

lemma catch_fail_snd: "snd (catch m (\<lambda>e. fail (g e)) w) = snd (m w)"
  by (auto simp: catch_def fail_def split: prod.splits outcome.splits)

lemma catch_fail_ok: "is_ok (fst (catch m (\<lambda>e. fail (g e)) w)) = is_ok (fst (m w))"
  by (auto simp: catch_def fail_def split: prod.splits outcome.splits)

lemma manages_reword:
  assumes "manages view c V Q K m mr"
  shows "manages view c V Q K (catch m (\<lambda>e. fail (g e))) (catch mr (\<lambda>e. fail (g e)))"
  using assms
  by (simp add: manages_def footprint_def emits_def converges_def establishes_def frame_def
      catch_fail_snd catch_fail_ok)

context patcher_contract
begin

text \<open>Whichever way the component is configured, the scope's step manages its objects.\<close>

lemma patchComponent_manages:
  "manages view c (if pt_IsEnabled p then applyVerbs else {DeleteVerb})
     (if pt_IsEnabled p then (\<lambda>x. x \<noteq> None) else (\<lambda>x. x = None)) K
     (patchComponent owner p) (patchComponent owner pr)"
  using Patch_manages CleanUp_manages by (simp add: patchComponent_def enabled_eq manages_reword)

lemma patchComponent_converges: "lawful_client view c \<Longrightarrow> converges view K (patchComponent owner p)"
  using patchComponent_manages by (simp add: manages_def)

lemma patchComponent_establishes:
  "lawful_client view c \<Longrightarrow>
   establishes view K (if pt_IsEnabled p then (\<lambda>x. x \<noteq> None) else (\<lambda>x. x = None)) (patchComponent owner p)"
  using patchComponent_manages by (simp add: manages_def)

end

section \<open>No two components share an object\<close>

text \<open>The names that a component's objects have; the components' names are pairwise distinct.\<close>

definition policyNames :: "RBLNClusterPolicySpec \<Rightarrow> string list list" where
  "policyNames spec = (let b = cp_BaseName spec in [
     [b @ ''-vfio-manager'', b @ ''-vfio-manager-config''],
     [b @ ''-npu-feature-discovery''],
     [b @ ''-metrics-exporter'', b @ ''-metrics-exporter-service''],
     [''rbln-daemon''],
     [b @ ''-device-plugin'', b @ ''-device-plugin-config''],
     [b @ ''-sandbox-device-plugin'', b @ ''-sandbox-device-plugin-config''],
     [b @ ''-container-toolkit'', b @ ''-container-toolkit-entrypoint''],
     [b @ ''-operator-validator'']])"

lemma longer_name: "length s > length t \<Longrightarrow> b @ s \<noteq> t" "length s > length t \<Longrightarrow> t \<noteq> b @ s"
  by auto

lemma policyNames_distinct: "distinct (concat (policyNames spec))"
  by (simp add: policyNames_def Let_def longer_name)

lemma policyObjects_names:
  "list_all2 (\<lambda>K N. \<forall>k\<in>K. ok_Name (snd k) \<in> set N) (policyObjects ns spec osVersion runtime) (policyNames spec)"
  by (simp add: policyObjects_def policyNames_def Let_def objectOf_def rbacObjects_def
      vfio_objects_def NewVFIOManagerPatcher_def nfd_objects_def NewNPUFeatureDiscoveryPatcher_def
      me_objects_def NewMetricsExporterPatcher_def daemon_objects_def NewRBLNDaemonPatcher_def
      dp_objects_def NewDevicePluginPatcher_def sp_objects_def NewSandboxDevicePluginPatcher_def
      ct_objects_def NewContainerToolkitPatcher_def entrypointConfigMapName_def
      val_objects_def NewValidatorPatcher_def ball_Un)

fun separate :: "'a set list \<Rightarrow> bool" where
  "separate [] = True"
| "separate (K # Ks) = (K \<inter> \<Union> (set Ks) = {} \<and> separate Ks)"

lemma names_of_rest:
  "list_all2 (\<lambda>K N. \<forall>k\<in>K. ok_Name (snd k) \<in> set N) Ks Ns \<Longrightarrow> k \<in> \<Union> (set Ks) \<Longrightarrow>
   ok_Name (snd k) \<in> set (concat Ns)"
  by (induction rule: list_all2_induct) auto

lemma separateI:
  assumes "list_all2 (\<lambda>K N. \<forall>k\<in>K. ok_Name (snd k) \<in> set N) Ks Ns" and "distinct (concat Ns)"
  shows "separate Ks"
  using assms
proof (induction rule: list_all2_induct)
  case (Cons K Ks N Ns)
  have "K \<inter> \<Union> (set Ks) = {}"
  proof (rule ccontr)
    assume "K \<inter> \<Union> (set Ks) \<noteq> {}"
    then obtain k where "k \<in> K" "k \<in> \<Union> (set Ks)" by blast
    then have "ok_Name (snd k) \<in> set N" "ok_Name (snd k) \<in> set (concat Ns)"
      using Cons.hyps names_of_rest by blast+
    then show False using Cons.prems by auto
  qed
  with Cons show ?case by simp
qed simp

lemma policyObjects_separate: "separate (policyObjects ns spec osVersion runtime)"
  by (rule separateI [OF policyObjects_names policyNames_distinct])

section \<open>All components\<close>

lemma converges_seqE_list:
  assumes "list_all2 (\<lambda>m K. converges view K m) ms Ks" and "separate Ks"
  shows "converges view (\<Union> (set Ks)) (seqE ms)"
  using assms by (induction rule: list_all2_induct) (simp_all add: converges_ret converges_bind)

lemma PatchComponents_steps:
  assumes "lawful_client view c"
  shows "list_all2 (\<lambda>m K. converges view K m)
     (List.map (patchComponent owner) (policyPatchers c ns spec osVersion runtime))
     (policyObjects ns spec osVersion runtime)"
  using assms
  by (simp add: policyPatchers_def policyObjects_def vfio.patchComponent_converges
      nfd.patchComponent_converges me.patchComponent_converges daemon.patchComponent_converges
      dp.patchComponent_converges sp.patchComponent_converges ct.patchComponent_converges
      val.patchComponent_converges)

lemma PatchComponents_converges:
  assumes "lawful_client view c" and "NewRBLNClusterPolicyScope c env policy osVersion runtime = Inr s"
  shows "converges view (\<Union> (set (policyObjects (sc_namespace s) (cp_Spec policy) osVersion runtime))) (PatchComponents s)"
  using assms converges_seqE_list [OF PatchComponents_steps policyObjects_separate]
  by (auto simp: PatchComponents_def NewRBLNClusterPolicyScope_def Let_def split: if_splits)

lemma frame_seqE_list:
  "list_all2 (\<lambda>m K. frame view K m) ms Ks \<Longrightarrow> frame view (\<Union> (set Ks)) (seqE ms)"
  by (induction rule: list_all2_induct) (simp_all add: frame_bind, simp add: frame_def ret_def)

lemma establishes_seqE_list:
  assumes "list_all2 (\<lambda>m KQ. establishes view (fst KQ) (snd KQ) m) ms KQs"
    and "separate (List.map fst KQs)" and "is_ok (fst (seqE ms w))"
  shows "\<forall>KQ\<in>set KQs. \<forall>k\<in>fst KQ. snd KQ (view (snd (seqE ms w)) k)"
  using assms
proof (induction arbitrary: w rule: list_all2_induct)
  case (Cons m ms KQ KQs)
  from Cons.prems(2) obtain x w' where mw: "m w = (Ok x, w')" and ok: "is_ok (fst (seqE ms w'))"
    by (auto simp: bind_def split: prod.splits outcome.splits)
  have rest: "frame view (\<Union> (set (List.map fst KQs))) (seqE ms)"
    using Cons.hyps(2) by (intro frame_seqE_list)
      (auto simp: list_all2_map2 establishes_def elim!: list_all2_mono)
  have "snd KQ (view (snd (seqE ms w')) k)" if "k \<in> fst KQ" for k
  proof -
    have "snd KQ (view w' k)" using establishesD [OF Cons.hyps(1), of w k] that mw by simp
    moreover have "k \<notin> \<Union> (set (List.map fst KQs))" using Cons.prems(1) that by auto
    then have "view (snd (seqE ms w')) k = view w' k" using rest unfolding frame_def by blast
    ultimately show ?thesis by simp
  qed
  moreover have "\<forall>KQ\<in>set KQs. \<forall>k\<in>fst KQ. snd KQ (view (snd (seqE ms w')) k)"
    using Cons.IH [of w'] Cons.prems(1) ok by simp
  ultimately show ?case using mw by (simp add: bind_Ok)
qed simp

definition wanted :: "bool \<Rightarrow> object option \<Rightarrow> bool" where
  "wanted enabled = (if enabled then (\<lambda>x. x \<noteq> None) else (\<lambda>x. x = None))"

lemma PatchComponents_establish:
  assumes "lawful_client view c"
  shows "list_all2 (\<lambda>m KQ. establishes view (fst KQ) (snd KQ) m)
     (List.map (patchComponent owner) (policyPatchers c ns spec osVersion runtime))
     (zip (policyObjects ns spec osVersion runtime)
        (List.map (\<lambda>p. wanted (pt_IsEnabled p)) (policyPatchers c ns spec osVersion runtime)))"
  using assms
  by (simp add: policyPatchers_def policyObjects_def wanted_def vfio.patchComponent_establishes
      nfd.patchComponent_establishes me.patchComponent_establishes daemon.patchComponent_establishes
      dp.patchComponent_establishes sp.patchComponent_establishes ct.patchComponent_establishes
      val.patchComponent_establishes)

lemma policy_lengths [simp]:
  "length (policyObjects ns spec osVersion runtime) = 8"
  "length (policyPatchers c ns spec osVersion runtime) = 8"
  by (simp_all add: policyObjects_def policyPatchers_def)

section \<open>Condition reports\<close>

lemma daemonSetConditionReport_eq:
  "daemonSetConditionReport c nm ns w =
     (case api_Get (daemonSets c) \<lparr>ok_Namespace = ns, ok_Name = nm\<rparr> w of (r, w1) \<Rightarrow>
      (Ok [case r of
         Inl e \<Rightarrow> (mkCondition DaemonSetReady ConditionFalse DaemonSetNotFound
             (''DaemonSet '' @ ns @ ''/'' @ nm @ '' could not be found: '' @ err_text e))
               \<lparr>cond_LastTransitionTime := fst (now c w1)\<rparr>
       | Inr ds \<Rightarrow>
           (if daemonSet_ready (ds_Status ds)
            then (mkCondition DaemonSetReady ConditionTrue DaemonSetAllPodsReady
                (''All pods in DaemonSet '' @ ns @ ''/'' @ nm @ '' are running''))
            else (mkCondition DaemonSetReady ConditionFalse DaemonSetPodsNotReady
                (''DaemonSet '' @ ns @ ''/'' @ nm @ '' is progressing: ''
                  @ show_int (dst_NumberReady (ds_Status ds)) @ '' of ''
                  @ show_int (dst_DesiredNumberScheduled (ds_Status ds)) @ '' pods are Ready (''
                  @ show_int (dst_NumberUnavailable (ds_Status ds)) @ '' unavailable)'')))
             \<lparr>cond_LastTransitionTime := fst (now c w1), cond_ObservedGeneration := om_Generation (ds_Meta ds)\<rparr>],
       snd (now c w1)))"
  unfolding daemonSetConditionReport_def read_clock_def op_defs
  by (simp only: case_prod_beta) (cases "fst (api_Get (daemonSets c) \<lparr>ok_Namespace = ns, ok_Name = nm\<rparr> w)"; simp)

lemma ConditionReport_ok: "\<exists>cs w'. daemonSetConditionReport c nm ns w = (Ok cs, w')"
  by (simp add: daemonSetConditionReport_eq case_prod_beta)

lemma policyPatchers_shared_report:
  assumes "p \<in> set (policyPatchers c ns spec osVersion runtime)"
  shows "pt_ConditionReport p owner = daemonSetConditionReport c (pt_ComponentName p) (pt_ComponentNamespace p)"
  using assms
  by (auto simp: policyPatchers_def vfio_Patcher_def vfio_ConditionReport_def nfd_Patcher_def
      nfd_ConditionReport_def me_Patcher_def me_ConditionReport_def daemon_Patcher_def
      daemon_ConditionReport_def dp_Patcher_def dp_ConditionReport_def sp_Patcher_def
      sp_ConditionReport_def ct_Patcher_def ct_ConditionReport_def val_Patcher_def val_ConditionReport_def)

lemma policyPatchers_report:
  assumes "p \<in> set (policyPatchers c ns spec osVersion runtime)"
  shows "\<exists>cs w'. pt_ConditionReport p owner w = (Ok cs, w')"
  using ConditionReport_ok by (simp add: policyPatchers_shared_report [OF assms])

lemma componentStatus_ready:
  assumes "\<exists>cs w'. pt_ConditionReport p owner w = (Ok cs, w')"
  shows "\<exists>st w'. componentStatus owner p w = (Ok st, w') \<and> rcs_State st = ComponentStateReady \<and>
     rcs_Name st = pt_ComponentName p \<and> rcs_Namespace st = pt_ComponentNamespace p"
  using assms by (auto simp: componentStatus_def op_defs)

lemma assembleConditions_ready:
  assumes "\<And>p w. p \<in> set ps \<Longrightarrow> \<exists>cs w'. pt_ConditionReport p owner w = (Ok cs, w')"
  shows "\<exists>sts w'. assembleConditions owner ps w = (Ok sts, w') \<and>
     (\<forall>st\<in>set sts. rcs_State st = ComponentStateReady) \<and>
     List.map rcs_Name sts = List.map pt_ComponentName (filter pt_IsEnabled ps)"
  using assms
proof (induction ps arbitrary: w)
  case (Cons p ps)
  obtain st v where st: "componentStatus owner p w = (Ok st, v)" "rcs_State st = ComponentStateReady"
      "rcs_Name st = pt_ComponentName p"
    using componentStatus_ready [OF Cons.prems [of p w]] by auto
  show ?case
    using Cons.IH [of v] Cons.IH [of w] Cons.prems st by (auto simp: bind_def ret_def)
qed (simp add: ret_def)

end
