(* ===== verification/Pod_Checks.thy ===== *)
theory Pod_Checks
  imports Policy_Scope
begin

text \<open>
  What the API server checks of a pod template and the operator's eight DaemonSets satisfy: volume
  and container names are unique, every volume mount names a volume of the pod, no two mounts of a
  container share a path, and every container has an image.
\<close>

definition allContainers :: "PodSpec \<Rightarrow> Container list" where
  "allContainers p = ps_InitContainers p @ ps_Containers p"

definition wf_container :: "Volume list \<Rightarrow> Container \<Rightarrow> bool" where
  "wf_container vols ct \<longleftrightarrow>
     (\<forall>m\<in>set (co_VolumeMounts ct). vm_Name m \<in> vo_Name ` set vols) \<and>
     distinct (List.map vm_MountPath (co_VolumeMounts ct)) \<and> co_Image ct \<noteq> []"

definition wf_podSpec :: "PodSpec \<Rightarrow> bool" where
  "wf_podSpec p \<longleftrightarrow> distinct (List.map vo_Name (ps_Volumes p)) \<and>
     distinct (List.map co_Name (allContainers p)) \<and> ps_Containers p \<noteq> [] \<and>
     (\<forall>ct\<in>set (allContainers p). wf_container (ps_Volumes p) ct)"

lemmas pod_checks = wf_podSpec_def wf_container_def allContainers_def container_steps podSpec_steps
  literal_defs empty_podSpec_def empty_container_def

lemma runtimeSocket_cases:
  "runtimeSocket runtime \<in> {None, Some (''containerd-sock'', ''/run/containerd/containerd.sock''),
     Some (''docker-sock'', ''/var/run/docker.sock''), Some (''crio-sock'', ''/var/run/crio/crio.sock'')}"
  by (simp add: runtimeSocket_def)

lemma nfd_podSpec_wf: "wf_podSpec (nfd_podSpec (NewNPUFeatureDiscoveryPatcher ns spec osVersion) s owner)"
  by (simp add: pod_checks nfd_podSpec_def nfd_container_def toolkitValidation_def validationsVolume_def
      NewNPUFeatureDiscoveryPatcher_def longer_name)

lemma me_podSpec_wf: "wf_podSpec (me_podSpec (NewMetricsExporterPatcher ns spec osVersion) s owner)"
  by (simp add: pod_checks me_podSpec_def me_container_def toolkitValidation_def validationsVolume_def
      defaultPullPolicy_def NewMetricsExporterPatcher_def longer_name)

lemma daemon_podSpec_wf: "wf_podSpec (daemon_podSpec (NewRBLNDaemonPatcher ns spec osVersion) s owner)"
  by (simp add: pod_checks daemon_podSpec_def daemon_container_def toolkitValidation_def validationsVolume_def
      defaultPullPolicy_def NewRBLNDaemonPatcher_def)

lemma dp_podSpec_wf: "wf_podSpec (dp_podSpec (NewDevicePluginPatcher ns spec osVersion) s owner)"
  by (simp add: pod_checks dp_podSpec_def dp_container_def toolkitValidation_def validationsVolume_def
      defaultPullPolicy_def NewDevicePluginPatcher_def longer_name)

lemma sp_podSpec_wf: "wf_podSpec (sp_podSpec (NewSandboxDevicePluginPatcher ns spec osVersion) s owner)"
  by (simp add: pod_checks sp_podSpec_def sp_container_def driverReady_def vfioBindChecker_def validationsVolume_def
      defaultPullPolicy_def NewSandboxDevicePluginPatcher_def longer_name)

lemma vfio_podSpec_wf: "wf_podSpec (vfio_podSpec (NewVFIOManagerPatcher ns spec osVersion) s owner)"
  by (simp add: pod_checks vfio_podSpec_def vfio_container_def NewVFIOManagerPatcher_def longer_name)

lemma ct_podSpec_wf: "wf_podSpec (ct_podSpec (NewContainerToolkitPatcher ns spec osVersion runtime) s owner)"
  using runtimeSocket_cases [of runtime]
  by (auto simp: pod_checks ct_podSpec_def ct_driverInit_def driverMounts_def toolkitContainer_def
      toolkitVolumes_def toolkitVolumeMounts_def entrypointConfigMapName_def
      NewContainerToolkitPatcher_def longer_name)

lemma val_podSpec_wf: "wf_podSpec (val_podSpec (NewValidatorPatcher ns spec osVersion) v)"
  by (cases "vs_Resources v")
     (simp_all add: pod_checks val_podSpec_def val_driverInit_def val_toolkitInit_def val_mainContainer_def
      driverMounts_def NewValidatorPatcher_def longer_name)

section \<open>Properties\<close>

text \<open>
  C28: The pod template of every component of a cluster policy is well formed: container names and
  volume names are pairwise distinct and every volume mount refers to a volume of the pod.
\<close>

theorem component_pods_wf:
  "wf_podSpec (vfio_podSpec (NewVFIOManagerPatcher ns spec osVersion) vfioSpec owner) \<and>
   wf_podSpec (nfd_podSpec (NewNPUFeatureDiscoveryPatcher ns spec osVersion) nfdSpec owner) \<and>
   wf_podSpec (me_podSpec (NewMetricsExporterPatcher ns spec osVersion) meSpec owner) \<and>
   wf_podSpec (daemon_podSpec (NewRBLNDaemonPatcher ns spec osVersion) daemonSpec owner) \<and>
   wf_podSpec (dp_podSpec (NewDevicePluginPatcher ns spec osVersion) dpSpec owner) \<and>
   wf_podSpec (sp_podSpec (NewSandboxDevicePluginPatcher ns spec osVersion) spSpec owner) \<and>
   wf_podSpec (ct_podSpec (NewContainerToolkitPatcher ns spec osVersion runtime) ctSpec owner) \<and>
   wf_podSpec (val_podSpec (NewValidatorPatcher ns spec osVersion) valSpec)"
  by (intro conjI vfio_podSpec_wf nfd_podSpec_wf me_podSpec_wf daemon_podSpec_wf dp_podSpec_wf
      sp_podSpec_wf ct_podSpec_wf val_podSpec_wf)

end
