(* ===== verification/Node_Pool.thy ===== *)
theory Node_Pool
  imports Store_Logic
begin

text \<open>
  \<open>node_pool.go\<close>: the partition of the nodes that run drivers by operating system and kernel, one
  pool (and later one DaemonSet) per kernel for the precompiled drivers.
\<close>

abbreviation nfdOSReleaseIDLabelKey :: string where
  "nfdOSReleaseIDLabelKey \<equiv> ''feature.node.kubernetes.io/system-os_release.ID''"
abbreviation nfdOSVersionIDLabelKey :: string where
  "nfdOSVersionIDLabelKey \<equiv> ''feature.node.kubernetes.io/system-os_release.VERSION_ID''"
abbreviation nfdKernelLabelKey :: string where
  "nfdKernelLabelKey \<equiv> ''feature.node.kubernetes.io/kernel-version.full''"
abbreviation driverManagerDeployLabelKey :: string where
  "driverManagerDeployLabelKey \<equiv> ''rebellions.ai/npu.deploy.driver''"

record nodePool =
  np_name :: string
  np_osRelease :: string
  np_osVersion :: string
  np_kernel :: string
  np_nodeSelector :: strmap

definition getOS :: "nodePool \<Rightarrow> string" where
  "getOS n = np_osRelease n @ np_osVersion n"

section \<open>Sanitised kernel versions\<close>

text \<open>\<open>ReplaceAllString\<close> of \<open>x86_64(?:_64k)?|aarch64(?:_64k)?\<close> by the empty string, left to right.\<close>

function (sequential) stripArch :: "string \<Rightarrow> string" where
  "stripArch [] = []"
| "stripArch (x # xs) =
     (if HasPrefix (x # xs) ''x86_64'' then stripArch (TrimPrefix (drop 5 xs) ''_64k'')
      else if HasPrefix (x # xs) ''aarch64'' then stripArch (TrimPrefix (drop 6 xs) ''_64k'')
      else x # stripArch xs)"
  by pat_completeness auto
termination
proof (relation "measure length")
  have "length (TrimPrefix (drop n ys) p) \<le> length ys" for n ys p
    by (simp add: TrimPrefix_def)
  then have shorter: "(TrimPrefix (drop n ys) p, y # ys) \<in> measure length" for n y ys p
    by (simp add: le_imp_less_Suc)
  fix x :: char and xs :: string
  show "(TrimPrefix (drop 5 xs) ''_64k'', x # xs) \<in> measure length" by (rule shorter)
  show "(TrimPrefix (drop 6 xs) ''_64k'', x # xs) \<in> measure length" by (rule shorter)
qed simp_all

declare stripArch.simps(2) [simp del]

definition getSanitizedKernelVersion :: "string \<Rightarrow> string" where
  "getSanitizedKernelVersion kernelVersion =
     (let s1 = stripArch kernelVersion;
          s2 = replace_char (CHR ''_'') (CHR ''.'') s1;
          s3 = TrimSuffix s2 ''.''
      in ToLower s3)"

section \<open>Pools\<close>

definition buildNodeSelector :: "strmap \<Rightarrow> strmap" where
  "buildNodeSelector selector = map_lit [(driverManagerDeployLabelKey, ''true'')] ++\<^sub>f selector"

definition getNodeLabel :: "strmap \<Rightarrow> string \<Rightarrow> string option" where
  "getNodeLabel labels labelKey = fmlookup labels labelKey"

text \<open>The pool of a node; \<open>None\<close> when one of the discovery labels is missing.\<close>

definition buildNodePool :: "Node \<Rightarrow> strmap \<Rightarrow> nodePool option" where
  "buildNodePool node baseSelector =
     (let labels = om_Labels (node_Meta node) in
      case getNodeLabel labels nfdOSReleaseIDLabelKey of
        None \<Rightarrow> None
      | Some osID \<Rightarrow>
          (case getNodeLabel labels nfdOSVersionIDLabelKey of
             None \<Rightarrow> None
           | Some osVersion \<Rightarrow>
               (case getNodeLabel labels nfdKernelLabelKey of
                  None \<Rightarrow> None
                | Some kernelVersion \<Rightarrow>
                    Some \<lparr>np_name = (osID @ osVersion) @ ''-'' @ getSanitizedKernelVersion kernelVersion,
                      np_osRelease = osID, np_osVersion = osVersion, np_kernel = kernelVersion,
                      np_nodeSelector = fmupd nfdKernelLabelKey kernelVersion
                        (fmupd nfdOSVersionIDLabelKey osVersion
                          (fmupd nfdOSReleaseIDLabelKey osID baseSelector))\<rparr>)))"

text \<open>The map from pool names to pools: the first node of a name decides.\<close>

fun collectPools :: "strmap \<Rightarrow> Node list \<Rightarrow> nodePool list \<Rightarrow> nodePool list" where
  "collectPools nodeSelector [] pools = pools"
| "collectPools nodeSelector (node # rest) pools =
     (case buildNodePool node nodeSelector of
        None \<Rightarrow> collectPools nodeSelector rest pools
      | Some pool \<Rightarrow>
          if np_name pool \<in> np_name ` set pools then collectPools nodeSelector rest pools
          else collectPools nodeSelector rest (pools @ [pool]))"

text \<open>\<open>mapOrder\<close> is the order in which Go iterates over the map of pools.\<close>

definition getNodePools ::
  "'w client \<Rightarrow> (nodePool list \<Rightarrow> nodePool list) \<Rightarrow> strmap \<Rightarrow> ('w, nodePool list) op" where
  "getNodePools c mapOrder selector =
     (let nodeSelector = buildNodeSelector selector in
      bind (call (api_List (nodes c) \<lparr>lo_Namespace = [], lo_MatchingLabels = nodeSelector\<rparr>))
        (\<lambda>ns. ret (mapOrder (collectPools nodeSelector ns []))))"

section \<open>What the partition guarantees\<close>

lemma collectPools_distinct:
  "distinct (List.map np_name pools) \<Longrightarrow> distinct (List.map np_name (collectPools sel ns pools))"
  by (induction sel ns pools rule: collectPools.induct) (auto split: option.splits)

lemma collectPools_mono: "set pools \<subseteq> set (collectPools sel ns pools)"
  by (induction sel ns pools rule: collectPools.induct) (auto split: option.splits)

text \<open>Every pool is the pool of some listed node.\<close>

lemma collectPools_sound:
  "pool \<in> set (collectPools sel ns pools) \<Longrightarrow>
   pool \<in> set pools \<or> (\<exists>n\<in>set ns. buildNodePool n sel = Some pool)"
  by (induction sel ns pools rule: collectPools.induct) (auto split: option.splits if_splits)

text \<open>Every node with its discovery labels has a pool of its name.\<close>

lemma collectPools_complete:
  "n \<in> set ns \<Longrightarrow> buildNodePool n sel = Some pool \<Longrightarrow>
   np_name pool \<in> np_name ` set (collectPools sel ns pools)"
proof (induction sel ns pools rule: collectPools.induct)
  case (2 sel node rest pools)
  show ?case
  proof (cases "n = node")
    case True
    then have *: "buildNodePool node sel = Some pool" using 2 by simp
    have "np_name pool \<in> np_name ` set (collectPools sel rest (pools @ [pool]))"
      using collectPools_mono [of "pools @ [pool]" sel rest] by force
    moreover have "np_name ` set pools \<subseteq> np_name ` set (collectPools sel rest pools)"
      using collectPools_mono [of pools sel rest] by (rule image_mono)
    ultimately show ?thesis using * by auto
  qed (use 2 in \<open>auto split: option.splits\<close>)
qed simp

text \<open>The selector of a pool selects exactly the base selection's nodes of its system and kernel.\<close>

lemma buildNodePool_Some_iff:
  "buildNodePool node sel = Some pool \<longleftrightarrow>
     (\<exists>osID osVersion kernel.
        fmlookup (om_Labels (node_Meta node)) nfdOSReleaseIDLabelKey = Some osID \<and>
        fmlookup (om_Labels (node_Meta node)) nfdOSVersionIDLabelKey = Some osVersion \<and>
        fmlookup (om_Labels (node_Meta node)) nfdKernelLabelKey = Some kernel \<and>
        pool = \<lparr>np_name = (osID @ osVersion) @ ''-'' @ getSanitizedKernelVersion kernel,
          np_osRelease = osID, np_osVersion = osVersion, np_kernel = kernel,
          np_nodeSelector = fmupd nfdKernelLabelKey kernel
            (fmupd nfdOSVersionIDLabelKey osVersion (fmupd nfdOSReleaseIDLabelKey osID sel))\<rparr>)"
  by (auto simp: buildNodePool_def getNodeLabel_def Let_def split: option.splits)

text \<open>\<open>MatchingLabels\<close>: every entry of the selector is a label.\<close>

definition selects :: "strmap \<Rightarrow> strmap \<Rightarrow> bool" where
  "selects sel labels \<longleftrightarrow> (\<forall>k v. fmlookup sel k = Some v \<longrightarrow> fmlookup labels k = Some v)"

lemma pool_selects_own_node:
  assumes "buildNodePool node sel = Some pool" and "selects sel (om_Labels (node_Meta node))"
  shows "selects (np_nodeSelector pool) (om_Labels (node_Meta node))"
  using assms by (auto simp: buildNodePool_Some_iff selects_def split: if_splits)

lemma pool_selects_kernel:
  assumes "buildNodePool node sel = Some pool" and "selects (np_nodeSelector pool) labels"
  shows "fmlookup labels nfdKernelLabelKey = Some (np_kernel pool)"
    and "fmlookup labels nfdOSVersionIDLabelKey = Some (np_osVersion pool)"
    and "fmlookup labels nfdOSReleaseIDLabelKey = Some (np_osRelease pool)"
  using assms by (auto simp: buildNodePool_Some_iff selects_def)

definition hasPoolLabels :: "strmap \<Rightarrow> bool" where
  "hasPoolLabels labels \<longleftrightarrow> map_has labels nfdOSReleaseIDLabelKey \<and> map_has labels nfdOSVersionIDLabelKey \<and>
     map_has labels nfdKernelLabelKey"

lemma buildNodePool_total: "hasPoolLabels (om_Labels (node_Meta n)) \<longleftrightarrow> (\<exists>p. buildNodePool n sel = Some p)"
  by (auto simp: hasPoolLabels_def map_has_def buildNodePool_Some_iff)

section \<open>Properties\<close>

text \<open>
  C29: The node pools have pairwise distinct names; every pool is the pool of a listed node; every listed
  node with its discovery labels has a pool of its name; and the selector of a node's pool selects that
  node again, when the driver's own selector does, and only nodes of its kernel.
\<close>

theorem node_pools_partition:
  "distinct (List.map np_name (collectPools sel ns [])) \<and>
   (\<forall>pool\<in>set (collectPools sel ns []). \<exists>n\<in>set ns. buildNodePool n sel = Some pool) \<and>
   (\<forall>n\<in>set ns. hasPoolLabels (om_Labels (node_Meta n)) \<longrightarrow>
      (\<exists>own pool. buildNodePool n sel = Some own \<and> pool \<in> set (collectPools sel ns []) \<and> np_name pool = np_name own \<and>
        (selects sel (om_Labels (node_Meta n)) \<longrightarrow> selects (np_nodeSelector own) (om_Labels (node_Meta n))))) \<and>
   (\<forall>pool\<in>set (collectPools sel ns []). \<forall>labels. selects (np_nodeSelector pool) labels \<longrightarrow>
      fmlookup labels nfdKernelLabelKey = Some (np_kernel pool))"
proof (intro conjI ballI impI allI)
  show "distinct (List.map np_name (collectPools sel ns []))" by (rule collectPools_distinct) simp
  show "\<exists>n\<in>set ns. buildNodePool n sel = Some pool" if "pool \<in> set (collectPools sel ns [])" for pool
    using collectPools_sound [OF that] by simp
  show "fmlookup labels nfdKernelLabelKey = Some (np_kernel pool)"
    if "pool \<in> set (collectPools sel ns [])" "selects (np_nodeSelector pool) labels" for pool labels
    using collectPools_sound [OF that(1)] pool_selects_kernel(1) that(2) by auto
  fix n assume n: "n \<in> set ns" "hasPoolLabels (om_Labels (node_Meta n))"
  then obtain own where own: "buildNodePool n sel = Some own" using buildNodePool_total by blast
  then show "\<exists>own pool. buildNodePool n sel = Some own \<and> pool \<in> set (collectPools sel ns []) \<and> np_name pool = np_name own \<and>
      (selects sel (om_Labels (node_Meta n)) \<longrightarrow> selects (np_nodeSelector own) (om_Labels (node_Meta n)))"
    using collectPools_complete [OF n(1) own, of "[]"] pool_selects_own_node [OF own] by force
qed

definition example_kernel_node :: "string \<Rightarrow> string \<Rightarrow> Node" where
  "example_kernel_node n kver = \<lparr>node_Meta = empty_meta\<lparr>om_Name := n, om_Labels := map_lit [
     (nfdOSReleaseIDLabelKey, ''rhel''), (nfdOSVersionIDLabelKey, ''9.4''), (nfdKernelLabelKey, kver),
     (driverManagerDeployLabelKey, ''true'')]\<rparr>, node_ContainerRuntimeVersion = []\<rparr>"

theorem node_pools_partition_witness:
  "\<exists>pool\<in>set (collectPools fmempty [example_kernel_node ''a'' ''5.14.0-427.el9.x86_64''] []).
     np_name pool = ''rhel9.4-5.14.0-427.el9''"
proof -
  let ?n = "example_kernel_node ''a'' ''5.14.0-427.el9.x86_64''"
  have "hasPoolLabels (om_Labels (node_Meta ?n))" by code_simp
  moreover have "map_option np_name (buildNodePool ?n fmempty) = Some ''rhel9.4-5.14.0-427.el9''" by code_simp
  ultimately show ?thesis using node_pools_partition [of fmempty "[?n]"] by auto
qed

text \<open>
  C30: Two listed nodes of one system whose different kernels have the same sanitized version, as two that
  differ in the architecture suffix only, fall into one pool name, while a pool's selector asks for the
  full kernel version: whatever the other nodes are, one of the two is selected by no pool, so that it gets no driver.
\<close>

theorem node_pools_collision:
  assumes "hasPoolLabels (om_Labels (node_Meta m))" and "hasPoolLabels (om_Labels (node_Meta n))"
    and same: "\<forall>k\<in>{nfdOSReleaseIDLabelKey, nfdOSVersionIDLabelKey}.
      fmlookup (om_Labels (node_Meta m)) k = fmlookup (om_Labels (node_Meta n)) k"
    and kernels: "fmlookup (om_Labels (node_Meta m)) nfdKernelLabelKey = Some k1"
      "fmlookup (om_Labels (node_Meta n)) nfdKernelLabelKey = Some k2"
      "k1 \<noteq> k2" "getSanitizedKernelVersion k1 = getSanitizedKernelVersion k2"
  shows "\<exists>node\<in>{m, n}. \<forall>pool\<in>set (collectPools sel ns []). \<not> selects (np_nodeSelector pool) (om_Labels (node_Meta node))"
proof (rule ccontr)
  assume "\<not> ?thesis"
  then obtain p q where p: "p \<in> set (collectPools sel ns [])" "selects (np_nodeSelector p) (om_Labels (node_Meta m))"
      and q: "q \<in> set (collectPools sel ns [])" "selects (np_nodeSelector q) (om_Labels (node_Meta n))" by blast
  obtain a b where ab: "buildNodePool a sel = Some p" "buildNodePool b sel = Some q"
    using collectPools_sound [OF p(1)] collectPools_sound [OF q(1)] by auto
  have kern: "np_kernel p = k1" "np_kernel q = k2"
    using pool_selects_kernel(1) [OF ab(1) p(2)] pool_selects_kernel(1) [OF ab(2) q(2)] kernels(1,2) by auto
  have os: "np_osVersion p = np_osVersion q" "np_osRelease p = np_osRelease q"
    using pool_selects_kernel(2,3) [OF ab(1) p(2)] pool_selects_kernel(2,3) [OF ab(2) q(2)] same by auto
  have "np_name p = np_name q"
    using ab kern os kernels(4) by (auto simp: buildNodePool_Some_iff)
  moreover have "distinct (List.map np_name (collectPools sel ns []))" by (rule collectPools_distinct) simp
  ultimately have "p = q" using p(1) q(1) by (auto simp: distinct_map inj_on_def)
  then show False using kern kernels(3) by simp
qed

theorem node_pools_collision_witness:
  "\<exists>node\<in>{example_kernel_node ''a'' ''5.14.0-427.el9.x86_64'', example_kernel_node ''b'' ''5.14.0-427.el9.aarch64''}.
     \<not> list_ex (\<lambda>pool. selects (np_nodeSelector pool) (om_Labels (node_Meta node)))
       (collectPools fmempty [example_kernel_node ''a'' ''5.14.0-427.el9.x86_64'', example_kernel_node ''b'' ''5.14.0-427.el9.aarch64''] [])"
proof -
  let ?a = "example_kernel_node ''a'' ''5.14.0-427.el9.x86_64''" and ?b = "example_kernel_node ''b'' ''5.14.0-427.el9.aarch64''"
  have "hasPoolLabels (om_Labels (node_Meta ?a))" "hasPoolLabels (om_Labels (node_Meta ?b))" by code_simp+
  moreover have "\<forall>k\<in>{nfdOSReleaseIDLabelKey, nfdOSVersionIDLabelKey}.
      fmlookup (om_Labels (node_Meta ?a)) k = fmlookup (om_Labels (node_Meta ?b)) k"
    by (simp add: example_kernel_node_def)
  moreover have "fmlookup (om_Labels (node_Meta ?a)) nfdKernelLabelKey = Some ''5.14.0-427.el9.x86_64''"
    "fmlookup (om_Labels (node_Meta ?b)) nfdKernelLabelKey = Some ''5.14.0-427.el9.aarch64''"
    "''5.14.0-427.el9.x86_64'' \<noteq> ''5.14.0-427.el9.aarch64''"
    "getSanitizedKernelVersion ''5.14.0-427.el9.x86_64'' = getSanitizedKernelVersion ''5.14.0-427.el9.aarch64''"
    by code_simp+
  ultimately show ?thesis
    using node_pools_collision [of ?a ?b "''5.14.0-427.el9.x86_64''" "''5.14.0-427.el9.aarch64''" fmempty "[?a, ?b]"]
    by (simp only: list_ex_iff) blast
qed

end
