(* ===== verification/Driver_Manager.thy ===== *)
theory Driver_Manager
  imports Patcher Node_Pool "HOL-Library.List_Lexorder" "HOL-Library.Char_ord"
begin

text \<open>
  \<open>driver_manager.go\<close>: the patcher of a driver.  It deploys one DaemonSet per node pool, owned by the
  driver, and objects without an owner that all drivers share: a service account, its roles and
  bindings, and the ConfigMap with the startup probe.
\<close>

abbreviation driverManagerName :: string where "driverManagerName \<equiv> ''rbln-driver''"
abbreviation driverManagerAppLabelKey :: string where "driverManagerAppLabelKey \<equiv> ''app.kubernetes.io/component''"
abbreviation driverManagerNodePoolLabelKey :: string where "driverManagerNodePoolLabelKey \<equiv> ''nodepool''"
abbreviation driverManagerInstanceLabelKey :: string where "driverManagerInstanceLabelKey \<equiv> ''rebellions.ai/driver-instance''"
abbreviation startupProbeScriptName :: string where "startupProbeScriptName \<equiv> ''startup-probe.sh''"
abbreviation startupProbeScriptPath :: string where "startupProbeScriptPath \<equiv> ''/usr/local/bin/rbln-startup-probe.sh''"

section \<open>Subscriptions\<close>

definition subscriptionPathMap :: "(string \<times> (string \<times> VolumeSource) list) list" where
  "subscriptionPathMap = [
     (''rhel'', [
       (''/etc/pki/entitlement'', HostPath ''/etc/pki/entitlement'' Directory),
       (''/etc/rhsm'', HostPath ''/etc/rhsm'' Directory),
       (''/etc/yum.repos.d'', HostPath ''/etc/yum.repos.d'' Directory)]),
     (''rhcos'', [
       (''/var/run/secrets/etc-pki-entitlement'', HostPath ''/etc/pki/entitlement'' Directory),
       (''/var/run/secrets/rhsm'', HostPath ''/etc/rhsm'' Directory),
       (''/etc/yum.repos.d'', HostPath ''/etc/yum.repos.d'' Directory)])]"

definition getSubscriptionPathsToVolumeSources :: "string \<Rightarrow> error + (string \<times> VolumeSource) list" where
  "getSubscriptionPathsToVolumeSources os =
     (case map_of subscriptionPathMap os of
        Some m \<Rightarrow> Inr m
      | None \<Rightarrow> Inl (Errorf (''distribution '' @ os @ '' not supported'')))"

text \<open>The mounts and volumes of a subscription, numbered in the order of the sorted mount paths.\<close>

definition subscriptionVolumes :: "(string \<times> VolumeSource) list \<Rightarrow> (VolumeMount \<times> Volume) list" where
  "subscriptionVolumes paths =
     (let mountPaths = sort (List.map fst paths) in
      List.map (\<lambda>(i, mountPath).
          let volName = ''subscription-config-'' @ show_nat i in
          (mkMount volName mountPath True,
           \<lparr>vo_Name = volName, vo_Source = the (map_of paths mountPath)\<rparr>))
        (zip [0..<length mountPaths] mountPaths))"

section \<open>The patcher\<close>

record driverManagerPatcher = "RBLNDriverSpec patcher" +
  instanceName :: string

text \<open>A nil driver is refused.\<close>

definition NewDriverManagerPatcher :: "string \<Rightarrow> RBLNDriver option \<Rightarrow> string \<Rightarrow> error + driverManagerPatcher" where
  "NewDriverManagerPatcher ns driver osVersion =
     (case driver of
        None \<Rightarrow> Inl (Errorf ''driver is nil'')
      | Some d \<Rightarrow> Inr \<lparr>desiredSpec = Some (dr_Spec d), name = driverManagerName, namespace = ns,
           openshiftVersion = osVersion, instanceName = om_Name (dr_Meta d)\<rparr>)"

definition drv_IsEnabled :: "driverManagerPatcher \<Rightarrow> bool" where
  "drv_IsEnabled h \<longleftrightarrow> desiredSpec h \<noteq> None"

definition startupProbeConfigMapName :: "driverManagerPatcher \<Rightarrow> string" where
  "startupProbeConfigMapName h = name h @ ''-'' @ ''startup-probe''"

definition startupProbeScript :: string where
  "startupProbeScript = Join [
     ''#!/bin/sh'',
     ''set -eu'',
     [],
     ''VALIDATIONS_DIR=\"'' @ validationsMountPath @ ''\"'',
     ''READY_FILE=\"${VALIDATIONS_DIR}/.driver-ctr-ready\"'',
     [],
     ''mkdir -p \"${VALIDATIONS_DIR}\"'',
     [],
     ''if [ ! -f /sys/module/rebellions/refcnt ]; then'',
     ''  echo \"Rebellions kernel module not loaded\"'',
     ''  exit 1'',
     ''fi'',
     [],
     ''if ! command -v rbln-smi >/dev/null 2>&1; then'',
     ''  echo \"rbln-smi not found\"'',
     ''  exit 1'',
     ''fi'',
     [],
     ''if ! rbln-smi; then'',
     ''  echo \"rbln-smi failed\"'',
     ''  exit 1'',
     ''fi'',
     [],
     ''TMP_FILE=\"${READY_FILE}.tmp\"'',
     '': > \"$TMP_FILE\"'',
     ''mv \"$TMP_FILE\" \"$READY_FILE\"''] [CHR 0x0A] @ [CHR 0x0A]"

definition drv_handleConfigMap :: "'w client \<Rightarrow> driverManagerPatcher \<Rightarrow> ('w, unit) op" where
  "drv_handleConfigMap c h =
     reconcile configMap_kind (configMaps c) (NewConfigMapBuilder (startupProbeConfigMapName h) (namespace h))
       (sharedConfigMap (map_lit [(startupProbeScriptName, startupProbeScript)]))"

definition drv_handleServiceAccount :: "'w client \<Rightarrow> driverManagerPatcher \<Rightarrow> ('w, unit) op" where
  "drv_handleServiceAccount c h =
     reconcile serviceAccount_kind (serviceAccounts c) (NewServiceAccountBuilder (name h) (namespace h))
       sharedServiceAccount"

definition drv_handleRole :: "'w client \<Rightarrow> driverManagerPatcher \<Rightarrow> ('w, unit) op" where
  "drv_handleRole c h =
     reconcile role_kind (roles c) (NewRoleBuilder (name h) (namespace h)) (sharedRole [privilegedSCCRule])"

definition drv_handleRoleBinding :: "'w client \<Rightarrow> driverManagerPatcher \<Rightarrow> ('w, unit) op" where
  "drv_handleRoleBinding c h =
     reconcile roleBinding_kind (roleBindings c) (NewRoleBindingBuilder (name h) (namespace h))
       (sharedRoleBinding (ownRoleRef (name h)) [ownSubject (name h) (namespace h)])"

definition drv_handleClusterRole :: "'w client \<Rightarrow> driverManagerPatcher \<Rightarrow> ('w, unit) op" where
  "drv_handleClusterRole c h =
     reconcile clusterRole_kind (clusterRoles c) (NewRoleBuilder (name h) [])
       (setClusterRole [\<lparr>rule_APIGroups = [[]], rule_Resources = [''nodes''], rule_ResourceNames = [],
          rule_Verbs = [''get'', ''list'', ''watch'', ''patch'', ''update'']\<rparr>])"

definition drv_handleClusterRoleBinding :: "'w client \<Rightarrow> driverManagerPatcher \<Rightarrow> ('w, unit) op" where
  "drv_handleClusterRoleBinding c h =
     reconcile clusterRoleBinding_kind (clusterRoleBindings c) (NewRoleBindingBuilder (name h) [])
       (setClusterRoleBinding \<lparr>rref_APIGroup = ''rbac.authorization.k8s.io'', rref_Kind = ''ClusterRole'',
          rref_Name = name h\<rparr> [ownSubject (name h) (namespace h)])"

section \<open>The DaemonSet of a pool\<close>

definition drv_initContainer :: "DriverManagerSpec \<Rightarrow> Container" where
  "drv_initContainer managerSpec = build empty_container [
     WithName ''k8s-driver-manager'',
     WithImage (ComposeImageReference (dms_Registry managerSpec) (dms_Image managerSpec))
       (dms_Version managerSpec) (dms_ImagePullPolicy managerSpec),
     WithCommands [''driver-manager''],
     WithArgs [''sync_driver_label''],
     WithEnvs [envField ''NODE_NAME'' [] ''spec.nodeName''],
     WithSecurityContext (privileged\<lparr>sc_SELinuxLevel := Some ''s0''\<rparr>),
     WithVolumeMounts [
       (mkMount ''host-root'' ''/host'' True)\<lparr>vm_MountPropagation := HostToContainer\<rparr>,
       mkMount ''host-dev'' ''/dev'' True]]"

text \<open>The driver container before the subscription mounts, the image and the probe are set.\<close>

definition drv_baseContainer :: "driverManagerPatcher \<Rightarrow> RBLNDriverSpec \<Rightarrow> Container" where
  "drv_baseContainer h s =
     (let installerArgs = (if drs_Args s = [] then [''init''] else drs_Args s) in
      build empty_container [
        WithName ''rbln-driver-container'',
        WithCommands [''/opt/rebellions/bin/rbln-driver''],
        WithArgs installerArgs,
        WithEnvs (drs_Env s),
        WithResources (drs_Resources s) ''250m'' ''40Mi'',
        WithLifeCycle [''/bin/sh'', ''-c'', ''rm -f '' @ validationsMountPath @ ''/.driver-ctr-ready''],
        WithSecurityContext (privileged\<lparr>sc_RunAsUser := Some 0, sc_SELinuxLevel := Some ''s0''\<rparr>),
        WithVolumeMounts [
          (mkMount ''host-driver'' ''/host/run/rbln/driver'' False)\<lparr>vm_MountPropagation := Bidirectional\<rparr>,
          mkMount validationsVolumeName validationsMountPath False,
          (mkMount (startupProbeConfigMapName h) startupProbeScriptPath True)\<lparr>vm_SubPath := startupProbeScriptName\<rparr>]])"

definition drv_startupProbe :: Probe where
  "drv_startupProbe = \<lparr>pr_Command = [''/bin/sh'', ''-c'', startupProbeScriptPath], pr_TimeoutSeconds = 120,
     pr_PeriodSeconds = 10, pr_FailureThreshold = 60\<rparr>"

definition subscriptionOS :: "driverManagerPatcher \<Rightarrow> nodePool \<Rightarrow> string" where
  "subscriptionOS h pool =
     (if openshiftVersion h \<noteq> [] then ''rhcos''
      else if np_osRelease pool = ''rhel'' then ''rhel'' else [])"

definition drv_additional :: "driverManagerPatcher \<Rightarrow> nodePool \<Rightarrow> error + (VolumeMount \<times> Volume) list" where
  "drv_additional h pool =
     (if subscriptionOS h pool \<noteq> [] then
        (case getSubscriptionPathsToVolumeSources (subscriptionOS h pool) of
           Inl e \<Rightarrow> Inl e
         | Inr paths \<Rightarrow> Inr (subscriptionVolumes paths))
      else Inr [])"

text \<open>The pull policy compares the whole tag, which ends in kernel and system, with \<open>latest\<close>.\<close>

definition drv_pullPolicy :: "RBLNDriverSpec \<Rightarrow> nodePool \<Rightarrow> string" where
  "drv_pullPolicy s pool =
     (let driverTag = drs_Version s @ ''-'' @ np_kernel pool @ ''-'' @ getOS pool;
          p = (if drs_ImagePullPolicy s = [] then PullIfNotPresent else drs_ImagePullPolicy s)
      in if driverTag = ''latest'' then PullAlways else p)"

definition drv_podSpec :: "driverManagerPatcher \<Rightarrow> RBLNDriverSpec \<Rightarrow> nodePool \<Rightarrow> error + PodSpec" where
  "drv_podSpec h s pool =
     (case drv_additional h pool of
        Inl e \<Rightarrow> Inl e
      | Inr additional \<Rightarrow>
          (case GetPrecompiledImagePath s (getOS pool) (np_kernel pool) of
             Inl e \<Rightarrow> Inl e
           | Inr driverImagePath \<Rightarrow>
               (let base = drv_baseContainer h s;
                    driverContainer = base\<lparr>
                      co_VolumeMounts := co_VolumeMounts base @ List.map fst additional,
                      co_StartupProbe := Some drv_startupProbe,
                      co_Image := driverImagePath,
                      co_ImagePullPolicy := drv_pullPolicy s pool\<rparr>;
                    podSpec = build empty_podSpec [
                      WithServiceAccountName (name h),
                      WithNodeSelector (MergeMaps (np_nodeSelector pool)
                        (map_lit [(driverManagerDeployLabelKey, ''true'')])),
                      WithTolerations (drs_Tolerations s),
                      WithImagePullSecrets (drs_ImagePullSecrets s),
                      WithPriorityClassName (drs_PriorityClassName s),
                      WithVolumes [
                        hostPathVolume ''host-driver'' ''/run/rbln/driver'' DirectoryOrCreate,
                        hostPathVolume validationsVolumeName validationsMountPath DirectoryOrCreate,
                        hostPathVolume ''host-root'' ''/'' Directory,
                        hostPathVolume ''host-dev'' ''/dev'' Directory,
                        \<lparr>vo_Name = startupProbeConfigMapName h,
                         vo_Source = ConfigMapVolume (startupProbeConfigMapName h)
                           [\<lparr>kp_Key = startupProbeScriptName, kp_Path = startupProbeScriptName, kp_Mode = Some 493\<rparr>] None\<rparr>],
                      WithInitContainers [drv_initContainer (drs_Manager s)],
                      WithContainers [driverContainer]]
                in Inr (podSpec\<lparr>ps_Volumes := ps_Volumes podSpec @ List.map snd additional\<rparr>))))"

definition drv_mutateDaemonSet ::
  "strmap \<Rightarrow> RBLNDriverSpec \<Rightarrow> PodSpec \<Rightarrow> RBLNDriver \<Rightarrow> DaemonSet \<Rightarrow> DaemonSet outcome" where
  "drv_mutateDaemonSet labels s podSpec owner ds =
     outcome_bind
       (ownedBy daemonSet_kind (driver_owner owner)
         (build ds [WithLabelSelectors labels, WithLabels (drs_Labels s), WithAnnotations (drs_Annotations s),
            WithPodSpec podSpec]))
       (\<lambda>d. Ok (d\<lparr>ds_UpdateStrategyType := ''RollingUpdate''\<rparr>))"

definition drv_labels :: "driverManagerPatcher \<Rightarrow> nodePool \<Rightarrow> strmap" where
  "drv_labels h pool = map_lit [(driverManagerAppLabelKey, name h), (driverManagerNodePoolLabelKey, np_name pool),
     (driverManagerInstanceLabelKey, instanceName h)]"

definition drv_dsName :: "driverManagerPatcher \<Rightarrow> nodePool \<Rightarrow> string" where
  "drv_dsName h pool = instanceName h @ ''-'' @ np_name pool"

definition drv_handleDaemonSet :: "'w client \<Rightarrow> driverManagerPatcher \<Rightarrow> RBLNDriverSpec \<Rightarrow> RBLNDriver \<Rightarrow> nodePool \<Rightarrow> ('w, unit) op" where
  "drv_handleDaemonSet c h s owner pool =
     (case drv_podSpec h s pool of
        Inl e \<Rightarrow> fail e
      | Inr podSpec \<Rightarrow>
          reconcile daemonSet_kind (daemonSets c) (NewDaemonSetBuilder (drv_dsName h pool) (namespace h))
            (drv_mutateDaemonSet (drv_labels h pool) s podSpec owner))"

section \<open>Methods\<close>

text \<open>\<open>mapOrder\<close> is the iteration order of the map of node pools.\<close>

definition drv_Patch :: "'w client \<Rightarrow> driverManagerPatcher \<Rightarrow> (nodePool list \<Rightarrow> nodePool list) \<Rightarrow> RBLNDriver \<Rightarrow> ('w, unit) op" where
  "drv_Patch c h mapOrder owner =
     (if \<not> drv_IsEnabled h then ret ()
      else bind (seqE [
          drv_handleServiceAccount c h,
          whenE (openshiftVersion h \<noteq> []) [drv_handleRole c h, drv_handleRoleBinding c h],
          drv_handleClusterRole c h,
          drv_handleClusterRoleBinding c h,
          drv_handleConfigMap c h])
        (\<lambda>_. withSpec h (\<lambda>s.
          bind (getNodePools c mapOrder (drs_NodeSelector s)) (\<lambda>nodePools.
          if nodePools = [] then ret ()
          else seqE (List.map (drv_handleDaemonSet c h s owner) nodePools)))))"

definition drv_instanceSelector :: "driverManagerPatcher \<Rightarrow> ListOptions" where
  "drv_instanceSelector h = \<lparr>lo_Namespace = namespace h,
     lo_MatchingLabels = map_lit [(driverManagerAppLabelKey, name h), (driverManagerInstanceLabelKey, instanceName h)]\<rparr>"

text \<open>The owner may be nil; every other driver then counts as another instance.\<close>

definition hasOtherDriverInstances :: "'w client \<Rightarrow> RBLNDriver option \<Rightarrow> ('w, bool) op" where
  "hasOtherDriverInstances c owner =
     bind (call (api_List (drivers c) all_objects)) (\<lambda>ds.
     ret (\<exists>d\<in>set ds. \<not> (case owner of None \<Rightarrow> False | Some o' \<Rightarrow> om_Name (dr_Meta d) = om_Name (dr_Meta o'))))"

definition drv_CleanUp :: "'w client \<Rightarrow> driverManagerPatcher \<Rightarrow> RBLNDriver option \<Rightarrow> ('w, unit) op" where
  "drv_CleanUp c h owner =
     bind (catch (call (api_List (daemonSets c) (drv_instanceSelector h)))
             (\<lambda>e. if \<not> IsNotFound e then fail e else ret [])) (\<lambda>dsList.
     bind (seqE (List.map (\<lambda>ds. deleteIfPresent (daemonSets c) (om_Name (ds_Meta ds)) (om_Namespace (ds_Meta ds))) dsList)) (\<lambda>_.
     bind (hasOtherDriverInstances c owner) (\<lambda>others.
     if others then ret ()
     else seqE [
       deleteIfPresent (clusterRoleBindings c) (name h) [],
       deleteIfPresent (clusterRoles c) (name h) [],
       deleteIfPresent (configMaps c) (startupProbeConfigMapName h) (namespace h),
       whenE (openshiftVersion h \<noteq> []) [
         deleteIfPresent (roleBindings c) (name h) (namespace h),
         deleteIfPresent (roles c) (name h) (namespace h)],
       deleteIfPresent (serviceAccounts c) (name h) (namespace h)])))"

definition drv_notReady :: "DaemonSet list \<Rightarrow> string list" where
  "drv_notReady dsList = List.map (\<lambda>ds. om_Namespace (ds_Meta ds) @ ''/'' @ om_Name (ds_Meta ds))
     (filter (\<lambda>ds. \<not> daemonSet_ready (ds_Status ds)) dsList)"

definition drv_ConditionReport :: "'w client \<Rightarrow> driverManagerPatcher \<Rightarrow> ('w, Condition list) op" where
  "drv_ConditionReport c h =
     bind (catch (bind (call (api_List (daemonSets c) (drv_instanceSelector h))) (\<lambda>ds. ret (Inr ds)))
                 (\<lambda>e. ret (Inl e))) (\<lambda>res.
     bind (read_clock c) (\<lambda>t.
     ret [(case res of
         Inl e \<Rightarrow> mkCondition DaemonSetReady ConditionFalse DaemonSetNotFound
             (''DaemonSet list could not be retrieved: '' @ err_text e)
       | Inr dsList \<Rightarrow>
           (if dsList = [] then mkCondition DaemonSetReady ConditionFalse DaemonSetNotFound
                (''DaemonSet for '' @ namespace h @ ''/'' @ instanceName h @ '' could not be found'')
            else if drv_notReady dsList \<noteq> [] then mkCondition DaemonSetReady ConditionFalse DaemonSetPodsNotReady
                (''DaemonSets not ready: '' @ Join (drv_notReady dsList) '', '')
            else mkCondition DaemonSetReady ConditionTrue DaemonSetAllPodsReady
                (''All pods in DaemonSets for '' @ instanceName h @ '' are running'')))
        \<lparr>cond_LastTransitionTime := t\<rparr>]))"

text \<open>The interface \<open>DriverPatcher\<close>.\<close>

record 'w DriverPatcher =
  dpt_IsEnabled :: bool
  dpt_Patch :: "RBLNDriver \<Rightarrow> ('w, unit) op"
  dpt_CleanUp :: "RBLNDriver option \<Rightarrow> ('w, unit) op"
  dpt_ConditionReport :: "('w, Condition list) op"
  dpt_ComponentName :: string
  dpt_ComponentNamespace :: string

definition drv_Patcher ::
  "'w client \<Rightarrow> (nodePool list \<Rightarrow> nodePool list) \<Rightarrow> driverManagerPatcher \<Rightarrow> 'w DriverPatcher" where
  "drv_Patcher c mapOrder h = \<lparr>dpt_IsEnabled = drv_IsEnabled h, dpt_Patch = drv_Patch c h mapOrder,
     dpt_CleanUp = drv_CleanUp c h, dpt_ConditionReport = drv_ConditionReport c h,
     dpt_ComponentName = instanceName h, dpt_ComponentNamespace = namespace h\<rparr>"

section \<open>Lemmas\<close>

lemma drv_mutateDaemonSet_eq:
  "drv_mutateDaemonSet labels s podSpec owner ds =
     ownedBy daemonSet_kind (driver_owner owner)
       ((\<lambda>ds. (build ds [WithLabelSelectors labels, WithLabels (drs_Labels s), WithAnnotations (drs_Annotations s),
            WithPodSpec podSpec])\<lparr>ds_UpdateStrategyType := ''RollingUpdate''\<rparr>) ds)"
  by (cases "WithOwner (driver_owner owner) (ds_Meta (build ds [WithLabelSelectors labels,
        WithLabels (drs_Labels s), WithAnnotations (drs_Annotations s), WithPodSpec podSpec]))")
     (simp_all add: drv_mutateDaemonSet_def ownedBy_def kind_defs daemonSet_steps)

interpretation drv_ds: mutator daemonSet_kind "drv_mutateDaemonSet labels s podSpec owner" for labels s podSpec owner
  unfolding drv_mutateDaemonSet_eq [abs_def]
  by (rule daemonSet.mutator_ownedBy)
     (auto simp: kind_defs key_of_def key_of_meta_def daemonSet_steps agreeMeta_def)

lemma drv_manages_daemonSet:
  "manages view c applyVerbs (\<lambda>x. x \<noteq> None) {objectOf daemonSet_kind (drv_dsName h pool) (namespace h)}
     (drv_handleDaemonSet c h s owner pool) (drv_handleDaemonSet (recording c) h s owner pool)"
proof (cases "drv_podSpec h s pool")
  case (Inl e)
  then show ?thesis by (simp add: drv_handleDaemonSet_def manages_fail)
next
  case (Inr podSpec)
  show ?thesis
    unfolding drv_handleDaemonSet_def Inr sum.case recording_simps
    by (rule drv_ds.manages_reconcile, erule lawful_clientD; simp)
qed

definition drv_sharedObjects :: "driverManagerPatcher \<Rightarrow> (kind \<times> ObjectKey) set" where
  "drv_sharedObjects h = {objectOf serviceAccount_kind (name h) (namespace h),
     objectOf clusterRole_kind (name h) [], objectOf clusterRoleBinding_kind (name h) [],
     objectOf configMap_kind (startupProbeConfigMapName h) (namespace h)}
     \<union> (if openshiftVersion h \<noteq> [] then rbacObjects (name h) (namespace h) else {})"

lemmas drv_handlers = drv_handleServiceAccount_def drv_handleRole_def drv_handleRoleBinding_def
  drv_handleClusterRole_def drv_handleClusterRoleBinding_def drv_handleConfigMap_def

lemma drv_manages_shared:
  "manages view c applyVerbs (\<lambda>x. x \<noteq> None) (drv_sharedObjects h)
     (seqE [drv_handleServiceAccount c h,
        whenE (openshiftVersion h \<noteq> []) [drv_handleRole c h, drv_handleRoleBinding c h],
        drv_handleClusterRole c h, drv_handleClusterRoleBinding c h, drv_handleConfigMap c h])
     (seqE [drv_handleServiceAccount (recording c) h,
        whenE (openshiftVersion h \<noteq> []) [drv_handleRole (recording c) h, drv_handleRoleBinding (recording c) h],
        drv_handleClusterRole (recording c) h, drv_handleClusterRoleBinding (recording c) h,
        drv_handleConfigMap (recording c) h])"
  unfolding drv_handlers
  by (rule manages_eq, (rule manages_intros | simp; fail)+) (auto simp: drv_sharedObjects_def rbacObjects_def)

text \<open>The DaemonSets of pools with distinct names are distinct objects.\<close>

lemma drv_dsName_inj: "drv_dsName h p = drv_dsName h q \<longleftrightarrow> np_name p = np_name q"
  by (simp add: drv_dsName_def)

definition drv_poolObjects :: "driverManagerPatcher \<Rightarrow> nodePool list \<Rightarrow> (kind \<times> ObjectKey) set" where
  "drv_poolObjects h pools = (\<lambda>p. objectOf daemonSet_kind (drv_dsName h p) (namespace h)) ` set pools"

lemma drv_manages_pools:
  assumes "distinct (List.map np_name pools)"
  shows "manages view c applyVerbs (\<lambda>x. x \<noteq> None) (drv_poolObjects h pools)
     (seqE (List.map (drv_handleDaemonSet c h s owner) pools))
     (seqE (List.map (drv_handleDaemonSet (recording c) h s owner) pools))"
  using assms
proof (induction pools)
  case Nil
  then show ?case using manages_seqE_Nil by (simp add: drv_poolObjects_def)
next
  case (Cons p pools)
  have "manages view c applyVerbs (\<lambda>x. x \<noteq> None)
      ({objectOf daemonSet_kind (drv_dsName h p) (namespace h)} \<union> drv_poolObjects h pools)
      (seqE (drv_handleDaemonSet c h s owner p # List.map (drv_handleDaemonSet c h s owner) pools))
      (seqE (drv_handleDaemonSet (recording c) h s owner p # List.map (drv_handleDaemonSet (recording c) h s owner) pools))"
  proof (rule manages_seqE_Cons [OF drv_manages_daemonSet])
    show "manages view c applyVerbs (\<lambda>x. x \<noteq> None) (drv_poolObjects h pools)
        (seqE (List.map (drv_handleDaemonSet c h s owner) pools))
        (seqE (List.map (drv_handleDaemonSet (recording c) h s owner) pools))"
      using Cons by simp
    show "{objectOf daemonSet_kind (drv_dsName h p) (namespace h)} \<inter> drv_poolObjects h pools = {}"
      using Cons.prems by (auto simp: drv_poolObjects_def drv_dsName_inj)
  qed
  then show ?case by (simp add: drv_poolObjects_def)
qed

text \<open>The tag of a precompiled driver is never \<open>latest\<close>.\<close>

lemma drv_tag_not_latest: "v @ ''-'' @ r \<noteq> ''latest''"
proof
  assume "v @ ''-'' @ r = ''latest''"
  then have "CHR ''-'' \<in> set ''latest''" by (metis in_set_conv_decomp append_Cons append_Nil)
  then show False by simp
qed

lemma drv_pullPolicy_eq:
  "drv_pullPolicy s pool = (if drs_ImagePullPolicy s = [] then PullIfNotPresent else drs_ImagePullPolicy s)"
  using drv_tag_not_latest by (simp add: drv_pullPolicy_def Let_def)

lemma drv_additional_ok: "\<exists>a. drv_additional h pool = Inr a"
  by (simp add: drv_additional_def subscriptionOS_def getSubscriptionPathsToVolumeSources_def subscriptionPathMap_def)

lemma drv_podSpec_fails_iff:
  "(\<exists>e. drv_podSpec h s pool = Inl e) \<longleftrightarrow> (\<exists>e. GetPrecompiledImagePath s (getOS pool) (np_kernel pool) = Inl e)"
  using drv_additional_ok [of h pool] by (auto simp: drv_podSpec_def Let_def split: sum.splits)

end
