(* ===== verification/Driver_Scope.thy ===== *)
theory Driver_Scope
  imports Driver_Manager
begin

text \<open>
  \<open>scope/rbln_driver.go\<close>: the scope of one reconciliation of a driver, which holds the driver
  manager's patcher.
\<close>

record 'w RBLNDriverScope =
  ds_singleton :: RBLNDriver
  ds_namespace :: string
  ds_patcher :: "'w DriverPatcher list"

text \<open>The policy's namespace, the operator's, then the driver's own, the first that is set.\<close>

definition driverNamespace :: "string \<Rightarrow> RBLNClusterPolicy option \<Rightarrow> RBLNDriver \<Rightarrow> string" where
  "driverNamespace operatorNamespace clusterPolicy driver =
     (let ns = (case clusterPolicy of
           Some p \<Rightarrow> if cp_Namespace (cp_Spec p) \<noteq> [] then cp_Namespace (cp_Spec p) else operatorNamespace
         | None \<Rightarrow> operatorNamespace)
      in if ns = [] then om_Namespace (dr_Meta driver) else ns)"

definition NewRBLNDriverScope ::
  "'w client \<Rightarrow> (nodePool list \<Rightarrow> nodePool list) \<Rightarrow> string \<Rightarrow> RBLNDriver \<Rightarrow> RBLNClusterPolicy option \<Rightarrow> string
    \<Rightarrow> error + 'w RBLNDriverScope" where
  "NewRBLNDriverScope c mapOrder operatorNamespace driver clusterPolicy osVersion =
     (let ns = driverNamespace operatorNamespace clusterPolicy driver in
      if ns = []
      then Inl (Errorf ''namespace is not configured. Set OPERATOR_NAMESPACE env variable or namespace spec'')
      else (case NewDriverManagerPatcher ns (Some driver) osVersion of
              Inl e \<Rightarrow> Inl e
            | Inr h \<Rightarrow> Inr \<lparr>ds_singleton = driver, ds_namespace = ns, ds_patcher = [drv_Patcher c mapOrder h]\<rparr>))"

definition patchDriverComponent :: "RBLNDriver \<Rightarrow> 'w DriverPatcher \<Rightarrow> ('w, unit) op" where
  "patchDriverComponent owner p =
     (if dpt_IsEnabled p
      then catch (dpt_Patch p owner) (\<lambda>e. fail (Flatten ''failed to patch component: '' e))
      else catch (dpt_CleanUp p (Some owner)) (\<lambda>e. fail (Flatten ''failed to clean up component: '' e)))"

definition PatchDriverComponents :: "'w RBLNDriverScope \<Rightarrow> ('w, unit) op" where
  "PatchDriverComponents s = seqE (List.map (patchDriverComponent (ds_singleton s)) (ds_patcher s))"

section \<open>Lemmas\<close>

definition driverPatcher :: "string \<Rightarrow> RBLNDriver \<Rightarrow> string \<Rightarrow> driverManagerPatcher" where
  "driverPatcher ns driver osVersion = \<lparr>desiredSpec = Some (dr_Spec driver), name = driverManagerName,
     namespace = ns, openshiftVersion = osVersion, instanceName = om_Name (dr_Meta driver)\<rparr>"

lemma NewRBLNDriverScope_eq:
  "NewRBLNDriverScope c mapOrder env driver policy osVersion =
     (let ns = driverNamespace env policy driver in
      if ns = []
      then Inl (Errorf ''namespace is not configured. Set OPERATOR_NAMESPACE env variable or namespace spec'')
      else Inr \<lparr>ds_singleton = driver, ds_namespace = ns,
             ds_patcher = [drv_Patcher c mapOrder (driverPatcher ns driver osVersion)]\<rparr>)"
  by (simp add: NewRBLNDriverScope_def NewDriverManagerPatcher_def driverPatcher_def Let_def)

text \<open>A scope always deploys: the patcher of a driver is never disabled.\<close>

lemma PatchDriverComponents_eq:
  assumes "NewRBLNDriverScope c mapOrder env driver policy osVersion = Inr s"
  shows "PatchDriverComponents s =
     catch (drv_Patch c (driverPatcher (ds_namespace s) driver osVersion) mapOrder driver)
       (\<lambda>e. fail (Flatten ''failed to patch component: '' e))"
  using assms
  by (auto simp: NewRBLNDriverScope_eq Let_def PatchDriverComponents_def patchDriverComponent_def
      drv_Patcher_def drv_IsEnabled_def driverPatcher_def split: if_splits)

end
