(* ===== verification/Node_Selector.thy ===== *)
theory Node_Selector
  imports Node_Pool
begin

text \<open>
  \<open>internal/validator/node_selector.go\<close>: the check that no node is selected by two drivers.  It
  lists the nodes the driver selects and the drivers, and refuses the driver when one of these nodes
  also matches the selector of another driver.
\<close>

text \<open>A read of an absent label gives the empty string, so an empty value matches an absent label.\<close>

definition labelsMatch :: "strmap \<Rightarrow> strmap \<Rightarrow> bool" where
  "labelsMatch labels selector = fBall (fmdom selector) (\<lambda>key. map_get labels key = map_get selector key)"

definition sameDriver :: "RBLNDriver \<Rightarrow> RBLNDriver \<Rightarrow> bool" where
  "sameDriver d d' \<longleftrightarrow> om_Name (dr_Meta d) = om_Name (dr_Meta d') \<and>
     om_Namespace (dr_Meta d) = om_Namespace (dr_Meta d')"

text \<open>The loop over the drivers: the first other driver whose selector matches a listed node.\<close>

fun conflicting :: "RBLNDriver \<Rightarrow> Node list \<Rightarrow> RBLNDriver list \<Rightarrow> RBLNDriver option" where
  "conflicting inst ns [] = None"
| "conflicting inst ns (driver # rest) =
     (if sameDriver driver inst then conflicting inst ns rest
      else (let otherSelector = GetNodeSelector driver in
            if list_ex (\<lambda>node. labelsMatch (om_Labels (node_Meta node)) otherSelector) ns
            then Some driver
            else conflicting inst ns rest))"

definition Validate :: "'w client \<Rightarrow> RBLNDriver \<Rightarrow> ('w, unit) op" where
  "Validate c inst =
     (let currentSelector = GetNodeSelector inst in
      bind (catch (call (api_List (nodes c) \<lparr>lo_Namespace = [], lo_MatchingLabels = currentSelector\<rparr>))
             (\<lambda>e. fail (Wrap ''list nodes for selector validation: '' e))) (\<lambda>ns.
      if ns = [] then ret ()
      else
        bind (catch (call (api_List (drivers c) all_objects))
               (\<lambda>e. fail (Wrap ''list RBLNDriver resources for selector validation: '' e))) (\<lambda>ds.
        case conflicting inst ns ds of
          Some driver \<Rightarrow> fail (Errorf (''nodeSelector conflicts with RBLNDriver \"'' @ om_Name (dr_Meta driver) @ ''\"''))
        | None \<Rightarrow> ret ())))"

section \<open>Lemmas\<close>

lemma labelsMatch_iff:
  "labelsMatch labels selector \<longleftrightarrow>
     (\<forall>k v. fmlookup selector k = Some v \<longrightarrow> map_get labels k = v)"
proof -
  have "map_get selector k = v" if "fmlookup selector k = Some v" for k v
    using that by (simp add: map_get_def)
  then show ?thesis unfolding labelsMatch_def by (auto simp: fmlookup_dom_iff)
qed

text \<open>What the API server selects always matches; with non-empty values the two agree.\<close>

lemma selects_labelsMatch: "selects selector labels \<Longrightarrow> labelsMatch labels selector"
  by (auto simp: labelsMatch_iff selects_def map_get_def)

lemma labelsMatch_selects:
  assumes "labelsMatch labels selector" and "\<And>k. fmlookup selector k \<noteq> Some []"
  shows "selects selector labels"
  unfolding selects_def
proof (intro allI impI)
  fix k v assume kv: "fmlookup selector k = Some v"
  then have "map_get labels k = v" using assms(1) by (simp add: labelsMatch_iff)
  moreover have "v \<noteq> []" using kv assms(2) [of k] by auto
  ultimately show "fmlookup labels k = Some v" by (auto simp: map_get_def split: option.splits)
qed

lemma conflicting_None_iff:
  "conflicting inst ns ds = None \<longleftrightarrow>
     (\<forall>d\<in>set ds. sameDriver d inst \<or>
        (\<forall>n\<in>set ns. \<not> labelsMatch (om_Labels (node_Meta n)) (GetNodeSelector d)))"
  by (induction ds) (auto simp: list_ex_iff Let_def)

lemma conflicting_SomeD:
  assumes "conflicting inst ns ds = Some d"
  shows "d \<in> set ds" and "\<not> sameDriver d inst"
    and "\<exists>n\<in>set ns. labelsMatch (om_Labels (node_Meta n)) (GetNodeSelector d)"
  using assms by (induction ds) (auto simp: list_ex_iff Let_def split: if_splits)

text \<open>The outcome, with the answers of the server to the two lists.\<close>

lemma Validate_eq:
  fixes inst :: RBLNDriver
  assumes "api_List (nodes c) \<lparr>lo_Namespace = [], lo_MatchingLabels = GetNodeSelector inst\<rparr> w = (Inr ns, w1)"
    and "api_List (drivers c) all_objects w1 = (Inr ds, w2)"
  shows "Validate c inst w =
     (if ns = [] then (Ok (), w1)
      else (case conflicting inst ns ds of
          None \<Rightarrow> (Ok (), w2)
        | Some d \<Rightarrow> (Err (Errorf (''nodeSelector conflicts with RBLNDriver \"'' @ om_Name (dr_Meta d) @ ''\"'')), w2)))"
  using assms by (cases "conflicting inst ns ds") (simp_all add: Validate_def Let_def op_defs)

lemma Validate_failed_list:
  fixes inst :: RBLNDriver
  assumes "api_List (nodes c) \<lparr>lo_Namespace = [], lo_MatchingLabels = GetNodeSelector inst\<rparr> w = (Inl e, w1)"
  shows "Validate c inst w = (Err (Wrap ''list nodes for selector validation: '' e), w1)"
  using assms by (simp add: Validate_def Let_def op_defs)

section \<open>Properties\<close>

text \<open>
  C32: The validation of a driver's node selector succeeds exactly when no listed node of the driver
  matches the selector of another driver; otherwise it reports the first such driver.
\<close>

theorem Validate_correct:
  assumes "api_List (nodes c) \<lparr>lo_Namespace = [], lo_MatchingLabels = GetNodeSelector d\<rparr> w = (Inr ns, w1)"
    and "api_List (drivers c) all_objects w1 = (Inr ds, w2)"
  shows "is_ok (fst (Validate c d w)) \<longleftrightarrow>
     (\<forall>d'\<in>set ds. \<forall>n\<in>set ns. \<not> sameDriver d' d \<longrightarrow> \<not> labelsMatch (om_Labels (node_Meta n)) (GetNodeSelector d'))"
  using conflicting_None_iff [of d ns ds]
  by (cases "ns = []"; cases "conflicting d ns ds") (auto simp: Validate_eq [OF assms])

definition example_driver :: "string \<Rightarrow> RBLNDriver" where
  "example_driver n = zero_Driver\<lparr>dr_Meta := empty_meta\<lparr>om_Name := n\<rparr>\<rparr>"

theorem Validate_correct_witness:
  "\<not> is_ok (fst (Validate mem_client (example_driver ''a'')
     (empty_cluster\<lparr>cl_nodes := [example_kernel_node ''n'' ''5.14''], cl_drivers := [example_driver ''a'', example_driver ''b'']\<rparr>)))"
proof -
  let ?w = "empty_cluster\<lparr>cl_nodes := [example_kernel_node ''n'' ''5.14''], cl_drivers := [example_driver ''a'', example_driver ''b'']\<rparr>"
  have 1: "api_List (nodes mem_client) \<lparr>lo_Namespace = [], lo_MatchingLabels = GetNodeSelector (example_driver ''a'')\<rparr> ?w
      = (Inr [example_kernel_node ''n'' ''5.14''], ?w)"
    by (simp add: mem_client_def list_api_def node_kind_def plain_kind_def example_kernel_node_def example_driver_def
        zero_Driver_def zero_DriverSpec_def GetNodeSelector_def fmsubset_alt_def fmpred_iff)
  have 2: "api_List (drivers mem_client) all_objects ?w = (Inr [example_driver ''a'', example_driver ''b''], ?w)"
    by (simp add: mem_client_def list_api_def all_objects_def fmsubset_alt_def fmpred_iff)
  have "\<not> sameDriver (example_driver ''b'') (example_driver ''a'')"
    "labelsMatch (om_Labels (node_Meta (example_kernel_node ''n'' ''5.14''))) (GetNodeSelector (example_driver ''b''))"
    by code_simp+
  then show ?thesis using Validate_correct [OF 1 2] by auto
qed

end
