(* ===== verification/Conditions.thy ===== *)
theory Conditions
  imports Store_Logic
begin

text \<open>
  \<open>internal/conditions\<close>: the condition updater of the cluster policy, which keeps the conditions
  \<open>Ready\<close> and \<open>Error\<close> complementary.
\<close>

abbreviation ConditionReady :: string where "ConditionReady \<equiv> ''Ready''"
abbreviation ConditionError :: string where "ConditionError \<equiv> ''Error''"
abbreviation ReconcileFailed :: string where "ReconcileFailed \<equiv> ''ReconcileFailed''"

text \<open>\<open>meta.SetStatusCondition\<close> with the clock read when it is called; the result flag is unused here.\<close>

definition setCondition :: "'w client \<Rightarrow> Condition \<Rightarrow> Condition list \<Rightarrow> ('w, Condition list) op" where
  "setCondition c new cs = bind (read_clock c) (\<lambda>t. ret (fst (SetStatusCondition t cs new)))"

definition setPolicyConditions :: "Condition list \<Rightarrow> RBLNClusterPolicy \<Rightarrow> RBLNClusterPolicy" where
  "setPolicyConditions cs p = p\<lparr>cp_Status := (cp_Status p)\<lparr>cpst_Conditions := cs\<rparr>\<rparr>"

text \<open>The argument of the updater is an \<open>any\<close>: a policy or something else.\<close>

datatype runtime_object = PolicyObject RBLNClusterPolicy | OtherObject

definition asClusterPolicy :: "runtime_object \<Rightarrow> error + RBLNClusterPolicy" where
  "asClusterPolicy obj = (case obj of
      PolicyObject p \<Rightarrow> Inr p
    | OtherObject \<Rightarrow> Inl (Errorf ''provided object is not a *rblnv1beta1.RBLNClusterPolicy''))"

text \<open>The two conditions that a status type stands for; \<open>None\<close> for an unknown type.\<close>

definition conditionPair :: "string \<Rightarrow> string \<Rightarrow> string \<Rightarrow> (Condition \<times> Condition) option" where
  "conditionPair statusType reason message =
     (if statusType = ConditionReady then
        Some (mkCondition ConditionReady ConditionTrue reason message,
              mkCondition ConditionError ConditionFalse ConditionReady [])
      else if statusType = ConditionError then
        Some (mkCondition ConditionReady ConditionFalse ConditionError [],
              mkCondition ConditionError ConditionTrue reason message)
      else None)"

definition setConditions ::
  "'w client \<Rightarrow> RBLNClusterPolicy \<Rightarrow> string \<Rightarrow> string \<Rightarrow> string \<Rightarrow> ('w, unit) op" where
  "setConditions c cr statusType reason message =
     (case conditionPair statusType reason message of
        None \<Rightarrow> fail (Errorf (''unknown status type provided: '' @ statusType))
      | Some (readyCond, errorCond) \<Rightarrow>
          bind (setCondition c readyCond (cpst_Conditions (cp_Status cr))) (\<lambda>cs1.
          bind (setCondition c errorCond cs1) (\<lambda>cs2.
          bind (call (api_StatusUpdate (clusterPolicies c) (setPolicyConditions cs2 cr))) (\<lambda>_. ret ()))))"

definition SetConditionsReady :: "'w client \<Rightarrow> runtime_object \<Rightarrow> string \<Rightarrow> string \<Rightarrow> ('w, unit) op" where
  "SetConditionsReady c cr reason message =
     (case asClusterPolicy cr of
        Inl e \<Rightarrow> fail e
      | Inr p \<Rightarrow> setConditions c p ConditionReady reason message)"

definition SetConditionsError :: "'w client \<Rightarrow> runtime_object \<Rightarrow> string \<Rightarrow> string \<Rightarrow> ('w, unit) op" where
  "SetConditionsError c cr reason message =
     (case asClusterPolicy cr of
        Inl e \<Rightarrow> fail e
      | Inr p \<Rightarrow> setConditions c p ConditionError reason message)"

section \<open>Lemmas\<close>

definition conditionStatus :: "Condition list \<Rightarrow> string \<Rightarrow> string option" where
  "conditionStatus cs t = map_option cond_Status (FindStatusCondition cs t)"

lemma conditionStatus_set:
  "conditionStatus (fst (SetStatusCondition t cs new)) k =
     (if k = cond_Type new then Some (cond_Status new) else conditionStatus cs k)"
  using Find_SetStatusCondition [of t cs new]
  by (auto simp: conditionStatus_def Find_SetStatusCondition_other split: option.splits)

text \<open>After both conditions of a type are set, exactly one of \<open>Ready\<close> and \<open>Error\<close> is true.\<close>

lemma conditionPair_complementary:
  assumes "conditionPair statusType reason message = Some (r, e)"
  defines "final \<equiv> \<lambda>t1 t2 cs. fst (SetStatusCondition t2 (fst (SetStatusCondition t1 cs r)) e)"
  shows "conditionStatus (final t1 t2 cs) ConditionReady = Some (cond_Status r)"
    and "conditionStatus (final t1 t2 cs) ConditionError = Some (cond_Status e)"
    and "(cond_Status r = ConditionTrue) \<noteq> (cond_Status e = ConditionTrue)"
proof -
  have t: "cond_Type r = ConditionReady" "cond_Type e = ConditionError"
    using assms(1) by (auto simp: conditionPair_def split: if_splits)
  show "conditionStatus (final t1 t2 cs) ConditionReady = Some (cond_Status r)"
    "conditionStatus (final t1 t2 cs) ConditionError = Some (cond_Status e)"
    using t by (simp_all add: final_def conditionStatus_set)
  show "(cond_Status r = ConditionTrue) \<noteq> (cond_Status e = ConditionTrue)"
    using assms(1) by (auto simp: conditionPair_def split: if_splits)
qed

section \<open>Properties\<close>

text \<open>
  Setting the conditions \<open>Ready\<close> or \<open>Error\<close> of a policy ends in one status update, of the given
  policy with exactly one of the two conditions true, the other false and all other conditions, the
  metadata, the spec and the state kept.
\<close>

theorem setConditions_complementary:
  assumes "statusType = ConditionReady \<or> statusType = ConditionError"
  shows "\<exists>(p' :: RBLNClusterPolicy) w1. setConditions c p statusType reason message w = bind (call (api_StatusUpdate (clusterPolicies c) p')) (\<lambda>_. ret ()) w1 \<and>
     cp_Meta p' = cp_Meta p \<and> cp_Spec p' = cp_Spec p \<and> cpst_State (cp_Status p') = cpst_State (cp_Status p) \<and>
     conditionStatus (cpst_Conditions (cp_Status p')) ConditionReady =
       Some (if statusType = ConditionReady then ConditionTrue else ConditionFalse) \<and>
     conditionStatus (cpst_Conditions (cp_Status p')) ConditionError =
       Some (if statusType = ConditionReady then ConditionFalse else ConditionTrue) \<and>
     (\<forall>t. t \<notin> {ConditionReady, ConditionError} \<longrightarrow>
        conditionStatus (cpst_Conditions (cp_Status p')) t = conditionStatus (cpst_Conditions (cp_Status p)) t)"
proof -
  obtain r e where pair: "conditionPair statusType reason message = Some (r, e)"
      and re: "cond_Type r = ConditionReady" "cond_Type e = ConditionError"
        "cond_Status r = (if statusType = ConditionReady then ConditionTrue else ConditionFalse)"
        "cond_Status e = (if statusType = ConditionReady then ConditionFalse else ConditionTrue)"
    using assms by (auto simp: conditionPair_def)
  obtain t1 w1 where n1: "now c w = (t1, w1)" by fastforce
  obtain t2 w2 where n2: "now c w1 = (t2, w2)" by fastforce
  define cs where "cs = fst (SetStatusCondition t2 (fst (SetStatusCondition t1 (cpst_Conditions (cp_Status p)) r)) e)"
  have "setConditions c p statusType reason message w =
      bind (call (api_StatusUpdate (clusterPolicies c) (setPolicyConditions cs p))) (\<lambda>_. ret ()) w2"
    by (simp add: setConditions_def pair setCondition_def read_clock_def bind_def ret_def n1 n2 cs_def)
  then show ?thesis
    by (intro exI [of _ "setPolicyConditions cs p"] exI [of _ w2])
       (use re in \<open>auto simp: setPolicyConditions_def cs_def conditionStatus_set\<close>)
qed

theorem setConditions_complementary_witness:
  "\<exists>p' :: RBLNClusterPolicy. conditionStatus (cpst_Conditions (cp_Status p')) ConditionError = Some ConditionTrue \<and>
     cp_Meta p' = cp_Meta zero_ClusterPolicy"
  using setConditions_complementary [of "''Error''" mem_client zero_ClusterPolicy "''ReconcileFailed''" "''no namespace''" empty_cluster]
  by auto

end
