(* ===== verification/Cluster_Info.thy ===== *)
theory Cluster_Info
  imports Client Container_Toolkit Store_Logic
begin

text \<open>
  \<open>controller/clusterinfo.go\<close>: the OpenShift version and the container runtime, read once at start.
  The OpenShift client is a parameter: its construction may fail, and \<open>Get("version")\<close> answers with
  the update history or an error.
\<close>

record UpdateHistory =
  uh_State :: string
  uh_Version :: string

record ClusterInfo =
  ci_OpenshiftVersion :: string
  ci_ContainerRuntime :: string

text \<open>The first completed update decides; its version is cut to major and minor.\<close>

fun completedVersion :: "UpdateHistory list \<Rightarrow> string option" where
  "completedVersion [] = None"
| "completedVersion (cond # rest) =
     (if uh_State cond \<noteq> ''Completed'' then completedVersion rest
      else (let ocpV = split_char (CHR ''.'') (uh_Version cond) in
            if length ocpV > 1 then Some (ocpV ! 0 @ ''.'' @ ocpV ! 1) else Some (ocpV ! 0)))"

definition getOpenshiftVersion ::
  "('w, unit) api \<Rightarrow> ('w, UpdateHistory list) api \<Rightarrow> ('w, string) op" where
  "getOpenshiftVersion newClient getVersion =
     bind (catch (call newClient) (\<lambda>e. fail (Wrap ''create openshift config client: '' e))) (\<lambda>_.
     bind (catch (bind (call getVersion) (\<lambda>h. ret (Some h)))
             (\<lambda>e. if IsNotFound e then ret None else fail e)) (\<lambda>res.
     case res of
       None \<Rightarrow> ret []
     | Some history \<Rightarrow>
         (case completedVersion history of
            Some v \<Rightarrow> ret v
          | None \<Rightarrow> fail (Errorf ''failed to find Completed Openshift Cluster Version''))))"

definition getRuntimeString :: "Node \<Rightarrow> error + string" where
  "getRuntimeString node =
     (let runtimeVer = node_ContainerRuntimeVersion node in
      if HasPrefix runtimeVer ''docker'' then Inr Docker
      else if HasPrefix runtimeVer ''containerd'' then Inr Containerd
      else if HasPrefix runtimeVer ''cri-o'' then Inr CRIO
      else Inl (Errorf (''runtime not recognized: '' @ runtimeVer)))"

text \<open>The loop: the last recognised runtime, up to the first containerd node.\<close>

fun pickRuntime :: "Node list \<Rightarrow> string \<Rightarrow> string" where
  "pickRuntime [] runtime = runtime"
| "pickRuntime (node # rest) runtime =
     (case getRuntimeString node of
        Inl _ \<Rightarrow> pickRuntime rest runtime
      | Inr rt \<Rightarrow> if rt = Containerd then rt else pickRuntime rest rt)"

definition getContainerRuntime :: "'w client \<Rightarrow> ('w, unit) api \<Rightarrow> string \<Rightarrow> ('w, string) op" where
  "getContainerRuntime c newClient osVersion =
     (if osVersion \<noteq> [] then ret CRIO
      else
        bind (catch (call newClient) (\<lambda>e. fail (Wrap ''build k8s core v1 client: '' e))) (\<lambda>_.
        bind (catch (call (api_List (nodes c) \<lparr>lo_Namespace = [],
                       lo_MatchingLabels = map_lit [(RBLNPresentLabelKey, ''true'')]\<rparr>))
                (\<lambda>e. fail (Wrap ''list nodes prior to checking container runtime: '' e))) (\<lambda>ns.
        bind (if ns = []
              then catch (call (api_List (nodes c) all_objects))
                     (\<lambda>e. fail (Wrap ''list nodes for container runtime fallback: '' e))
              else ret ns) (\<lambda>nodeList.
        let runtime = pickRuntime nodeList [] in
        ret (if runtime = [] then Containerd else runtime)))))"

definition NewClusterInfo ::
  "'w client \<Rightarrow> ('w, unit) api \<Rightarrow> ('w, UpdateHistory list) api \<Rightarrow> ('w, unit) api \<Rightarrow> ('w, ClusterInfo) op" where
  "NewClusterInfo c newOcpClient getVersion newCoreClient =
     bind (catch (getOpenshiftVersion newOcpClient getVersion)
             (\<lambda>e. fail (Wrap ''failed to get openshift version: '' e))) (\<lambda>v.
     bind (catch (getContainerRuntime c newCoreClient v)
             (\<lambda>e. fail (Wrap ''failed to get container runtime: '' e))) (\<lambda>r.
     ret \<lparr>ci_OpenshiftVersion = v, ci_ContainerRuntime = r\<rparr>))"

section \<open>Lemmas\<close>

definition runtimes :: "Node list \<Rightarrow> string list" where
  "runtimes ns = List.map_filter (\<lambda>n. case getRuntimeString n of Inl _ \<Rightarrow> None | Inr rt \<Rightarrow> Some rt) ns"

lemma runtimes_simps [simp]:
  "runtimes [] = []"
  "runtimes (n # ns) = (case getRuntimeString n of Inl _ \<Rightarrow> runtimes ns | Inr rt \<Rightarrow> rt # runtimes ns)"
  by (simp_all add: runtimes_def List.map_filter_simps split: sum.splits)

text \<open>Containerd wins wherever it occurs; otherwise the last recognised runtime is taken.\<close>

lemma pickRuntime_eq:
  "pickRuntime ns runtime =
     (if Containerd \<in> set (runtimes ns) then Containerd
      else if runtimes ns = [] then runtime else last (runtimes ns))"
  by (induction ns arbitrary: runtime) (auto split: sum.splits)

lemma runtimes_known: "rt \<in> set (runtimes ns) \<Longrightarrow> rt \<in> {Docker, Containerd, CRIO}"
  by (induction ns) (auto simp: getRuntimeString_def Let_def split: sum.splits if_splits)

text \<open>The runtime is always one for which the container toolkit has a socket.\<close>

lemma pickRuntime_socket:
  "runtimeSocket (if pickRuntime ns [] = [] then Containerd else pickRuntime ns []) \<noteq> None"
proof -
  have "last (runtimes ns) \<in> {Docker, Containerd, CRIO}" if "runtimes ns \<noteq> []"
    using that runtimes_known [of "last (runtimes ns)" ns] by simp
  then show ?thesis by (auto simp: pickRuntime_eq runtimeSocket_def)
qed

section \<open>Properties\<close>

text \<open>
  Whatever runtimes the nodes report, the container runtime of the cluster information is one the
  container toolkit has a socket for, and it is CRI-O on OpenShift.
\<close>

theorem getContainerRuntime_supported:
  assumes "getContainerRuntime c newClient osVersion w = (Ok rt, w')"
  shows "runtimeSocket rt \<noteq> None \<and> (osVersion \<noteq> [] \<longrightarrow> rt = CRIO)"
proof (cases "osVersion = []")
  case True
  then obtain ns where "rt = (if pickRuntime ns [] = [] then Containerd else pickRuntime ns [])"
    using assms by (auto simp: getContainerRuntime_def Let_def ret_def elim!: bind_OkE)
  with pickRuntime_socket [of ns] have "runtimeSocket rt \<noteq> None" by (simp only: not_False_eq_True)
  with True show ?thesis by simp
next
  case False
  then show ?thesis using assms by (auto simp: getContainerRuntime_def ret_def runtimeSocket_def)
qed

theorem getContainerRuntime_supported_witness: "runtimeSocket ''crio'' \<noteq> None"
proof -
  have "getContainerRuntime mem_client (\<lambda>w. (Inr (), w)) ''4.16'' empty_cluster = (Ok ''crio'', empty_cluster)"
    by (simp add: getContainerRuntime_def ret_def)
  from getContainerRuntime_supported [OF this] show ?thesis by simp
qed

end
