(* ===== verification/Policy_Controller.thy ===== *)
theory Policy_Controller
  imports Policy_Scope Conditions Cluster_Info
begin

text \<open>
  \<open>controller/rblnclusterpolicy_controller.go\<close>: the reconciler of cluster policies.  Its only state
  is \<open>SingletonCRName\<close>, the name of the policy in charge; \<open>Reconcile\<close> takes and returns it.
  Reconciliations of one controller run one after the other (its default of one worker), with
  arbitrary changes of the cluster between them.
\<close>

abbreviation RBLNConditionTypeReady :: string where "RBLNConditionTypeReady \<equiv> ''Ready''"
abbreviation RBLNConditionTypeComponentsReady :: string where
  "RBLNConditionTypeComponentsReady \<equiv> ''ComponentsReady''"

text \<open>\<open>ctrl.Result\<close>, with \<open>RequeueAfter\<close> in seconds.\<close>

record Result =
  res_RequeueAfter :: nat

definition noRequeue :: Result where
  "noRequeue = \<lparr>res_RequeueAfter = 0\<rparr>"

section \<open>Status\<close>

text \<open>
  The state of a policy, written only when it differs.  An error of \<open>Get\<close> is logged and the zero
  object is used in its place.
\<close>

definition updateCRState :: "'w client \<Rightarrow> ObjectKey \<Rightarrow> ClusterState \<Rightarrow> ('w, unit) op" where
  "updateCRState c namespacedName state =
     bind (catch (call (api_Get (clusterPolicies c) namespacedName)) (\<lambda>_. ret zero_ClusterPolicy)) (\<lambda>inst.
     if cpst_State (cp_Status inst) = state then ret ()
     else catch (bind (call (api_StatusUpdate (clusterPolicies c) (SetStatus state inst))) (\<lambda>_. ret ()))
            (\<lambda>_. ret ()))"

text \<open>Two conditions set one after the other.\<close>

definition setTwoConditions :: "'w client \<Rightarrow> Condition \<Rightarrow> Condition \<Rightarrow> RBLNClusterPolicy \<Rightarrow> ('w, RBLNClusterPolicy) op" where
  "setTwoConditions c c1 c2 p =
     bind (setCondition c c1 (cpst_Conditions (cp_Status p))) (\<lambda>cs1.
     bind (setCondition c c2 cs1) (\<lambda>cs2.
     ret (setPolicyConditions cs2 p)))"

definition setClusterReadyStatus :: "'w client \<Rightarrow> RBLNClusterPolicy \<Rightarrow> nat \<Rightarrow> ('w, RBLNClusterPolicy) op" where
  "setClusterReadyStatus c rblnPolicy componentCount =
     setTwoConditions c
       (mkCondition RBLNConditionTypeComponentsReady ConditionTrue ''AllComponentsReady''
          ''All managed components are Ready'')
       (mkCondition RBLNConditionTypeReady ConditionTrue ''AllComponentsReady''
          (''All components are Ready ('' @ show_nat componentCount @ ''/'' @ show_nat componentCount @ '')''))
       (SetStatus ClusterReady rblnPolicy)"

definition notReadyComponents :: "RBLNComponentStatus list \<Rightarrow> string list" where
  "notReadyComponents components =
     List.map (\<lambda>cs. rcs_Namespace cs @ ''/'' @ rcs_Name cs)
       (filter (\<lambda>cs. rcs_State cs \<noteq> ComponentStateReady) components)"

definition setClusterNotReadyStatus ::
  "'w client \<Rightarrow> RBLNClusterPolicy \<Rightarrow> RBLNComponentStatus list \<Rightarrow> ('w, RBLNClusterPolicy) op" where
  "setClusterNotReadyStatus c rblnPolicy components =
     (let message = ''Components not ready: '' @ Join (notReadyComponents components) '', '' in
      setTwoConditions c
        (mkCondition RBLNConditionTypeComponentsReady ConditionFalse ''SomeComponentsNotReady'' message)
        (mkCondition RBLNConditionTypeReady ConditionFalse ''SomeComponentsNotReady'' message)
        (SetStatus ClusterNotReady rblnPolicy))"

fun allComponentsReady :: "RBLNComponentStatus list \<Rightarrow> bool" where
  "allComponentsReady [] = True"
| "allComponentsReady (cs # rest) =
     (if rcs_State cs \<noteq> ComponentStateReady then False else allComponentsReady rest)"

definition setComponents :: "RBLNComponentStatus list \<Rightarrow> RBLNClusterPolicy \<Rightarrow> RBLNClusterPolicy" where
  "setComponents components p = p\<lparr>cp_Status := (cp_Status p)\<lparr>cpst_Components := components\<rparr>\<rparr>"

definition reconcileStatus :: "'w client \<Rightarrow> RBLNClusterPolicy \<Rightarrow> 'w RBLNClusterPolicyScope \<Rightarrow> ('w, Result) op" where
  "reconcileStatus c rblnPolicy cpScope =
     bind (AssembleComponentConditions cpScope) (\<lambda>componentsStatus.
     bind (call (api_Get (clusterPolicies c) \<lparr>ok_Namespace = [], ok_Name = om_Name (cp_Meta rblnPolicy)\<rparr>)) (\<lambda>inst0.
     let inst = setComponents componentsStatus inst0 in
     bind (if allComponentsReady componentsStatus
           then setClusterReadyStatus c inst (length componentsStatus)
           else setClusterNotReadyStatus c inst componentsStatus) (\<lambda>inst1.
     bind (catch (call (api_StatusUpdate (clusterPolicies c) inst1))
             (\<lambda>e. fail (Wrap ''failed to update RBLNClusterPolicy status: '' e))) (\<lambda>_.
     ret noRequeue))))"

section \<open>\<open>Reconcile\<close>\<close>

text \<open>The part of \<open>Reconcile\<close> after the policy is found to be the singleton.\<close>

definition reconcileInstance ::
  "'w client \<Rightarrow> string \<Rightarrow> ClusterInfo \<Rightarrow> ObjectKey \<Rightarrow> RBLNClusterPolicy \<Rightarrow> ('w, Result) op" where
  "reconcileInstance c operatorNamespace info req inst =
     (case NewRBLNClusterPolicyScope c operatorNamespace inst (ci_OpenshiftVersion info) (ci_ContainerRuntime info) of
        Inl e \<Rightarrow>
          (let err = Flatten ''failed to initialize RBLNClusterPolicy Scope: '' e in
           bind (updateCRState c req ClusterNotReady) (\<lambda>_.
           bind (catch (SetConditionsError c (PolicyObject inst) ReconcileFailed (err_text err)) (\<lambda>_. ret ())) (\<lambda>_.
           fail err)))
      | Inr cpScope \<Rightarrow>
          bind (LabelRblnNodes c inst) (\<lambda>(nfdInstalled, rblnNodes).
          if \<not> nfdInstalled then
            bind (updateCRState c req ClusterNotReady) (\<lambda>_. ret \<lparr>res_RequeueAfter = 30\<rparr>)
          else if rblnNodes = 0 then
            bind (updateCRState c req ClusterNotReady) (\<lambda>_. ret noRequeue)
          else
            bind (PatchComponents cpScope) (\<lambda>_. reconcileStatus c inst cpScope)))"

definition Reconcile ::
  "'w client \<Rightarrow> string \<Rightarrow> ClusterInfo \<Rightarrow> ObjectKey \<Rightarrow> string \<Rightarrow> 'w \<Rightarrow> (Result outcome \<times> string) \<times> 'w" where
  "Reconcile c operatorNamespace info req singleton w =
     (case api_Get (clusterPolicies c) req w of
        (Inl e, w1) \<Rightarrow>
          (if IsNotFound e
           then ((Ok noRequeue, if singleton = ok_Name req then [] else singleton), w1)
           else ((Err (Flatten ''failed to get RBLNClusterPolicy object: '' e), singleton), w1))
      | (Inr inst, w1) \<Rightarrow>
          (if singleton \<noteq> [] \<and> singleton \<noteq> om_Name (cp_Meta inst)
           then (case bind (updateCRState c req ClusterIgnored) (\<lambda>_. ret noRequeue) w1 of
                   (r, w2) \<Rightarrow> ((r, singleton), w2))
           else (let singleton' = (if singleton = [] then om_Name (cp_Meta inst) else singleton) in
                 case reconcileInstance c operatorNamespace info req inst w1 of
                   (r, w2) \<Rightarrow> ((r, singleton'), w2))))"

section \<open>Events\<close>

definition singletonRequest :: "string \<Rightarrow> ObjectKey list" where
  "singletonRequest singleton =
     (if singleton \<noteq> [] then [\<lparr>ok_Namespace = [], ok_Name = singleton\<rparr>] else [])"

text \<open>The events of a watched node; the object of an update is a node or something else.\<close>

datatype node_event = CreateEvent | DeleteEvent | GenericEvent
  | UpdateEvent "Node option" "Node option"

definition rblnNodeLabelUpdated :: "node_event \<Rightarrow> bool" where
  "rblnNodeLabelUpdated e =
     (case e of
        CreateEvent \<Rightarrow> True
      | DeleteEvent \<Rightarrow> True
      | GenericEvent \<Rightarrow> False
      | UpdateEvent oldObj newObj \<Rightarrow>
          (case (oldObj, newObj) of
             (Some oldNode, Some newNode) \<Rightarrow>
               FilterMapWithPrefix (om_Labels (node_Meta oldNode)) ''rebellions.ai/''
                 \<noteq> FilterMapWithPrefix (om_Labels (node_Meta newNode)) ''rebellions.ai/''
           | _ \<Rightarrow> False))"

end
