(* ===== verification/Driver_Controller.thy ===== *)
theory Driver_Controller
  imports Driver_Scope Node_Selector Policy_Controller
begin

text \<open>
  \<open>controller/rblndriver_controller.go\<close>: the reconciler of drivers.  It keeps no state; a driver is
  deployed when a cluster policy exists and no other driver selects one of its nodes.
\<close>

section \<open>Status\<close>

definition setDriverStatus :: "DriverState \<Rightarrow> Condition list \<Rightarrow> RBLNDriver \<Rightarrow> RBLNDriver" where
  "setDriverStatus state cs d = d\<lparr>dr_Status := \<lparr>drst_State = state, drst_Conditions = cs\<rparr>\<rparr>"

text \<open>An error of the status update is only logged.\<close>

definition updateDriverStatus :: "'w client \<Rightarrow> RBLNDriver \<Rightarrow> ('w, unit) op" where
  "updateDriverStatus c d =
     catch (bind (call (api_StatusUpdate (drivers c) d)) (\<lambda>_. ret ())) (\<lambda>_. ret ())"

definition setDriverStatusError :: "'w client \<Rightarrow> RBLNDriver \<Rightarrow> error \<Rightarrow> ('w, unit) op" where
  "setDriverStatusError c inst err =
     bind (setCondition c (mkCondition ConditionReady ConditionFalse ConditionError [])
             (drst_Conditions (dr_Status inst))) (\<lambda>cs1.
     bind (setCondition c (mkCondition ConditionError ConditionTrue ReconcileFailed (err_text err)) cs1) (\<lambda>cs2.
     updateDriverStatus c (setDriverStatus DriverStateNotReady cs2 inst)))"

text \<open>The conditions with the desired one set, and whether it had to be set.\<close>

definition shouldUpdateCondition :: "'w client \<Rightarrow> Condition list \<Rightarrow> Condition \<Rightarrow> ('w, Condition list \<times> bool) op" where
  "shouldUpdateCondition c conditionsList desired =
     (case FindStatusCondition conditionsList (cond_Type desired) of
        Some existing \<Rightarrow>
          (if cond_Status existing = cond_Status desired \<and> cond_Reason existing = cond_Reason desired
              \<and> cond_Message existing = cond_Message desired
           then ret (conditionsList, False)
           else bind (setCondition c desired conditionsList) (\<lambda>cs. ret (cs, True)))
      | None \<Rightarrow> bind (setCondition c desired conditionsList) (\<lambda>cs. ret (cs, True)))"

definition setDriverStatusNotReady :: "'w client \<Rightarrow> RBLNDriver \<Rightarrow> string \<Rightarrow> string \<Rightarrow> ('w, unit) op" where
  "setDriverStatusNotReady c inst reason message =
     (let stateChanged = (drst_State (dr_Status inst) \<noteq> DriverStateNotReady);
          readyCondition = mkCondition ConditionReady ConditionFalse reason message
      in bind (shouldUpdateCondition c (drst_Conditions (dr_Status inst)) readyCondition) (\<lambda>(cs, condChanged).
         if stateChanged \<or> condChanged
         then updateDriverStatus c (setDriverStatus DriverStateNotReady cs inst)
         else ret ()))"

section \<open>\<open>Reconcile\<close>\<close>

text \<open>The end of \<open>Reconcile\<close>: the scope is built and its components are patched.\<close>

definition deployDriver ::
  "'w client \<Rightarrow> (nodePool list \<Rightarrow> nodePool list) \<Rightarrow> string \<Rightarrow> string \<Rightarrow> RBLNDriver \<Rightarrow> RBLNClusterPolicy \<Rightarrow> ('w, Result) op" where
  "deployDriver c mapOrder operatorNamespace osVersion inst clusterPolicy =
     (case NewRBLNDriverScope c mapOrder operatorNamespace inst (Some clusterPolicy) osVersion of
        Inl e \<Rightarrow> bind (setDriverStatusError c inst e) (\<lambda>_. fail e)
      | Inr driverScope \<Rightarrow>
          bind (catch (PatchDriverComponents driverScope)
                  (\<lambda>e. bind (setDriverStatusError c inst e) (\<lambda>_. fail e))) (\<lambda>_.
          ret noRequeue))"

text \<open>\<open>Reconcile\<close> once the driver is read.\<close>

definition reconcileDriver ::
  "'w client \<Rightarrow> (nodePool list \<Rightarrow> nodePool list) \<Rightarrow> string \<Rightarrow> string \<Rightarrow> RBLNDriver \<Rightarrow> ('w, Result) op" where
  "reconcileDriver c mapOrder operatorNamespace osVersion inst =
     bind (catch (call (api_List (clusterPolicies c) all_objects))
             (\<lambda>e. let wrappedErr = Wrap ''error getting RBLNClusterPolicy list: '' e in
                  bind (setDriverStatusError c inst wrappedErr) (\<lambda>_. fail wrappedErr))) (\<lambda>clusterPolicyList.
     case clusterPolicyList of
       [] \<Rightarrow>
         bind (setDriverStatusNotReady c inst ''MissingClusterPolicy'' ''RBLNClusterPolicy not found in the cluster'')
           (\<lambda>_. ret noRequeue)
     | clusterPolicy # _ \<Rightarrow>
         bind (catch (bind (Validate c inst) (\<lambda>_. ret None)) (\<lambda>e. ret (Some e))) (\<lambda>invalid.
         case invalid of
           Some e \<Rightarrow> bind (setDriverStatusError c inst e) (\<lambda>_. ret noRequeue)
         | None \<Rightarrow> deployDriver c mapOrder operatorNamespace osVersion inst clusterPolicy))"

text \<open>
  The whole of \<open>Reconcile\<close>.  After an error other than \<open>NotFound\<close> the status of the object that
  was not filled in is written.
\<close>

definition DriverReconcile ::
  "'w client \<Rightarrow> (nodePool list \<Rightarrow> nodePool list) \<Rightarrow> string \<Rightarrow> string \<Rightarrow> ObjectKey \<Rightarrow> ('w, Result) op" where
  "DriverReconcile c mapOrder operatorNamespace osVersion req =
     bind (catch (bind (call (api_Get (drivers c) req)) (\<lambda>d. ret (Some d)))
             (\<lambda>e. if IsNotFound e then ret None
                  else (let wrappedErr = Wrap ''error getting RBLNDriver object: '' e in
                        bind (setDriverStatusError c zero_Driver wrappedErr) (\<lambda>_. fail wrappedErr)))) (\<lambda>found.
     case found of
       None \<Rightarrow> ret noRequeue
     | Some inst \<Rightarrow> reconcileDriver c mapOrder operatorNamespace osVersion inst)"

section \<open>Events\<close>

text \<open>\<open>mapFn\<close>: a request for every driver; an error of the list is logged.\<close>

definition driverRequests :: "'w client \<Rightarrow> ('w, ObjectKey list) op" where
  "driverRequests c =
     catch (bind (call (api_List (drivers c) all_objects))
              (\<lambda>ds. ret (List.map (\<lambda>d. \<lparr>ok_Namespace = [], ok_Name = om_Name (dr_Meta d)\<rparr>) ds)))
       (\<lambda>_. ret [])"

definition interestedLabels :: "string list" where
  "interestedLabels = [driverManagerDeployLabelKey, nfdOSReleaseIDLabelKey, nfdOSVersionIDLabelKey, nfdKernelLabelKey]"

definition driverRelevantNodeLabelUpdated :: "node_event \<Rightarrow> bool" where
  "driverRelevantNodeLabelUpdated e =
     (case e of
        CreateEvent \<Rightarrow> True
      | DeleteEvent \<Rightarrow> True
      | GenericEvent \<Rightarrow> False
      | UpdateEvent oldObj newObj \<Rightarrow>
          (case (oldObj, newObj) of
             (Some oldNode, Some newNode) \<Rightarrow>
               list_ex (\<lambda>key. map_get (om_Labels (node_Meta oldNode)) key
                              \<noteq> map_get (om_Labels (node_Meta newNode)) key) interestedLabels
           | _ \<Rightarrow> False))"

section \<open>Lemmas\<close>

text \<open>The status calls never fail, and write at most the status of the driver.\<close>

definition driverStatusRequest :: "RBLNDriver \<Rightarrow> request" where
  "driverStatusRequest d = Request StatusVerb DriverKind (key_of driver_kind d)"

lemma key_setDriverStatus [simp]: "key_of driver_kind (setDriverStatus st cs d) = key_of driver_kind d"
  by (simp add: key_of_def driver_kind_def plain_kind_def setDriverStatus_def)

lemma emits_clock: "(\<And>t. P (Ok t) []) \<Longrightarrow> emits (read_clock (recording c)) P"
  by (auto simp: emits_def read_clock_def recording_def split: prod.splits)

lemma emits_setCondition: "(\<And>cs'. P (Ok cs') []) \<Longrightarrow> emits (setCondition (recording c) new cs) P"
  unfolding setCondition_def
  by (rule emits_bind [where Q = "\<lambda>r l. is_ok r \<and> l = []"]) (auto intro: emits_clock emits_ret)

lemma updateDriverStatus_emits:
  "emits (updateDriverStatus (recording c) d) (\<lambda>r l. r = Ok () \<and> l = [driverStatusRequest d])"
  unfolding updateDriverStatus_def
  by (rule emits_catch [where Q = "\<lambda>r l. (\<forall>s. r \<noteq> Abort s) \<and> l = [driverStatusRequest d]"],
      rule emits_bind [where Q = "\<lambda>r l. (\<forall>s. r \<noteq> Abort s) \<and> l = [driverStatusRequest d]"])
     (auto simp: recording_api_def driverStatusRequest_def driver_kind_def plain_kind_def key_of_def
       intro: emits_call emits_ret)

lemma setDriverStatusError_emits:
  "emits (setDriverStatusError (recording c) d e) (\<lambda>r l. r = Ok () \<and> l = [driverStatusRequest d])"
  unfolding setDriverStatusError_def
  by (rule emits_bind [where Q = "\<lambda>r l. is_ok r \<and> l = []"], simp add: emits_setCondition,
      rule emits_bind [where Q = "\<lambda>r l. is_ok r \<and> l = []"])
     (auto simp: driverStatusRequest_def intro: emits_setCondition
       emits_mono [OF updateDriverStatus_emits [of c "setDriverStatus DriverStateNotReady _ d"]])

end
