(* ===== verification/Policy_Runs.thy ===== *)
theory Policy_Runs
  imports Policy_Controller
begin

text \<open>
  What the reconciler of cluster policies guarantees: which requests a reconciliation sends, what
  it leaves on the cluster, what it writes to the status, and that over any run only one policy at
  a time is in charge.
\<close>

section \<open>Requests of the status updates\<close>

definition policyStatusRequest :: "request \<Rightarrow> bool" where
  "policyStatusRequest q \<longleftrightarrow> rq_kind q = ClusterPolicyKind \<and> rq_verb q \<in> {GetVerb, StatusVerb}"

lemma updateCRState_emits:
  "emits (updateCRState (recording c) key state)
     (\<lambda>r l. r = Ok () \<and> list_all policyStatusRequest l \<and> length l \<le> 2)"
proof -
  let ?get = "catch (call (api_Get (clusterPolicies (recording c)) key)) (\<lambda>_. ret zero_ClusterPolicy)"
  have get: "emits ?get (\<lambda>r l. is_ok r \<and> list_all policyStatusRequest l \<and> length l = 1)"
    by (rule emits_catch [where Q = "\<lambda>r l. (\<forall>s. r \<noteq> Abort s) \<and> list_all policyStatusRequest l \<and> length l = 1"])
       (auto simp: recording_api_def policyStatusRequest_def policy_kind_def plain_kind_def
         intro: emits_call emits_ret)
  have upd: "emits (catch (bind (call (api_StatusUpdate (clusterPolicies (recording c)) x)) (\<lambda>_. ret ()))
      (\<lambda>_. ret ())) (\<lambda>r l. r = Ok () \<and> list_all policyStatusRequest l \<and> length l = 1)" for x
    by (rule emits_catch [where Q = "\<lambda>r l. (\<forall>s. r \<noteq> Abort s) \<and> list_all policyStatusRequest l \<and> length l = 1"],
        rule emits_bind [where Q = "\<lambda>r l. (\<forall>s. r \<noteq> Abort s) \<and> list_all policyStatusRequest l \<and> length l = 1"])
       (auto simp: recording_api_def policyStatusRequest_def policy_kind_def plain_kind_def
         intro: emits_call emits_ret)
  show ?thesis
    unfolding updateCRState_def
    by (rule emits_bind [OF get]) (auto simp del: recording_simps intro: emits_ret emits_mono [OF upd])
qed

text \<open>A policy that is not the singleton is never deployed: only its own status is touched.\<close>

lemma Reconcile_ignored:
  assumes "fst (api_Get (clusterPolicies c) req w) = Inr inst"
    and "singleton \<noteq> []" and "singleton \<noteq> om_Name (cp_Meta inst)"
  shows "fst (Reconcile (recording c) env info req singleton (w, l)) = (Ok noRequeue, singleton) \<and>
     (\<exists>l'. snd (snd (Reconcile (recording c) env info req singleton (w, l))) = l @ l' \<and>
        list_all policyStatusRequest l' \<and> length l' \<le> 3)"
proof -
  let ?q = "Request GetVerb ClusterPolicyKind req"
  obtain w1 where get: "api_Get (clusterPolicies c) req w = (Inr inst, w1)"
    using assms(1) by (metis prod.collapse)
  then have rget: "api_Get (clusterPolicies (recording c)) req (w, l) = (Inr inst, (w1, l @ [?q]))"
    by (simp add: recording_api_def logged_def policy_kind_def plain_kind_def)
  let ?m = "bind (updateCRState (recording c) req ClusterIgnored) (\<lambda>_. ret noRequeue)"
  have "emits ?m (\<lambda>r l. r = Ok noRequeue \<and> list_all policyStatusRequest l \<and> length l \<le> 2)"
    by (rule emits_bind [OF updateCRState_emits]) (auto intro: emits_ret)
  then obtain l' where l': "snd (snd (?m (w1, l @ [?q]))) = (l @ [?q]) @ l'" "fst (?m (w1, l @ [?q])) = Ok noRequeue"
      "list_all policyStatusRequest l'" "length l' \<le> 2"
    using emitsD [of ?m _ w1 "l @ [?q]"] by blast
  have eq: "Reconcile (recording c) env info req singleton (w, l) =
      ((fst (?m (w1, l @ [?q])), singleton), snd (?m (w1, l @ [?q])))"
    using assms(2,3) by (simp add: Reconcile_def rget del: recording_simps) (simp add: case_prod_beta)
  have "list_all policyStatusRequest (?q # l')" "length (?q # l') \<le> 3"
    using l' by (auto simp: policyStatusRequest_def)
  then show ?thesis unfolding eq using l' by (metis append.assoc append_Cons append_Nil fst_conv snd_conv)
qed

section \<open>The singleton\<close>

text \<open>How the singleton's name changes in one reconciliation.\<close>

lemma Reconcile_singleton:
  "snd (fst (Reconcile c env info req singleton w)) =
     (case fst (api_Get (clusterPolicies c) req w) of
        Inl e \<Rightarrow> (if IsNotFound e \<and> singleton = ok_Name req then [] else singleton)
      | Inr inst \<Rightarrow> (if singleton = [] then om_Name (cp_Meta inst) else singleton))"
  by (auto simp: Reconcile_def Let_def split: prod.splits sum.splits)

text \<open>The policy a reconciliation deploys, when it deploys one.\<close>

definition inCharge :: "'w client \<Rightarrow> ObjectKey \<Rightarrow> string \<Rightarrow> 'w \<Rightarrow> RBLNClusterPolicy option" where
  "inCharge c req singleton w =
     (case fst (api_Get (clusterPolicies c) req w) of
        Inl _ \<Rightarrow> None
      | Inr inst \<Rightarrow> (if singleton \<noteq> [] \<and> singleton \<noteq> om_Name (cp_Meta inst) then None else Some inst))"

lemma Reconcile_inCharge:
  assumes "inCharge c req singleton w = Some inst"
  shows "Reconcile c env info req singleton w =
     (let w1 = snd (api_Get (clusterPolicies c) req w);
          (r, w2) = reconcileInstance c env info req inst w1
      in ((r, if singleton = [] then om_Name (cp_Meta inst) else singleton), w2))"
proof -
  obtain w1 where get: "api_Get (clusterPolicies c) req w = (Inr inst, w1)"
      and s: "singleton = [] \<or> singleton = om_Name (cp_Meta inst)"
    using assms by (cases "api_Get (clusterPolicies c) req w")
      (auto simp: inCharge_def split: sum.splits if_splits)
  show ?thesis using s by (auto simp: Reconcile_def get Let_def)
qed

text \<open>
  A run of the controller: reconciliations of arbitrary requests, and between them arbitrary changes
  of the cluster.  What counts is what a reconciliation sends: \<open>ds\<close> holds the names of the requested policies whose
  reconciliations sent anything but reads and status updates of policies, since the singleton was last cleared.
\<close>

definition acted :: "request list \<Rightarrow> bool" where
  "acted l \<longleftrightarrow> list_ex (\<lambda>q. \<not> policyStatusRequest q) l"

inductive policy_run :: "'w client \<Rightarrow> string \<Rightarrow> ClusterInfo \<Rightarrow> string \<Rightarrow> 'w \<Rightarrow> string list \<Rightarrow> bool"
  for c env info where
  start: "policy_run c env info [] w []"
| environment: "policy_run c env info s w ds \<Longrightarrow> policy_run c env info s w' ds"
| reconciliation: "policy_run c env info s w ds \<Longrightarrow> ok_Name req \<noteq> [] \<Longrightarrow>
    Reconcile (recording c) env info req s (w, []) = ((r, s'), (w', l)) \<Longrightarrow>
    policy_run c env info s' w' ((if acted l then [ok_Name req] else []) @ (if s' = [] then [] else ds))"

text \<open>The server answers a read with the object of the name it was asked for.\<close>

definition named_law :: "'w client \<Rightarrow> bool" where
  "named_law c \<longleftrightarrow> (\<forall>k w p. fst (api_Get (clusterPolicies c) k w) = Inr p \<longrightarrow> om_Name (cp_Meta p) = ok_Name k)"

lemma recording_Get: "fst (api_Get (clusterPolicies (recording c)) req (w, l)) = fst (api_Get (clusterPolicies c) req w)"
  by (simp add: recording_api_def logged_def case_prod_beta)

text \<open>A reconciliation that acts is that of the policy in charge.\<close>

lemma Reconcile_acts:
  assumes rec: "Reconcile (recording c) env info req s (w, []) = ((r, s'), (w', l))" and "acted l"
  shows "\<exists>inst. fst (api_Get (clusterPolicies c) req w) = Inr inst \<and> om_Name (cp_Meta inst) = s' \<and> (s = [] \<or> s = s')"
proof (cases "fst (api_Get (clusterPolicies c) req w)")
  case (Inl e)
  have "l = [Request GetVerb ClusterPolicyKind req]"
    using rec Inl by (cases "api_Get (clusterPolicies c) req w")
      (auto simp: Reconcile_def recording_api_def logged_def policy_kind_def plain_kind_def split: if_splits)
  then show ?thesis using assms(2) by (simp add: acted_def policyStatusRequest_def)
next
  case (Inr inst)
  have "s = [] \<or> s = om_Name (cp_Meta inst)"
  proof (rule ccontr)
    assume "\<not> ?thesis"
    then have "list_all policyStatusRequest l"
      using Reconcile_ignored [OF Inr, of s env info "[]"] rec by auto
    then show False using assms(2) by (auto simp: acted_def list_all_iff list_ex_iff)
  qed
  moreover have "s' = (if s = [] then om_Name (cp_Meta inst) else s)"
    using Reconcile_singleton [of "recording c" env info req s "(w, [])"] rec Inr by (simp only: recording_Get) simp
  ultimately show ?thesis using Inr by auto
qed

lemma policy_run_acted:
  assumes "policy_run c env info s w ds" and "named_law c"
  shows "set ds \<subseteq> {s} \<and> (s = [] \<longrightarrow> ds = [])"
  using assms
proof (induction rule: policy_run.induct)
  case (reconciliation s w ds req r s' w' l)
  have old: "ds = [] \<or> s' = [] \<or> s' = s"
  proof -
    have "s' = [] \<or> s = [] \<or> s' = s"
      using Reconcile_singleton [of "recording c" env info req s "(w, [])"] reconciliation.hyps(3)
      by (auto split: sum.splits if_splits)
    then show ?thesis using reconciliation.IH reconciliation.prems by auto
  qed
  have "s' = ok_Name req" if "acted l"
    using Reconcile_acts [OF reconciliation.hyps(3) that] reconciliation.prems by (auto simp: named_law_def)
  then show ?case using old reconciliation by auto
qed auto

lemma mem_client_named: "named_law mem_client"
  by (auto simp: named_law_def mem_client_def list_api_def key_of_def key_of_meta_def policy_kind_def
      plain_kind_def find_Some_iff split: option.splits dest!: arg_cong [where f = ok_Name])

section \<open>What a reconciliation leaves on the cluster\<close>

text \<open>
  Reading and updating nodes, reading policies and updating their status, and reading the clock leave
  the deployed objects alone.
\<close>

definition quiet_law :: "('w \<Rightarrow> store) \<Rightarrow> 'w client \<Rightarrow> bool" where
  "quiet_law view c \<longleftrightarrow>
     (\<forall>k w. view (snd (api_Get (clusterPolicies c) k w)) = view w) \<and>
     (\<forall>x w. view (snd (api_StatusUpdate (clusterPolicies c) x w)) = view w) \<and>
     (\<forall>opt w. view (snd (api_List (nodes c) opt w)) = view w) \<and>
     (\<forall>x w. view (snd (api_Update (nodes c) x w)) = view w) \<and>
     (\<forall>w. view (snd (now c w)) = view w)"

lemma mem_client_quiet: "quiet_law cl_store mem_client"
  by (simp add: quiet_law_def mem_client_def list_api_def)

named_theorems frame_intros "operations that leave the store alone"

lemma frame_ret [frame_intros]: "frame view {} (ret x)"
  by (simp add: frame_def ret_def)

lemma frame_fail [frame_intros]: "frame view {} (fail e)"
  by (simp add: frame_def fail_def)

lemma frame_bind_quiet [frame_intros]:
  "frame view {} m \<Longrightarrow> (\<And>x. frame view {} (f x)) \<Longrightarrow> frame view {} (bind m f)"
  using frame_bind [of view "{}" m "{}" f] by simp

lemma frame_catch [frame_intros]:
  "frame view {} m \<Longrightarrow> (\<And>e. frame view {} (h e)) \<Longrightarrow> frame view {} (catch m h)"
  by (simp add: frame_def catch_def split: prod.splits outcome.splits) (metis snd_conv)

lemma frame_call: "(\<And>w. view (snd (m w)) = view w) \<Longrightarrow> frame view {} (call m)"
  by (auto simp: frame_def call_def split: prod.splits sum.splits) (metis snd_conv)+

lemma frame_emptyD: "frame view {} m \<Longrightarrow> view (snd (m w)) = view w"
  by (auto simp: frame_def)

lemma frame_quiet:
  assumes "quiet_law view c"
  shows "frame view {} (call (api_Get (clusterPolicies c) k))"
    and "frame view {} (call (api_StatusUpdate (clusterPolicies c) p))"
    and "frame view {} (call (api_List (nodes c) opt))"
    and "frame view {} (call (api_Update (nodes c) n))"
    and "frame view {} (read_clock c)"
proof -
  show "frame view {} (read_clock c)"
    using assms by (simp add: quiet_law_def frame_def read_clock_def case_prod_beta)
qed (use assms in \<open>auto simp: quiet_law_def intro!: frame_call\<close>)

lemma frame_updateCRState: "quiet_law view c \<Longrightarrow> frame view {} (updateCRState c key state)"
  unfolding updateCRState_def by (auto intro!: frame_intros frame_quiet)

lemma frame_labelNodes:
  assumes "quiet_law view c"
  shows "frame view {} (labelNodes c d ns nfd cnt pending)"
  using frame_quiet(4) [OF assms]
  by (induction ns arbitrary: nfd cnt pending)
     (auto simp: Let_def case_prod_beta intro!: frame_intros)

lemma frame_LabelRblnNodes: "quiet_law view c \<Longrightarrow> frame view {} (LabelRblnNodes c p)"
  unfolding LabelRblnNodes_def by (auto intro!: frame_intros frame_quiet frame_labelNodes)

lemma labelNodes_result:
  "labelNodes c d ns nfd cnt pending w = (Ok x, w') \<Longrightarrow> x = nodesResult ns nfd cnt"
proof (induction ns arbitrary: nfd cnt pending w)
  case (Cons n ns)
  let ?nfd = "nfd \<or> hasNFDLabels (nodeLabels n)"
  let ?cnt = "if hasRBLNDeviceLabel (nodeLabels n) then Suc cnt else cnt"
  from Cons.prems obtain pending' w1 where "labelNodes c d ns ?nfd ?cnt pending' w1 = (Ok x, w')"
    by (simp add: Let_def case_prod_beta labelNode_counts nodeLabels_def) (erule bind_OkE, blast)
  from Cons.IH [OF this] show ?case by (auto simp: nodesResult_def)
qed (auto simp: ret_def nodesResult_def)

lemma LabelRblnNodes_result:
  assumes "LabelRblnNodes c p w = (Ok x, w')"
  obtains ns w1 where "api_List (nodes c) all_objects w = (Inr ns, w1)" and "x = nodesResult ns False 0"
proof -
  obtain r w1 where l: "api_List (nodes c) all_objects w = (r, w1)" by fastforce
  then obtain ns where "r = Inr ns" "labelNodes c (cp_WorkloadType (cp_Spec p)) ns False 0 False w1 = (Ok x, w')"
    using assms by (cases r) (auto simp: LabelRblnNodes_def op_defs)
  with that l labelNodes_result [OF this(2)] show thesis by blast
qed

text \<open>A node with a device label has been seen by node feature discovery.\<close>

lemma device_nfd: "hasRBLNDeviceLabel labels \<Longrightarrow> hasNFDLabels labels"
proof -
  assume "hasRBLNDeviceLabel labels"
  then obtain k v where k: "fmlookup labels k = Some v" "map_has rblnDeviceLabels k"
    by (auto simp: hasRBLNDeviceLabel_iff map_has_def)
  have "list_all (\<lambda>d. HasPrefix d NFDLabelPrefix)
      [''feature.node.kubernetes.io/pci-1200_1eff.present'', ''feature.node.kubernetes.io/pci-1eff.present'']"
    by code_simp
  then have "HasPrefix k NFDLabelPrefix"
    using k(2) by (auto simp: rblnDeviceLabels_def map_has_def split: if_splits)
  then show "hasNFDLabels labels" using k(1) by (auto simp: hasNFDLabels_def intro: fmdomI)
qed

lemma nodesResult_cases:
  "fst (nodesResult ns False 0) \<longleftrightarrow> (\<exists>n\<in>set ns. hasNFDLabels (nodeLabels n))"
  "0 < snd (nodesResult ns False 0) \<longleftrightarrow> (\<exists>n\<in>set ns. hasRBLNDeviceLabel (nodeLabels n))"
  by (auto simp: nodesResult_def filter_empty_conv)

subsection \<open>The status update leaves the deployed objects alone\<close>

lemma frame_daemonSetConditionReport:
  assumes "lawful_client view c" and "quiet_law view c"
  shows "frame view {} (daemonSetConditionReport c nm ns)"
proof -
  have "view (snd (api_Get (daemonSets c) k w)) = view w" for k w
    using get_lawD(1) [OF lawful_clientD(8) [OF assms(1)]] by (metis prod.collapse)
  then show ?thesis
    unfolding daemonSetConditionReport_def
    by (auto intro!: frame_intros frame_call frame_quiet [OF assms(2)] split: sum.splits)
qed

lemma frame_ConditionReport:
  assumes "lawful_client view c" and "quiet_law view c"
    and "p \<in> set (policyPatchers c ns spec osVersion runtime)"
  shows "frame view {} (pt_ConditionReport p owner)"
  using frame_daemonSetConditionReport [OF assms(1,2)] by (simp add: policyPatchers_shared_report [OF assms(3)])

lemma frame_assembleConditions:
  assumes "\<And>p. p \<in> set ps \<Longrightarrow> frame view {} (pt_ConditionReport p owner)"
  shows "frame view {} (assembleConditions owner ps)"
  using assms
  by (induction ps) (auto simp: componentStatus_def case_prod_beta intro!: frame_intros)

lemma frame_setTwoConditions: "quiet_law view c \<Longrightarrow> frame view {} (setTwoConditions c c1 c2 p)"
  unfolding setTwoConditions_def setCondition_def by (auto intro!: frame_intros frame_quiet)

lemma frame_reconcileStatus:
  assumes "lawful_client view c" and "quiet_law view c"
    and "NewRBLNClusterPolicyScope c env policy osVersion runtime = Inr s"
  shows "frame view {} (reconcileStatus c p s)"
proof -
  have "frame view {} (AssembleComponentConditions s)"
    using assms(3) frame_ConditionReport [OF assms(1,2)]
    by (auto simp: AssembleComponentConditions_def NewRBLNClusterPolicyScope_def Let_def
        split: if_splits intro!: frame_assembleConditions)
  then show ?thesis
    unfolding reconcileStatus_def Let_def setClusterReadyStatus_def setClusterNotReadyStatus_def
    by (auto intro!: frame_intros frame_quiet [OF assms(2)] frame_setTwoConditions [OF assms(2)])
qed

subsection \<open>The reconciliation of the policy in charge\<close>

lemma PatchComponents_wanted:
  assumes "lawful_client view c"
    and "NewRBLNClusterPolicyScope c env policy osVersion runtime = Inr s"
    and "is_ok (fst (PatchComponents s w))" and "i < 8"
    and "k \<in> policyObjects (sc_namespace s) (cp_Spec policy) osVersion runtime ! i"
  shows "wanted (pt_IsEnabled (sc_patcher s ! i)) (view (snd (PatchComponents s w)) k)"
proof -
  let ?ps = "policyPatchers c (sc_namespace s) (cp_Spec policy) osVersion runtime"
  let ?ks = "policyObjects (sc_namespace s) (cp_Spec policy) osVersion runtime"
  have s: "sc_patcher s = ?ps" "sc_singleton s = policy"
    using assms(2) by (auto simp: NewRBLNClusterPolicyScope_def Let_def split: if_splits)
  have sep: "separate (List.map fst (zip ?ks (List.map (\<lambda>p. wanted (pt_IsEnabled p)) ?ps)))"
    using policyObjects_separate by simp
  have ok: "is_ok (fst (seqE (List.map (patchComponent policy) ?ps) w))"
    using assms(3) by (simp add: PatchComponents_def s)
  have "(?ks ! i, wanted (pt_IsEnabled (?ps ! i))) \<in> set (zip ?ks (List.map (\<lambda>p. wanted (pt_IsEnabled p)) ?ps))"
    using assms(4) by (auto simp: set_zip intro!: exI [of _ i])
  with establishes_seqE_list [OF PatchComponents_establish [OF assms(1)] sep ok] assms(5)
  show ?thesis by (auto simp: PatchComponents_def s)
qed

lemma reconcileInstance_nodes:
  assumes "NewRBLNClusterPolicyScope c env inst (ci_OpenshiftVersion info) (ci_ContainerRuntime info) = Inr s"
    and "fst (api_List (nodes c) all_objects w) = Inr ns" and "LabelRblnNodes c inst w = (Ok x, w1)"
  shows "reconcileInstance c env info req inst w =
     (if \<not> (\<exists>n\<in>set ns. hasNFDLabels (nodeLabels n))
      then bind (updateCRState c req ClusterNotReady) (\<lambda>_. ret \<lparr>res_RequeueAfter = 30\<rparr>) w1
      else if \<not> (\<exists>n\<in>set ns. hasRBLNDeviceLabel (nodeLabels n))
      then bind (updateCRState c req ClusterNotReady) (\<lambda>_. ret noRequeue) w1
      else bind (PatchComponents s) (\<lambda>_. reconcileStatus c inst s) w1)"
proof -
  obtain w2 where "api_List (nodes c) all_objects w = (Inr ns, w2)"
    using assms(2) by (metis prod.collapse)
  then have x: "x = nodesResult ns False 0" using LabelRblnNodes_result [OF assms(3)] by auto
  show ?thesis
    unfolding reconcileInstance_def assms(1) sum.case bind_Ok [where m = "LabelRblnNodes c inst", OF assms(3)] x
    using nodesResult_cases [of ns] by (cases "nodesResult ns False 0") auto
qed

lemma reconcileInstance_idle:
  assumes "quiet_law view c"
    and s: "NewRBLNClusterPolicyScope c env inst (ci_OpenshiftVersion info) (ci_ContainerRuntime info) = Inr s"
    and ns: "fst (api_List (nodes c) all_objects w) = Inr ns"
    and no: "\<not> (\<exists>n\<in>set ns. hasRBLNDeviceLabel (nodeLabels n))"
  shows "view (snd (reconcileInstance c env info req inst w)) = view w"
proof (cases "LabelRblnNodes c inst w")
  case (Pair r w1)
  have w1: "view w1 = view w" using frame_emptyD [OF frame_LabelRblnNodes [OF assms(1)], of inst w] Pair by simp
  show ?thesis
  proof (cases r)
    case (Ok x)
    have "frame view {} (bind (updateCRState c req ClusterNotReady) (\<lambda>_. ret res))" for res :: Result
      by (intro frame_intros frame_updateCRState assms(1))
    from frame_emptyD [OF this] show ?thesis
      using reconcileInstance_nodes [OF s ns, of x w1 req] Pair Ok no w1 by simp
  qed (use Pair w1 in \<open>simp_all add: reconcileInstance_def s bind_def\<close>)
qed

lemma reconcileInstance_deploys:
  assumes lawful: "lawful_client view c" and quiet: "quiet_law view c"
    and s: "NewRBLNClusterPolicyScope c env inst (ci_OpenshiftVersion info) (ci_ContainerRuntime info) = Inr s"
    and ns: "fst (api_List (nodes c) all_objects w) = Inr ns"
    and dev: "\<exists>n\<in>set ns. hasRBLNDeviceLabel (nodeLabels n)"
    and ok: "reconcileInstance c env info req inst w = (Ok r, w')"
  defines "Ks \<equiv> policyObjects (sc_namespace s) (cp_Spec inst) (ci_OpenshiftVersion info) (ci_ContainerRuntime info)"
  shows "r = noRequeue"
    and "\<And>i k. i < 8 \<Longrightarrow> k \<in> Ks ! i \<Longrightarrow> wanted (pt_IsEnabled (sc_patcher s ! i)) (view w' k)"
    and "\<And>k. k \<notin> \<Union> (set Ks) \<Longrightarrow> view w' k = view w k"
proof -
  obtain x w1 where l: "LabelRblnNodes c inst w = (Ok x, w1)"
    using ok by (simp add: reconcileInstance_def s) (erule bind_OkE, blast)
  have w1: "view w1 = view w" using frame_emptyD [OF frame_LabelRblnNodes [OF quiet], of inst w] l by simp
  have "\<exists>n\<in>set ns. hasNFDLabels (nodeLabels n)" using dev device_nfd by blast
  then obtain w2 where p: "PatchComponents s w1 = (Ok (), w2)" and st: "reconcileStatus c inst s w2 = (Ok r, w')"
    using ok reconcileInstance_nodes [OF s ns l, of req] dev by (auto elim: bind_OkE)
  have w': "view w' = view w2"
    using frame_emptyD [OF frame_reconcileStatus [OF lawful quiet s], of inst w2] st by simp
  show "r = noRequeue"
    using st by (auto simp: reconcileStatus_def Let_def ret_def elim!: bind_OkE)
  show "wanted (pt_IsEnabled (sc_patcher s ! i)) (view w' k)" if "i < 8" "k \<in> Ks ! i" for i k
    using PatchComponents_wanted [OF lawful s, of w1 i k] that p w' by (simp add: Ks_def)
  show "view w' k = view w k" if "k \<notin> \<Union> (set Ks)" for k
  proof -
    have "frame view (\<Union> (set Ks)) (PatchComponents s)"
      using PatchComponents_converges [OF lawful s] by (simp add: converges_def Ks_def)
    then have "view (snd (PatchComponents s w1)) k = view w1 k" using that unfolding frame_def by blast
    then show ?thesis using p w' w1 by simp
  qed
qed

section \<open>What is written to the status\<close>

lemma allComponentsReady_iff: "allComponentsReady cs \<longleftrightarrow> (\<forall>st\<in>set cs. rcs_State st = ComponentStateReady)"
  by (induction cs) auto

lemma notReadyComponents_empty_iff: "notReadyComponents cs = [] \<longleftrightarrow> allComponentsReady cs"
  by (simp add: notReadyComponents_def allComponentsReady_iff filter_empty_conv)

lemma setTwoConditions_result:
  fixes c :: "'w client"
  assumes "cond_Type c1 \<noteq> cond_Type c2"
  shows "\<exists>p' w'. setTwoConditions c c1 c2 p w = (Ok p', w') \<and> cp_Meta p' = cp_Meta p \<and> cp_Spec p' = cp_Spec p \<and>
     cpst_State (cp_Status p') = cpst_State (cp_Status p) \<and>
     cpst_Components (cp_Status p') = cpst_Components (cp_Status p) \<and>
     (\<forall>t. conditionStatus (cpst_Conditions (cp_Status p')) t =
        (if t = cond_Type c1 then Some (cond_Status c1)
         else if t = cond_Type c2 then Some (cond_Status c2)
         else conditionStatus (cpst_Conditions (cp_Status p)) t))"
  using assms
  by (auto simp: setTwoConditions_def setCondition_def setPolicyConditions_def read_clock_def bind_def
      ret_def case_prod_beta conditionStatus_set)

text \<open>What both status setters write: the state, and the two conditions; other conditions stay.\<close>

definition statusWritten :: "ClusterState \<Rightarrow> string \<Rightarrow> RBLNClusterPolicy \<Rightarrow> RBLNClusterPolicy \<Rightarrow> bool" where
  "statusWritten state st p p' \<longleftrightarrow> cp_Meta p' = cp_Meta p \<and> cp_Spec p' = cp_Spec p \<and>
     cpst_State (cp_Status p') = state \<and> cpst_Components (cp_Status p') = cpst_Components (cp_Status p) \<and>
     (\<forall>t. conditionStatus (cpst_Conditions (cp_Status p')) t =
        (if t \<in> {RBLNConditionTypeReady, RBLNConditionTypeComponentsReady} then Some st
         else conditionStatus (cpst_Conditions (cp_Status p)) t))"

lemma setTwoConditions_written:
  assumes "cond_Type c1 = RBLNConditionTypeComponentsReady" and "cond_Type c2 = RBLNConditionTypeReady"
    and "cond_Status c1 = st" and "cond_Status c2 = st"
  shows "\<exists>p' w'. setTwoConditions c c1 c2 (SetStatus state p) w = (Ok p', w') \<and> statusWritten state st p p'"
proof -
  obtain p' w' where "setTwoConditions c c1 c2 (SetStatus state p) w = (Ok p', w')"
      and "statusWritten state st p p'"
    using setTwoConditions_result [of c1 c2 c "SetStatus state p" w] assms by (auto simp: statusWritten_def)
  then show ?thesis by blast
qed

lemma setClusterReadyStatus_result:
  "\<exists>p' w'. setClusterReadyStatus c p n w = (Ok p', w') \<and> statusWritten ClusterReady ConditionTrue p p'"
  unfolding setClusterReadyStatus_def by (rule setTwoConditions_written) simp_all

lemma setClusterNotReadyStatus_result:
  "\<exists>p' w'. setClusterNotReadyStatus c p cs w = (Ok p', w') \<and> statusWritten ClusterNotReady ConditionFalse p p'"
  unfolding setClusterNotReadyStatus_def Let_def by (rule setTwoConditions_written) simp_all

lemma Assemble_ready:
  assumes "NewRBLNClusterPolicyScope c env policy osVersion runtime = Inr s"
  shows "\<exists>sts w'. AssembleComponentConditions s w = (Ok sts, w') \<and> allComponentsReady sts \<and>
     List.map rcs_Name sts = List.map pt_ComponentName (filter pt_IsEnabled (sc_patcher s))"
proof -
  have "sc_patcher s = policyPatchers c (sc_namespace s) (cp_Spec policy) osVersion runtime"
    using assms by (auto simp: NewRBLNClusterPolicyScope_def Let_def split: if_splits)
  then have "\<exists>cs w'. pt_ConditionReport p (sc_singleton s) v = (Ok cs, w')" if "p \<in> set (sc_patcher s)" for p v
    using that policyPatchers_report by metis
  then show ?thesis
    using assembleConditions_ready [of "sc_patcher s" "sc_singleton s" w]
    by (auto simp: AssembleComponentConditions_def allComponentsReady_iff)
qed

text \<open>The only status a policy in charge is ever given after deployment is \<open>Ready\<close>.\<close>

lemma reconcileStatus_ready:
  assumes "NewRBLNClusterPolicyScope c env policy osVersion runtime = Inr s"
    and "reconcileStatus c p s w = (Ok r, w')"
  shows "\<exists>inst sts p' w1 w2 w3 z. AssembleComponentConditions s w = (Ok sts, w1) \<and>
     api_Get (clusterPolicies c) \<lparr>ok_Namespace = [], ok_Name = om_Name (cp_Meta p)\<rparr> w1 = (Inr inst, w2) \<and>
     List.map rcs_Name sts = List.map pt_ComponentName (filter pt_IsEnabled (sc_patcher s)) \<and>
     setClusterReadyStatus c (setComponents sts inst) (length sts) w2 = (Ok p', w3) \<and>
     statusWritten ClusterReady ConditionTrue (setComponents sts inst) p' \<and>
     api_StatusUpdate (clusterPolicies c) p' w3 = (Inr z, w')"
proof -
  obtain sts w1 where a: "AssembleComponentConditions s w = (Ok sts, w1)" "allComponentsReady sts"
      "List.map rcs_Name sts = List.map pt_ComponentName (filter pt_IsEnabled (sc_patcher s))"
    using Assemble_ready [OF assms(1)] by blast
  let ?k = "\<lparr>ok_Namespace = [], ok_Name = om_Name (cp_Meta p)\<rparr>"
  obtain g w2 where g: "api_Get (clusterPolicies c) ?k w1 = (g, w2)" by fastforce
  with assms(2) a obtain inst where inst: "g = Inr inst"
    by (cases g) (auto simp: reconcileStatus_def bind_def call_def)
  obtain p' w3 where p': "setClusterReadyStatus c (setComponents sts inst) (length sts) w2 = (Ok p', w3)"
      "statusWritten ClusterReady ConditionTrue (setComponents sts inst) p'"
    using setClusterReadyStatus_result [of c "setComponents sts inst" "length sts" w2] by auto
  obtain u w4 where u: "api_StatusUpdate (clusterPolicies c) p' w3 = (u, w4)" by fastforce
  have "u = Inr z \<and> w4 = w'" if "u = Inr z" for z
    using assms(2) a g inst p' u that by (auto simp: reconcileStatus_def Let_def op_defs)
  moreover have "\<exists>z. u = Inr z"
    using assms(2) a g inst p' u by (cases u) (auto simp: reconcileStatus_def Let_def op_defs)
  ultimately show ?thesis using a g inst p' u by blast
qed

end
