(* ===== verification/Driver_Runs.thy ===== *)
theory Driver_Runs
  imports Driver_Controller Policy_Runs "HOL-Library.Multiset"
begin

text \<open>
  What the reconciler of drivers guarantees: what a deployment leaves on the cluster, that a driver
  in conflict is not deployed, and that reporting a missing policy again writes nothing.
\<close>

section \<open>Deployment\<close>

definition poolSelector :: "RBLNDriverSpec \<Rightarrow> ListOptions" where
  "poolSelector s = \<lparr>lo_Namespace = [], lo_MatchingLabels = buildNodeSelector (drs_NodeSelector s)\<rparr>"

definition drv_poolObject :: "driverManagerPatcher \<Rightarrow> nodePool \<Rightarrow> kind \<times> ObjectKey" where
  "drv_poolObject h pool = objectOf daemonSet_kind (drv_dsName h pool) (namespace h)"

lemma drv_poolObject_name: "np_name p = np_name q \<Longrightarrow> drv_poolObject h p = drv_poolObject h q"
  by (simp add: drv_poolObject_def drv_dsName_def)

lemma shared_no_daemonSet: "drv_poolObject h p \<notin> drv_sharedObjects h"
  by (auto simp: drv_poolObject_def drv_sharedObjects_def objectOf_def rbacObjects_def split: if_splits)

text \<open>A map's iteration order: every entry once.\<close>

definition permutes :: "('a list \<Rightarrow> 'a list) \<Rightarrow> bool" where
  "permutes f \<longleftrightarrow> (\<forall>xs. mset (f xs) = mset xs)"

lemma permutes_set: "permutes f \<Longrightarrow> set (f xs) = set xs"
  by (metis permutes_def set_mset_mset)

lemma permutes_distinct: "permutes f \<Longrightarrow> distinct (List.map g (f xs)) = distinct (List.map g xs)"
  by (metis permutes_def mset_eq_imp_distinct_iff mset_map)

lemma collectPools_named: "distinct (List.map np_name (collectPools sel ns []))"
  by (rule collectPools_distinct) simp

text \<open>The parts of a successful \<open>Patch\<close>: the shared objects, the list of nodes, and the pools.\<close>

abbreviation drv_shared :: "'w client \<Rightarrow> driverManagerPatcher \<Rightarrow> ('w, unit) op" where
  "drv_shared c h \<equiv> seqE [drv_handleServiceAccount c h,
      whenE (openshiftVersion h \<noteq> []) [drv_handleRole c h, drv_handleRoleBinding c h],
      drv_handleClusterRole c h, drv_handleClusterRoleBinding c h, drv_handleConfigMap c h]"

lemma drv_Patch_parts:
  assumes spec: "desiredSpec h = Some s" and ok: "drv_Patch c h mapOrder owner w = (Ok (), w')"
  obtains ns w1 w2 where "drv_shared c h w = (Ok (), w1)"
    and "api_List (nodes c) (poolSelector s) w1 = (Inr ns, w2)"
    and "seqE (List.map (drv_handleDaemonSet c h s owner)
        (mapOrder (collectPools (buildNodeSelector (drs_NodeSelector s)) ns []))) w2 = (Ok (), w')"
proof -
  let ?rest = "\<lambda>nodePools. if nodePools = [] then ret () else seqE (List.map (drv_handleDaemonSet c h s owner) nodePools)"
  have enabled: "drv_IsEnabled h" using spec by (simp add: drv_IsEnabled_def)
  have "bind (drv_shared c h) (\<lambda>_. bind (getNodePools c mapOrder (drs_NodeSelector s)) ?rest) w = (Ok (), w')"
    using ok unfolding drv_Patch_def withSpec_def spec option.case by (simp only: enabled not_True_eq_False if_False)
  then obtain u w1 where sh: "drv_shared c h w = (Ok u, w1)"
      and ge: "bind (getNodePools c mapOrder (drs_NodeSelector s)) ?rest w1 = (Ok (), w')"
    by (rule bind_OkE)
  from ge obtain pools w2 where gp: "getNodePools c mapOrder (drs_NodeSelector s) w1 = (Ok pools, w2)"
      and re: "?rest pools w2 = (Ok (), w')" by (rule bind_OkE)
  obtain r w3 where l: "api_List (nodes c) (poolSelector s) w1 = (r, w3)" by fastforce
  then obtain ns where ns: "r = Inr ns" "w3 = w2"
      "pools = mapOrder (collectPools (buildNodeSelector (drs_NodeSelector s)) ns [])"
    using gp by (cases r) (auto simp: getNodePools_def Let_def poolSelector_def op_defs)
  have "seqE (List.map (drv_handleDaemonSet c h s owner) pools) w2 = (Ok (), w')"
    using re by (cases "pools = []") (auto simp: ret_def)
  then show thesis using that sh l ns by simp
qed

text \<open>What it leaves: all shared objects, and a DaemonSet for the pool of every selected node.\<close>

lemma drv_Patch_deploys:
  assumes lawful: "lawful_client view c" and quiet: "quiet_law view c" and ord: "permutes mapOrder"
    and spec: "desiredSpec h = Some s" and ok: "drv_Patch c h mapOrder owner w = (Ok (), w')"
  obtains ns w1 w2 where "api_List (nodes c) (poolSelector s) w1 = (Inr ns, w2)"
    and "\<And>k. k \<in> drv_sharedObjects h \<Longrightarrow> view w' k \<noteq> None"
    and "\<And>n pool. n \<in> set ns \<Longrightarrow> buildNodePool n (buildNodeSelector (drs_NodeSelector s)) = Some pool \<Longrightarrow>
      view w' (drv_poolObject h pool) \<noteq> None"
    and "\<And>k. k \<notin> drv_sharedObjects h \<Longrightarrow> (\<And>n pool. n \<in> set ns \<Longrightarrow>
        buildNodePool n (buildNodeSelector (drs_NodeSelector s)) = Some pool \<Longrightarrow> k \<noteq> drv_poolObject h pool) \<Longrightarrow>
      view w' k = view w k"
proof -
  let ?sel = "buildNodeSelector (drs_NodeSelector s)"
  from drv_Patch_parts [OF spec ok] obtain ns w1 w2 where sh: "drv_shared c h w = (Ok (), w1)"
      and l: "api_List (nodes c) (poolSelector s) w1 = (Inr ns, w2)"
      and seq: "seqE (List.map (drv_handleDaemonSet c h s owner) (mapOrder (collectPools ?sel ns []))) w2 = (Ok (), w')"
    by blast
  define pools where "pools = mapOrder (collectPools ?sel ns [])"
  have view2: "view w2 = view w1" using quiet l by (metis quiet_law_def snd_conv)
  have poolSet: "set pools = set (collectPools ?sel ns [])" using permutes_set [OF ord] by (simp add: pools_def)
  have dist: "distinct (List.map np_name pools)"
    using permutes_distinct [OF ord] collectPools_named by (metis pools_def)
  have est1: "establishes view (drv_sharedObjects h) (\<lambda>x. x \<noteq> None) (drv_shared c h)"
    using drv_manages_shared [of view c h] lawful by (simp add: manages_def)
  have est2: "establishes view (drv_poolObject h ` set pools) (\<lambda>x. x \<noteq> None)
      (seqE (List.map (drv_handleDaemonSet c h s owner) pools))"
    using drv_manages_pools [OF dist, of view c h s owner] lawful
    by (simp add: manages_def drv_poolObjects_def drv_poolObject_def)
  have keep: "view w' k = view w1 k" if "k \<notin> drv_poolObject h ` set pools" for k
    using est2 seq that view2 unfolding establishes_def frame_def pools_def by (metis snd_conv)
  have c2: "view w' k \<noteq> None" if "k \<in> drv_sharedObjects h" for k
    using establishesD [OF est1, of w k] keep [of k] that sh shared_no_daemonSet by fastforce
  have c3: "view w' (drv_poolObject h pool) \<noteq> None" if n: "n \<in> set ns" "buildNodePool n ?sel = Some pool" for n pool
  proof -
    obtain q where q: "q \<in> set pools" "np_name q = np_name pool"
      using collectPools_complete [OF n, of "[]"] poolSet by auto
    then show ?thesis
      using establishesD [OF est2, of w2 "drv_poolObject h q"] seq
      by (simp add: pools_def drv_poolObject_name [of pool q])
  qed
  have c4: "view w' k = view w k"
    if k: "k \<notin> drv_sharedObjects h" and
      np: "\<And>n pool. n \<in> set ns \<Longrightarrow> buildNodePool n ?sel = Some pool \<Longrightarrow> k \<noteq> drv_poolObject h pool" for k
  proof -
    have "k \<notin> drv_poolObject h ` set pools"
      using np collectPools_sound [of _ ?sel ns "[]"] poolSet by force
    moreover have "view w1 k = view w k"
      using est1 sh k unfolding establishes_def frame_def by (metis snd_conv)
    ultimately show ?thesis using keep by simp
  qed
  show thesis by (rule that [OF l]) (use c2 c3 c4 in blast)+
qed

section \<open>A driver in conflict\<close>

lemma reconcileDriver_conflict:
  assumes "api_List (clusterPolicies c) all_objects w = (Inr (policy # rest), w1)"
    and "Validate c inst w1 = (Err e, w2)"
  shows "reconcileDriver c mapOrder env osVersion inst w =
     bind (setDriverStatusError c inst e) (\<lambda>_. ret noRequeue) w2"
  using assms by (simp add: reconcileDriver_def op_defs)

definition listsOnly :: "'a outcome \<Rightarrow> request list \<Rightarrow> bool" where
  "listsOnly r l \<longleftrightarrow> (\<forall>s. r \<noteq> Abort s) \<and> list_all (\<lambda>q. rq_verb q = ListVerb) l"

lemma emits_list:
  "emits (catch (call (api_List (recording_api kd api) opt)) (\<lambda>e. fail (g e))) listsOnly"
  by (rule emits_catch [where Q = listsOnly])
     (auto simp: recording_api_def listsOnly_def intro: emits_call emits_fail)

lemma Validate_emits: "emits (Validate (recording c) inst) listsOnly"
  unfolding Validate_def Let_def recording_simps
proof (rule emits_bind [OF emits_list], goal_cases)
  case (1 ns l)
  show ?case
  proof (cases "ns = []")
    case False
    then show ?thesis
      using 1 by (simp, intro emits_bind [OF emits_list])
        (auto simp: listsOnly_def intro: emits_ret emits_fail split: option.splits)
  qed (use 1 in \<open>auto simp: listsOnly_def intro: emits_ret\<close>)
qed (auto simp: listsOnly_def)

section \<open>A missing policy\<close>

text \<open>The driver as the status call leaves it.\<close>

lemma shouldUpdateCondition_result:
  fixes w :: 'w and c :: "'w client"
  shows "\<exists>cs' b w'. shouldUpdateCondition c cs new w = (Ok (cs', b), w') \<and>
     (\<exists>x. FindStatusCondition cs' (cond_Type new) = Some x \<and> cond_Status x = cond_Status new \<and>
        cond_Reason x = cond_Reason new \<and> cond_Message x = cond_Message new) \<and> (\<not> b \<longrightarrow> cs' = cs)"
proof -
  have set: "\<exists>x. FindStatusCondition (fst (SetStatusCondition t cs new)) (cond_Type new) = Some x \<and>
      cond_Status x = cond_Status new \<and> cond_Reason x = cond_Reason new \<and> cond_Message x = cond_Message new" for t
    using Find_SetStatusCondition [of t cs new] by (auto split: option.splits)
  show ?thesis
    using set
    by (cases "FindStatusCondition cs (cond_Type new)")
       (auto simp: shouldUpdateCondition_def setCondition_def read_clock_def op_defs case_prod_beta)
qed

lemma shouldUpdateCondition_settled:
  assumes "FindStatusCondition cs (cond_Type new) = Some x" and "cond_Status x = cond_Status new"
    and "cond_Reason x = cond_Reason new" and "cond_Message x = cond_Message new"
  shows "shouldUpdateCondition c cs new = ret (cs, False)"
  using assms by (simp add: shouldUpdateCondition_def)

definition notReadyWith :: "string \<Rightarrow> string \<Rightarrow> RBLNDriver \<Rightarrow> bool" where
  "notReadyWith reason message d \<longleftrightarrow> drst_State (dr_Status d) = DriverStateNotReady \<and>
     (\<exists>x. FindStatusCondition (drst_Conditions (dr_Status d)) ConditionReady = Some x \<and>
        cond_Status x = ConditionFalse \<and> cond_Reason x = reason \<and> cond_Message x = message)"

text \<open>Either the driver already is reported so and nothing is sent, or it is sent reported so.\<close>

lemma setDriverStatusNotReady_cases:
  "notReadyWith reason message inst \<Longrightarrow> setDriverStatusNotReady c inst reason message = ret ()"
  "\<not> notReadyWith reason message inst \<Longrightarrow>
     \<exists>d w'. setDriverStatusNotReady c inst reason message w = updateDriverStatus c d w' \<and>
        notReadyWith reason message d \<and> dr_Meta d = dr_Meta inst \<and> dr_Spec d = dr_Spec inst"
proof -
  let ?new = "mkCondition ConditionReady ConditionFalse reason message"
  show "setDriverStatusNotReady c inst reason message = ret ()" if "notReadyWith reason message inst"
    using that shouldUpdateCondition_settled [of "drst_Conditions (dr_Status inst)" ?new _ c]
    by (auto simp: notReadyWith_def setDriverStatusNotReady_def Let_def)
  assume no: "\<not> notReadyWith reason message inst"
  obtain cs' b w' where r: "shouldUpdateCondition c (drst_Conditions (dr_Status inst)) ?new w = (Ok (cs', b), w')"
      and x: "\<exists>x. FindStatusCondition cs' ConditionReady = Some x \<and> cond_Status x = ConditionFalse \<and>
        cond_Reason x = reason \<and> cond_Message x = message"
      and b: "\<not> b \<longrightarrow> cs' = drst_Conditions (dr_Status inst)"
    using shouldUpdateCondition_result [of c "drst_Conditions (dr_Status inst)" ?new w] by auto
  have "b \<or> drst_State (dr_Status inst) \<noteq> DriverStateNotReady"
    using no x b by (auto simp: notReadyWith_def)
  then have "setDriverStatusNotReady c inst reason message w =
      updateDriverStatus c (setDriverStatus DriverStateNotReady cs' inst) w'"
    unfolding setDriverStatusNotReady_def Let_def
      bind_Ok [where m = "shouldUpdateCondition c (drst_Conditions (dr_Status inst)) ?new", OF r] by auto
  moreover have "notReadyWith reason message (setDriverStatus DriverStateNotReady cs' inst)"
    using x by (simp add: notReadyWith_def setDriverStatus_def)
  moreover have "dr_Meta (setDriverStatus DriverStateNotReady cs' inst) = dr_Meta inst"
      "dr_Spec (setDriverStatus DriverStateNotReady cs' inst) = dr_Spec inst"
    by (simp_all add: setDriverStatus_def)
  ultimately show "\<exists>d w'. setDriverStatusNotReady c inst reason message w = updateDriverStatus c d w' \<and>
      notReadyWith reason message d \<and> dr_Meta d = dr_Meta inst \<and> dr_Spec d = dr_Spec inst" by blast
qed

end
