(* ===== verification/Availability.thy ===== *)
theory Availability
  imports Patcher
begin

text \<open>
  When operations succeed.  An available server answers every read, and accepts every creation of an
  absent object, every patch of a present one and every deletion.  On such a server a patcher succeeds
  as long as none of its objects is controlled by somebody else: \<open>achieves\<close> composes this along
  \<open>seqE\<close>, in parallel to \<open>manages\<close>.
\<close>

section \<open>Available servers\<close>

definition accept_law :: "('w \<Rightarrow> store) \<Rightarrow> 'o object_kind \<Rightarrow> ('o \<Rightarrow> object) \<Rightarrow> ('w, 'o) resource_api \<Rightarrow> bool" where
  "accept_law view kd mk api \<longleftrightarrow>
     (\<forall>k w. view w (k_kind kd, k) = None \<longrightarrow> (\<exists>e. fst (api_Get api k w) = Inl e \<and> IsNotFound e)) \<and>
     (\<forall>x w. view w (k_kind kd, key_of kd x) = Some (mk x) \<longrightarrow> fst (api_Get api (key_of kd x) w) = Inr x) \<and>
     (\<forall>x w. view w (k_kind kd, key_of kd x) = None \<longrightarrow> (\<exists>y. fst (api_Create api x w) = Inr y)) \<and>
     (\<forall>x y w. view w (k_kind kd, key_of kd y) = Some (mk x) \<longrightarrow> (\<exists>z. fst (api_Patch api x y w) = Inr z)) \<and>
     (\<forall>k w. case fst (api_Delete api k w) of Inl e \<Rightarrow> IsNotFound e | Inr _ \<Rightarrow> True)"

definition available_client :: "('w \<Rightarrow> store) \<Rightarrow> 'w client \<Rightarrow> bool" where
  "available_client view c \<longleftrightarrow> lawful_client view c \<and>
     accept_law view serviceAccount_kind SA (serviceAccounts c) \<and>
     accept_law view role_kind RO (roles c) \<and>
     accept_law view roleBinding_kind RB (roleBindings c) \<and>
     accept_law view clusterRole_kind CR (clusterRoles c) \<and>
     accept_law view clusterRoleBinding_kind CRB (clusterRoleBindings c) \<and>
     accept_law view configMap_kind CM (configMaps c) \<and>
     accept_law view service_kind SV (services c) \<and>
     accept_law view daemonSet_kind DS (daemonSets c)"

lemma available_clientD:
  assumes "available_client view c"
  shows "accept_law view serviceAccount_kind SA (serviceAccounts c)"
    "accept_law view role_kind RO (roles c)"
    "accept_law view roleBinding_kind RB (roleBindings c)"
    "accept_law view clusterRole_kind CR (clusterRoles c)"
    "accept_law view clusterRoleBinding_kind CRB (clusterRoleBindings c)"
    "accept_law view configMap_kind CM (configMaps c)"
    "accept_law view service_kind SV (services c)"
    "accept_law view daemonSet_kind DS (daemonSets c)"
  using assms by (simp_all add: available_client_def)

lemma available_lawful: "available_client view c \<Longrightarrow> lawful_client view c"
  by (simp add: available_client_def)

lemma mem_api_accepts:
  assumes "\<And>ob x. un ob = Some x \<longleftrightarrow> ob = mk x"
  shows "accept_law cl_store kd mk (mem_api kd mk un)"
proof -
  have "un (mk x) = Some x" for x using assms by simp
  then show ?thesis
    by (simp add: accept_law_def mem_api_def mem_read_def notFound_def IsNotFound_def)
qed

lemma mem_client_available: "available_client cl_store mem_client"
  unfolding available_client_def mem_client_def client.simps
  by (intro conjI mem_api_accepts mem_client_lawful [unfolded mem_client_def]) (auto split: object.splits)

section \<open>Objects that can be claimed\<close>

fun object_meta :: "object \<Rightarrow> ObjectMeta" where
  "object_meta (SA x) = sa_Meta x"
| "object_meta (RO x) = role_Meta x"
| "object_meta (RB x) = rb_Meta x"
| "object_meta (CR x) = role_Meta x"
| "object_meta (CRB x) = rb_Meta x"
| "object_meta (CM x) = cm_Meta x"
| "object_meta (SV x) = svc_Meta x"
| "object_meta (DS x) = ds_Meta x"

fun kind_of_object :: "object \<Rightarrow> kind" where
  "kind_of_object (SA x) = ServiceAccountKind"
| "kind_of_object (RO x) = RoleKind"
| "kind_of_object (RB x) = RoleBindingKind"
| "kind_of_object (CR x) = ClusterRoleKind"
| "kind_of_object (CRB x) = ClusterRoleBindingKind"
| "kind_of_object (CM x) = ConfigMapKind"
| "kind_of_object (SV x) = ServiceKind"
| "kind_of_object (DS x) = DaemonSetKind"

text \<open>An entry is free for an owner: it is absent, or an object that \<open>WithOwner\<close> accepts.\<close>

definition claimable :: "Owner \<Rightarrow> kind \<times> ObjectKey \<Rightarrow> object option \<Rightarrow> bool" where
  "claimable owner k entry = (case entry of
      None \<Rightarrow> True
    | Some ob \<Rightarrow> kind_of_object ob = fst k \<and> key_of_meta (object_meta ob) = snd k \<and>
        is_ok (WithOwner owner (object_meta ob)))"

definition stored_as :: "'o object_kind \<Rightarrow> ('o \<Rightarrow> object) \<Rightarrow> bool" where
  "stored_as kd mk \<longleftrightarrow> (\<forall>x. object_meta (mk x) = k_meta kd x) \<and>
     (\<forall>ob. kind_of_object ob = k_kind kd \<longrightarrow> (\<exists>x. ob = mk x))"

lemma stored_kinds:
  "stored_as serviceAccount_kind SA" "stored_as role_kind RO" "stored_as roleBinding_kind RB"
  "stored_as clusterRole_kind CR" "stored_as clusterRoleBinding_kind CRB" "stored_as configMap_kind CM"
  "stored_as service_kind SV" "stored_as daemonSet_kind DS"
  unfolding stored_as_def kind_defs by (auto, (case_tac ob; simp)+)

lemma WithOwner_ok_iff:
  "is_ok (WithOwner owner m) \<longleftrightarrow> validateOwner owner m = None \<and>
     (case GetControllerOf m of None \<Rightarrow> True | Some r \<Rightarrow> referSameObject r (controllerRef owner))"
  by (auto simp: WithOwner_def SetControllerReference_def Let_def split: option.splits)

text \<open>A fresh object can be claimed by a cluster-scoped owner.\<close>

lemma WithOwner_fresh: "own_Namespace owner = [] \<Longrightarrow> is_ok (WithOwner owner (new_meta n ns))"
  by (simp add: WithOwner_ok_iff validateOwner_def GetControllerOf_def new_meta_def empty_meta_def)

lemma WithOwner_ok_cong:
  "om_OwnerReferences m = om_OwnerReferences m' \<Longrightarrow> om_Namespace m = om_Namespace m' \<Longrightarrow>
   is_ok (WithOwner owner m) = is_ok (WithOwner owner m')"
  by (simp add: WithOwner_ok_iff validateOwner_def GetControllerOf_def)

section \<open>Success\<close>

text \<open>\<open>m\<close> changes \<open>K\<close> only, and succeeds when every entry of \<open>K\<close> is free for the owner.\<close>

definition achieves :: "('w \<Rightarrow> store) \<Rightarrow> Owner \<Rightarrow> (kind \<times> ObjectKey) set \<Rightarrow> ('w, 'a) op \<Rightarrow> bool" where
  "achieves view owner K m \<longleftrightarrow> frame view K m \<and>
     (\<forall>w. (\<forall>k\<in>K. claimable owner k (view w k)) \<longrightarrow> is_ok (fst (m w)))"

lemma achievesD: "achieves view owner K m \<Longrightarrow> \<forall>k\<in>K. claimable owner k (view w k) \<Longrightarrow> is_ok (fst (m w))"
  by (simp add: achieves_def)

named_theorems achieves_intros "composition of operations that succeed"

lemma achieves_seqE_Nil [achieves_intros]: "achieves view owner {} (seqE [])"
  by (simp add: achieves_def frame_def ret_def)

lemma achieves_seqE_Cons [achieves_intros]:
  assumes m: "achieves view owner K m" and ms: "achieves view owner K' (seqE ms)" and disj: "K \<inter> K' = {}"
  shows "achieves view owner (K \<union> K') (seqE (m # ms))"
  unfolding achieves_def
proof (intro conjI allI impI)
  show "frame view (K \<union> K') (seqE (m # ms))"
    using m ms by (simp add: achieves_def frame_bind)
  fix w assume free: "\<forall>k\<in>K \<union> K'. claimable owner k (view w k)"
  obtain x w' where mw: "m w = (Ok x, w')"
    using achievesD [OF m, of w] free by (metis UnCI is_ok_iff prod.collapse)
  have "view w' k = view w k" if "k \<in> K'" for k
  proof -
    have "k \<notin> K" using that disj by blast
    then have "view (snd (m w)) k = view w k" using m unfolding achieves_def frame_def by blast
    then show ?thesis by (simp add: mw)
  qed
  then show "is_ok (fst (seqE (m # ms) w))"
    using achievesD [OF ms, of w'] free mw by (simp add: bind_Ok)
qed

lemma achieves_whenE [achieves_intros]:
  "achieves view owner K (seqE ms) \<Longrightarrow> achieves view owner (if b then K else {}) (whenE b ms)"
  using achieves_seqE_Nil by (auto simp: whenE_def)

lemma achieves_delete:
  assumes "store_law view kd mk api" and "accept_law view kd mk api"
  shows "achieves view owner {objectOf kd n ns} (deleteIfPresent api n ns)"
proof -
  have "is_ok (fst (deleteIfPresent api n ns w))" for w
    using assms(2) unfolding accept_law_def deleteIfPresent_eq by (auto split: prod.splits sum.splits)
      (metis fst_conv sum.simps(5))
  then show ?thesis
    using establishes_delete [OF assms(1), of ns n] by (simp add: achieves_def establishes_def objectOf_def)
qed

lemma achieves_deletes [achieves_intros]:
  assumes "available_client view c"
  shows "achieves view owner {objectOf serviceAccount_kind n ns} (deleteIfPresent (serviceAccounts c) n ns)"
    "achieves view owner {objectOf role_kind n ns} (deleteIfPresent (roles c) n ns)"
    "achieves view owner {objectOf roleBinding_kind n ns} (deleteIfPresent (roleBindings c) n ns)"
    "achieves view owner {objectOf clusterRole_kind n ns} (deleteIfPresent (clusterRoles c) n ns)"
    "achieves view owner {objectOf clusterRoleBinding_kind n ns} (deleteIfPresent (clusterRoleBindings c) n ns)"
    "achieves view owner {objectOf configMap_kind n ns} (deleteIfPresent (configMaps c) n ns)"
    "achieves view owner {objectOf service_kind n ns} (deleteIfPresent (services c) n ns)"
    "achieves view owner {objectOf daemonSet_kind n ns} (deleteIfPresent (daemonSets c) n ns)"
  using lawful_clientD [OF available_lawful [OF assms]] available_clientD [OF assms]
  by (blast intro: achieves_delete)+

context mutator
begin

lemma reconcile_succeeds:
  assumes law: "store_law view kd mk api" and acc: "accept_law view kd mk api"
    and start: "view w (k_kind kd, key_of kd obj) = None \<and> is_ok (f obj) \<or>
      (\<exists>x. view w (k_kind kd, key_of kd obj) = Some (mk x) \<and> key_of kd x = key_of kd obj \<and> is_ok (f x))"
  shows "is_ok (fst (reconcile kd api obj f w))"
proof -
  obtain r w1 where get: "api_Get api (key_of kd obj) w = (r, w1)" by fastforce
  have w1: "view w1 = view w" by (rule get_lawD(1) [OF law get])
  from start show ?thesis
  proof (elim disjE exE conjE)
    assume none: "view w (k_kind kd, key_of kd obj) = None" and "is_ok (f obj)"
    then obtain e y where e: "r = Inl e" "IsNotFound e" and y: "f obj = Ok y"
      using acc get unfolding accept_law_def by (metis fst_conv is_ok_iff)
    have "\<exists>z. fst (api_Create api y w1) = Inr z"
      using acc none w1 keeps_key [OF y] unfolding accept_law_def by simp
    then show ?thesis
      using reconcile_notFound [OF get [unfolded e(1)] e(2)] y by (auto split: prod.splits sum.splits)
  next
    fix x assume x: "view w (k_kind kd, key_of kd obj) = Some (mk x)" "key_of kd x = key_of kd obj" and "is_ok (f x)"
    then obtain y where y: "f x = Ok y" by (auto simp: is_ok_iff)
    have r: "r = Inr x" using acc get x unfolding accept_law_def by (metis fst_conv)
    have "\<exists>z. fst (api_Patch api x y w1) = Inr z"
      using acc x w1 keeps_key [OF y] unfolding accept_law_def by simp
    then show ?thesis
      using reconcile_found [OF get [unfolded r] x(2)] y by (auto split: prod.splits sum.splits)
  qed
qed

text \<open>A mutate function that fails only where \<open>WithOwner\<close> does, on the same owner references.\<close>

lemma achieves_reconcile:
  assumes law: "store_law view kd mk api" and acc: "accept_law view kd mk api" and st: "stored_as kd mk"
    and obj: "key_of kd obj = \<lparr>ok_Namespace = ns, ok_Name = n\<rparr>" and fresh: "is_ok (f obj)"
    and old: "\<And>x. is_ok (WithOwner owner (k_meta kd x)) \<Longrightarrow> is_ok (f x)"
  shows "achieves view owner {objectOf kd n ns} (reconcile kd api obj f)"
  unfolding achieves_def
proof (intro conjI allI impI)
  show "frame view {objectOf kd n ns} (reconcile kd api obj f)"
    using establishes_reconcile [OF law, of obj] by (simp add: establishes_def objectOf_def obj)
  fix w assume "\<forall>k\<in>{objectOf kd n ns}. claimable owner k (view w k)"
  then have free: "claimable owner (k_kind kd, key_of kd obj) (view w (k_kind kd, key_of kd obj))"
    by (simp add: objectOf_def obj)
  show "is_ok (fst (reconcile kd api obj f w))"
  proof (cases "view w (k_kind kd, key_of kd obj)")
    case None
    then show ?thesis using reconcile_succeeds [OF law acc, of w obj] fresh by simp
  next
    case (Some ob)
    then obtain x where "ob = mk x" "key_of kd x = key_of kd obj" "is_ok (WithOwner owner (k_meta kd x))"
      using free st by (fastforce simp: claimable_def stored_as_def key_of_def)
    then show ?thesis using reconcile_succeeds [OF law acc, of w obj] old Some by auto
  qed
qed

end

lemma ownedBy_ok: "is_ok (ownedBy kd owner x) = is_ok (WithOwner owner (k_meta kd x))"
  by (cases "WithOwner owner (k_meta kd x)") (simp_all add: ownedBy_def)

text \<open>Cluster policies are cluster-scoped.\<close>

definition cluster_scoped :: "RBLNClusterPolicy \<Rightarrow> bool" where
  "cluster_scoped p \<longleftrightarrow> om_Namespace (cp_Meta p) = []"

lemma policy_owner_fresh: "cluster_scoped p \<Longrightarrow> is_ok (WithOwner (policy_owner p) (new_meta n ns))"
  by (rule WithOwner_fresh) (simp add: cluster_scoped_def policy_owner_def)

lemmas owned_ok = ownedServiceAccount_def ownedRole_def ownedRoleBinding_def ownedConfigMap_def
  ownedDaemonSet_def ownedBy_ok kind_defs object_steps daemonSet_steps NewServiceAccountBuilder_def
  NewRoleBuilder_def NewRoleBindingBuilder_def NewConfigMapBuilder_def NewDaemonSetBuilder_def
  NewServiceBuilder_def

lemma owned_old:
  "is_ok (WithOwner (policy_owner p) (k_meta serviceAccount_kind sa)) \<Longrightarrow> is_ok (ownedServiceAccount p sa)"
  "is_ok (WithOwner (policy_owner p) (k_meta role_kind r)) \<Longrightarrow> is_ok (ownedRole rules p r)"
  "is_ok (WithOwner (policy_owner p) (k_meta roleBinding_kind b)) \<Longrightarrow> is_ok (ownedRoleBinding ref subj p b)"
  "is_ok (WithOwner (policy_owner p) (k_meta configMap_kind cm)) \<Longrightarrow> is_ok (ownedConfigMap data p cm)"
  "is_ok (WithOwner (policy_owner p) (k_meta daemonSet_kind d)) \<Longrightarrow> is_ok (ownedDaemonSet sel lb an ps p d)"
  by (simp_all add: owned_ok) (erule iffD1 [OF WithOwner_ok_cong, rotated 2]; simp)

lemma owned_fresh:
  assumes "cluster_scoped p"
  shows "is_ok (ownedServiceAccount p (NewServiceAccountBuilder n ns))"
    "is_ok (ownedRole rules p (NewRoleBuilder n ns))"
    "is_ok (ownedRoleBinding ref subj p (NewRoleBindingBuilder n ns))"
    "is_ok (ownedConfigMap data p (NewConfigMapBuilder n ns))"
    "is_ok (ownedDaemonSet sel lb an ps p (NewDaemonSetBuilder n ns))"
  using policy_owner_fresh [OF assms, of n ns]
  by (simp_all add: owned_ok) (erule iffD1 [OF WithOwner_ok_cong, rotated 2]; simp)

lemma achieves_applies [achieves_intros]:
  assumes "available_client view c" and "cluster_scoped p"
  shows "achieves view (policy_owner p) {objectOf serviceAccount_kind n ns}
      (reconcile serviceAccount_kind (serviceAccounts c) (NewServiceAccountBuilder n ns) (ownedServiceAccount p))"
    "achieves view (policy_owner p) {objectOf role_kind n ns}
      (reconcile role_kind (roles c) (NewRoleBuilder n ns) (ownedRole rules p))"
    "achieves view (policy_owner p) {objectOf roleBinding_kind n ns}
      (reconcile roleBinding_kind (roleBindings c) (NewRoleBindingBuilder n ns) (ownedRoleBinding ref subj p))"
    "achieves view (policy_owner p) {objectOf configMap_kind n ns}
      (reconcile configMap_kind (configMaps c) (NewConfigMapBuilder n ns) (ownedConfigMap data p))"
    "achieves view (policy_owner p) {objectOf daemonSet_kind n ns}
      (reconcile daemonSet_kind (daemonSets c) (NewDaemonSetBuilder n ns) (ownedDaemonSet sel lb an ps p))"
  by (rule ownedSA.achieves_reconcile ownedRO.achieves_reconcile ownedRB.achieves_reconcile
        ownedCM.achieves_reconcile ownedDS.achieves_reconcile,
      rule lawful_clientD [OF available_lawful [OF assms(1)]], rule available_clientD [OF assms(1)],
      rule stored_kinds, rule builder_keys, rule owned_fresh [OF assms(2)], erule owned_old)+

lemma achieves_shared [achieves_intros]:
  assumes "available_client view c"
  shows "achieves view owner {objectOf clusterRole_kind n ns}
      (reconcile clusterRole_kind (clusterRoles c) (NewRoleBuilder n ns) (setClusterRole rules))"
    "achieves view owner {objectOf clusterRoleBinding_kind n ns}
      (reconcile clusterRoleBinding_kind (clusterRoleBindings c) (NewRoleBindingBuilder n ns) (setClusterRoleBinding ref subj))"
  by (rule setCR.achieves_reconcile setCRB.achieves_reconcile,
      rule lawful_clientD [OF available_lawful [OF assms]], rule available_clientD [OF assms],
      rule stored_kinds, rule builder_keys, simp add: setClusterRole_def setClusterRoleBinding_def,
      simp add: setClusterRole_def setClusterRoleBinding_def)+

lemma achieves_eq: "achieves view owner K' m \<Longrightarrow> K' = K \<Longrightarrow> achieves view owner K m"
  by simp

end
