(* ===== verification/Patch_Success.thy ===== *)
theory Patch_Success
  imports Policy_Scope Availability
begin

text \<open>
  The patchers of a cluster policy succeed on an available server: the contract \<open>available_patcher\<close>
  extends \<open>patcher_contract\<close> by the success of \<open>Patch\<close> and \<open>CleanUp\<close>, and all eight patchers keep it.
  Only the device plugins have a configuration that can be wrong, an unknown product card name.
\<close>

locale available_patcher = patcher_contract view c p pr K
  for view :: "'w \<Rightarrow> store" and c :: "'w client" and p :: "'w Patcher"
    and pr :: "('w \<times> request list) Patcher" and K :: "(kind \<times> ObjectKey) set" +
  fixes valid :: bool
  assumes Patch_achieves: "available_client view c \<Longrightarrow> cluster_scoped owner \<Longrightarrow> pt_IsEnabled p \<Longrightarrow> valid \<Longrightarrow>
      achieves view (policy_owner owner) K (pt_Patch p owner)"
    and CleanUp_achieves: "available_client view c \<Longrightarrow> achieves view (policy_owner owner) K (pt_CleanUp p owner)"
begin

lemma patchComponent_achieves:
  assumes "available_client view c" and "cluster_scoped owner" and "pt_IsEnabled p \<longrightarrow> valid"
  shows "achieves view (policy_owner owner) K (patchComponent owner p)"
  using Patch_achieves [OF assms(1,2)] CleanUp_achieves [OF assms(1)] assms(3)
  by (simp add: patchComponent_def achieves_def frame_def catch_fail_snd catch_fail_ok)

end

section \<open>Services\<close>

lemma me_service_ok: "is_ok (me_mutateService app p x) = is_ok (WithOwner (policy_owner p) (svc_Meta x))"
  by (simp add: me_mutateService_def Let_def owned_ok) (rule WithOwner_ok_cong; simp)

lemma daemon_service_ok: "is_ok (daemon_mutateService app p x) = is_ok (WithOwner (policy_owner p) (svc_Meta x))"
  by (simp add: daemon_mutateService_eq owned_ok) (rule WithOwner_ok_cong; simp)

lemma service_fresh: "cluster_scoped p \<Longrightarrow> is_ok (WithOwner (policy_owner p) (svc_Meta (NewServiceBuilder n ns)))"
  using policy_owner_fresh by (simp add: NewServiceBuilder_def)

lemma achieves_services:
  assumes "available_client view c" and "cluster_scoped p"
  shows "achieves view (policy_owner p) {objectOf service_kind n ns}
      (reconcile service_kind (services c) (NewServiceBuilder n ns) (me_mutateService app p))"
    "achieves view (policy_owner p) {objectOf service_kind n ns}
      (reconcile service_kind (services c) (NewServiceBuilder n ns) (daemon_mutateService app p))"
  by (rule mutator.achieves_reconcile [OF me_service.mutator_axioms] mutator.achieves_reconcile [OF daemon_service.mutator_axioms],
      rule lawful_clientD [OF available_lawful [OF assms(1)]], rule available_clientD [OF assms(1)],
      rule stored_kinds, rule builder_keys,
      simp add: me_service_ok daemon_service_ok service_fresh [OF assms(2)],
      simp add: me_service_ok daemon_service_ok kind_defs)+

section \<open>The patchers\<close>

interpretation vfio_available: available_patcher view c "vfio_Patcher c h" "vfio_Patcher (recording c) h" "vfio_objects h"
  "True"
  for view c h
proof unfold_locales
  fix owner assume a: "available_client view c" "cluster_scoped owner"
  assume "pt_IsEnabled (vfio_Patcher c h)"
  then have "patcher_IsEnabled h" by (simp add: vfio_Patcher_def)
  then obtain s where s: "desiredSpec h = Some s" "IsEnabled s" by (rule patcher_IsEnabledE)
  show "achieves view (policy_owner owner) (vfio_objects h) (pt_Patch (vfio_Patcher c h) owner)"
    unfolding vfio_methods withSpec_enabled [OF s]
    by (rule achieves_eq, (rule achieves_intros a | simp; fail)+) (auto simp: vfio_objects_def rbacObjects_def)
next
  fix owner assume a: "available_client view c"
  show "achieves view (policy_owner owner) (vfio_objects h) (pt_CleanUp (vfio_Patcher c h) owner)"
    unfolding vfio_methods
    by (rule achieves_eq, (rule achieves_intros a | simp; fail)+) (auto simp: vfio_objects_def rbacObjects_def)
qed

interpretation nfd_available: available_patcher view c "nfd_Patcher c h" "nfd_Patcher (recording c) h" "nfd_objects h"
  "True"
  for view c h
proof unfold_locales
  fix owner assume a: "available_client view c" "cluster_scoped owner"
  assume "pt_IsEnabled (nfd_Patcher c h)"
  then have "patcher_IsEnabled h" by (simp add: nfd_Patcher_def)
  then obtain s where s: "desiredSpec h = Some s" "IsEnabled s" by (rule patcher_IsEnabledE)
  show "achieves view (policy_owner owner) (nfd_objects h) (pt_Patch (nfd_Patcher c h) owner)"
    unfolding nfd_methods withSpec_enabled [OF s]
    by (rule achieves_eq, (rule achieves_intros a | simp; fail)+) (auto simp: nfd_objects_def rbacObjects_def)
next
  fix owner assume a: "available_client view c"
  show "achieves view (policy_owner owner) (nfd_objects h) (pt_CleanUp (nfd_Patcher c h) owner)"
    unfolding nfd_methods
    by (rule achieves_eq, (rule achieves_intros a | simp; fail)+) (auto simp: nfd_objects_def rbacObjects_def)
qed

interpretation me_available: available_patcher view c "me_Patcher c h" "me_Patcher (recording c) h" "me_objects h"
  "True"
  for view c h
proof unfold_locales
  fix owner assume a: "available_client view c" "cluster_scoped owner"
  assume "pt_IsEnabled (me_Patcher c h)"
  then have "patcher_IsEnabled h" by (simp add: me_Patcher_def)
  then obtain s where s: "desiredSpec h = Some s" "IsEnabled s" by (rule patcher_IsEnabledE)
  show "achieves view (policy_owner owner) (me_objects h) (pt_Patch (me_Patcher c h) owner)"
    unfolding me_methods withSpec_enabled [OF s]
    by (rule achieves_eq, (rule achieves_intros achieves_services a | simp; fail)+) (auto simp: me_objects_def rbacObjects_def)
next
  fix owner assume a: "available_client view c"
  show "achieves view (policy_owner owner) (me_objects h) (pt_CleanUp (me_Patcher c h) owner)"
    unfolding me_methods
    by (rule achieves_eq, (rule achieves_intros a | simp; fail)+) (auto simp: me_objects_def rbacObjects_def)
qed

interpretation daemon_available: available_patcher view c "daemon_Patcher c h" "daemon_Patcher (recording c) h" "daemon_objects h"
  "True"
  for view c h
proof unfold_locales
  fix owner assume a: "available_client view c" "cluster_scoped owner"
  assume "pt_IsEnabled (daemon_Patcher c h)"
  then have "patcher_IsEnabled h" by (simp add: daemon_Patcher_def)
  then obtain s where s: "desiredSpec h = Some s" "IsEnabled s" by (rule patcher_IsEnabledE)
  show "achieves view (policy_owner owner) (daemon_objects h) (pt_Patch (daemon_Patcher c h) owner)"
    unfolding daemon_methods withSpec_enabled [OF s]
    by (rule achieves_eq, (rule achieves_intros achieves_services a | simp; fail)+) (auto simp: daemon_objects_def rbacObjects_def)
next
  fix owner assume a: "available_client view c"
  show "achieves view (policy_owner owner) (daemon_objects h) (pt_CleanUp (daemon_Patcher c h) owner)"
    unfolding daemon_methods
    by (rule achieves_eq, (rule achieves_intros a | simp; fail)+) (auto simp: daemon_objects_def rbacObjects_def)
qed

interpretation dp_available: available_patcher view c "dp_Patcher c h" "dp_Patcher (recording c) h" "dp_objects h"
  "\<forall>s. desiredSpec h = Some s \<longrightarrow> (\<exists>json. buildDevicePluginConfig s = Inr json)"
  for view c h
proof unfold_locales
  fix owner assume a: "available_client view c" "cluster_scoped owner"
  assume "pt_IsEnabled (dp_Patcher c h)"
  then have "patcher_IsEnabled h" by (simp add: dp_Patcher_def)
  then obtain s where s: "desiredSpec h = Some s" "IsEnabled s" by (rule patcher_IsEnabledE)
  assume "\<forall>s. desiredSpec h = Some s \<longrightarrow> (\<exists>json. buildDevicePluginConfig s = Inr json)"
  then obtain json where json: "buildDevicePluginConfig s = Inr json" by (auto simp: s(1))
  show "achieves view (policy_owner owner) (dp_objects h) (pt_Patch (dp_Patcher c h) owner)"
    unfolding dp_methods withSpec_enabled [OF s] dp_handleConfigMap_def json sum.case
    by (rule achieves_eq, (rule achieves_intros a | simp; fail)+) (auto simp: dp_objects_def rbacObjects_def)
next
  fix owner assume a: "available_client view c"
  show "achieves view (policy_owner owner) (dp_objects h) (pt_CleanUp (dp_Patcher c h) owner)"
    unfolding dp_methods
    by (rule achieves_eq, (rule achieves_intros a | simp; fail)+) (auto simp: dp_objects_def rbacObjects_def)
qed

interpretation sp_available: available_patcher view c "sp_Patcher c h" "sp_Patcher (recording c) h" "sp_objects h"
  "\<forall>s. desiredSpec h = Some s \<longrightarrow> (\<exists>json. buildSandboxDevicePluginConfig s = Inr json)"
  for view c h
proof unfold_locales
  fix owner assume a: "available_client view c" "cluster_scoped owner"
  assume "pt_IsEnabled (sp_Patcher c h)"
  then have "patcher_IsEnabled h" by (simp add: sp_Patcher_def)
  then obtain s where s: "desiredSpec h = Some s" "IsEnabled s" by (rule patcher_IsEnabledE)
  assume "\<forall>s. desiredSpec h = Some s \<longrightarrow> (\<exists>json. buildSandboxDevicePluginConfig s = Inr json)"
  then obtain json where json: "buildSandboxDevicePluginConfig s = Inr json" by (auto simp: s(1))
  show "achieves view (policy_owner owner) (sp_objects h) (pt_Patch (sp_Patcher c h) owner)"
    unfolding sp_methods withSpec_enabled [OF s] sp_handleConfigMap_def json sum.case
    by (rule achieves_eq, (rule achieves_intros a | simp; fail)+) (auto simp: sp_objects_def rbacObjects_def)
next
  fix owner assume a: "available_client view c"
  show "achieves view (policy_owner owner) (sp_objects h) (pt_CleanUp (sp_Patcher c h) owner)"
    unfolding sp_methods
    by (rule achieves_eq, (rule achieves_intros a | simp; fail)+) (auto simp: sp_objects_def rbacObjects_def)
qed

interpretation ct_available: available_patcher view c "ct_Patcher c h" "ct_Patcher (recording c) h" "ct_objects h"
  "True"
  for view c h
proof unfold_locales
  fix owner assume a: "available_client view c" "cluster_scoped owner"
  assume "pt_IsEnabled (ct_Patcher c h)"
  then have en: "patcher_IsEnabled h" by (simp add: ct_Patcher_def)
  then obtain s where s: "desiredSpec h = Some s" "IsEnabled s" by (rule patcher_IsEnabledE)
  show "achieves view (policy_owner owner) (ct_objects h) (pt_Patch (ct_Patcher c h) owner)"
    unfolding ct_methods withSpec_def s(1) option.case if_not_P [OF iffD2 [OF not_not en]]
    by (rule achieves_eq, (rule achieves_intros a | simp; fail)+) (auto simp: ct_objects_def rbacObjects_def)
next
  fix owner assume a: "available_client view c"
  show "achieves view (policy_owner owner) (ct_objects h) (pt_CleanUp (ct_Patcher c h) owner)"
    unfolding ct_methods
    by (rule achieves_eq, (rule achieves_intros a | simp; fail)+) (auto simp: ct_objects_def rbacObjects_def)
qed

interpretation val_available: available_patcher view c "val_Patcher c h" "val_Patcher (recording c) h" "val_objects h"
  "True"
  for view c h
proof unfold_locales
  fix owner assume a: "available_client view c" "cluster_scoped owner"
  assume "pt_IsEnabled (val_Patcher c h)"
  then have en: "val_IsEnabled h" by (simp add: val_Patcher_def)
  then obtain v where v: "desiredSpec h = Some v" by (auto simp: val_IsEnabled_def)
  show "achieves view (policy_owner owner) (val_objects h) (pt_Patch (val_Patcher c h) owner)"
    unfolding val_methods withSpec_def v option.case if_not_P [OF iffD2 [OF not_not en]] Let_def
    by (rule achieves_eq, (rule achieves_intros a | simp; fail)+) (auto simp: val_objects_def rbacObjects_def)
next
  fix owner assume a: "available_client view c"
  show "achieves view (policy_owner owner) (val_objects h) (pt_CleanUp (val_Patcher c h) owner)"
    unfolding val_methods
    by (rule achieves_eq, (rule achieves_intros a | simp; fail)+) (auto simp: val_objects_def rbacObjects_def)
qed

section \<open>All components\<close>

lemma achieves_seqE_list:
  assumes "list_all2 (\<lambda>m K. achieves view owner K m) ms Ks" and "separate Ks"
  shows "achieves view owner (\<Union> (set Ks)) (seqE ms)"
  using assms
proof (induction rule: list_all2_induct)
  case Nil
  then show ?case using achieves_seqE_Nil by simp
next
  case (Cons m ms K Ks)
  then show ?case using achieves_seqE_Cons [of view owner K m "\<Union> (set Ks)" ms] by simp
qed

text \<open>The device plugins that are enabled name known product cards only.\<close>

definition knownCards :: "RBLNDevicePluginResourceSpec list \<Rightarrow> bool" where
  "knownCards rs \<longleftrightarrow> list_all (\<lambda>r. list_all (\<lambda>n. DeviceMapping n \<noteq> None) (rs_ProductCardNames r)) rs"

definition valid_policy :: "RBLNClusterPolicySpec \<Rightarrow> bool" where
  "valid_policy spec \<longleftrightarrow>
     (IsEnabled (cp_DevicePlugin spec) \<longrightarrow> knownCards (dp_ResourceList (cp_DevicePlugin spec))) \<and>
     (IsEnabled (cp_SandboxDevicePlugin spec) \<longrightarrow> knownCards (sdp_ResourceList (cp_SandboxDevicePlugin spec)))"

end
