(* ===== verification/Policy_Deploy.thy ===== *)
theory Policy_Deploy
  imports Patch_Success
begin

text \<open>
  The scope of a policy as a whole: which requests \<open>PatchComponents\<close> sends, when it succeeds, and the
  properties of the scope.
\<close>

section \<open>Requests of all components\<close>

definition componentVerbs :: "bool \<Rightarrow> verb set" where
  "componentVerbs enabled = (if enabled then applyVerbs else {DeleteVerb})"

lemma emits_seqE_list:
  assumes "list_all2 (\<lambda>m VK. footprint (fst VK) (snd VK) m) ms VKs"
  shows "emits (seqE ms) (\<lambda>r l. \<forall>q\<in>set l. \<exists>VK\<in>set VKs. rq_verb q \<in> fst VK \<and> rq_object q \<in> snd VK)"
  using assms
proof (induction rule: list_all2_induct)
  case (Cons m ms VK VKs)
  show ?case
    unfolding seqE.simps
    by (rule emits_bind [OF Cons.hyps(1) [unfolded footprint_def]])
       (auto intro!: emits_mono [OF Cons.IH])
qed (simp add: emits_ret)

context patcher_contract
begin

lemma patchComponent_footprint:
  "footprint (componentVerbs (pt_IsEnabled p)) K (patchComponent owner pr)"
  using patchComponent_manages by (simp add: manages_def componentVerbs_def)

end

lemma policyPatchers_footprint:
  "list_all2 (\<lambda>m VK. footprint (fst VK) (snd VK) m)
     (List.map (patchComponent owner) (policyPatchers (recording c) ns spec osVersion runtime))
     (zip (List.map (\<lambda>p. componentVerbs (pt_IsEnabled p)) (policyPatchers c ns spec osVersion runtime))
        (policyObjects ns spec osVersion runtime))"
  by (simp add: policyPatchers_def policyObjects_def vfio.patchComponent_footprint
      nfd.patchComponent_footprint me.patchComponent_footprint daemon.patchComponent_footprint
      dp.patchComponent_footprint sp.patchComponent_footprint ct.patchComponent_footprint
      val.patchComponent_footprint)

lemma separate_nth: "separate Ks \<Longrightarrow> i < length Ks \<Longrightarrow> j < length Ks \<Longrightarrow> i \<noteq> j \<Longrightarrow> Ks ! i \<inter> Ks ! j = {}"
proof (induction Ks arbitrary: i j)
  case (Cons K Ks)
  have rest: "K \<inter> Ks ! n = {}" if "n < length Ks" for n
    using Cons.prems(1) nth_mem [OF that] by auto
  show ?case
    using Cons rest by (cases i; cases j) (auto simp: Int_commute)
qed simp

section \<open>Success of all components\<close>

lemma config_known:
  "knownCards rs \<longleftrightarrow> (\<exists>crs. configResources drv rs = Inr crs)"
  by (auto simp: knownCards_def configResources_Inr_iff list_all_iff)

lemma buildConfig_known:
  "(\<exists>json. buildDevicePluginConfig d = Inr json) \<longleftrightarrow> knownCards (dp_ResourceList d)"
  "(\<exists>json. buildSandboxDevicePluginConfig sd = Inr json) \<longleftrightarrow> knownCards (sdp_ResourceList sd)"
  using config_known [of "dp_ResourceList d" "''rebellions''"] config_known [of "sdp_ResourceList sd" "''vfio-pci''"]
  by (auto simp: buildDevicePluginConfig_def buildSandboxDevicePluginConfig_def split: sum.splits)

lemma knownCards_Nil [simp]: "knownCards []"
  by (simp add: knownCards_def)

lemma syncSpec_resources:
  "IsEnabled d \<Longrightarrow> dp_ResourceList (syncSpec spec z d) = dp_ResourceList d"
  "IsEnabled sd \<Longrightarrow> sdp_ResourceList (syncSpec spec z' sd) = sdp_ResourceList sd"
  by (simp_all add: syncSpec_def Let_def split: option.splits)

lemma syncSpec_zero: "\<not> IsEnabled s \<Longrightarrow> syncSpec spec z s = z"
  by (simp add: syncSpec_def)

lemma zero_resources [simp]:
  "dp_ResourceList zero_DevicePluginSpec = []" "sdp_ResourceList zero_SandboxDevicePluginSpec = []"
  by (simp_all add: zero_DevicePluginSpec_def zero_SandboxDevicePluginSpec_def zero_ComponentSpec_def
      ComponentSpec.extend_def RBLNDevicePluginSpec.fields_def RBLNSandboxDevicePluginSpec.fields_def)

lemma plugin_configs_valid:
  assumes "valid_policy spec"
  shows "\<forall>s. desiredSpec (NewDevicePluginPatcher ns spec osVersion) = Some s \<longrightarrow>
      (\<exists>json. buildDevicePluginConfig s = Inr json)"
    and "\<forall>s. desiredSpec (NewSandboxDevicePluginPatcher ns spec osVersion) = Some s \<longrightarrow>
      (\<exists>json. buildSandboxDevicePluginConfig s = Inr json)"
proof -
  have "knownCards (dp_ResourceList (syncSpec spec zero_DevicePluginSpec (cp_DevicePlugin spec)))"
    using assms by (cases "IsEnabled (cp_DevicePlugin spec)")
      (simp_all add: valid_policy_def syncSpec_resources syncSpec_zero zero_resources)
  then show "\<forall>s. desiredSpec (NewDevicePluginPatcher ns spec osVersion) = Some s \<longrightarrow>
      (\<exists>json. buildDevicePluginConfig s = Inr json)"
    by (simp add: NewDevicePluginPatcher_def buildConfig_known)
  show "\<forall>s. desiredSpec (NewSandboxDevicePluginPatcher ns spec osVersion) = Some s \<longrightarrow>
      (\<exists>json. buildSandboxDevicePluginConfig s = Inr json)"
    using assms by (simp add: NewSandboxDevicePluginPatcher_def valid_policy_def buildConfig_known syncSpec_resources)
qed

text \<open>On an available server the components of a valid policy are deployed.\<close>

lemma PatchComponents_achieves:
  assumes "available_client view c" and "cluster_scoped owner" and "valid_policy spec"
  shows "list_all2 (\<lambda>m K. achieves view (policy_owner owner) K m)
     (List.map (patchComponent owner) (policyPatchers c ns spec osVersion runtime))
     (policyObjects ns spec osVersion runtime)"
  unfolding policyPatchers_def policyObjects_def
  by (simp add: assms vfio_available.patchComponent_achieves nfd_available.patchComponent_achieves
      me_available.patchComponent_achieves daemon_available.patchComponent_achieves
      dp_available.patchComponent_achieves [OF assms(1,2) impI [OF plugin_configs_valid(1) [OF assms(3)]]]
      sp_available.patchComponent_achieves [OF assms(1,2) impI [OF plugin_configs_valid(2) [OF assms(3)]]]
      ct_available.patchComponent_achieves val_available.patchComponent_achieves)

lemma PatchComponents_success:
  assumes "available_client view c" and "cluster_scoped policy" and "valid_policy (cp_Spec policy)"
    and s: "NewRBLNClusterPolicyScope c env policy osVersion runtime = Inr s"
    and "\<forall>k\<in>\<Union> (set (policyObjects (sc_namespace s) (cp_Spec policy) osVersion runtime)).
      claimable (policy_owner policy) k (view w k)"
  shows "is_ok (fst (PatchComponents s w))"
proof -
  have "PatchComponents s = seqE (List.map (patchComponent policy)
      (policyPatchers c (sc_namespace s) (cp_Spec policy) osVersion runtime))"
    using s by (auto simp: PatchComponents_def NewRBLNClusterPolicyScope_def Let_def split: if_splits)
  then show ?thesis
    using achievesD [OF achieves_seqE_list [OF PatchComponents_achieves [OF assms(1,2,3)] policyObjects_separate]] assms(5)
    by simp
qed

section \<open>Properties\<close>

text \<open>
  C2: The reconciliation of the components converges: on a server that stores what it is sent, once
  \<open>PatchComponents\<close> has succeeded, running it again leaves the cluster as it is, whatever the cluster
  looked like before.
\<close>

theorem PatchComponents_idempotent:
  assumes "lawful_client view c" and "NewRBLNClusterPolicyScope c env policy osVersion runtime = Inr s"
    and "is_ok (fst (PatchComponents s w))"
  shows "view (snd (PatchComponents s (snd (PatchComponents s w)))) = view (snd (PatchComponents s w))"
  using PatchComponents_converges [OF assms(1,2)] assms(3) unfolding converges_def by blast

definition example_policy :: RBLNClusterPolicy where
  "example_policy = zero_ClusterPolicy\<lparr>
     cp_Meta := empty_meta\<lparr>om_Name := ''rbln-cluster-policy'', om_UID := ''1''\<rparr>,
     cp_Spec := zero_ClusterPolicySpec\<lparr>cp_BaseName := ''rbln'', cp_Namespace := ''rbln-system'',
       cp_NPUFeatureDiscovery := zero_ComponentSpec\<lparr>cs_Enabled := True, cs_Image := ''nfd'', cs_Registry := ''reg'', cs_Version := ''v1''\<rparr>\<rparr>\<rparr>"

definition example_scope :: "cluster RBLNClusterPolicyScope" where
  "example_scope = (case NewRBLNClusterPolicyScope mem_client [] example_policy [] ''containerd'' of Inr s \<Rightarrow> s)"

lemma example_scope: "NewRBLNClusterPolicyScope mem_client [] example_policy [] ''containerd'' = Inr example_scope"
  by (simp add: example_scope_def NewRBLNClusterPolicyScope_def example_policy_def resolveNamespace_def Let_def)

lemma example_policy_valid: "valid_policy (cp_Spec example_policy)" "cluster_scoped example_policy"
  by (simp_all add: valid_policy_def example_policy_def zero_ClusterPolicySpec_def zero_ClusterPolicy_def
      cluster_scoped_def empty_meta_def)

lemma example_scope_runs: "is_ok (fst (PatchComponents example_scope empty_cluster))"
  by (rule PatchComponents_success [OF mem_client_available example_policy_valid(2,1) example_scope])
     (simp add: claimable_def empty_cluster_def)

theorem PatchComponents_idempotent_witness:
  "cl_store (snd (PatchComponents example_scope (snd (PatchComponents example_scope empty_cluster)))) =
     cl_store (snd (PatchComponents example_scope empty_cluster))"
  by (rule PatchComponents_idempotent [OF mem_client_lawful example_scope example_scope_runs])

text \<open>
  On an available server the components of a policy are deployed: when the policy names known
  product cards only, and none of its objects is controlled by somebody else, \<open>PatchComponents\<close>
  succeeds, from every state of the cluster.
\<close>

theorem PatchComponents_succeeds:
  assumes "available_client view c" and "cluster_scoped policy" and "valid_policy (cp_Spec policy)"
    and "NewRBLNClusterPolicyScope c env policy osVersion runtime = Inr s"
    and "\<forall>k\<in>\<Union> (set (policyObjects (sc_namespace s) (cp_Spec policy) osVersion runtime)).
      claimable (policy_owner policy) k (view w k)"
  shows "is_ok (fst (PatchComponents s w))"
  by (rule PatchComponents_success [OF assms])

theorem PatchComponents_succeeds_witness: "is_ok (fst (PatchComponents example_scope empty_cluster))"
  by (rule PatchComponents_succeeds [OF mem_client_available example_policy_valid(2,1) example_scope])
     (simp add: claimable_def empty_cluster_def)

text \<open>
  C3: Whatever the server answers, every request that \<open>PatchComponents\<close> sends is for an object of a
  component: a read, a creation or a patch when the component is enabled, a deletion when it is not.
\<close>

theorem PatchComponents_requests:
  assumes "NewRBLNClusterPolicyScope (recording c) env policy osVersion runtime = Inr s"
  shows "emits (PatchComponents s) (\<lambda>r l. \<forall>q\<in>set l. \<exists>i<8.
     rq_object q \<in> policyObjects (sc_namespace s) (cp_Spec policy) osVersion runtime ! i \<and>
     rq_verb q \<in> (if pt_IsEnabled (policyPatchers c (sc_namespace s) (cp_Spec policy) osVersion runtime ! i)
        then {GetVerb, CreateVerb, PatchVerb} else {DeleteVerb}))"
proof -
  have s: "sc_patcher s = policyPatchers (recording c) (sc_namespace s) (cp_Spec policy) osVersion runtime"
    using assms by (auto simp: NewRBLNClusterPolicyScope_def Let_def split: if_splits)
  show ?thesis
    unfolding PatchComponents_def s
    by (rule emits_mono [OF emits_seqE_list [OF policyPatchers_footprint]])
       (fastforce simp: set_zip componentVerbs_def)
qed

theorem PatchComponents_requests_witness:
  "\<exists>s. NewRBLNClusterPolicyScope (recording mem_client) [] example_policy [] ''containerd'' = Inr s \<and>
     (\<exists>l. snd (snd (PatchComponents s (empty_cluster, []))) = l \<and>
       list_all (\<lambda>q. rq_verb q \<in> {GetVerb, CreateVerb, PatchVerb, DeleteVerb}) l)"
proof -
  obtain s where s: "NewRBLNClusterPolicyScope (recording mem_client) [] example_policy [] ''containerd'' = Inr s"
    by (simp add: NewRBLNClusterPolicyScope_def example_policy_def resolveNamespace_def Let_def)
  from emitsD [OF PatchComponents_requests [OF s], of empty_cluster "[]"] s show ?thesis
    by (fastforce simp: list_all_iff split: if_splits)
qed

text \<open>
  No two components of a policy share an object, so that deploying or removing one never touches
  another.
\<close>

theorem components_disjoint:
  assumes "i < 8" and "j < 8" and "i \<noteq> j"
  shows "policyObjects ns spec osVersion runtime ! i \<inter> policyObjects ns spec osVersion runtime ! j = {}"
  using separate_nth [OF policyObjects_separate [of ns spec osVersion runtime], of i j] assms by simp

theorem components_disjoint_witness:
  "policyObjects ''ns'' zero_ClusterPolicySpec [] [] ! 4 \<inter> policyObjects ''ns'' zero_ClusterPolicySpec [] [] ! 5 = {}"
  by (rule components_disjoint) simp_all

text \<open>
  A scope is built exactly when the namespace is configured, by the policy first and by
  \<open>OPERATOR_NAMESPACE\<close> otherwise, and every component is deployed to that namespace.
\<close>

theorem NewScope_namespace:
  "(case NewRBLNClusterPolicyScope c env policy osVersion runtime of
      Inl e \<Rightarrow> cp_Namespace (cp_Spec policy) = [] \<and> env = []
    | Inr s \<Rightarrow> sc_namespace s = (if cp_Namespace (cp_Spec policy) \<noteq> [] then cp_Namespace (cp_Spec policy) else env) \<and>
        sc_namespace s \<noteq> [] \<and> sc_singleton s = policy \<and>
        List.map pt_ComponentNamespace (sc_patcher s) = replicate 8 (sc_namespace s))"
proof -
  have "List.map pt_ComponentNamespace (policyPatchers c ns spec osVersion runtime) = replicate 8 ns" for ns spec
    by (simp add: policyPatchers_def vfio_Patcher_def NewVFIOManagerPatcher_def nfd_Patcher_def
        NewNPUFeatureDiscoveryPatcher_def me_Patcher_def NewMetricsExporterPatcher_def daemon_Patcher_def
        NewRBLNDaemonPatcher_def dp_Patcher_def NewDevicePluginPatcher_def sp_Patcher_def
        NewSandboxDevicePluginPatcher_def ct_Patcher_def NewContainerToolkitPatcher_def val_Patcher_def
        NewValidatorPatcher_def numeral_eq_Suc)
  then show ?thesis by (auto simp: NewRBLNClusterPolicyScope_def resolveNamespace_def Let_def)
qed

text \<open>
  The condition report of a component never fails: it is one condition \<open>DaemonSetReady\<close>, true
  exactly when the component's DaemonSet was found with all its scheduled pods ready.
\<close>

theorem ConditionReport_correct:
  "\<exists>cnd w'. daemonSetConditionReport c nm ns w = (Ok [cnd], w') \<and> cond_Type cnd = DaemonSetReady \<and>
     (cond_Status cnd = ConditionTrue \<longleftrightarrow>
        (\<exists>ds. fst (api_Get (daemonSets c) \<lparr>ok_Namespace = ns, ok_Name = nm\<rparr> w) = Inr ds \<and> daemonSet_ready (ds_Status ds)))"
  by (cases "fst (api_Get (daemonSets c) \<lparr>ok_Namespace = ns, ok_Name = nm\<rparr> w)")
     (auto simp: daemonSetConditionReport_eq case_prod_beta)

end
