(* ===== verification/Policy_Guarantees.thy ===== *)
theory Policy_Guarantees
  imports Policy_Runs Policy_Deploy
begin

text \<open>
  The guarantees of the reconciler of cluster policies as a whole: that a reconciliation succeeds on
  a server that answers, what it deploys, when it leaves the cluster alone, which policy is in charge,
  what it writes to the status, and which events of nodes reach it.
\<close>

section \<open>Servers that answer\<close>

text \<open>
  The reads of the nodes and of the policy of a key, the updates of nodes and the status updates of
  policies all succeed.
\<close>

definition answering :: "'w client \<Rightarrow> ObjectKey \<Rightarrow> bool" where
  "answering c key \<longleftrightarrow>
     (\<forall>w. \<exists>p. fst (api_Get (clusterPolicies c) key w) = Inr p) \<and>
     (\<forall>p w. \<exists>z. fst (api_StatusUpdate (clusterPolicies c) p w) = Inr z) \<and>
     (\<forall>opt w. \<exists>ns. fst (api_List (nodes c) opt w) = Inr ns) \<and>
     (\<forall>n w. \<exists>z. fst (api_Update (nodes c) n w) = Inr z)"

lemma answeringD:
  assumes "answering c key"
  shows "\<exists>p w'. api_Get (clusterPolicies c) key w = (Inr p, w')"
    and "\<exists>z w'. api_StatusUpdate (clusterPolicies c) p w = (Inr z, w')"
    and "\<exists>ns w'. api_List (nodes c) opt w = (Inr ns, w')"
    and "\<exists>z w'. api_Update (nodes c) n w = (Inr z, w')"
  using assms unfolding answering_def by (metis prod.collapse)+

text \<open>Operations that succeed in every world, composed along the combinators.\<close>

definition never_fails :: "('w, 'a) op \<Rightarrow> bool" where
  "never_fails m \<longleftrightarrow> (\<forall>w. is_ok (fst (m w)))"

lemma never_fails_ret: "never_fails (ret x)"
  by (simp add: never_fails_def ret_def)

lemma never_fails_bind: "never_fails m \<Longrightarrow> (\<And>x. never_fails (f x)) \<Longrightarrow> never_fails (bind m f)"
  unfolding never_fails_def
proof
  fix w assume "\<forall>w. is_ok (fst (m w))" "\<And>x. \<forall>w. is_ok (fst (f x w))"
  then show "is_ok (fst (bind m f w))"
    by (cases "m w"; cases "fst (m w)") (auto simp: bind_def is_ok_iff dest: spec [where x = w])
qed

lemma never_fails_catch: "never_fails m \<Longrightarrow> never_fails (catch m h)"
  unfolding never_fails_def
proof
  fix w assume "\<forall>w. is_ok (fst (m w))"
  then show "is_ok (fst (catch m h w))"
    by (cases "m w"; cases "fst (m w)") (auto simp: catch_def is_ok_iff dest: spec [where x = w])
qed

lemma never_fails_call: "(\<And>w. \<exists>z w'. m w = (Inr z, w')) \<Longrightarrow> never_fails (call m)"
  unfolding never_fails_def
proof
  fix w assume "\<And>w. \<exists>z w'. m w = (Inr z, w')"
  then obtain z w' where "m w = (Inr z, w')" by blast
  then show "is_ok (fst (call m w))" by (simp add: call_def)
qed

lemmas never_fails_intros = never_fails_ret never_fails_bind never_fails_catch never_fails_call

lemma never_failsD: "never_fails m \<Longrightarrow> \<exists>x w'. m w = (Ok x, w')"
  unfolding never_fails_def is_ok_iff by (metis prod.collapse)

lemma labelNodes_answers:
  assumes "answering c key"
  shows "never_fails (labelNodes c d ns nfd cnt pending)"
proof (induction ns arbitrary: nfd cnt pending)
  case (Cons n ns)
  then show ?case
    using answeringD(4) [OF assms] by (auto simp: Let_def case_prod_beta intro!: never_fails_intros)
qed (simp add: never_fails_ret)

lemma LabelRblnNodes_answers: "answering c key \<Longrightarrow> never_fails (LabelRblnNodes c p)"
  unfolding LabelRblnNodes_def
  using answeringD(3) by (auto intro!: never_fails_intros labelNodes_answers)

lemma reconcileStatus_answers:
  assumes s: "NewRBLNClusterPolicyScope c env policy osVersion runtime = Inr s"
    and ans: "answering c \<lparr>ok_Namespace = [], ok_Name = om_Name (cp_Meta p)\<rparr>"
  shows "\<exists>w'. reconcileStatus c p s w = (Ok noRequeue, w')"
proof -
  obtain sts w1 where a: "AssembleComponentConditions s w = (Ok sts, w1)" "allComponentsReady sts"
    using Assemble_ready [OF s] by blast
  obtain inst w2 where g: "api_Get (clusterPolicies c) \<lparr>ok_Namespace = [], ok_Name = om_Name (cp_Meta p)\<rparr> w1 = (Inr inst, w2)"
    using answeringD(1) [OF ans] by blast
  obtain p' w3 where p': "setClusterReadyStatus c (setComponents sts inst) (length sts) w2 = (Ok p', w3)"
    using setClusterReadyStatus_result [of c "setComponents sts inst" "length sts" w2] by blast
  obtain z w4 where u: "api_StatusUpdate (clusterPolicies c) p' w3 = (Inr z, w4)"
    using answeringD(2) [OF ans] by blast
  show ?thesis using a g p' u by (simp add: reconcileStatus_def Let_def op_defs)
qed

lemma reconcileInstance_succeeds:
  assumes avail: "available_client view c" and quiet: "quiet_law view c"
    and ans: "answering c \<lparr>ok_Namespace = [], ok_Name = om_Name (cp_Meta inst)\<rparr>"
    and s: "NewRBLNClusterPolicyScope c env inst (ci_OpenshiftVersion info) (ci_ContainerRuntime info) = Inr s"
    and ns: "fst (api_List (nodes c) all_objects w) = Inr ns" "\<exists>n\<in>set ns. hasRBLNDeviceLabel (nodeLabels n)"
    and valid: "cluster_scoped inst" "valid_policy (cp_Spec inst)"
    and free: "\<forall>k\<in>\<Union> (set (policyObjects (sc_namespace s) (cp_Spec inst) (ci_OpenshiftVersion info) (ci_ContainerRuntime info))).
      claimable (policy_owner inst) k (view w k)"
  shows "\<exists>w'. reconcileInstance c env info req inst w = (Ok noRequeue, w')"
proof -
  obtain x w1 where l: "LabelRblnNodes c inst w = (Ok x, w1)" using never_failsD [OF LabelRblnNodes_answers [OF ans]] by blast
  have "view w1 = view w" using frame_emptyD [OF frame_LabelRblnNodes [OF quiet], of inst w] l by simp
  with free have "is_ok (fst (PatchComponents s w1))"
    using PatchComponents_success [OF avail valid s] by simp
  then obtain w2 where p: "PatchComponents s w1 = (Ok (), w2)" by (cases "PatchComponents s w1") (auto simp: is_ok_iff)
  obtain w3 where "reconcileStatus c inst s w2 = (Ok noRequeue, w3)" using reconcileStatus_answers [OF s ans] by blast
  moreover have "\<exists>n\<in>set ns. hasNFDLabels (nodeLabels n)" using ns(2) device_nfd by blast
  ultimately show ?thesis
    using reconcileInstance_nodes [OF s ns(1) l, of req] ns(2) p by (simp add: bind_def)
qed

lemma reconcileInstance_requeue:
  assumes s: "NewRBLNClusterPolicyScope c env inst (ci_OpenshiftVersion info) (ci_ContainerRuntime info) = Inr s"
    and ns: "fst (api_List (nodes c) all_objects w) = Inr ns"
    and no: "\<not> (\<exists>n\<in>set ns. hasRBLNDeviceLabel (nodeLabels n))"
    and ok: "fst (reconcileInstance c env info req inst w) = Ok r"
  shows "res_RequeueAfter r = (if \<exists>n\<in>set ns. hasNFDLabels (nodeLabels n) then 0 else 30)"
proof -
  from ok have "reconcileInstance c env info req inst w = (Ok r, snd (reconcileInstance c env info req inst w))"
    by (metis prod.collapse)
  then obtain x w1 where "LabelRblnNodes c inst w = (Ok x, w1)"
    by (simp only: reconcileInstance_def s sum.case) (erule bind_OkE, blast)
  from reconcileInstance_nodes [OF s ns this, of req] show ?thesis
    using ok no by (auto simp: bind_def ret_def noRequeue_def split: prod.splits outcome.splits if_splits)
qed

lemma updateCRState_getError:
  assumes "fst (api_Get (clusterPolicies c) key w) = Inl e" and "state \<noteq> ClusterStateEmpty"
  shows "updateCRState c key state w =
     catch (bind (call (api_StatusUpdate (clusterPolicies c) (SetStatus state zero_ClusterPolicy))) (\<lambda>_. ret ()))
       (\<lambda>_. ret ()) (snd (api_Get (clusterPolicies c) key w))"
proof -
  have "catch (call (api_Get (clusterPolicies c) key)) (\<lambda>_. ret zero_ClusterPolicy) w =
      (Ok zero_ClusterPolicy, snd (api_Get (clusterPolicies c) key w))"
    using assms(1) by (simp add: catch_def call_def ret_def case_prod_beta)
  moreover have "cpst_State (cp_Status zero_ClusterPolicy) \<noteq> state"
    using assms(2) by (simp add: zero_ClusterPolicy_def)
  ultimately show ?thesis by (simp add: updateCRState_def bind_def)
qed

section \<open>Events\<close>

lemma fmfilter_neq_iff:
  "FilterMapWithPrefix m pre \<noteq> FilterMapWithPrefix m' pre \<longleftrightarrow>
     (\<exists>k. HasPrefix k pre \<and> fmlookup m k \<noteq> fmlookup m' k)"
proof
  assume "FilterMapWithPrefix m pre \<noteq> FilterMapWithPrefix m' pre"
  then obtain k where "fmlookup (FilterMapWithPrefix m pre) k \<noteq> fmlookup (FilterMapWithPrefix m' pre) k"
    by (meson fmap_ext)
  then show "\<exists>k. HasPrefix k pre \<and> fmlookup m k \<noteq> fmlookup m' k" by (auto split: if_splits)
next
  assume "\<exists>k. HasPrefix k pre \<and> fmlookup m k \<noteq> fmlookup m' k"
  then obtain k where "HasPrefix k pre" "fmlookup m k \<noteq> fmlookup m' k" by blast
  then have "fmlookup (FilterMapWithPrefix m pre) k \<noteq> fmlookup (FilterMapWithPrefix m' pre) k" by simp
  then show "FilterMapWithPrefix m pre \<noteq> FilterMapWithPrefix m' pre" by metis
qed

lemma device_not_rebellions: "fmlookup rblnDeviceLabels k = Some v \<Longrightarrow> \<not> HasPrefix k ''rebellions.ai/''"
proof -
  have "list_all (\<lambda>d. \<not> HasPrefix d ''rebellions.ai/'')
      [''feature.node.kubernetes.io/pci-1200_1eff.present'', ''feature.node.kubernetes.io/pci-1eff.present'']"
    by code_simp
  then show "fmlookup rblnDeviceLabels k = Some v \<Longrightarrow> \<not> HasPrefix k ''rebellions.ai/''"
    by (auto simp: rblnDeviceLabels_def split: if_splits)
qed

section \<open>A concrete cluster\<close>

definition example_device_node :: Node where
  "example_device_node = example_node ''worker'' [(''feature.node.kubernetes.io/pci-1eff.present'', ''true'')]"

definition example_cluster :: cluster where
  "example_cluster = empty_cluster\<lparr>cl_policies := [example_policy], cl_nodes := [example_device_node]\<rparr>"

abbreviation example_request :: ObjectKey where
  "example_request \<equiv> \<lparr>ok_Namespace = [], ok_Name = ''rbln-cluster-policy''\<rparr>"

abbreviation example_info :: ClusterInfo where
  "example_info \<equiv> \<lparr>ci_OpenshiftVersion = [], ci_ContainerRuntime = ''containerd''\<rparr>"

text \<open>A server on which the example policy is always there.\<close>

definition steady_client :: "cluster client" where
  "steady_client = mem_client\<lparr>clusterPolicies :=
     (clusterPolicies mem_client)\<lparr>api_Get := (\<lambda>_ w. (Inr example_policy, w))\<rparr>\<rparr>"

lemma steady_fields:
  "serviceAccounts steady_client = serviceAccounts mem_client" "roles steady_client = roles mem_client"
  "roleBindings steady_client = roleBindings mem_client" "clusterRoles steady_client = clusterRoles mem_client"
  "clusterRoleBindings steady_client = clusterRoleBindings mem_client"
  "configMaps steady_client = configMaps mem_client" "services steady_client = services mem_client"
  "daemonSets steady_client = daemonSets mem_client" "nodes steady_client = nodes mem_client"
  "now steady_client = now mem_client"
  "api_Get (clusterPolicies steady_client) = (\<lambda>_ w. (Inr example_policy, w))"
  "api_StatusUpdate (clusterPolicies steady_client) = api_StatusUpdate (clusterPolicies mem_client)"
  by (simp_all add: steady_client_def)

lemma steady_available: "available_client cl_store steady_client"
  using mem_client_available by (simp add: available_client_def lawful_client_def steady_fields)

lemma steady_quiet: "quiet_law cl_store steady_client"
  using mem_client_quiet by (simp add: quiet_law_def steady_fields)

lemma steady_answering: "answering steady_client key"
  by (simp add: answering_def steady_fields) (simp add: mem_client_def list_api_def)

lemma steady_inCharge: "inCharge steady_client example_request [] w = Some example_policy"
  by (simp add: inCharge_def steady_fields)

lemma steady_nodes:
  "fst (api_List (nodes steady_client) all_objects (snd (api_Get (clusterPolicies steady_client) k example_cluster)))
     = Inr [example_device_node]"
  by (simp add: steady_fields) (simp add: mem_client_def list_api_def example_cluster_def all_objects_def
      fmsubset_alt_def fmpred_iff)

lemma example_device: "\<exists>n\<in>set [example_device_node]. hasRBLNDeviceLabel (nodeLabels n)"
  by (simp add: hasRBLNDeviceLabel_iff rblnDeviceLabels_def nodeLabels_def example_node_def example_device_node_def)

lemma steady_scope: "\<exists>s. NewRBLNClusterPolicyScope steady_client [] example_policy (ci_OpenshiftVersion example_info)
   (ci_ContainerRuntime example_info) = Inr s \<and> sc_namespace s = ''rbln-system'' \<and>
   sc_patcher s = policyPatchers steady_client ''rbln-system'' (cp_Spec example_policy) [] ''containerd''"
  by (simp add: NewRBLNClusterPolicyScope_def example_policy_def resolveNamespace_def Let_def)

lemma wanted_iff: "wanted b x \<longleftrightarrow> (x \<noteq> None) = b"
  by (auto simp: wanted_def)

lemma example_feature_discovery:
  "pt_IsEnabled (policyPatchers c ns (cp_Spec example_policy) osVersion runtime ! 1)"
  by (simp add: policyPatchers_def nfd_Patcher_def patcher_IsEnabled_def NewNPUFeatureDiscoveryPatcher_def
      syncSpec_def example_policy_def IsEnabled_def zero_ClusterPolicySpec_def)

section \<open>Properties\<close>

text \<open>
  C1: On an available server that answers, and with a node on which NFD found a Rebellions device, the
  reconciliation of the policy in charge succeeds and asks for no requeue, as long as no object of the
  policy is controlled by somebody else; it leaves every object of every enabled component present,
  every object of every disabled component absent, and every other deployed object as it was.
\<close>

theorem Reconcile_succeeds:
  assumes "available_client view c" and "quiet_law view c"
    and "answering c \<lparr>ok_Namespace = [], ok_Name = om_Name (cp_Meta inst)\<rparr>"
    and "inCharge c req singleton w = Some inst"
    and "NewRBLNClusterPolicyScope c env inst (ci_OpenshiftVersion info) (ci_ContainerRuntime info) = Inr s"
    and "fst (api_List (nodes c) all_objects (snd (api_Get (clusterPolicies c) req w))) = Inr ns"
    and "\<exists>n\<in>set ns. hasRBLNDeviceLabel (nodeLabels n)"
    and "cluster_scoped inst" and "valid_policy (cp_Spec inst)"
    and "\<forall>k\<in>\<Union> (set (policyObjects (sc_namespace s) (cp_Spec inst) (ci_OpenshiftVersion info) (ci_ContainerRuntime info))).
      claimable (policy_owner inst) k (view w k)"
  shows "\<exists>w'. Reconcile c env info req singleton w = ((Ok noRequeue, om_Name (cp_Meta inst)), w') \<and>
     (\<forall>i<8. \<forall>k\<in>policyObjects (sc_namespace s) (cp_Spec inst) (ci_OpenshiftVersion info) (ci_ContainerRuntime info) ! i.
        (view w' k \<noteq> None) = pt_IsEnabled (sc_patcher s ! i)) \<and>
     (\<forall>k. k \<notin> \<Union> (set (policyObjects (sc_namespace s) (cp_Spec inst) (ci_OpenshiftVersion info) (ci_ContainerRuntime info))) \<longrightarrow>
        view w' k = view w k)"
proof -
  let ?w1 = "snd (api_Get (clusterPolicies c) req w)"
  have v: "view ?w1 = view w" using assms(2) by (simp add: quiet_law_def)
  obtain w' where ok: "reconcileInstance c env info req inst ?w1 = (Ok noRequeue, w')"
    using reconcileInstance_succeeds [OF assms(1,2,3,5,6,7,8,9), of req] assms(10) v by auto
  have rec: "Reconcile c env info req singleton w = ((Ok noRequeue, om_Name (cp_Meta inst)), w')"
    using Reconcile_inCharge [OF assms(4), of env info] ok assms(4)
    by (auto simp: Let_def inCharge_def split: sum.splits if_splits)
  show ?thesis
    by (intro exI [of _ w'] conjI allI impI ballI rec)
       (use reconcileInstance_deploys [OF available_lawful [OF assms(1)] assms(2,5,6,7) ok] v
         in \<open>simp_all add: wanted_iff\<close>)
qed

theorem Reconcile_succeeds_witness:
  "\<exists>w'. Reconcile steady_client [] example_info example_request [] example_cluster =
      ((Ok noRequeue, ''rbln-cluster-policy''), w') \<and>
     cl_store w' (objectOf daemonSet_kind ''rbln-npu-feature-discovery'' ''rbln-system'') \<noteq> None"
proof -
  obtain s where s: "NewRBLNClusterPolicyScope steady_client [] example_policy (ci_OpenshiftVersion example_info)
      (ci_ContainerRuntime example_info) = Inr s" and ns: "sc_namespace s = ''rbln-system''"
    and ps: "sc_patcher s = policyPatchers steady_client ''rbln-system'' (cp_Spec example_policy) [] ''containerd''"
    using steady_scope by blast
  have nm: "om_Name (cp_Meta example_policy) = ''rbln-cluster-policy''" by (simp add: example_policy_def)
  have free: "\<forall>k\<in>\<Union> (set (policyObjects (sc_namespace s) (cp_Spec example_policy) (ci_OpenshiftVersion example_info)
      (ci_ContainerRuntime example_info))). claimable (policy_owner example_policy) k (cl_store example_cluster k)"
    by (simp add: claimable_def example_cluster_def empty_cluster_def)
  have obj: "objectOf daemonSet_kind ''rbln-npu-feature-discovery'' ''rbln-system'' \<in>
      policyObjects (sc_namespace s) (cp_Spec example_policy) (ci_OpenshiftVersion example_info) (ci_ContainerRuntime example_info) ! 1"
    unfolding ns by code_simp
  have en: "pt_IsEnabled (sc_patcher s ! 1)"
    unfolding ps by (rule example_feature_discovery)
  show ?thesis
    using Reconcile_succeeds [OF steady_available steady_quiet steady_answering steady_inCharge s
        steady_nodes example_device example_policy_valid(2,1) free] obj en
    by (auto simp: nm dest!: spec [where x = 1])
qed

text \<open>
  C11: Without a node with a Rebellions device the reconciliation of the policy in charge leaves every
  deployed object as it was; when it succeeds it asks to be run again after 30 seconds if no node
  carries NFD labels, and not to be run again otherwise.
\<close>

theorem Reconcile_without_devices:
  assumes "quiet_law view c" and "inCharge c req singleton w = Some inst"
    and "NewRBLNClusterPolicyScope c env inst (ci_OpenshiftVersion info) (ci_ContainerRuntime info) = Inr s"
    and "fst (api_List (nodes c) all_objects (snd (api_Get (clusterPolicies c) req w))) = Inr ns"
    and "\<not> (\<exists>n\<in>set ns. hasRBLNDeviceLabel (nodeLabels n))"
  shows "view (snd (Reconcile c env info req singleton w)) = view w \<and>
     (\<forall>r. fst (fst (Reconcile c env info req singleton w)) = Ok r \<longrightarrow>
        res_RequeueAfter r = (if \<exists>n\<in>set ns. hasNFDLabels (nodeLabels n) then 0 else 30))"
proof -
  let ?w1 = "snd (api_Get (clusterPolicies c) req w)"
  have rec: "snd (Reconcile c env info req singleton w) = snd (reconcileInstance c env info req inst ?w1)"
      "fst (fst (Reconcile c env info req singleton w)) = fst (reconcileInstance c env info req inst ?w1)"
    using Reconcile_inCharge [OF assms(2), of env info] by (simp_all add: Let_def case_prod_beta)
  have "view ?w1 = view w" using assms(1) by (simp add: quiet_law_def)
  then show ?thesis
    unfolding rec
    using reconcileInstance_idle [OF assms(1,3,4,5), of req] reconcileInstance_requeue [OF assms(3,4,5), of req] by auto
qed

theorem Reconcile_without_devices_witness:
  "cl_store (snd (Reconcile steady_client [] example_info example_request [] empty_cluster)) = cl_store empty_cluster"
proof -
  obtain s where s: "NewRBLNClusterPolicyScope steady_client [] example_policy (ci_OpenshiftVersion example_info)
      (ci_ContainerRuntime example_info) = Inr s" using steady_scope by blast
  have ns: "fst (api_List (nodes steady_client) all_objects (snd (api_Get (clusterPolicies steady_client) example_request empty_cluster))) = Inr []"
    by (simp add: steady_fields) (simp add: mem_client_def list_api_def empty_cluster_def)
  from Reconcile_without_devices [OF steady_quiet steady_inCharge s ns] show ?thesis by simp
qed

text \<open>
  C4: Over every run of the controller, with any changes of the cluster between the reconciliations,
  only one policy is deployed: since the singleton was last cleared, only reconciliations of the policy with the
  singleton's name have sent anything but reads and status updates of policies, and none has while it is unset.  A
  singleton is cleared only by a reconciliation of the policy of that name which the server no longer finds.
\<close>

theorem singleton_invariant:
  assumes "policy_run c env info s w ds" and "named_law c"
  shows "set ds \<subseteq> {s} \<and> (s = [] \<longrightarrow> ds = []) \<and>
     (\<forall>req r w'. s \<noteq> [] \<longrightarrow> Reconcile c env info req s w = ((r, []), w') \<longrightarrow>
        ok_Name req = s \<and> (\<exists>e. fst (api_Get (clusterPolicies c) req w) = Inl e \<and> IsNotFound e))"
proof -
  have "ok_Name req = s \<and> (\<exists>e. fst (api_Get (clusterPolicies c) req w) = Inl e \<and> IsNotFound e)"
    if "s \<noteq> []" "Reconcile c env info req s w = ((r, []), w')" for req r w'
    using that Reconcile_singleton [of c env info req s w] by (auto split: sum.splits if_splits)
  then show ?thesis using policy_run_acted [OF assms] by blast
qed

text \<open>
  A run on a server where the update of a node fails with a conflict: the reconciliation of the policy in charge ends with
  this update, and another policy is ignored.
\<close>

definition conflict_client :: "cluster client" where
  "conflict_client = mem_client\<lparr>nodes := (nodes mem_client)\<lparr>api_Update := (\<lambda>_ w. (Inl (Errorf ''conflict''), w))\<rparr>\<rparr>"

lemma conflict_client_named: "named_law conflict_client"
  using mem_client_named by (simp add: named_law_def conflict_client_def)

definition two_policies :: cluster where
  "two_policies = example_cluster\<lparr>cl_policies := [example_policy, zero_ClusterPolicy\<lparr>cp_Meta := new_meta ''other'' []\<rparr>]\<rparr>"

abbreviation other_request :: ObjectKey where
  "other_request \<equiv> \<lparr>ok_Namespace = [], ok_Name = ''other''\<rparr>"

lemma two_policies_run:
  "snd (fst (Reconcile (recording conflict_client) [] example_info example_request [] (two_policies, []))) = ''rbln-cluster-policy''"
  "acted (snd (snd (Reconcile (recording conflict_client) [] example_info example_request [] (two_policies, []))))"
  by code_simp+

theorem singleton_invariant_witness:
  "\<exists>w' ds. policy_run conflict_client [] example_info ''rbln-cluster-policy'' w' ds \<and>
     ''rbln-cluster-policy'' \<in> set ds \<and> set ds \<subseteq> {''rbln-cluster-policy''}"
proof -
  let ?rec = "Reconcile (recording conflict_client) [] example_info example_request [] (two_policies, [])"
  have eq: "?rec = ((fst (fst ?rec), ''rbln-cluster-policy''), (fst (snd ?rec), snd (snd ?rec)))"
    by (metis two_policies_run(1) prod.collapse)
  have run: "policy_run conflict_client [] example_info ''rbln-cluster-policy'' (fst (snd ?rec)) [''rbln-cluster-policy'']"
    using policy_run.reconciliation [OF policy_run.start _ eq] two_policies_run(2) by simp
  let ?other = "Reconcile (recording conflict_client) [] example_info other_request ''rbln-cluster-policy'' (fst (snd ?rec), [])"
  have eq': "?other = ((fst (fst ?other), snd (fst ?other)), (fst (snd ?other), snd (snd ?other)))" by simp
  have kept: "snd (fst ?other) = ''rbln-cluster-policy''"
    using Reconcile_singleton [of "recording conflict_client" "[]" example_info other_request "''rbln-cluster-policy''" "(fst (snd ?rec), [])"]
    by (auto split: sum.splits)
  obtain ds where run': "policy_run conflict_client [] example_info ''rbln-cluster-policy'' (fst (snd ?other)) ds"
      and "''rbln-cluster-policy'' \<in> set ds"
    using policy_run.reconciliation [OF run _ eq'] kept by (fastforce split: if_splits)
  then show ?thesis using singleton_invariant [OF run' conflict_client_named] by blast
qed

text \<open>
  C7: A policy that is not the singleton is never deployed: whatever the server answers, its
  reconciliation sends at most three requests, all of them reads or status updates of cluster
  policies, succeeds, and leaves the singleton's name alone.
\<close>

theorem Reconcile_other_policy:
  assumes "fst (api_Get (clusterPolicies c) req w) = Inr inst"
    and "singleton \<noteq> []" and "singleton \<noteq> om_Name (cp_Meta inst)"
  shows "fst (Reconcile (recording c) env info req singleton (w, [])) = (Ok noRequeue, singleton) \<and>
     list_all policyStatusRequest (snd (snd (Reconcile (recording c) env info req singleton (w, [])))) \<and>
     length (snd (snd (Reconcile (recording c) env info req singleton (w, [])))) \<le> 3"
  using Reconcile_ignored [OF assms, of env info "[]"] by auto

theorem Reconcile_other_policy_witness:
  "fst (Reconcile (recording steady_client) [] example_info example_request ''main'' (example_cluster, [])) = (Ok noRequeue, ''main'')"
proof -
  have "fst (api_Get (clusterPolicies steady_client) example_request example_cluster) = Inr example_policy"
    by (simp add: steady_fields)
  from Reconcile_other_policy [OF this, of "''main''"] show ?thesis by (simp add: example_policy_def)
qed

text \<open>
  C17: The status that a deployed policy is given is always \<open>ready\<close>: whatever the state of the
  DaemonSets, a status update that succeeds has assembled one report per enabled component, read the policy after
  that and written it back, in the world that it leaves, with these reports, the state \<open>ClusterReady\<close> and the condition
  \<open>Ready\<close> true; it keeps an \<open>Error\<close> condition that was set earlier.
\<close>

theorem reconcileStatus_always_ready:
  assumes "NewRBLNClusterPolicyScope c env policy osVersion runtime = Inr s"
    and "reconcileStatus c p s w = (Ok r, w')"
  shows "\<exists>(inst :: RBLNClusterPolicy) (p' :: RBLNClusterPolicy) z sts w1 w2 w3.
     AssembleComponentConditions s w = (Ok sts, w1) \<and>
     api_Get (clusterPolicies c) \<lparr>ok_Namespace = [], ok_Name = om_Name (cp_Meta p)\<rparr> w1 = (Inr inst, w2) \<and>
     setClusterReadyStatus c (setComponents sts inst) (length sts) w2 = (Ok p', w3) \<and>
     api_StatusUpdate (clusterPolicies c) p' w3 = (Inr z, w') \<and>
     cp_Meta p' = cp_Meta inst \<and> cp_Spec p' = cp_Spec inst \<and>
     cpst_State (cp_Status p') = ClusterReady \<and> cpst_Components (cp_Status p') = sts \<and>
     List.map rcs_Name sts = List.map pt_ComponentName (filter pt_IsEnabled (sc_patcher s)) \<and>
     conditionStatus (cpst_Conditions (cp_Status p')) ConditionReady = Some ConditionTrue \<and>
     conditionStatus (cpst_Conditions (cp_Status p')) ConditionError =
       conditionStatus (cpst_Conditions (cp_Status inst)) ConditionError"
proof -
  obtain inst sts p' w1 w2 w3 z where "AssembleComponentConditions s w = (Ok sts, w1)"
      and "api_Get (clusterPolicies c) \<lparr>ok_Namespace = [], ok_Name = om_Name (cp_Meta p)\<rparr> w1 = (Inr inst, w2)"
      and "List.map rcs_Name sts = List.map pt_ComponentName (filter pt_IsEnabled (sc_patcher s))"
      and "setClusterReadyStatus c (setComponents sts inst) (length sts) w2 = (Ok p', w3)"
      and "statusWritten ClusterReady ConditionTrue (setComponents sts inst) p'"
      and "api_StatusUpdate (clusterPolicies c) p' w3 = (Inr z, w')"
    using reconcileStatus_ready [OF assms] by blast
  then show ?thesis
    by (intro exI [of _ inst] exI [of _ p'] exI [of _ z] exI [of _ sts] exI [of _ w1] exI [of _ w2] exI [of _ w3])
       (simp add: statusWritten_def setComponents_def)
qed

text \<open>A policy is stored as ready in a cluster that has none of its DaemonSets.\<close>

definition posting_client :: "cluster client" where
  "posting_client = steady_client\<lparr>clusterPolicies :=
     (clusterPolicies steady_client)\<lparr>api_StatusUpdate := (\<lambda>p w. (Inr p, w\<lparr>cl_policies := [p]\<rparr>))\<rparr>\<rparr>"

lemma posting_answering: "answering posting_client key"
  using steady_answering [of key] by (simp add: answering_def posting_client_def)

theorem reconcileStatus_always_ready_witness:
  "\<exists>s w' p'. NewRBLNClusterPolicyScope posting_client [] example_policy [] ''containerd'' = Inr s \<and>
     cl_store example_cluster = Map.empty \<and>
     reconcileStatus posting_client example_policy s example_cluster = (Ok noRequeue, w') \<and> cl_policies w' = [p'] \<and>
     om_Name (cp_Meta p') = ''rbln-cluster-policy'' \<and> cpst_State (cp_Status p') = ClusterReady \<and>
     conditionStatus (cpst_Conditions (cp_Status p')) ConditionReady = Some ConditionTrue"
proof -
  obtain s where s: "NewRBLNClusterPolicyScope posting_client [] example_policy [] ''containerd'' = Inr s"
    by (simp add: NewRBLNClusterPolicyScope_def example_policy_def resolveNamespace_def Let_def)
  obtain w' where run: "reconcileStatus posting_client example_policy s example_cluster = (Ok noRequeue, w')"
    using reconcileStatus_answers [OF s posting_answering] by blast
  have empty: "cl_store example_cluster = Map.empty" by (simp add: example_cluster_def empty_cluster_def)
  from reconcileStatus_always_ready [OF s run] s run empty show ?thesis
    by (fastforce simp: posting_client_def steady_fields example_policy_def)
qed

text \<open>
  The state update of a policy never fails and sends at most a read and a status update of
  policies; when the read fails it still writes the state, to an object without a name.
\<close>

theorem updateCRState_requests:
  "emits (updateCRState (recording c) key state) (\<lambda>r l. r = Ok () \<and> list_all policyStatusRequest l \<and> length l \<le> 2) \<and>
   (fst (api_Get (clusterPolicies c) key w) = Inl e \<longrightarrow> state \<noteq> ClusterStateEmpty \<longrightarrow>
      updateCRState c key state w =
        catch (bind (call (api_StatusUpdate (clusterPolicies c) (SetStatus state zero_ClusterPolicy))) (\<lambda>_. ret ()))
          (\<lambda>_. ret ()) (snd (api_Get (clusterPolicies c) key w)))"
  by (intro conjI impI updateCRState_emits updateCRState_getError)

theorem updateCRState_requests_witness:
  "updateCRState mem_client example_request ClusterNotReady empty_cluster =
     catch (bind (call (api_StatusUpdate (clusterPolicies mem_client) (SetStatus ClusterNotReady zero_ClusterPolicy))) (\<lambda>_. ret ()))
       (\<lambda>_. ret ()) empty_cluster"
proof -
  have get: "api_Get (clusterPolicies mem_client) example_request empty_cluster = (Inl notFound, empty_cluster)"
    by (simp add: mem_client_def list_api_def empty_cluster_def)
  then show ?thesis
    using updateCRState_requests [of mem_client example_request ClusterNotReady empty_cluster notFound] by simp
qed

text \<open>
  An update of a node triggers a reconciliation of the policy exactly when a label with the
  prefix \<open>rebellions.ai/\<close> was added, removed or changed; the labels by which NFD reports a device
  have another prefix, so that a change of these alone triggers none.
\<close>

theorem rblnNodeLabelUpdated_iff:
  "rblnNodeLabelUpdated (UpdateEvent (Some oldNode) (Some newNode)) =
     (\<exists>k. HasPrefix k ''rebellions.ai/'' \<and> fmlookup (nodeLabels oldNode) k \<noteq> fmlookup (nodeLabels newNode) k) \<and>
   \<not> (\<exists>k v. fmlookup rblnDeviceLabels k = Some v \<and> HasPrefix k ''rebellions.ai/'')"
  using device_not_rebellions
  by (auto simp: rblnNodeLabelUpdated_def nodeLabels_def fmfilter_neq_iff)

end
