(* ===== verification/Driver_Guarantees.thy ===== *)
theory Driver_Guarantees
  imports Driver_Runs Policy_Guarantees
begin

text \<open>
  The guarantees of the reconciler of drivers: that the deployment of a driver succeeds and what it
  leaves, that a driver in conflict with another is not deployed, that a missing policy is reported
  once, when the objects that drivers share are removed, and which events of nodes reach it.
\<close>

section \<open>Success of a deployment\<close>

text \<open>The spec has an image for every system and kernel.\<close>

definition precompilable :: "RBLNDriverSpec \<Rightarrow> bool" where
  "precompilable s \<longleftrightarrow> TrimSpace (drs_Version s) \<noteq> [] \<and>
     \<not> Contains (TrimPrefix (TrimSpace (drs_Image s)) ''/'') ''@sha256:'' \<and>
     \<not> Contains (TrimSpace (drs_Version s)) ''sha256:''"

lemma precompilable_iff:
  "(\<exists>i. GetPrecompiledImagePath s os kver = Inr i) \<longleftrightarrow> os \<noteq> [] \<and> kver \<noteq> [] \<and> precompilable s"
  by (simp add: GetPrecompiledImagePath_def precompilable_def Let_def)

text \<open>A node whose labels name its system and its kernel.\<close>

definition identified :: "Node \<Rightarrow> bool" where
  "identified n \<longleftrightarrow> (\<forall>k\<in>{nfdOSReleaseIDLabelKey, nfdOSVersionIDLabelKey, nfdKernelLabelKey}.
     map_get (om_Labels (node_Meta n)) k \<noteq> [])"

lemma identified_pool:
  assumes "identified n" and "buildNodePool n sel = Some pool"
  shows "getOS pool \<noteq> []" and "np_kernel pool \<noteq> []"
  using assms by (auto simp: identified_def buildNodePool_def getNodeLabel_def getOS_def map_get_def Let_def
      split: option.splits)

lemma identified_has_pool: "identified n \<Longrightarrow> \<exists>pool. buildNodePool n sel = Some pool"
  by (auto simp: identified_def buildNodePool_def getNodeLabel_def map_get_def Let_def split: option.splits)

lemma drv_podSpec_ok:
  assumes "precompilable s" and "getOS pool \<noteq> []" and "np_kernel pool \<noteq> []"
  shows "\<exists>p. drv_podSpec h s pool = Inr p"
proof (cases "drv_podSpec h s pool")
  case (Inl e)
  then have "\<exists>e. GetPrecompiledImagePath s (getOS pool) (np_kernel pool) = Inl e"
    using drv_podSpec_fails_iff [of h s pool] by blast
  then show ?thesis using assms precompilable_iff [of s "getOS pool" "np_kernel pool"] by auto
qed simp

lemma achieves_sharedObjects:
  assumes "available_client view c"
  shows "achieves view owner {objectOf serviceAccount_kind n ns}
      (reconcile serviceAccount_kind (serviceAccounts c) (NewServiceAccountBuilder n ns) sharedServiceAccount)"
    "achieves view owner {objectOf role_kind n ns}
      (reconcile role_kind (roles c) (NewRoleBuilder n ns) (sharedRole rules))"
    "achieves view owner {objectOf roleBinding_kind n ns}
      (reconcile roleBinding_kind (roleBindings c) (NewRoleBindingBuilder n ns) (sharedRoleBinding ref subj))"
    "achieves view owner {objectOf configMap_kind n ns}
      (reconcile configMap_kind (configMaps c) (NewConfigMapBuilder n ns) (sharedConfigMap data))"
  by (rule sharedSA.achieves_reconcile sharedRO.achieves_reconcile sharedRB.achieves_reconcile
        sharedCM.achieves_reconcile,
      rule lawful_clientD [OF available_lawful [OF assms]], rule available_clientD [OF assms],
      rule stored_kinds, rule builder_keys,
      simp add: sharedServiceAccount_def sharedRole_def sharedRoleBinding_def sharedConfigMap_def,
      simp add: sharedServiceAccount_def sharedRole_def sharedRoleBinding_def sharedConfigMap_def)+

lemma drv_shared_achieves:
  assumes "available_client view c"
  shows "achieves view owner (drv_sharedObjects h) (drv_shared c h)"
  unfolding drv_handlers
  by (rule achieves_eq, (rule achieves_intros achieves_sharedObjects assms | simp; fail)+)
     (auto simp: drv_sharedObjects_def rbacObjects_def)

lemma drv_handleDaemonSet_achieves:
  assumes avail: "available_client view c" and own: "om_Namespace (dr_Meta owner) = []"
    and pod: "drv_podSpec h s pool = Inr podSpec"
  shows "achieves view (driver_owner owner) {drv_poolObject h pool} (drv_handleDaemonSet c h s owner pool)"
proof -
  have ok: "is_ok (drv_mutateDaemonSet (drv_labels h pool) s podSpec owner ds) = is_ok (WithOwner (driver_owner owner) (ds_Meta ds))" for ds
    unfolding drv_mutateDaemonSet_eq ownedBy_ok
    by (rule WithOwner_ok_cong) (simp_all add: kind_defs daemonSet_steps)
  have fresh: "is_ok (WithOwner (driver_owner owner) (new_meta n ns))" for n ns
    by (rule WithOwner_fresh) (simp add: driver_owner_def own)
  show ?thesis
    unfolding drv_handleDaemonSet_def pod sum.case drv_poolObject_def
    by (rule mutator.achieves_reconcile [OF drv_ds.mutator_axioms],
        rule lawful_clientD [OF available_lawful [OF avail]], rule available_clientD [OF avail],
        rule stored_kinds, rule builder_keys)
       (simp_all add: ok fresh kind_defs NewDaemonSetBuilder_def)
qed

lemma drv_pools_achieve:
  assumes "available_client view c" and "om_Namespace (dr_Meta owner) = []"
    and "\<And>pool. pool \<in> set pools \<Longrightarrow> \<exists>p. drv_podSpec h s pool = Inr p" and "distinct (List.map np_name pools)"
  shows "achieves view (driver_owner owner) (drv_poolObject h ` set pools)
     (seqE (List.map (drv_handleDaemonSet c h s owner) pools))"
  using assms(3,4)
proof (induction pools)
  case (Cons p pools)
  then obtain podSpec where "drv_podSpec h s p = Inr podSpec" by fastforce
  moreover have "{drv_poolObject h p} \<inter> drv_poolObject h ` set pools = {}"
    using Cons.prems(2) by (auto simp: drv_poolObject_def objectOf_def drv_dsName_inj)
  ultimately show ?case
    using achieves_seqE_Cons [OF drv_handleDaemonSet_achieves [OF assms(1,2)] Cons.IH] Cons.prems by simp
qed (use achieves_seqE_Nil in simp)

lemma unit_okE:
  fixes m :: "('w, unit) op"
  assumes "is_ok (fst (m w))"
  obtains w' where "m w = (Ok (), w')"
  using assms by (cases "m w") (auto simp: is_ok_iff)

lemma drv_Patch_success:
  assumes avail: "available_client view c" and quiet: "quiet_law view c" and ord: "permutes mapOrder"
    and own: "om_Namespace (dr_Meta owner) = []" and spec: "desiredSpec h = Some s" "precompilable s"
    and ns: "\<And>w. fst (api_List (nodes c) (poolSelector s) w) = Inr ns" "\<And>n. n \<in> set ns \<Longrightarrow> identified n"
    and free: "\<And>k. k \<in> drv_sharedObjects h \<Longrightarrow> claimable (driver_owner owner) k (view w k)"
      "\<And>n pool. n \<in> set ns \<Longrightarrow> buildNodePool n (buildNodeSelector (drs_NodeSelector s)) = Some pool \<Longrightarrow>
        claimable (driver_owner owner) (drv_poolObject h pool) (view w (drv_poolObject h pool))"
  shows "\<exists>w'. drv_Patch c h mapOrder owner w = (Ok (), w')"
proof -
  let ?sel = "buildNodeSelector (drs_NodeSelector s)"
  let ?pools = "mapOrder (collectPools ?sel ns [])"
  have "is_ok (fst (drv_shared c h w))" using achievesD [OF drv_shared_achieves [OF avail]] free by blast
  then obtain w1 where sh: "drv_shared c h w = (Ok (), w1)" by (rule unit_okE)
  obtain w2 where l: "api_List (nodes c) (poolSelector s) w1 = (Inr ns, w2)" using ns(1) by (metis prod.collapse)
  have view2: "view w2 = view w1" using quiet l by (metis quiet_law_def snd_conv)
  have pool_node: "\<exists>n\<in>set ns. buildNodePool n ?sel = Some pool" if "pool \<in> set ?pools" for pool
    using that collectPools_sound [of pool ?sel ns "[]"] by (auto simp: permutes_set [OF ord])
  have pods: "\<exists>p. drv_podSpec h s pool = Inr p" if "pool \<in> set ?pools" for pool
    using pool_node [OF that] drv_podSpec_ok [OF spec(2)] identified_pool ns(2) by blast
  have dist: "distinct (List.map np_name ?pools)"
    using permutes_distinct [OF ord] collectPools_named by blast
  have "claimable (driver_owner owner) k (view w2 k)" if k: "k \<in> drv_poolObject h ` set ?pools" for k
  proof -
    have "k \<notin> drv_sharedObjects h" using k shared_no_daemonSet by blast
    then have "view (snd (drv_shared c h w)) k = view w k"
      using drv_shared_achieves [OF avail, of "driver_owner owner" h] unfolding achieves_def frame_def by blast
    moreover obtain pool n where "k = drv_poolObject h pool" "n \<in> set ns" "buildNodePool n ?sel = Some pool"
      using k pool_node by blast
    ultimately show ?thesis using free(2) view2 sh by simp
  qed
  then have "is_ok (fst (seqE (List.map (drv_handleDaemonSet c h s owner) ?pools) w2))"
    using achievesD [OF drv_pools_achieve [OF avail own pods dist]] by blast
  then obtain w3 where seq: "seqE (List.map (drv_handleDaemonSet c h s owner) ?pools) w2 = (Ok (), w3)"
    by (rule unit_okE)
  have "getNodePools c mapOrder (drs_NodeSelector s) w1 = (Ok ?pools, w2)"
    using l by (simp add: getNodePools_def Let_def poolSelector_def op_defs)
  then show ?thesis
    using sh seq unfolding drv_Patch_def withSpec_def spec(1) option.case
    by (auto simp: drv_IsEnabled_def spec(1) bind_Ok bind_Ok [where m = "getNodePools c mapOrder (drs_NodeSelector s)"] ret_def)
qed

text \<open>
  The deployment of a driver succeeds on an available server, for a driver whose spec has an image
  for every kernel, when the selected nodes carry their discovery labels and no object of the driver is controlled by
  somebody else.  It leaves all objects that drivers share and a DaemonSet for the pool of every
  selected node, and every other object as it was, in whatever order the map of pools is traversed.
\<close>

lemma drv_Patch_outcome:
  assumes "available_client view c" and "quiet_law view c" and "permutes mapOrder"
    and "om_Namespace (dr_Meta owner) = []" and "desiredSpec h = Some s" and "precompilable s"
    and "\<And>w. fst (api_List (nodes c) (poolSelector s) w) = Inr ns" and "\<And>n. n \<in> set ns \<Longrightarrow> identified n"
    and "\<And>k. k \<in> drv_sharedObjects h \<Longrightarrow> claimable (driver_owner owner) k (view w k)"
    and "\<And>n pool. n \<in> set ns \<Longrightarrow> buildNodePool n (buildNodeSelector (drs_NodeSelector s)) = Some pool \<Longrightarrow>
        claimable (driver_owner owner) (drv_poolObject h pool) (view w (drv_poolObject h pool))"
  shows "\<exists>w'. drv_Patch c h mapOrder owner w = (Ok (), w') \<and>
     (\<forall>k\<in>drv_sharedObjects h. view w' k \<noteq> None) \<and>
     (\<forall>n\<in>set ns. \<exists>pool. buildNodePool n (buildNodeSelector (drs_NodeSelector s)) = Some pool \<and>
        view w' (drv_poolObject h pool) \<noteq> None) \<and>
     (\<forall>k. k \<notin> drv_sharedObjects h \<longrightarrow> (\<forall>n\<in>set ns. \<forall>pool.
        buildNodePool n (buildNodeSelector (drs_NodeSelector s)) = Some pool \<longrightarrow> k \<noteq> drv_poolObject h pool) \<longrightarrow>
        view w' k = view w k)"
proof -
  have "\<exists>w'. drv_Patch c h mapOrder owner w = (Ok (), w')"
    by (rule drv_Patch_success [OF assms(1-7)]) (fact assms(8-10))+
  then obtain w' where ok: "drv_Patch c h mapOrder owner w = (Ok (), w')" by blast
  let ?sel = "buildNodeSelector (drs_NodeSelector s)"
  show ?thesis
  proof (rule drv_Patch_deploys [OF available_lawful [OF assms(1)] assms(2,3,5) ok])
    fix ns' w1 w2
    assume "api_List (nodes c) (poolSelector s) w1 = (Inr ns', w2)"
    then have ns: "ns' = ns" using assms(7) [of w1] by simp
    assume shared: "\<And>k. k \<in> drv_sharedObjects h \<Longrightarrow> view w' k \<noteq> None"
      and pools: "\<And>n pool. n \<in> set ns' \<Longrightarrow> buildNodePool n ?sel = Some pool \<Longrightarrow> view w' (drv_poolObject h pool) \<noteq> None"
      and rest: "\<And>k. k \<notin> drv_sharedObjects h \<Longrightarrow>
        (\<And>n pool. n \<in> set ns' \<Longrightarrow> buildNodePool n ?sel = Some pool \<Longrightarrow> k \<noteq> drv_poolObject h pool) \<Longrightarrow> view w' k = view w k"
    have "\<exists>pool. buildNodePool n ?sel = Some pool \<and> view w' (drv_poolObject h pool) \<noteq> None" if "n \<in> set ns" for n
      using identified_has_pool [OF assms(8) [OF that], of ?sel] pools [of n] that ns by blast
    moreover have "view w' k = view w k" if "k \<notin> drv_sharedObjects h"
      "\<forall>n\<in>set ns. \<forall>pool. buildNodePool n ?sel = Some pool \<longrightarrow> k \<noteq> drv_poolObject h pool" for k
      using rest [of k] that ns by blast
    ultimately show ?thesis using ok shared by blast
  qed
qed

section \<open>Removal\<close>

text \<open>\<open>m\<close> always succeeds, removes the objects \<open>K\<close> and leaves all others alone.\<close>

definition removes :: "('w \<Rightarrow> store) \<Rightarrow> (kind \<times> ObjectKey) set \<Rightarrow> ('w, unit) op \<Rightarrow> bool" where
  "removes view K m \<longleftrightarrow> (\<forall>w. \<exists>w'. m w = (Ok (), w') \<and> (\<forall>k. view w' k = (if k \<in> K then None else view w k)))"

named_theorems removes_intros "composition of removals"

lemma removes_seqE_Nil [removes_intros]: "removes view {} (seqE [])"
  by (simp add: removes_def ret_def)

lemma removes_seqE_Cons [removes_intros]:
  assumes "removes view K m" and "removes view K' (seqE ms)"
  shows "removes view (K \<union> K') (seqE (m # ms))"
  unfolding removes_def
proof
  fix w
  obtain w1 where w1: "m w = (Ok (), w1)" "\<And>k. view w1 k = (if k \<in> K then None else view w k)"
    using assms(1) unfolding removes_def by blast
  obtain w2 where w2: "seqE ms w1 = (Ok (), w2)" "\<And>k. view w2 k = (if k \<in> K' then None else view w1 k)"
    using assms(2) unfolding removes_def by blast
  have "seqE (m # ms) w = (Ok (), w2)" using w1(1) w2(1) by (simp add: bind_def)
  then show "\<exists>w'. seqE (m # ms) w = (Ok (), w') \<and> (\<forall>k. view w' k = (if k \<in> K \<union> K' then None else view w k))"
    using w1(2) w2(2) by auto
qed

lemma removes_whenE [removes_intros]:
  "removes view K (seqE ms) \<Longrightarrow> removes view (if b then K else {}) (whenE b ms)"
  using removes_seqE_Nil by (auto simp: whenE_def)

lemma removes_delete:
  assumes law: "store_law view kd mk api" and acc: "accept_law view kd mk api"
  shows "removes view {objectOf kd n ns} (deleteIfPresent api n ns)"
  unfolding removes_def
proof
  fix w
  have est: "establishes view {objectOf kd n ns} (\<lambda>x. x = None) (deleteIfPresent api n ns)"
    using establishes_delete [OF law, of ns n] by (simp add: objectOf_def)
  have "is_ok (fst (deleteIfPresent api n ns w))"
    using acc unfolding accept_law_def deleteIfPresent_eq by (auto split: prod.splits sum.splits)
      (metis fst_conv sum.simps(5))
  then obtain w' where w': "deleteIfPresent api n ns w = (Ok (), w')" by (rule unit_okE)
  moreover have "view w' k = None" if "k \<in> {objectOf kd n ns}" for k
    using establishesD [OF est, of w k] w' that by simp
  moreover have "view w' k = view w k" if "k \<notin> {objectOf kd n ns}" for k
    using est w' that unfolding establishes_def frame_def by (metis snd_conv)
  ultimately show "\<exists>w'. deleteIfPresent api n ns w = (Ok (), w') \<and>
      (\<forall>k. view w' k = (if k \<in> {objectOf kd n ns} then None else view w k))"
    by (intro exI [of _ w'] conjI allI) auto
qed

lemma removes_deletes [removes_intros]:
  assumes "available_client view c"
  shows "removes view {objectOf serviceAccount_kind n ns} (deleteIfPresent (serviceAccounts c) n ns)"
    "removes view {objectOf role_kind n ns} (deleteIfPresent (roles c) n ns)"
    "removes view {objectOf roleBinding_kind n ns} (deleteIfPresent (roleBindings c) n ns)"
    "removes view {objectOf clusterRole_kind n ns} (deleteIfPresent (clusterRoles c) n ns)"
    "removes view {objectOf clusterRoleBinding_kind n ns} (deleteIfPresent (clusterRoleBindings c) n ns)"
    "removes view {objectOf configMap_kind n ns} (deleteIfPresent (configMaps c) n ns)"
    "removes view {objectOf daemonSet_kind n ns} (deleteIfPresent (daemonSets c) n ns)"
  using lawful_clientD [OF available_lawful [OF assms]] available_clientD [OF assms]
  by (blast intro: removes_delete)+

definition daemonSetObject :: "DaemonSet \<Rightarrow> kind \<times> ObjectKey" where
  "daemonSetObject d = objectOf daemonSet_kind (om_Name (ds_Meta d)) (om_Namespace (ds_Meta d))"

lemma removes_daemonSets:
  assumes "available_client view c"
  shows "removes view (daemonSetObject ` set dsList)
     (seqE (List.map (\<lambda>ds. deleteIfPresent (daemonSets c) (om_Name (ds_Meta ds)) (om_Namespace (ds_Meta ds))) dsList))"
proof (induction dsList)
  case (Cons d dsList)
  then show ?case
    using removes_seqE_Cons [OF removes_deletes(7) [OF assms] Cons]
    by (simp add: daemonSetObject_def del: seqE.simps)
qed (use removes_seqE_Nil in simp)

lemma removes_shared:
  assumes "available_client view c"
  shows "removes view (drv_sharedObjects h) (seqE [
       deleteIfPresent (clusterRoleBindings c) (name h) [],
       deleteIfPresent (clusterRoles c) (name h) [],
       deleteIfPresent (configMaps c) (startupProbeConfigMapName h) (namespace h),
       whenE (openshiftVersion h \<noteq> []) [
         deleteIfPresent (roleBindings c) (name h) (namespace h),
         deleteIfPresent (roles c) (name h) (namespace h)],
       deleteIfPresent (serviceAccounts c) (name h) (namespace h)])"
proof -
  let ?K = "{objectOf clusterRoleBinding_kind (name h) []} \<union> ({objectOf clusterRole_kind (name h) []} \<union>
     ({objectOf configMap_kind (startupProbeConfigMapName h) (namespace h)} \<union>
      ((if openshiftVersion h \<noteq> [] then {objectOf roleBinding_kind (name h) (namespace h)} \<union>
          ({objectOf role_kind (name h) (namespace h)} \<union> {}) else {}) \<union>
       ({objectOf serviceAccount_kind (name h) (namespace h)} \<union> {}))))"
  have "?K = drv_sharedObjects h" by (auto simp: drv_sharedObjects_def rbacObjects_def)
  moreover have "removes view ?K (seqE [
       deleteIfPresent (clusterRoleBindings c) (name h) [],
       deleteIfPresent (clusterRoles c) (name h) [],
       deleteIfPresent (configMaps c) (startupProbeConfigMapName h) (namespace h),
       whenE (openshiftVersion h \<noteq> []) [
         deleteIfPresent (roleBindings c) (name h) (namespace h),
         deleteIfPresent (roles c) (name h) (namespace h)],
       deleteIfPresent (serviceAccounts c) (name h) (namespace h)])"
    by (intro removes_intros assms)
  ultimately show ?thesis by simp
qed

lemma buildNodeSelector_lookup:
  "fmlookup (buildNodeSelector sel) k =
     (case fmlookup sel k of Some v \<Rightarrow> Some v | None \<Rightarrow> if k = driverManagerDeployLabelKey then Some ''true'' else None)"
  by (auto simp: buildNodeSelector_def fmlookup_dom_iff split: option.splits)

lemma selects_cong:
  assumes "\<And>k v. fmlookup sel k = Some v \<Longrightarrow> map_get labels k = map_get labels' k \<and> v \<noteq> []"
  shows "selects sel labels = selects sel labels'"
proof -
  have "fmlookup labels k = Some v \<longleftrightarrow> fmlookup labels' k = Some v" if "fmlookup sel k = Some v" for k v
    using assms [OF that] by (auto simp: map_get_def split: option.splits)
  then show ?thesis by (auto simp: selects_def)
qed

section \<open>Properties\<close>

text \<open>
  C19: A missing cluster policy is reported once: the driver is written back not ready with the reason
  \<open>MissingClusterPolicy\<close>, and when it already is reported so, nothing at all is sent.
\<close>

theorem missing_policy_reported_once:
  assumes "api_List (clusterPolicies c) all_objects w = (Inr [], w1)"
  shows "if notReadyWith ''MissingClusterPolicy'' ''RBLNClusterPolicy not found in the cluster'' inst
     then reconcileDriver c mapOrder env osVersion inst w = (Ok noRequeue, w1)
     else \<exists>d w2. notReadyWith ''MissingClusterPolicy'' ''RBLNClusterPolicy not found in the cluster'' d \<and>
        dr_Meta d = dr_Meta inst \<and> dr_Spec d = dr_Spec inst \<and>
        reconcileDriver c mapOrder env osVersion inst w = bind (updateDriverStatus c d) (\<lambda>_. ret noRequeue) w2"
proof -
  let ?set = "setDriverStatusNotReady c inst ''MissingClusterPolicy'' ''RBLNClusterPolicy not found in the cluster''"
  have eq: "reconcileDriver c mapOrder env osVersion inst w = bind ?set (\<lambda>_. ret noRequeue) w1"
    using assms by (simp add: reconcileDriver_def op_defs)
  show ?thesis
  proof (cases "notReadyWith ''MissingClusterPolicy'' ''RBLNClusterPolicy not found in the cluster'' inst")
    case True
    then show ?thesis using setDriverStatusNotReady_cases(1) [OF True, of c] by (simp add: eq bind_def ret_def)
  next
    case False
    obtain d w2 where "?set w1 = updateDriverStatus c d w2"
      and "notReadyWith ''MissingClusterPolicy'' ''RBLNClusterPolicy not found in the cluster'' d"
      and "dr_Meta d = dr_Meta inst" "dr_Spec d = dr_Spec inst"
      using setDriverStatusNotReady_cases(2) [OF False, of c w1] by blast
    moreover from this(1) have "bind ?set (\<lambda>_. ret noRequeue) w1 = bind (updateDriverStatus c d) (\<lambda>_. ret noRequeue) w2"
      by (simp only: bind_def)
    ultimately show ?thesis using False by (auto simp: eq)
  qed
qed

theorem missing_policy_reported_once_witness:
  "\<exists>d w2. notReadyWith ''MissingClusterPolicy'' ''RBLNClusterPolicy not found in the cluster'' d \<and>
     dr_Meta d = dr_Meta (example_driver ''a'') \<and>
     reconcileDriver mem_client (\<lambda>ps. ps) [] [] (example_driver ''a'') empty_cluster =
       bind (updateDriverStatus mem_client d) (\<lambda>_. ret noRequeue) w2"
proof -
  have l: "api_List (clusterPolicies mem_client) all_objects empty_cluster = (Inr [], empty_cluster)"
    by (simp add: mem_client_def list_api_def empty_cluster_def)
  have "\<not> notReadyWith ''MissingClusterPolicy'' ''RBLNClusterPolicy not found in the cluster'' (example_driver ''a'')"
    by (simp add: notReadyWith_def example_driver_def zero_Driver_def FindStatusCondition_def)
  then show ?thesis
    using missing_policy_reported_once [OF l, of "example_driver ''a''" "\<lambda>ps. ps" "[]" "[]"] by auto
qed

text \<open>
  The method \<open>CleanUp\<close> of the driver's patcher removes the listed DaemonSets; the objects that drivers share are removed
  with the last driver and kept as long as another driver exists; every other object stays as it was.  No
  reconciliation calls it, because the patcher is always enabled.
\<close>

theorem drv_CleanUp_correct:
  assumes avail: "available_client view c"
    and dss: "api_List (daemonSets c) (drv_instanceSelector h) w = (Inr dsList, w1)" "view w1 = view w"
    and drivers: "\<And>w. api_List (drivers c) all_objects w = (Inr drvs, w)"
  shows "\<exists>w'. drv_CleanUp c h (Some owner) w = (Ok (), w') \<and>
     (\<forall>k. view w' k = (if k \<in> daemonSetObject ` set dsList then None
        else if k \<in> drv_sharedObjects h \<and> (\<forall>d\<in>set drvs. om_Name (dr_Meta d) = om_Name (dr_Meta owner)) then None
        else view w k))"
proof -
  let ?dels = "seqE (List.map (\<lambda>ds. deleteIfPresent (daemonSets c) (om_Name (ds_Meta ds)) (om_Namespace (ds_Meta ds))) dsList)"
  let ?others = "\<exists>d\<in>set drvs. om_Name (dr_Meta d) \<noteq> om_Name (dr_Meta owner)"
  obtain w2 where w2: "?dels w1 = (Ok (), w2)"
      "\<And>k. view w2 k = (if k \<in> daemonSetObject ` set dsList then None else view w1 k)"
    using removes_daemonSets [OF avail, of dsList] unfolding removes_def by blast
  obtain w3 where w3: "seqE [
       deleteIfPresent (clusterRoleBindings c) (name h) [],
       deleteIfPresent (clusterRoles c) (name h) [],
       deleteIfPresent (configMaps c) (startupProbeConfigMapName h) (namespace h),
       whenE (openshiftVersion h \<noteq> []) [
         deleteIfPresent (roleBindings c) (name h) (namespace h),
         deleteIfPresent (roles c) (name h) (namespace h)],
       deleteIfPresent (serviceAccounts c) (name h) (namespace h)] w2 = (Ok (), w3)"
      "\<And>k. view w3 k = (if k \<in> drv_sharedObjects h then None else view w2 k)"
    using removes_shared [OF avail, of h] unfolding removes_def by blast
  have list: "catch (call (api_List (daemonSets c) (drv_instanceSelector h)))
      (\<lambda>e. if \<not> IsNotFound e then fail e else ret []) w = (Ok dsList, w1)"
    using dss(1) by (simp add: catch_def call_def)
  have others: "hasOtherDriverInstances c (Some owner) v = (Ok ?others, v)" for v
    by (auto simp: hasOtherDriverInstances_def bind_def call_def ret_def drivers)
  have eq: "drv_CleanUp c h (Some owner) w = (Ok (), if ?others then w2 else w3)"
    unfolding drv_CleanUp_def bind_def list prod.case outcome.case w2(1) others using w3(1) by (simp add: ret_def)
  show ?thesis
    by (intro exI [of _ "if ?others then w2 else w3"] conjI eq) (use w2(2) w3(2) dss(2) in auto)
qed

theorem drv_CleanUp_correct_witness:
  "\<exists>w'. drv_CleanUp (mem_client\<lparr>drivers := (drivers mem_client)\<lparr>api_List := (\<lambda>_ w. (Inr [], w))\<rparr>\<rparr>)
       (driverPatcher ''rbln'' (example_driver ''a'') []) (Some (example_driver ''a'')) empty_cluster = (Ok (), w') \<and> (\<forall>k. cl_store w' k = None)"
proof -
  let ?c = "mem_client\<lparr>drivers := (drivers mem_client)\<lparr>api_List := (\<lambda>_ w. (Inr [], w))\<rparr>\<rparr>"
  let ?h = "driverPatcher ''rbln'' (example_driver ''a'') []"
  have avail: "available_client cl_store ?c"
    using mem_client_available by (simp add: available_client_def lawful_client_def)
  have dss: "api_List (daemonSets ?c) (drv_instanceSelector ?h) empty_cluster = (Inr [], empty_cluster)"
    by (simp add: mem_client_def mem_api_def)
  have drvs: "api_List (drivers ?c) all_objects w = (Inr [], w)" for w by simp
  obtain w' where ok: "drv_CleanUp ?c ?h (Some (example_driver ''a'')) empty_cluster = (Ok (), w')"
      and "\<forall>k. cl_store w' k = None"
    using drv_CleanUp_correct [OF avail dss refl drvs, of "example_driver ''a''"] by (auto simp: empty_cluster_def)
  then show ?thesis by blast
qed

text \<open>
  C6: A driver one of whose nodes also matches the selector of another driver is not deployed: its
  reconciliation lists policies, nodes and drivers, reports the conflict in the driver's own status,
  sends nothing else and asks for no requeue.
\<close>

theorem conflicting_driver_not_deployed:
  assumes pol: "api_List (clusterPolicies c) all_objects w = (Inr (policy # rest), w1)"
    and nodes: "api_List (nodes c) \<lparr>lo_Namespace = [], lo_MatchingLabels = GetNodeSelector inst\<rparr> w1 = (Inr ns, w2)"
    and drvs: "api_List (drivers c) all_objects w2 = (Inr ds, w3)"
    and conflict: "n \<in> set ns" "d \<in> set ds" "\<not> sameDriver d inst"
      "labelsMatch (om_Labels (node_Meta n)) (GetNodeSelector d)"
  shows "fst (reconcileDriver (recording c) mapOrder env osVersion inst (w, [])) = Ok noRequeue \<and>
     snd (snd (reconcileDriver (recording c) mapOrder env osVersion inst (w, []))) =
       [Request ListVerb ClusterPolicyKind \<lparr>ok_Namespace = [], ok_Name = []\<rparr>,
        Request ListVerb NodeKind \<lparr>ok_Namespace = [], ok_Name = []\<rparr>,
        Request ListVerb DriverKind \<lparr>ok_Namespace = [], ok_Name = []\<rparr>, driverStatusRequest inst]"
proof -
  let ?rc = "recording c"
  let ?q = "\<lambda>kd. Request ListVerb kd \<lparr>ok_Namespace = [], ok_Name = []\<rparr>"
  have l1: "api_List (clusterPolicies ?rc) all_objects (w, []) = (Inr (policy # rest), (w1, [?q ClusterPolicyKind]))"
    and l2: "api_List (nodes ?rc) \<lparr>lo_Namespace = [], lo_MatchingLabels = GetNodeSelector inst\<rparr> (w1, [?q ClusterPolicyKind])
      = (Inr ns, (w2, [?q ClusterPolicyKind, ?q NodeKind]))"
    and l3: "api_List (drivers ?rc) all_objects (w2, [?q ClusterPolicyKind, ?q NodeKind])
      = (Inr ds, (w3, [?q ClusterPolicyKind, ?q NodeKind, ?q DriverKind]))"
    using pol nodes drvs
    by (simp_all add: recording_api_def logged_def all_objects_def policy_kind_def node_kind_def driver_kind_def plain_kind_def)
  have ne: "(ns = []) = False" using conflict(1) by auto
  obtain d' where d': "conflicting inst ns ds = Some d'"
    using conflicting_None_iff [of inst ns ds] conflict by fastforce
  have "\<exists>e. Validate ?rc inst (w1, [?q ClusterPolicyKind]) =
      (Err e, (w3, [?q ClusterPolicyKind, ?q NodeKind, ?q DriverKind]))"
    unfolding Validate_eq [OF l2 l3] d' option.case ne if_False by blast
  then obtain e where "Validate ?rc inst (w1, [?q ClusterPolicyKind]) =
      (Err e, (w3, [?q ClusterPolicyKind, ?q NodeKind, ?q DriverKind]))" ..
  then have eq: "reconcileDriver ?rc mapOrder env osVersion inst (w, []) =
      bind (setDriverStatusError ?rc inst e) (\<lambda>_. ret noRequeue) (w3, [?q ClusterPolicyKind, ?q NodeKind, ?q DriverKind])"
    by (rule reconcileDriver_conflict [OF l1])
  have "emits (bind (setDriverStatusError ?rc inst e) (\<lambda>_. ret noRequeue)) (\<lambda>r l. r = Ok noRequeue \<and> l = [driverStatusRequest inst])"
    by (rule emits_bind [OF setDriverStatusError_emits]) (auto intro: emits_ret)
  from emitsD [OF this, of w3 "[?q ClusterPolicyKind, ?q NodeKind, ?q DriverKind]"] show ?thesis
    unfolding eq by auto
qed

theorem conflicting_driver_not_deployed_witness:
  "fst (reconcileDriver (recording mem_client) (\<lambda>ps. ps) [] [] (example_driver ''a'')
     (empty_cluster\<lparr>cl_policies := [zero_ClusterPolicy], cl_nodes := [example_kernel_node ''n'' ''5.14''],
        cl_drivers := [example_driver ''a'', example_driver ''b'']\<rparr>, [])) = Ok noRequeue"
proof -
  let ?w = "empty_cluster\<lparr>cl_policies := [zero_ClusterPolicy], cl_nodes := [example_kernel_node ''n'' ''5.14''],
        cl_drivers := [example_driver ''a'', example_driver ''b'']\<rparr>"
  have 0: "api_List (clusterPolicies mem_client) all_objects ?w = (Inr (zero_ClusterPolicy # []), ?w)"
    by (simp add: mem_client_def list_api_def all_objects_def fmsubset_alt_def fmpred_iff)
  have 1: "api_List (nodes mem_client) \<lparr>lo_Namespace = [], lo_MatchingLabels = GetNodeSelector (example_driver ''a'')\<rparr> ?w
      = (Inr [example_kernel_node ''n'' ''5.14''], ?w)"
    by (simp add: mem_client_def list_api_def node_kind_def plain_kind_def example_kernel_node_def example_driver_def
        zero_Driver_def zero_DriverSpec_def GetNodeSelector_def fmsubset_alt_def fmpred_iff)
  have 2: "api_List (drivers mem_client) all_objects ?w = (Inr [example_driver ''a'', example_driver ''b''], ?w)"
    by (simp add: mem_client_def list_api_def all_objects_def fmsubset_alt_def fmpred_iff)
  have 3: "\<not> sameDriver (example_driver ''b'') (example_driver ''a'')"
    "labelsMatch (om_Labels (node_Meta (example_kernel_node ''n'' ''5.14''))) (GetNodeSelector (example_driver ''b''))"
    by code_simp+
  from conflicting_driver_not_deployed [OF 0 1 2 _ _ 3] show ?thesis by simp
qed

text \<open>
  C20: Which updates of nodes the driver reconciler may miss.  When an update of a node that carried its discovery labels
  triggers no reconciliation, the node keeps its deploy label and the pool it would belong to; and for a
  driver whose own selector asks for non-empty values of the four watched labels only, as the default does, it is
  selected after the update exactly when it was before.  For every other label there is a driver that selects by it
  and an update that triggers nothing and changes whether the node is selected.
\<close>

theorem driver_events_complete:
  assumes "\<not> driverRelevantNodeLabelUpdated (UpdateEvent (Some oldNode) (Some newNode))" and "identified oldNode"
  shows "buildNodePool newNode sel = buildNodePool oldNode sel \<and>
     map_get (om_Labels (node_Meta newNode)) driverManagerDeployLabelKey =
       map_get (om_Labels (node_Meta oldNode)) driverManagerDeployLabelKey \<and>
     (fmdom' sel \<subseteq> set interestedLabels \<and> [] \<notin> fmran' sel \<longrightarrow>
        selects (buildNodeSelector sel) (om_Labels (node_Meta newNode)) =
        selects (buildNodeSelector sel) (om_Labels (node_Meta oldNode))) \<and>
     (\<forall>k v. k \<notin> set interestedLabels \<longrightarrow> (\<exists>old new. identified old \<and>
        \<not> driverRelevantNodeLabelUpdated (UpdateEvent (Some old) (Some new)) \<and>
        selects (buildNodeSelector (map_lit [(k, v)])) (om_Labels (node_Meta old)) \<and>
        \<not> selects (buildNodeSelector (map_lit [(k, v)])) (om_Labels (node_Meta new))))"
proof (intro conjI impI allI)
  let ?old = "om_Labels (node_Meta oldNode)" and ?new = "om_Labels (node_Meta newNode)"
  have same: "map_get ?new k = map_get ?old k" if "k \<in> set interestedLabels" for k
    using assms(1) that by (auto simp: driverRelevantNodeLabelUpdated_def list_ex_iff)
  have look: "fmlookup ?new k = fmlookup ?old k"
    if "k \<in> {nfdOSReleaseIDLabelKey, nfdOSVersionIDLabelKey, nfdKernelLabelKey}" for k
  proof -
    have "map_get ?new k = map_get ?old k" using same [of k] that by (auto simp: interestedLabels_def)
    moreover have "map_get ?old k \<noteq> []" using assms(2) that unfolding identified_def by blast
    ultimately show ?thesis by (auto simp: map_get_def split: option.splits)
  qed
  show "buildNodePool newNode sel = buildNodePool oldNode sel"
    unfolding buildNodePool_def getNodeLabel_def Let_def by (simp only: look insert_iff simp_thms)
  show "map_get ?new driverManagerDeployLabelKey = map_get ?old driverManagerDeployLabelKey"
    by (rule same) (simp add: interestedLabels_def)
  show "selects (buildNodeSelector sel) ?new = selects (buildNodeSelector sel) ?old"
    if watched: "fmdom' sel \<subseteq> set interestedLabels \<and> [] \<notin> fmran' sel"
  proof (rule selects_cong)
    fix k v assume "fmlookup (buildNodeSelector sel) k = Some v"
    then have "k = driverManagerDeployLabelKey \<and> v = ''true'' \<or> fmlookup sel k = Some v"
      by (auto simp: buildNodeSelector_lookup split: option.splits if_splits)
    moreover have "driverManagerDeployLabelKey \<in> set interestedLabels" by (simp add: interestedLabels_def)
    moreover have "k \<in> set interestedLabels \<and> v \<noteq> []" if "fmlookup sel k = Some v"
      using watched fmdom'I [OF that] fmran'I [OF that] by blast
    ultimately have "k \<in> set interestedLabels" "v \<noteq> []" by fastforce+
    then show "map_get ?new k = map_get ?old k \<and> v \<noteq> []" using same by blast
  qed
  fix k v assume k: "k \<notin> set interestedLabels"
  let ?n = "example_kernel_node ''n'' ''5.14''"
  let ?with = "\<lambda>labels. ?n\<lparr>node_Meta := (node_Meta ?n)\<lparr>om_Labels := labels\<rparr>\<rparr>"
  let ?a = "?with (fmupd k v (om_Labels (node_Meta ?n)))" and ?b = "?with (fmdrop k (om_Labels (node_Meta ?n)))"
  have "identified ?a" using k by (auto simp: identified_def interestedLabels_def example_kernel_node_def map_get_def)
  moreover have "\<not> driverRelevantNodeLabelUpdated (UpdateEvent (Some ?a) (Some ?b))"
    using k by (auto simp: driverRelevantNodeLabelUpdated_def list_ex_iff map_get_def)
  moreover have "selects (buildNodeSelector (map_lit [(k, v)])) (om_Labels (node_Meta ?a))"
    unfolding selects_def
  proof (intro allI impI)
    fix j u assume "fmlookup (buildNodeSelector (map_lit [(k, v)])) j = Some u"
    moreover have "fmlookup (om_Labels (node_Meta ?n)) driverManagerDeployLabelKey = Some ''true''"
      by (simp add: example_kernel_node_def)
    ultimately show "fmlookup (om_Labels (node_Meta ?a)) j = Some u" by (auto simp: buildNodeSelector_lookup split: if_splits)
  qed
  moreover have "\<not> selects (buildNodeSelector (map_lit [(k, v)])) (om_Labels (node_Meta ?b))"
  proof -
    have "fmlookup (buildNodeSelector (map_lit [(k, v)])) k = Some v" by (simp add: buildNodeSelector_lookup)
    moreover have "fmlookup (om_Labels (node_Meta ?b)) k \<noteq> Some v" by simp
    ultimately show ?thesis unfolding selects_def by blast
  qed
  ultimately show "\<exists>old new. identified old \<and> \<not> driverRelevantNodeLabelUpdated (UpdateEvent (Some old) (Some new)) \<and>
      selects (buildNodeSelector (map_lit [(k, v)])) (om_Labels (node_Meta old)) \<and>
      \<not> selects (buildNodeSelector (map_lit [(k, v)])) (om_Labels (node_Meta new))" by blast
qed

text \<open>An update of none of the watched labels: the default selector selects the node as before.\<close>

theorem driver_events_complete_witness:
  "buildNodePool (example_kernel_node ''n'' ''5.14'') fmempty = buildNodePool (example_kernel_node ''m'' ''5.14'') fmempty \<and>
   selects (buildNodeSelector fmempty) (om_Labels (node_Meta (example_kernel_node ''n'' ''5.14''))) =
   selects (buildNodeSelector fmempty) (om_Labels (node_Meta (example_kernel_node ''m'' ''5.14'')))"
proof -
  have "\<not> driverRelevantNodeLabelUpdated (UpdateEvent (Some (example_kernel_node ''m'' ''5.14'')) (Some (example_kernel_node ''n'' ''5.14'')))"
    by code_simp
  moreover have "identified (example_kernel_node ''m'' ''5.14'')"
    by (simp add: identified_def example_kernel_node_def map_get_def)
  ultimately show ?thesis using driver_events_complete [of _ _ fmempty] by (simp add: fmran'_alt_def)
qed

end
