(* ===== verification/Driver_Outcomes.thy ===== *)
theory Driver_Outcomes
  imports Driver_Guarantees
begin

text \<open>
  The outcomes of a whole reconciliation of a driver: when it succeeds and what it leaves in the
  cluster, and which status it can write.
\<close>

section \<open>Lemmas\<close>

text \<open>A reconciliation that reaches the deployment, and one whose deployment succeeds.\<close>

lemma DriverReconcile_found:
  "api_Get (drivers c) req w = (Inr inst, w1) \<Longrightarrow>
     DriverReconcile c mapOrder env osVersion req w = reconcileDriver c mapOrder env osVersion inst w1"
  by (simp add: DriverReconcile_def op_defs)

lemma reconcileDriver_valid:
  assumes "api_List (clusterPolicies c) all_objects w = (Inr (policy # rest), w1)" and "Validate c inst w1 = (Ok (), w2)"
  shows "reconcileDriver c mapOrder env osVersion inst w = deployDriver c mapOrder env osVersion inst policy w2"
  using assms by (simp add: reconcileDriver_def op_defs)

lemma deployDriver_ok:
  assumes "driverNamespace env (Some policy) inst = ns" and "ns \<noteq> []"
    and "drv_Patch c (driverPatcher ns inst osVersion) mapOrder inst w = (Ok (), w')"
  shows "deployDriver c mapOrder env osVersion inst policy w = (Ok noRequeue, w')"
proof -
  obtain s where s: "NewRBLNDriverScope c mapOrder env inst (Some policy) osVersion = Inr s" "ds_namespace s = ns"
    using assms(1,2) by (simp add: NewRBLNDriverScope_eq Let_def)
  show ?thesis
    unfolding deployDriver_def s(1) sum.case PatchDriverComponents_eq [OF s(1)] s(2)
    using assms(3) by (simp add: op_defs)
qed

text \<open>A driver reported as not ready.\<close>

definition reportedNotReady :: "RBLNDriver \<Rightarrow> bool" where
  "reportedNotReady d \<longleftrightarrow> drst_State (dr_Status d) = DriverStateNotReady \<and>
     conditionStatus (drst_Conditions (dr_Status d)) ConditionReady = Some ConditionFalse"

text \<open>A server that refuses to write any other status of a driver.\<close>

definition guarded :: "'w client \<Rightarrow> 'w client" where
  "guarded c = c\<lparr>drivers := (drivers c)\<lparr>api_StatusUpdate := (\<lambda>d w.
     if reportedNotReady d then api_StatusUpdate (drivers c) d w else (Inl (Errorf ''refused''), w))\<rparr>\<rparr>"

lemma guarded_fields [simp]:
  "serviceAccounts (guarded c) = serviceAccounts c" "roles (guarded c) = roles c" "roleBindings (guarded c) = roleBindings c"
  "clusterRoles (guarded c) = clusterRoles c" "clusterRoleBindings (guarded c) = clusterRoleBindings c"
  "configMaps (guarded c) = configMaps c" "daemonSets (guarded c) = daemonSets c" "nodes (guarded c) = nodes c"
  "clusterPolicies (guarded c) = clusterPolicies c" "now (guarded c) = now c"
  "api_Get (drivers (guarded c)) = api_Get (drivers c)" "api_List (drivers (guarded c)) = api_List (drivers c)"
  by (simp_all add: guarded_def)

lemma updateDriverStatus_guarded: "reportedNotReady d \<Longrightarrow> updateDriverStatus (guarded c) d = updateDriverStatus c d"
  by (simp add: updateDriverStatus_def guarded_def call_def)

lemma setCondition_guarded: "setCondition (guarded c) = setCondition c"
  by (intro ext) (simp add: setCondition_def read_clock_def)

lemma setDriverStatusError_guarded: "setDriverStatusError (guarded c) inst e = setDriverStatusError c inst e"
proof
  fix w
  show "setDriverStatusError (guarded c) inst e w = setDriverStatusError c inst e w"
    by (simp add: setDriverStatusError_def setCondition_guarded setCondition_def read_clock_def bind_def ret_def
        updateDriverStatus_guarded reportedNotReady_def setDriverStatus_def conditionStatus_set mkCondition_def
        split: prod.splits)
qed

lemma setDriverStatusNotReady_guarded:
  "setDriverStatusNotReady (guarded c) inst reason message = setDriverStatusNotReady c inst reason message"
proof
  fix w
  let ?new = "mkCondition ConditionReady ConditionFalse reason message"
  have should: "shouldUpdateCondition (guarded c) = shouldUpdateCondition c"
    unfolding shouldUpdateCondition_def setCondition_guarded ..
  obtain cs b w' where r: "shouldUpdateCondition c (drst_Conditions (dr_Status inst)) ?new w = (Ok (cs, b), w')"
      and "\<exists>x. FindStatusCondition cs ConditionReady = Some x \<and> cond_Status x = ConditionFalse"
    using shouldUpdateCondition_result [of c "drst_Conditions (dr_Status inst)" ?new w] by auto
  then have "reportedNotReady (setDriverStatus DriverStateNotReady cs inst)"
    by (auto simp: reportedNotReady_def setDriverStatus_def conditionStatus_def)
  then show "setDriverStatusNotReady (guarded c) inst reason message w = setDriverStatusNotReady c inst reason message w"
    unfolding setDriverStatusNotReady_def should Let_def
    by (simp add: bind_Ok [where m = "shouldUpdateCondition c (drst_Conditions (dr_Status inst)) ?new", OF r]
        updateDriverStatus_guarded)
qed

lemma drv_Patch_guarded: "drv_Patch (guarded c) = drv_Patch c"
  unfolding drv_Patch_def drv_handlers drv_handleDaemonSet_def getNodePools_def guarded_fields ..

lemma Validate_guarded: "Validate (guarded c) inst = Validate c inst"
  unfolding Validate_def guarded_fields ..

lemma deployDriver_guarded:
  "deployDriver (guarded c) mapOrder env osVersion inst policy = deployDriver c mapOrder env osVersion inst policy"
proof -
  have "PatchDriverComponents s = PatchDriverComponents s'"
    if "NewRBLNDriverScope (guarded c) mapOrder env inst (Some policy) osVersion = Inr s"
      "NewRBLNDriverScope c mapOrder env inst (Some policy) osVersion = Inr s'" for s s'
    using that by (auto simp: PatchDriverComponents_eq [OF that(1)] PatchDriverComponents_eq [OF that(2)] drv_Patch_guarded
        NewRBLNDriverScope_eq Let_def split: if_splits)
  then show ?thesis
    unfolding deployDriver_def setDriverStatusError_guarded
    by (auto simp: NewRBLNDriverScope_eq Let_def)
qed

section \<open>Properties\<close>

text \<open>
  C5: The reconciliation of a driver deploys it.  On an available server with a cluster policy, for a driver that
  conflicts with no other, whose spec has an image for every kernel and whose selected nodes carry their discovery labels,
  and when a namespace is configured and none of the driver's own objects is controlled by somebody else, it succeeds and asks for no requeue.
  It leaves all objects that drivers share and a DaemonSet for the pool of every
  selected node, and every other object as it was, in whatever order the map of pools is traversed.
\<close>

theorem DriverReconcile_succeeds:
  assumes "available_client view c" and "quiet_law view c" and "permutes mapOrder"
    and get: "api_Get (drivers c) req w = (Inr inst, w1)" "view w1 = view w"
    and pol: "api_List (clusterPolicies c) all_objects w1 = (Inr (policy # rest), w2)" "view w2 = view w1"
    and ns: "\<And>opt w. fst (api_List (nodes c) opt w) = Inr (selected opt)"
    and drvs: "\<And>w. api_List (drivers c) all_objects w = (Inr ds, w)"
    and unique: "\<And>d n. d \<in> set ds \<Longrightarrow> \<not> sameDriver d inst \<Longrightarrow>
      n \<in> set (selected \<lparr>lo_Namespace = [], lo_MatchingLabels = GetNodeSelector inst\<rparr>) \<Longrightarrow>
      \<not> labelsMatch (om_Labels (node_Meta n)) (GetNodeSelector d)"
    and space: "driverNamespace env (Some policy) inst = namesp" "namesp \<noteq> []" and own: "om_Namespace (dr_Meta inst) = []"
    and pre: "precompilable (dr_Spec inst)" and ident: "\<And>n. n \<in> set (selected (poolSelector (dr_Spec inst))) \<Longrightarrow> identified n"
    and free: "\<And>k. k \<in> drv_sharedObjects (driverPatcher namesp inst osVersion) \<Longrightarrow> claimable (driver_owner inst) k (view w k)"
      "\<And>n pool. n \<in> set (selected (poolSelector (dr_Spec inst))) \<Longrightarrow>
        buildNodePool n (buildNodeSelector (drs_NodeSelector (dr_Spec inst))) = Some pool \<Longrightarrow>
        claimable (driver_owner inst) (drv_poolObject (driverPatcher namesp inst osVersion) pool)
          (view w (drv_poolObject (driverPatcher namesp inst osVersion) pool))"
  shows "let h = driverPatcher namesp inst osVersion; chosen = set (selected (poolSelector (dr_Spec inst)));
       poolOf = (\<lambda>n. buildNodePool n (buildNodeSelector (drs_NodeSelector (dr_Spec inst)))) in
     \<exists>w'. DriverReconcile c mapOrder env osVersion req w = (Ok noRequeue, w') \<and>
     (\<forall>k\<in>drv_sharedObjects h. view w' k \<noteq> None) \<and>
     (\<forall>n\<in>chosen. \<exists>pool. poolOf n = Some pool \<and> view w' (drv_poolObject h pool) \<noteq> None) \<and>
     (\<forall>k. k \<notin> drv_sharedObjects h \<longrightarrow> (\<forall>n\<in>chosen. \<forall>pool. poolOf n = Some pool \<longrightarrow> k \<noteq> drv_poolObject h pool) \<longrightarrow>
        view w' k = view w k)"
proof -
  let ?opt = "\<lparr>lo_Namespace = [], lo_MatchingLabels = GetNodeSelector inst\<rparr>"
  let ?h = "driverPatcher namesp inst osVersion"
  obtain w3 where l: "api_List (nodes c) ?opt w2 = (Inr (selected ?opt), w3)" using ns by (metis prod.collapse)
  have view3: "view w3 = view w" using assms(2) l get(2) pol(2) by (metis quiet_law_def snd_conv)
  have "conflicting inst (selected ?opt) ds = None" using unique by (auto simp: conflicting_None_iff)
  then have valid: "Validate c inst w2 = (Ok (), w3)" by (simp add: Validate_eq [OF l drvs])
  have spec: "desiredSpec ?h = Some (dr_Spec inst)" by (simp add: driverPatcher_def)
  obtain w' where ok: "drv_Patch c ?h mapOrder inst w3 = (Ok (), w')"
    and rest: "(\<forall>k\<in>drv_sharedObjects ?h. view w' k \<noteq> None) \<and>
     (\<forall>n\<in>set (selected (poolSelector (dr_Spec inst))). \<exists>pool.
        buildNodePool n (buildNodeSelector (drs_NodeSelector (dr_Spec inst))) = Some pool \<and> view w' (drv_poolObject ?h pool) \<noteq> None) \<and>
     (\<forall>k. k \<notin> drv_sharedObjects ?h \<longrightarrow> (\<forall>n\<in>set (selected (poolSelector (dr_Spec inst))). \<forall>pool.
        buildNodePool n (buildNodeSelector (drs_NodeSelector (dr_Spec inst))) = Some pool \<longrightarrow> k \<noteq> drv_poolObject ?h pool) \<longrightarrow>
        view w' k = view w3 k)"
    using drv_Patch_outcome [OF assms(1-3) own spec pre ns, of w3] ident free unfolding view3 by blast
  have "DriverReconcile c mapOrder env osVersion req w = (Ok noRequeue, w')"
    unfolding DriverReconcile_found [OF get(1)] reconcileDriver_valid [OF pol(1) valid] by (rule deployDriver_ok [OF space ok])
  then show ?thesis using rest unfolding Let_def view3 by blast
qed

definition node_client :: "Node list \<Rightarrow> cluster client" where
  "node_client ns = mem_client\<lparr>nodes := (nodes mem_client)\<lparr>api_List := (\<lambda>_ w. (Inr ns, w))\<rparr>\<rparr>"

lemma node_client_laws: "available_client cl_store (node_client ns)" "quiet_law cl_store (node_client ns)"
  using mem_client_available mem_client_quiet
  by (simp_all add: available_client_def lawful_client_def quiet_law_def node_client_def)

definition example_driver_spec :: RBLNDriverSpec where
  "example_driver_spec = zero_DriverSpec\<lparr>drs_Registry := ''reg'', drs_Image := ''driver'', drs_Version := ''v1''\<rparr>"

text \<open>A server with one node and one driver.\<close>

definition driver_client :: "RBLNDriver \<Rightarrow> Node list \<Rightarrow> cluster client" where
  "driver_client d ns = (node_client ns)\<lparr>drivers := (drivers mem_client)\<lparr>api_List := (\<lambda>_ w. (Inr [d], w))\<rparr>\<rparr>"

lemma driver_client_laws: "available_client cl_store (driver_client d ns)" "quiet_law cl_store (driver_client d ns)"
  using node_client_laws [of ns]
  by (simp_all add: available_client_def lawful_client_def quiet_law_def driver_client_def)

text \<open>A cluster with a DaemonSet that a policy controls, so that it is not free for a driver.\<close>

definition component_key :: "kind \<times> ObjectKey" where
  "component_key = objectOf daemonSet_kind ''rbln-device-plugin'' ''rbln''"

definition component_object :: object where
  "component_object = DS ((NewDaemonSetBuilder ''rbln-device-plugin'' ''rbln'')\<lparr>ds_Meta :=
     (new_meta ''rbln-device-plugin'' ''rbln'')\<lparr>om_OwnerReferences := [controllerRef (policy_owner zero_ClusterPolicy)]\<rparr>\<rparr>)"

definition working_cluster :: "RBLNDriver \<Rightarrow> cluster" where
  "working_cluster d = empty_cluster\<lparr>cl_policies := [zero_ClusterPolicy], cl_drivers := [d],
     cl_store := (\<lambda>_. None)(component_key := Some component_object)\<rparr>"

theorem DriverReconcile_succeeds_witness:
  "let d = example_driver ''a''\<lparr>dr_Spec := example_driver_spec\<rparr>; c = driver_client d [example_kernel_node ''n'' ''5.14''] in
   \<not> claimable (driver_owner d) component_key (cl_store (working_cluster d) component_key) \<and>
   (\<exists>w'. DriverReconcile c (\<lambda>ps. ps) ''rbln'' [] \<lparr>ok_Namespace = [], ok_Name = ''a''\<rparr> (working_cluster d) = (Ok noRequeue, w') \<and>
     cl_store w' (objectOf daemonSet_kind ''a-rhel9.4-5.14'' ''rbln'') \<noteq> None)"
proof -
  let ?n = "example_kernel_node ''n'' ''5.14''"
  let ?d = "example_driver ''a''\<lparr>dr_Spec := example_driver_spec\<rparr>"
  let ?c = "driver_client ?d [?n]"
  let ?w = "working_cluster ?d"
  let ?h = "driverPatcher ''rbln'' ?d []"
  have ord: "permutes (\<lambda>ps. ps)" by (simp add: permutes_def)
  have get: "api_Get (drivers ?c) \<lparr>ok_Namespace = [], ok_Name = ''a''\<rparr> ?w = (Inr ?d, ?w)"
    by (simp add: driver_client_def mem_client_def list_api_def key_of_def driver_kind_def plain_kind_def key_of_meta_def
        example_driver_def empty_meta_def working_cluster_def)
  have pol: "api_List (clusterPolicies ?c) all_objects ?w = (Inr (zero_ClusterPolicy # []), ?w)"
    by (simp add: driver_client_def node_client_def mem_client_def list_api_def all_objects_def fmsubset_alt_def fmpred_iff
        working_cluster_def)
  have list: "fst (api_List (nodes ?c) opt w) = Inr ((\<lambda>_. [?n]) opt)" for opt w
    by (simp add: driver_client_def node_client_def)
  have drvs: "api_List (drivers ?c) all_objects w = (Inr [?d], w)" for w by (simp add: driver_client_def)
  have unique: "\<not> labelsMatch (om_Labels (node_Meta n)) (GetNodeSelector d)" if "d \<in> set [?d]" "\<not> sameDriver d ?d" for d n
    using that by (simp add: sameDriver_def)
  have space: "driverNamespace ''rbln'' (Some zero_ClusterPolicy) ?d = ''rbln''"
    by (simp add: driverNamespace_def zero_ClusterPolicy_def zero_ClusterPolicySpec_def)
  have own: "om_Namespace (dr_Meta ?d) = []" by (simp add: example_driver_def empty_meta_def)
  have pre: "precompilable (dr_Spec ?d)" unfolding precompilable_def by (intro conjI; code_simp)
  have ident: "identified n" if "n \<in> set ((\<lambda>_. [?n]) (poolSelector (dr_Spec ?d)))" for n
    using that by (simp add: identified_def example_kernel_node_def map_get_def)
  have pool: "map_option (drv_poolObject ?h) (buildNodePool ?n (buildNodeSelector (drs_NodeSelector (dr_Spec ?d))))
      = Some (objectOf daemonSet_kind ''a-rhel9.4-5.14'' ''rbln'')" by code_simp
  have absent: "claimable (driver_owner ?d) k (cl_store ?w k)" if "k \<noteq> component_key" for k
    using that by (simp add: claimable_def working_cluster_def)
  have shared: "claimable (driver_owner ?d) k (cl_store ?w k)" if "k \<in> drv_sharedObjects ?h" for k
    using that by (intro absent) (auto simp: drv_sharedObjects_def component_key_def objectOf_def kind_defs driverPatcher_def)
  have pools: "claimable (driver_owner ?d) (drv_poolObject ?h pool) (cl_store ?w (drv_poolObject ?h pool))"
    if "n \<in> set ((\<lambda>_. [?n]) (poolSelector (dr_Spec ?d)))"
      "buildNodePool n (buildNodeSelector (drs_NodeSelector (dr_Spec ?d))) = Some pool" for n pool
    using that pool by (intro absent) (auto simp: component_key_def objectOf_def)
  have "\<not> claimable (driver_owner ?d) component_key (cl_store ?w component_key)" by code_simp
  moreover from DriverReconcile_succeeds [OF driver_client_laws ord get refl pol refl list drvs unique space _ own pre ident shared pools]
  obtain w' where "DriverReconcile ?c (\<lambda>ps. ps) ''rbln'' [] \<lparr>ok_Namespace = [], ok_Name = ''a''\<rparr> ?w = (Ok noRequeue, w')"
    and "\<exists>pool. buildNodePool ?n (buildNodeSelector (drs_NodeSelector (dr_Spec ?d))) = Some pool \<and>
        cl_store w' (drv_poolObject ?h pool) \<noteq> None" unfolding Let_def by fastforce
  ultimately show ?thesis using pool unfolding Let_def by auto
qed

text \<open>
  C14: The driver reconciler only ever reports that a driver is not ready: with a server that refuses every status
  whose state is not \<open>notReady\<close> or whose condition \<open>Ready\<close> is not false, it behaves in every case as with the
  server itself.  So a driver that was reported not ready once, because there was no policy or because of a conflict or an
  error, is never reported ready, not even after a reconciliation that deploys it.
\<close>

theorem driver_status_never_ready:
  "DriverReconcile (guarded c) mapOrder env osVersion req = DriverReconcile c mapOrder env osVersion req"
proof -
  have "reconcileDriver (guarded c) mapOrder env osVersion = reconcileDriver c mapOrder env osVersion"
    unfolding reconcileDriver_def setDriverStatusError_guarded setDriverStatusNotReady_guarded Validate_guarded
      deployDriver_guarded guarded_fields ..
  then show ?thesis
    unfolding DriverReconcile_def setDriverStatusError_guarded guarded_fields by simp
qed

end
