(* ===== verification/Separation.thy ===== *)
theory Separation
  imports Driver_Outcomes
begin

text \<open>
  The two reconcilers run in one process on one store of objects.  Which objects each of them can
  change, however its reconciliations end, which objects both can change, and which requests the driver reconciler sends.
\<close>

section \<open>Frames of the two reconcilers\<close>

lemma frame_mono: "frame view {} m \<Longrightarrow> frame view K m"
  by (auto simp: frame_def)

lemma frame_bind_within: "frame view K m \<Longrightarrow> (\<And>x. frame view K (f x)) \<Longrightarrow> frame view K (bind m f)"
  using frame_bind [of view K m K f] by simp

lemma frame_catch_within:
  "frame view K m \<Longrightarrow> (\<And>e. frame view K (h e)) \<Longrightarrow> frame view K (catch m h)"
  unfolding frame_def
proof (intro allI impI)
  fix w k
  assume m: "\<forall>w k. k \<notin> K \<longrightarrow> view (snd (m w)) k = view w k"
    and h: "\<And>e. \<forall>w k. k \<notin> K \<longrightarrow> view (snd (h e w)) k = view w k" and k: "k \<notin> K"
  obtain r w1 where r: "m w = (r, w1)" by fastforce
  then have "view w1 k = view w k" using m k by (metis snd_conv)
  moreover have "view (snd (h e w1)) k = view w1 k" for e using h k by blast
  ultimately show "view (snd (catch m h w)) k = view w k" using r by (cases r) (simp_all add: catch_def)
qed

lemma frameD: "frame view K m \<Longrightarrow> view (snd (m w)) k \<noteq> view w k \<Longrightarrow> k \<in> K"
  unfolding frame_def by blast

text \<open>The objects of a policy.\<close>

definition objectsOfPolicy :: "string \<Rightarrow> ClusterInfo \<Rightarrow> RBLNClusterPolicy \<Rightarrow> (kind \<times> ObjectKey) set" where
  "objectsOfPolicy env info p = \<Union> (set (policyObjects (resolveNamespace env (cp_Spec p)) (cp_Spec p)
     (ci_OpenshiftVersion info) (ci_ContainerRuntime info)))"

lemma frame_SetConditionsError: "quiet_law view c \<Longrightarrow> frame view {} (SetConditionsError c p reason message)"
  unfolding SetConditionsError_def setConditions_def setCondition_def
  by (auto intro!: frame_intros frame_quiet split: sum.splits option.splits)

lemma frame_reconcileInstance:
  assumes "lawful_client view c" and "quiet_law view c"
  shows "frame view (objectsOfPolicy env info inst) (reconcileInstance c env info req inst)"
proof (cases "NewRBLNClusterPolicyScope c env inst (ci_OpenshiftVersion info) (ci_ContainerRuntime info)")
  case (Inl e)
  then show ?thesis
    unfolding reconcileInstance_def
    by (simp add: Let_def, intro frame_mono [OF frame_bind_quiet] frame_intros frame_updateCRState [OF assms(2)]
        frame_SetConditionsError [OF assms(2)])
next
  case (Inr s)
  have "sc_namespace s = resolveNamespace env (cp_Spec inst)"
    using Inr by (auto simp: NewRBLNClusterPolicyScope_def Let_def split: if_splits)
  then have patch: "frame view (objectsOfPolicy env info inst) (PatchComponents s)"
    using PatchComponents_converges [OF assms(1) Inr] by (simp add: converges_def objectsOfPolicy_def)
  show ?thesis
    unfolding reconcileInstance_def Inr sum.case
    by (auto intro!: frame_bind_within patch frame_mono [OF frame_reconcileStatus [OF assms Inr]]
        frame_mono [OF frame_LabelRblnNodes [OF assms(2)]] frame_mono [OF frame_updateCRState [OF assms(2)]] frame_mono [OF frame_ret])
qed

lemma Reconcile_changes:
  assumes "lawful_client view c" and "quiet_law view c"
    and "view (snd (Reconcile c env info req singleton w)) k \<noteq> view w k"
  obtains p where "fst (api_Get (clusterPolicies c) req w) = Inr p" and "k \<in> objectsOfPolicy env info p"
proof -
  obtain r w1 where g: "api_Get (clusterPolicies c) req w = (r, w1)" by fastforce
  have v: "view w1 = view w" using assms(2) g by (metis quiet_law_def snd_conv)
  have ignored: "view (snd (bind (updateCRState c req ClusterIgnored) (\<lambda>_. ret noRequeue) w1)) = view w1"
    by (intro frame_emptyD frame_bind_quiet frame_updateCRState [OF assms(2)] frame_ret)
  show thesis
  proof (cases r)
    case (Inr inst)
    have "view (snd (reconcileInstance c env info req inst w1)) k \<noteq> view w1 k"
      using assms(3) ignored
      by (auto simp: Reconcile_def g Inr v Let_def split: if_splits prod.splits)
    from frameD [OF frame_reconcileInstance [OF assms(1,2)] this] show ?thesis using that g Inr by simp
  qed (use assms(3) g v in \<open>auto simp: Reconcile_def split: if_splits\<close>)
qed

text \<open>Reading drivers and policies and updating the status of a driver leave the deployed objects alone, too.\<close>

definition quiet_drivers :: "('w \<Rightarrow> store) \<Rightarrow> 'w client \<Rightarrow> bool" where
  "quiet_drivers view c \<longleftrightarrow>
     (\<forall>k w. view (snd (api_Get (drivers c) k w)) = view w) \<and>
     (\<forall>opt w. view (snd (api_List (drivers c) opt w)) = view w) \<and>
     (\<forall>x w. view (snd (api_StatusUpdate (drivers c) x w)) = view w) \<and>
     (\<forall>opt w. view (snd (api_List (clusterPolicies c) opt w)) = view w)"

lemma mem_client_quiet_drivers: "quiet_drivers cl_store mem_client"
  by (simp add: quiet_drivers_def mem_client_def list_api_def)

lemma frame_drivers:
  assumes "quiet_drivers view c"
  shows "frame view {} (call (api_Get (drivers c) k))" and "frame view {} (call (api_List (drivers c) opt))"
    and "frame view {} (call (api_StatusUpdate (drivers c) x))" and "frame view {} (call (api_List (clusterPolicies c) opt'))"
  using assms by (auto simp: quiet_drivers_def intro!: frame_call)

lemma frame_driverStatus:
  assumes "quiet_law view c" and "quiet_drivers view c"
  shows "frame view {} (setDriverStatusError c inst e)" and "frame view {} (setDriverStatusNotReady c inst reason message)"
    and "frame view {} (Validate c inst)"
  unfolding setDriverStatusError_def setDriverStatusNotReady_def updateDriverStatus_def setCondition_def
    shouldUpdateCondition_def Validate_def Let_def
  by (auto intro!: frame_intros frame_quiet [OF assms(1)] frame_drivers [OF assms(2)] split: option.splits)

text \<open>The objects of a driver: those that drivers share, and the DaemonSets that begin with its name.\<close>

definition objectsOfDriver :: "string \<Rightarrow> RBLNDriver \<Rightarrow> string \<Rightarrow> (kind \<times> ObjectKey) set" where
  "objectsOfDriver ns d osVersion = drv_sharedObjects (driverPatcher ns d osVersion) \<union>
     range (drv_poolObject (driverPatcher ns d osVersion))"

lemma getNodePools_bind:
  "bind (getNodePools c mapOrder selector) (\<lambda>pools. if pools = [] then ret () else seqE (List.map f pools)) =
     bind (call (api_List (nodes c) \<lparr>lo_Namespace = [], lo_MatchingLabels = buildNodeSelector selector\<rparr>)) (\<lambda>ns.
       seqE (List.map f (mapOrder (collectPools (buildNodeSelector selector) ns []))))"
  by (rule ext) (auto simp: getNodePools_def Let_def op_defs split: prod.splits sum.splits outcome.splits)

lemma drv_Patch_stages:
  "drv_Patch c (driverPatcher ns d osVersion) mapOrder d =
     bind (drv_shared c (driverPatcher ns d osVersion)) (\<lambda>_.
     bind (call (api_List (nodes c) (poolSelector (dr_Spec d)))) (\<lambda>nodes.
     seqE (List.map (drv_handleDaemonSet c (driverPatcher ns d osVersion) (dr_Spec d) d)
       (mapOrder (collectPools (buildNodeSelector (drs_NodeSelector (dr_Spec d))) nodes [])))))"
  unfolding drv_Patch_def withSpec_def getNodePools_bind
  by (simp add: drv_IsEnabled_def driverPatcher_def poolSelector_def)

lemma frame_drv_Patch:
  assumes "lawful_client view c" and "quiet_law view c" and "permutes mapOrder"
  shows "frame view (objectsOfDriver ns d osVersion) (drv_Patch c (driverPatcher ns d osVersion) mapOrder d)"
proof -
  let ?h = "driverPatcher ns d osVersion" and ?K = "objectsOfDriver ns d osVersion"
  have wider: "frame view ?K m" if "frame view K' m" "K' \<subseteq> ?K" for m :: "('a, unit) op" and K'
    using that by (auto simp: frame_def)
  have shared: "frame view ?K (drv_shared c ?h)"
    by (rule wider [where K' = "drv_sharedObjects ?h"])
       (use drv_manages_shared [of view c ?h] assms(1) in \<open>auto simp: manages_def establishes_def objectsOfDriver_def\<close>)
  have pools: "frame view ?K (seqE (List.map (drv_handleDaemonSet c ?h s d) (mapOrder (collectPools sel nodes []))))" for s sel nodes
  proof -
    let ?pools = "mapOrder (collectPools sel nodes [])"
    have "distinct (List.map np_name ?pools)" using permutes_distinct [OF assms(3)] collectPools_named by blast
    from drv_manages_pools [OF this, of view c ?h s d] assms(1) show ?thesis
      by (intro wider [where K' = "drv_poolObjects ?h ?pools"])
         (auto simp: manages_def establishes_def objectsOfDriver_def drv_poolObjects_def drv_poolObject_def)
  qed
  show ?thesis
    unfolding drv_Patch_stages
    using frame_bind_within [OF shared frame_bind_within [OF frame_mono [OF frame_quiet(3) [OF assms(2)]] pools]] by simp
qed

lemma frame_deployDriver:
  assumes "lawful_client view c" and "quiet_law view c" and "quiet_drivers view c" and "permutes mapOrder"
  shows "frame view (objectsOfDriver (driverNamespace env (Some policy) d) d osVersion)
     (deployDriver c mapOrder env osVersion d policy)"
proof -
  let ?ns = "driverNamespace env (Some policy) d"
  let ?report = "\<lambda>e. bind (setDriverStatusError c d e) (\<lambda>_. fail e)"
  have report: "frame view K (?report e :: ('a, 'b) op)" for K e
    by (intro frame_mono [OF frame_bind_quiet] frame_driverStatus [OF assms(2,3)] frame_fail)
  show ?thesis
  proof (cases "NewRBLNDriverScope c mapOrder env d (Some policy) osVersion")
    case (Inl e)
    then show ?thesis by (simp add: deployDriver_def report)
  next
    case (Inr s)
    then have "ds_namespace s = ?ns" by (auto simp: NewRBLNDriverScope_eq Let_def split: if_splits)
    then show ?thesis
      unfolding deployDriver_def Inr sum.case PatchDriverComponents_eq [OF Inr]
      by (auto intro!: frame_bind_within frame_catch_within frame_drv_Patch [OF assms(1,2,4)] report
          frame_mono [OF frame_fail] frame_mono [OF frame_ret])
  qed
qed

lemma DriverReconcile_changes:
  assumes "lawful_client view c" and "quiet_law view c" and "quiet_drivers view c" and "permutes mapOrder"
    and "view (snd (DriverReconcile c mapOrder env osVersion req w)) k \<noteq> view w k"
  obtains d ns where "fst (api_Get (drivers c) req w) = Inr d" and "k \<in> objectsOfDriver ns d osVersion"
proof -
  obtain r w1 where g: "api_Get (drivers c) req w = (r, w1)" by fastforce
  have v: "view w1 = view w" using assms(3) g by (metis quiet_drivers_def snd_conv)
  note quiet = frame_driverStatus [OF assms(2,3)]
  show thesis
  proof (cases r)
    case (Inl e)
    have status: "view (snd (setDriverStatusError c zero_Driver e' w1)) = view w1" for e' by (rule frame_emptyD [OF quiet(1)])
    have "view (snd (DriverReconcile c mapOrder env osVersion req w)) = view w"
      using g v Inl status [of "Wrap ''error getting RBLNDriver object: '' e"]
      by (cases "setDriverStatusError c zero_Driver (Wrap ''error getting RBLNDriver object: '' e) w1")
         (auto simp: DriverReconcile_def op_defs Let_def split: outcome.splits)
    then show ?thesis using assms(5) by simp
  next
    case (Inr d)
    let ?K = "\<Union>ns. objectsOfDriver ns d osVersion"
    have deploy: "frame view ?K (deployDriver c mapOrder env osVersion d policy)" for policy
      using frame_deployDriver [OF assms(1-4), of env policy d osVersion] unfolding frame_def by blast
    have "frame view ?K (reconcileDriver c mapOrder env osVersion d)"
      unfolding reconcileDriver_def Let_def
      by (auto intro!: frame_bind_within frame_catch_within deploy frame_mono [OF frame_drivers(4) [OF assms(3)]] quiet [THEN frame_mono]
          frame_mono [OF frame_fail] frame_mono [OF frame_ret] split: list.splits option.splits)
    moreover have "view (snd (reconcileDriver c mapOrder env osVersion d w1)) k \<noteq> view w1 k"
      using assms(5) v DriverReconcile_found [of c req w d w1] g Inr by auto
    ultimately have "k \<in> ?K" by (rule frameD)
    then show ?thesis using that g Inr by auto
  qed
qed

section \<open>The names\<close>

text \<open>The suffixes by which the objects of a policy are named.\<close>

definition componentSuffixes :: "string list" where
  "componentSuffixes = [''-vfio-manager'', ''-vfio-manager-config'', ''-npu-feature-discovery'', ''-metrics-exporter'',
     ''-metrics-exporter-service'', ''-device-plugin'', ''-device-plugin-config'', ''-sandbox-device-plugin'',
     ''-sandbox-device-plugin-config'', ''-container-toolkit'', ''-container-toolkit-entrypoint'', ''-operator-validator'']"

definition componentName :: "string \<Rightarrow> bool" where
  "componentName nm \<longleftrightarrow> nm = ''rbln-daemon'' \<or> list_ex (\<lambda>s. suffix s nm) componentSuffixes"

lemma policyNames_componentName: "N \<in> set (policyNames spec) \<Longrightarrow> nm \<in> set N \<Longrightarrow> componentName nm"
  by (auto simp: policyNames_def Let_def componentName_def componentSuffixes_def suffix_def)

lemma objectsOfPolicy_named:
  assumes "k \<in> objectsOfPolicy env info p"
  shows "ok_Name (snd k) \<in> set (concat (policyNames (cp_Spec p)))" and "componentName (ok_Name (snd k))"
proof -
  obtain K where "K \<in> set (policyObjects (resolveNamespace env (cp_Spec p)) (cp_Spec p) (ci_OpenshiftVersion info) (ci_ContainerRuntime info))"
      and "k \<in> K" using assms by (auto simp: objectsOfPolicy_def)
  then obtain N where "N \<in> set (policyNames (cp_Spec p))" "ok_Name (snd k) \<in> set N"
    using policyObjects_names unfolding list_all2_conv_all_nth by (metis in_set_conv_nth)
  then show "ok_Name (snd k) \<in> set (concat (policyNames (cp_Spec p)))" and "componentName (ok_Name (snd k))"
    using policyNames_componentName by auto
qed

lemma shared_not_componentName:
  "k \<in> drv_sharedObjects (driverPatcher ns d osVersion) \<Longrightarrow> \<not> componentName (ok_Name (snd k))"
proof -
  have "\<not> componentName ''rbln-driver''" "\<not> componentName ''rbln-driver-startup-probe''" by code_simp+
  then show "k \<in> drv_sharedObjects (driverPatcher ns d osVersion) \<Longrightarrow> \<not> componentName (ok_Name (snd k))"
    by (auto simp: drv_sharedObjects_def rbacObjects_def objectOf_def driverPatcher_def startupProbeConfigMapName_def split: if_splits)
qed

section \<open>Requests of the driver reconciler\<close>

text \<open>Every request that \<open>m\<close> sends is one of \<open>P\<close>.\<close>

abbreviation sends :: "(request \<Rightarrow> bool) \<Rightarrow> ('w \<times> request list, 'a) op \<Rightarrow> bool" where
  "sends P m \<equiv> emits m (\<lambda>_ l. list_all P l)"

lemma sends_bind: "sends P m \<Longrightarrow> (\<And>x. sends P (f x)) \<Longrightarrow> sends P (bind m f)"
  by (rule emits_bind) (auto intro: emits_mono)

lemma sends_catch: "sends P m \<Longrightarrow> (\<And>e. sends P (h e)) \<Longrightarrow> sends P (catch m h)"
  by (rule emits_catch) (auto intro: emits_mono)

lemma sends_basic: "sends P (ret x)" "sends P (fail e)" "P q \<Longrightarrow> sends P (call (logged q m))"
  by (auto intro: emits_ret emits_fail emits_call)

lemmas sends_intros = sends_bind sends_catch sends_basic

lemma sends_footprint:
  "footprint V K m \<Longrightarrow> (\<And>q. rq_verb q \<in> V \<Longrightarrow> rq_object q \<in> K \<Longrightarrow> P q) \<Longrightarrow> sends P m"
  unfolding footprint_def by (erule emits_mono) (auto simp: list_all_iff)

text \<open>Reads, the status update of the driver, and creations and patches of its objects.\<close>

definition driverRequest :: "string \<Rightarrow> RBLNDriver \<Rightarrow> request \<Rightarrow> bool" where
  "driverRequest osVersion d q \<longleftrightarrow> rq_verb q \<in> {GetVerb, ListVerb} \<or> q = driverStatusRequest d \<or>
     rq_verb q \<in> {CreateVerb, PatchVerb} \<and> (\<exists>ns. rq_object q \<in> objectsOfDriver ns d osVersion)"

lemma sends_list: "(\<And>k. P (Request ListVerb (k_kind kd) k)) \<Longrightarrow> sends P (call (api_List (recording_api kd api) opt))"
  by (simp add: recording_api_def sends_basic)

lemma sends_clock: "sends P (read_clock (recording c))"
  by (rule emits_clock) simp

lemma sends_driverStatus:
  "sends (driverRequest osVersion d) (setDriverStatusError (recording c) d e)"
  "sends (driverRequest osVersion d) (setDriverStatusNotReady (recording c) d reason message)"
proof -
  show "sends (driverRequest osVersion d) (setDriverStatusError (recording c) d e)"
    by (rule emits_mono [OF setDriverStatusError_emits]) (simp add: driverRequest_def)
  have update: "sends (driverRequest osVersion d) (updateDriverStatus (recording c) (setDriverStatus st cs d))" for st cs
    by (rule emits_mono [OF updateDriverStatus_emits]) (simp add: driverRequest_def driverStatusRequest_def)
  show "sends (driverRequest osVersion d) (setDriverStatusNotReady (recording c) d reason message)"
    unfolding setDriverStatusNotReady_def shouldUpdateCondition_def setCondition_def Let_def
    by (auto intro!: sends_intros sends_clock update split: option.splits)
qed

lemma sends_drv_Patch:
  assumes "permutes mapOrder"
  shows "sends (driverRequest osVersion d) (drv_Patch (recording c) (driverPatcher ns d osVersion) mapOrder d)"
proof -
  let ?h = "driverPatcher ns d osVersion"
  have own: "driverRequest osVersion d q" if "rq_verb q \<in> applyVerbs" "rq_object q \<in> objectsOfDriver ns d osVersion" for q
    using that by (auto simp: driverRequest_def)
  have shared: "sends (driverRequest osVersion d) (drv_shared (recording c) ?h)"
    by (rule sends_footprint [where V = applyVerbs and K = "drv_sharedObjects ?h"])
       (use drv_manages_shared [of "\<lambda>_. Map.empty" c ?h] own in \<open>auto simp: manages_def objectsOfDriver_def\<close>)
  have pools: "sends (driverRequest osVersion d)
      (seqE (List.map (drv_handleDaemonSet (recording c) ?h s d) (mapOrder (collectPools sel nodes []))))" for s sel nodes
  proof -
    let ?pools = "mapOrder (collectPools sel nodes [])"
    have "distinct (List.map np_name ?pools)" using permutes_distinct [OF assms] collectPools_named by blast
    from drv_manages_pools [OF this, of "\<lambda>_. Map.empty" c ?h s d]
    have "footprint applyVerbs (drv_poolObjects ?h ?pools) (seqE (List.map (drv_handleDaemonSet (recording c) ?h s d) ?pools))"
      by (simp add: manages_def)
    then show ?thesis
      by (rule sends_footprint) (auto intro!: own simp: objectsOfDriver_def drv_poolObjects_def drv_poolObject_def)
  qed
  show ?thesis
    unfolding drv_Patch_stages recording_simps
    by (intro sends_bind shared pools sends_list) (simp add: driverRequest_def)
qed

lemma sends_reconcileDriver:
  assumes "permutes mapOrder"
  shows "sends (driverRequest osVersion d) (reconcileDriver (recording c) mapOrder env osVersion d)"
proof -
  let ?P = "driverRequest osVersion d"
  have list: "sends ?P (call (api_List (recording_api kd api) opt))" for kd and api :: "('a, 'b) resource_api" and opt
    by (rule sends_list) (simp add: driverRequest_def)
  have valid: "sends ?P (Validate (recording c) d)"
    by (rule emits_mono [OF Validate_emits]) (auto simp: listsOnly_def driverRequest_def list_all_iff)
  have deploy: "sends ?P (deployDriver (recording c) mapOrder env osVersion d policy)" for policy
  proof (cases "NewRBLNDriverScope (recording c) mapOrder env d (Some policy) osVersion")
    case (Inr s)
    then show ?thesis
      unfolding deployDriver_def Inr sum.case PatchDriverComponents_eq [OF Inr]
      by (intro sends_intros sends_drv_Patch [OF assms] sends_driverStatus)
  qed (simp add: deployDriver_def, intro sends_intros sends_driverStatus)
  show ?thesis
    unfolding reconcileDriver_def recording_simps Let_def
    by (intro sends_bind sends_catch sends_basic list sends_driverStatus)
       (auto simp del: recording_simps intro!: sends_intros sends_driverStatus valid deploy split: list.splits option.splits)
qed

section \<open>Properties\<close>

text \<open>
  C8: The two reconcilers have separate objects.  On a server that stores what it is sent and whose store no read and no
  update of a status or of a node changes, and however the reconciliations end: a reconciliation of a policy changes
  objects of the components of the policy that it has read only, and a reconciliation of a driver changes
  the objects that drivers share and DaemonSets of the driver that it has read only.  The only objects that are both of a
  policy and of a driver are DaemonSets whose name is that of a component of the policy and also the name of the driver, a
  dash and the name of a pool.
\<close>

theorem reconcilers_separate:
  assumes "lawful_client view c" and "quiet_law view c" and "quiet_drivers view c" and "permutes mapOrder"
  shows "(\<forall>k. view (snd (Reconcile c env info req singleton w)) k \<noteq> view w k \<longrightarrow>
        (\<exists>p. fst (api_Get (clusterPolicies c) req w) = Inr p \<and> k \<in> objectsOfPolicy env info p)) \<and>
     (\<forall>k. view (snd (DriverReconcile c mapOrder env osVersion req' w)) k \<noteq> view w k \<longrightarrow>
        (\<exists>d ns. fst (api_Get (drivers c) req' w) = Inr d \<and> k \<in> objectsOfDriver ns d osVersion)) \<and>
     (\<forall>p d ns k. k \<in> objectsOfPolicy env info p \<inter> objectsOfDriver ns d osVersion \<longrightarrow>
        fst k = DaemonSetKind \<and> ok_Name (snd k) \<in> set (concat (policyNames (cp_Spec p))) \<and>
        (\<exists>pool :: nodePool. ok_Name (snd k) = om_Name (dr_Meta d) @ ''-'' @ np_name pool))"
proof (intro conjI allI impI)
  show "\<exists>p. fst (api_Get (clusterPolicies c) req w) = Inr p \<and> k \<in> objectsOfPolicy env info p"
    if "view (snd (Reconcile c env info req singleton w)) k \<noteq> view w k" for k
    using Reconcile_changes [OF assms(1,2) that] by blast
  show "\<exists>d ns. fst (api_Get (drivers c) req' w) = Inr d \<and> k \<in> objectsOfDriver ns d osVersion"
    if "view (snd (DriverReconcile c mapOrder env osVersion req' w)) k \<noteq> view w k" for k
    using DriverReconcile_changes [OF assms that] by blast
  fix p d ns k assume k: "k \<in> objectsOfPolicy env info p \<inter> objectsOfDriver ns d osVersion"
  then have named: "ok_Name (snd k) \<in> set (concat (policyNames (cp_Spec p)))" "componentName (ok_Name (snd k))"
    using objectsOfPolicy_named by blast+
  then obtain pool where "k = drv_poolObject (driverPatcher ns d osVersion) pool"
    using k shared_not_componentName [of k ns d osVersion] by (auto simp: objectsOfDriver_def)
  then have "fst k = DaemonSetKind" "ok_Name (snd k) = om_Name (dr_Meta d) @ ''-'' @ np_name pool"
    by (simp_all add: drv_poolObject_def objectOf_def drv_dsName_def driverPatcher_def kind_defs)
  then show "fst k = DaemonSetKind" "\<exists>pool :: nodePool. ok_Name (snd k) = om_Name (dr_Meta d) @ ''-'' @ np_name pool" by blast+
  show "ok_Name (snd k) \<in> set (concat (policyNames (cp_Spec p)))" by (rule named)
qed

text \<open>Neither the reconciliation of the example policy nor that of an example driver touches an object of the other.\<close>

theorem reconcilers_separate_witness:
  "cl_store (snd (Reconcile mem_client ''rbln'' example_info example_request [] example_cluster))
     (objectOf serviceAccount_kind ''rbln-driver'' ''rbln'') = None \<and>
   cl_store (snd (DriverReconcile mem_client (\<lambda>ps. ps) ''rbln'' [] \<lparr>ok_Namespace = [], ok_Name = ''a''\<rparr>
     (working_cluster (example_driver ''a'')))) component_key = Some component_object"
proof
  have ord: "permutes (\<lambda>ps. ps)" by (simp add: permutes_def)
  note sep = reconcilers_separate [OF available_lawful [OF mem_client_available] mem_client_quiet mem_client_quiet_drivers ord]
  show "cl_store (snd (Reconcile mem_client ''rbln'' example_info example_request [] example_cluster))
     (objectOf serviceAccount_kind ''rbln-driver'' ''rbln'') = None"
  proof (rule ccontr)
    let ?k = "objectOf serviceAccount_kind ''rbln-driver'' ''rbln''"
    assume "\<not> ?thesis"
    then have "cl_store (snd (Reconcile mem_client ''rbln'' example_info example_request [] example_cluster)) ?k \<noteq>
        cl_store example_cluster ?k" by (simp add: example_cluster_def empty_cluster_def)
    then obtain p where p: "?k \<in> objectsOfPolicy ''rbln'' example_info p" using sep by blast
    have "?k \<in> objectsOfDriver ''rbln'' (example_driver ''a'') []"
      by (simp add: objectsOfDriver_def drv_sharedObjects_def driverPatcher_def)
    then have "fst ?k = DaemonSetKind" using sep [where osVersion = "[]"] p by blast
    then show False by (simp add: objectOf_def kind_defs)
  qed
  show "cl_store (snd (DriverReconcile mem_client (\<lambda>ps. ps) ''rbln'' [] \<lparr>ok_Namespace = [], ok_Name = ''a''\<rparr>
     (working_cluster (example_driver ''a'')))) component_key = Some component_object"
  proof (rule ccontr)
    assume "\<not> ?thesis"
    then have "cl_store (snd (DriverReconcile mem_client (\<lambda>ps. ps) ''rbln'' [] \<lparr>ok_Namespace = [], ok_Name = ''a''\<rparr>
        (working_cluster (example_driver ''a'')))) component_key \<noteq> cl_store (working_cluster (example_driver ''a'')) component_key"
      by (simp add: working_cluster_def)
    then obtain d ns where d: "fst (api_Get (drivers mem_client) \<lparr>ok_Namespace = [], ok_Name = ''a''\<rparr> (working_cluster (example_driver ''a''))) = Inr d"
        and k: "component_key \<in> objectsOfDriver ns d []" using sep by blast
    have "om_Name (dr_Meta d) = ''a''"
      using d by (simp add: mem_client_def list_api_def working_cluster_def key_of_def driver_kind_def plain_kind_def
          key_of_meta_def example_driver_def empty_meta_def split: if_splits) auto
    then show False
      using k by (auto simp: component_key_def objectsOfDriver_def drv_sharedObjects_def drv_poolObject_def drv_dsName_def objectOf_def
          driverPatcher_def kind_defs)
  qed
qed

text \<open>
  C18: The requests of the driver reconciler.  Whatever the server answers, a reconciliation of a driver that the server has
  sends reads, status updates of the driver, and creations and patches of its objects and of those that drivers share;
  that of a driver which has been deleted sends one read, and after another error of this read
  only a status update follows.  In particular no reconciliation deletes anything: when the last driver is
  removed, the objects that drivers share stay.
\<close>

theorem DriverReconcile_requests:
  assumes "permutes mapOrder"
  shows "let sent = snd (snd (DriverReconcile (recording c) mapOrder env osVersion req (w, []))) in
     (case fst (api_Get (drivers c) req w) of
        Inr d \<Rightarrow> list_all (driverRequest osVersion d) sent
      | Inl e \<Rightarrow> sent = Request GetVerb DriverKind req # (if IsNotFound e then [] else [driverStatusRequest zero_Driver])) \<and>
     list_all (\<lambda>q. rq_verb q \<noteq> DeleteVerb) sent"
proof -
  let ?get = "Request GetVerb DriverKind req"
  obtain r w1 where g: "api_Get (drivers c) req w = (r, w1)" by fastforce
  then have get: "api_Get (drivers (recording c)) req (w, []) = (r, (w1, [?get]))"
    by (simp add: recording_api_def logged_def driver_kind_def plain_kind_def)
  show ?thesis
  proof (cases r)
    case (Inr d)
    have "DriverReconcile (recording c) mapOrder env osVersion req (w, []) =
        reconcileDriver (recording c) mapOrder env osVersion d (w1, [?get])"
      by (rule DriverReconcile_found) (simp only: get Inr)
    moreover obtain l where "snd (snd (reconcileDriver (recording c) mapOrder env osVersion d (w1, [?get]))) = [?get] @ l"
        "list_all (driverRequest osVersion d) l"
      using emitsD [OF sends_reconcileDriver [OF assms], of c env osVersion d w1 "[?get]"] by blast
    moreover have "rq_verb q \<noteq> DeleteVerb" if "driverRequest osVersion d q" for q
      using that by (auto simp: driverRequest_def driverStatusRequest_def)
    ultimately show ?thesis using g Inr by (auto simp: Let_def list_all_iff driverRequest_def)
  next
    case (Inl e)
    let ?e = "Wrap ''error getting RBLNDriver object: '' e"
    obtain v where "setDriverStatusError (recording c) zero_Driver ?e (w1, [?get]) = (Ok (), (v, [?get, driverStatusRequest zero_Driver]))"
      using emitsD [OF setDriverStatusError_emits, of c zero_Driver ?e w1 "[?get]"] by (metis append_Cons append_Nil prod.collapse)
    then show ?thesis
      using g get Inl by (auto simp: DriverReconcile_def op_defs Let_def driverStatusRequest_def simp del: recording_simps)
  qed
qed

text \<open>The driver \<open>a\<close> has been deleted, the driver \<open>b\<close> has not.\<close>

theorem DriverReconcile_requests_witness:
  "snd (snd (DriverReconcile (recording mem_client) (\<lambda>ps. ps) ''rbln'' [] \<lparr>ok_Namespace = [], ok_Name = ''a''\<rparr>
     (working_cluster (example_driver ''b''), []))) = [Request GetVerb DriverKind \<lparr>ok_Namespace = [], ok_Name = ''a''\<rparr>] \<and>
   list_all (driverRequest [] (example_driver ''b'')) (snd (snd (DriverReconcile (recording mem_client) (\<lambda>ps. ps) ''rbln'' []
     \<lparr>ok_Namespace = [], ok_Name = ''b''\<rparr> (working_cluster (example_driver ''b''), []))))"
proof -
  let ?w = "working_cluster (example_driver ''b'')"
  have ord: "permutes (\<lambda>ps. ps)" by (simp add: permutes_def)
  have "fst (api_Get (drivers mem_client) \<lparr>ok_Namespace = [], ok_Name = ''a''\<rparr> ?w) = Inl notFound"
    "fst (api_Get (drivers mem_client) \<lparr>ok_Namespace = [], ok_Name = ''b''\<rparr> ?w) = Inr (example_driver ''b'')"
    by (simp_all add: mem_client_def list_api_def working_cluster_def key_of_def driver_kind_def plain_kind_def key_of_meta_def
        example_driver_def empty_meta_def)
  moreover have "IsNotFound notFound" by (simp add: notFound_def IsNotFound_def)
  moreover note DriverReconcile_requests [OF ord, where c = mem_client and w = ?w and req = "\<lparr>ok_Namespace = [], ok_Name = ''a''\<rparr>"
        and env = "''rbln''" and osVersion = "[]"]
    DriverReconcile_requests [OF ord, where c = mem_client and w = ?w and req = "\<lparr>ok_Namespace = [], ok_Name = ''b''\<rparr>"
        and env = "''rbln''" and osVersion = "[]"]
  ultimately show ?thesis by (simp add: Let_def)
qed

end
