(* ===== verification/Policy_Status.thy ===== *)
theory Policy_Status
  imports Policy_Guarantees
begin

text \<open>
  The times in the status of a policy.  Every report of a component carries the time of the report, so
  that a status written later never equals one written before, even when nothing has changed.
\<close>

section \<open>The clock\<close>

text \<open>\<open>time\<close> is a lower bound of what the clock shows, and does not go back.\<close>

definition clock_law :: "('w \<Rightarrow> Time) \<Rightarrow> 'w client \<Rightarrow> bool" where
  "clock_law time c \<longleftrightarrow> (\<forall>w. time w \<le> fst (now c w) \<and> time w \<le> time (snd (now c w))) \<and>
     (\<forall>key w. time w \<le> time (snd (api_Get (daemonSets c) key w)))"

definition stampedFrom :: "Time \<Rightarrow> RBLNComponentStatus \<Rightarrow> bool" where
  "stampedFrom t st \<longleftrightarrow> rcs_Condition st \<noteq> [] \<and> list_all (\<lambda>cnd. t \<le> cond_LastTransitionTime cnd) (rcs_Condition st)"

definition stampedBefore :: "Time \<Rightarrow> RBLNComponentStatus \<Rightarrow> bool" where
  "stampedBefore t st \<longleftrightarrow> list_all (\<lambda>cnd. cond_LastTransitionTime cnd < t) (rcs_Condition st)"

lemma stampedFrom_mono: "t \<le> t' \<Longrightarrow> stampedFrom t' st \<Longrightarrow> stampedFrom t st"
  by (auto simp: stampedFrom_def list_all_iff)

lemma stamped_disjoint: "stampedFrom t st \<Longrightarrow> \<not> stampedBefore t st"
  by (auto simp: stampedFrom_def stampedBefore_def list_all_iff neq_Nil_conv)

lemma report_stamped:
  assumes clock: "clock_law time c" and run: "daemonSetConditionReport c nm ns w = (Ok cs, w')"
  shows "cs \<noteq> [] \<and> list_all (\<lambda>cnd. time w \<le> cond_LastTransitionTime cnd) cs \<and> time w \<le> time w'"
proof -
  obtain g w1 where g: "api_Get (daemonSets c) \<lparr>ok_Namespace = ns, ok_Name = nm\<rparr> w = (g, w1)" by fastforce
  have "time w \<le> time w1" using clock g unfolding clock_law_def by (metis snd_conv)
  moreover have "time w1 \<le> fst (now c w1)" "time w1 \<le> time (snd (now c w1))" using clock by (simp_all add: clock_law_def)
  ultimately have t: "time w \<le> fst (now c w1)" "time w \<le> time (snd (now c w1))" by simp_all
  then show ?thesis using run g by (cases g) (auto simp: daemonSetConditionReport_eq)
qed

lemma componentStatus_stamped:
  assumes clock: "clock_law time c" and report: "pt_ConditionReport p owner = daemonSetConditionReport c nm ns"
    and run: "componentStatus owner p w = (Ok st, w')"
  shows "stampedFrom (time w) st \<and> time w \<le> time w'"
proof -
  obtain cs v where cs: "daemonSetConditionReport c nm ns w = (Ok cs, v)" using ConditionReport_ok [of c nm ns w] by blast
  have "rcs_Condition st = cs" "w' = v" using run report cs by (auto simp: componentStatus_def op_defs)
  then show ?thesis using report_stamped [OF clock cs] by (simp add: stampedFrom_def)
qed

lemma assemble_stamped:
  assumes clock: "clock_law time c"
    and reports: "\<And>p. p \<in> set ps \<Longrightarrow> \<exists>nm ns. pt_ConditionReport p owner = daemonSetConditionReport c nm ns"
    and run: "assembleConditions owner ps w = (Ok sts, w')"
  shows "list_all (stampedFrom (time w)) sts"
  using reports run
proof (induction ps arbitrary: w sts w')
  case (Cons p ps)
  show ?case
  proof (cases "pt_IsEnabled p")
    case True
    then obtain st v rest where st: "componentStatus owner p w = (Ok st, v)"
        and rest: "assembleConditions owner ps v = (Ok rest, w')" and sts: "sts = st # rest"
      using Cons.prems(2) by (auto simp: ret_def elim!: bind_OkE)
    obtain nm ns where "pt_ConditionReport p owner = daemonSetConditionReport c nm ns" using Cons.prems(1) by force
    from componentStatus_stamped [OF clock this st] have "stampedFrom (time w) st" "time w \<le> time v" by auto
    moreover have "list_all (stampedFrom (time v)) rest" using Cons.IH [OF _ rest] Cons.prems(1) by simp
    ultimately show ?thesis unfolding sts using stampedFrom_mono by (auto simp: list_all_iff)
  next
    case False
    then show ?thesis using Cons.IH [of w sts w'] Cons.prems by simp
  qed
qed (simp add: ret_def)

text \<open>The validator is a component of every policy.\<close>

lemma scope_has_component:
  assumes "NewRBLNClusterPolicyScope c env policy osVersion runtime = Inr s"
  shows "filter pt_IsEnabled (sc_patcher s) \<noteq> []"
proof -
  have "sc_patcher s = policyPatchers c (sc_namespace s) (cp_Spec policy) osVersion runtime"
    using assms by (auto simp: NewRBLNClusterPolicyScope_def Let_def split: if_splits)
  then show ?thesis
    by (simp add: policyPatchers_def val_Patcher_def val_IsEnabled_def NewValidatorPatcher_def)
qed

section \<open>What is written\<close>

text \<open>A successful status update writes another status than it has read, when that is from an earlier time.\<close>

lemma status_changes:
  assumes scope: "NewRBLNClusterPolicyScope c env policy osVersion runtime = Inr s" and clock: "clock_law time c"
    and run: "reconcileStatus c p s w = (Ok r, w')"
  shows "\<exists>(inst :: RBLNClusterPolicy) (p' :: RBLNClusterPolicy) z w2 w3.
     api_Get (clusterPolicies c) \<lparr>ok_Namespace = [], ok_Name = om_Name (cp_Meta p)\<rparr>
       (snd (AssembleComponentConditions s w)) = (Inr inst, w2) \<and>
     api_StatusUpdate (clusterPolicies c) p' w3 = (Inr z, w') \<and> cp_Meta p' = cp_Meta inst \<and>
     list_all (stampedFrom (time w)) (cpst_Components (cp_Status p')) \<and>
     (list_all (stampedBefore (time w)) (cpst_Components (cp_Status inst)) \<longrightarrow> cp_Status p' \<noteq> cp_Status inst)"
proof -
  obtain inst sts p' w1 w2 z w3 where a: "AssembleComponentConditions s w = (Ok sts, w1)"
      and g: "api_Get (clusterPolicies c) \<lparr>ok_Namespace = [], ok_Name = om_Name (cp_Meta p)\<rparr> w1 = (Inr inst, w2)"
      and names: "List.map rcs_Name sts = List.map pt_ComponentName (filter pt_IsEnabled (sc_patcher s))"
      and wr: "statusWritten ClusterReady ConditionTrue (setComponents sts inst) p'"
      and u: "api_StatusUpdate (clusterPolicies c) p' w3 = (Inr z, w')"
    using reconcileStatus_ready [OF scope run] by blast
  have sts: "cpst_Components (cp_Status p') = sts" using wr by (simp add: statusWritten_def setComponents_def)
  have "sc_patcher s = policyPatchers c (sc_namespace s) (cp_Spec policy) osVersion runtime"
    using scope by (auto simp: NewRBLNClusterPolicyScope_def Let_def split: if_splits)
  then have stamped: "list_all (stampedFrom (time w)) sts"
    using assemble_stamped [OF clock _ a [unfolded AssembleComponentConditions_def]] policyPatchers_shared_report by (metis (no_types))
  have "sts \<noteq> []" using names scope_has_component [OF scope] by auto
  then have "\<not> list_all (stampedBefore (time w)) sts"
    using stamped stamped_disjoint by (cases sts) auto
  then have "list_all (stampedBefore (time w)) (cpst_Components (cp_Status inst)) \<longrightarrow> cp_Status p' \<noteq> cp_Status inst"
    using sts by metis
  moreover have "api_Get (clusterPolicies c) \<lparr>ok_Namespace = [], ok_Name = om_Name (cp_Meta p)\<rparr>
      (snd (AssembleComponentConditions s w)) = (Inr inst, w2)" using a g by simp
  moreover have "list_all (stampedFrom (time w)) (cpst_Components (cp_Status p'))" using sts stamped by simp
  moreover have "cp_Meta p' = cp_Meta inst" using wr by (simp add: statusWritten_def setComponents_def)
  ultimately show ?thesis using u by blast
qed

lemma mem_clock: "clock_law cl_time steady_client"
  by (simp add: clock_law_def steady_fields mem_client_def mem_api_def)

end
