(* ===== verification/Watches.thy ===== *)
theory Watches
  imports Policy_Status Driver_Controller
begin

text \<open>
  What \<open>SetupWithManager\<close> of the two reconcilers registers: which events of which objects lead to which requests,
  through the handlers of the controller runtime (vendored \<open>handler\<close> and \<open>builder\<close>).
\<close>

section \<open>Events and handlers\<close>

text \<open>An object of an event, with what the handlers and predicates look at.\<close>

datatype watched = WatchedNode Node | Watched kind ObjectMeta

fun wt_kind :: "watched \<Rightarrow> kind" where
  "wt_kind (WatchedNode n) = NodeKind"
| "wt_kind (Watched k m) = k"

fun wt_meta :: "watched \<Rightarrow> ObjectMeta" where
  "wt_meta (WatchedNode n) = node_Meta n"
| "wt_meta (Watched k m) = m"

fun wt_node :: "watched \<Rightarrow> Node option" where
  "wt_node (WatchedNode n) = Some n"
| "wt_node (Watched k m) = None"

datatype watch_event = Added watched | Changed watched watched | Removed watched

fun event_kind :: "watch_event \<Rightarrow> kind" where
  "event_kind (Added x) = wt_kind x"
| "event_kind (Changed old new) = wt_kind new"
| "event_kind (Removed x) = wt_kind x"

fun node_event_of :: "watch_event \<Rightarrow> node_event" where
  "node_event_of (Added x) = CreateEvent"
| "node_event_of (Changed old new) = UpdateEvent (wt_node old) (wt_node new)"
| "node_event_of (Removed x) = DeleteEvent"

text \<open>\<open>EnqueueRequestForObject\<close>.\<close>

fun enqueueForObject :: "watch_event \<Rightarrow> ObjectKey list" where
  "enqueueForObject (Added x) = [key_of_meta (wt_meta x)]"
| "enqueueForObject (Changed old new) = [key_of_meta (wt_meta new)]"
| "enqueueForObject (Removed x) = [key_of_meta (wt_meta x)]"

text \<open>
  \<open>EnqueueRequestForOwner\<close> with \<open>OnlyControllerOwner\<close>, for an owner of a kind that has no namespace, as both of the
  operator's kinds.
\<close>

definition getOwnerReconcileRequest :: "string \<Rightarrow> string \<Rightarrow> ObjectMeta \<Rightarrow> ObjectKey list" where
  "getOwnerReconcileRequest grp knd m =
     (case GetControllerOf m of
        None \<Rightarrow> []
      | Some ref \<Rightarrow>
          (case ParseGroup (or_APIVersion ref) of
             None \<Rightarrow> []
           | Some g \<Rightarrow> if or_Kind ref = knd \<and> g = grp then [\<lparr>ok_Namespace = [], ok_Name = or_Name ref\<rparr>] else []))"

fun enqueueForOwner :: "string \<Rightarrow> string \<Rightarrow> watch_event \<Rightarrow> ObjectKey list" where
  "enqueueForOwner g knd (Added x) = getOwnerReconcileRequest g knd (wt_meta x)"
| "enqueueForOwner g knd (Changed old new) =
     remdups (getOwnerReconcileRequest g knd (wt_meta old) @ getOwnerReconcileRequest g knd (wt_meta new))"
| "enqueueForOwner g knd (Removed x) = getOwnerReconcileRequest g knd (wt_meta x)"

text \<open>\<open>EnqueueRequestsFromMapFunc\<close>, for a function that does not look at the object.\<close>

fun enqueueMapped :: "('w, ObjectKey list) op \<Rightarrow> watch_event \<Rightarrow> ('w, ObjectKey list) op" where
  "enqueueMapped f (Added x) = bind f (\<lambda>rs. ret (remdups rs))"
| "enqueueMapped f (Changed old new) = bind f (\<lambda>rs. bind f (\<lambda>rs'. ret (remdups (rs @ rs'))))"
| "enqueueMapped f (Removed x) = bind f (\<lambda>rs. ret (remdups rs))"

section \<open>The watches\<close>

record 'w watch =
  wa_Kind :: kind
  wa_Predicate :: "watch_event \<Rightarrow> bool"
  wa_Handler :: "watch_event \<Rightarrow> ('w, ObjectKey list) op"

definition For :: "kind \<Rightarrow> 'w watch" where
  "For k = \<lparr>wa_Kind = k, wa_Predicate = (\<lambda>_. True), wa_Handler = (\<lambda>e. ret (enqueueForObject e))\<rparr>"

definition Owns :: "string \<Rightarrow> string \<Rightarrow> kind \<Rightarrow> 'w watch" where
  "Owns grp knd k = \<lparr>wa_Kind = k, wa_Predicate = (\<lambda>_. True), wa_Handler = (\<lambda>e. ret (enqueueForOwner grp knd e))\<rparr>"

definition policy_SetupWithManager :: "string \<Rightarrow> 'w watch list" where
  "policy_SetupWithManager singleton = [
     For ClusterPolicyKind,
     Owns ''rebellions.ai'' ''RBLNClusterPolicy'' DaemonSetKind,
     Owns ''rebellions.ai'' ''RBLNClusterPolicy'' ConfigMapKind,
     Owns ''rebellions.ai'' ''RBLNClusterPolicy'' ServiceKind,
     \<lparr>wa_Kind = NodeKind, wa_Predicate = rblnNodeLabelUpdated \<circ> node_event_of,
       wa_Handler = enqueueMapped (ret (singletonRequest singleton))\<rparr>]"

definition driver_SetupWithManager :: "'w client \<Rightarrow> 'w watch list" where
  "driver_SetupWithManager c = [
     For DriverKind,
     Owns ''rebellions.ai'' ''RBLNDriver'' DaemonSetKind,
     \<lparr>wa_Kind = ClusterPolicyKind, wa_Predicate = (\<lambda>_. True), wa_Handler = enqueueMapped (driverRequests c)\<rparr>,
     \<lparr>wa_Kind = NodeKind, wa_Predicate = driverRelevantNodeLabelUpdated \<circ> node_event_of,
       wa_Handler = enqueueMapped (driverRequests c)\<rparr>]"

text \<open>The requests of an event: those of all watches of the kind whose predicate lets it pass.\<close>

fun dispatch :: "'w watch list \<Rightarrow> watch_event \<Rightarrow> ('w, ObjectKey list) op" where
  "dispatch [] e = ret []"
| "dispatch (wa # was) e =
     bind (if wa_Kind wa = event_kind e \<and> wa_Predicate wa e then wa_Handler wa e else ret []) (\<lambda>rs.
     bind (dispatch was e) (\<lambda>rs'. ret (rs @ rs')))"

section \<open>Lemmas\<close>

lemmas watch_defs = For_def Owns_def policy_SetupWithManager_def driver_SetupWithManager_def

lemma owner_request:
  assumes owned: "WithOwner owner m = Ok m'" and wf: "wf_owner owner" and g: "ParseGroup (own_APIVersion owner) = Some grp"
  shows "getOwnerReconcileRequest grp (own_Kind owner) m' = [\<lparr>ok_Namespace = [], ok_Name = own_Name owner\<rparr>]"
proof -
  obtain r where "GetControllerOf m' = Some r" "referSameObject r (controllerRef owner)"
    using WithOwner_controls [OF owned wf] by blast
  then show ?thesis
    using g by (auto simp: getOwnerReconcileRequest_def referSameObject_def controllerRef_def split: option.splits)
qed

lemma policy_request:
  "WithOwner (policy_owner p) m = Ok m' \<Longrightarrow>
     getOwnerReconcileRequest ''rebellions.ai'' ''RBLNClusterPolicy'' m' = [\<lparr>ok_Namespace = [], ok_Name = om_Name (cp_Meta p)\<rparr>]"
  using owner_request [of "policy_owner p" m m' "''rebellions.ai''"]
  by (simp add: policy_owner_def ParseGroup_def wf_owner_def)

lemma driver_request:
  "WithOwner (driver_owner d) m = Ok m' \<Longrightarrow>
     getOwnerReconcileRequest ''rebellions.ai'' ''RBLNDriver'' m' = [\<lparr>ok_Namespace = [], ok_Name = om_Name (dr_Meta d)\<rparr>]"
  using owner_request [of "driver_owner d" m m' "''rebellions.ai''"]
  by (simp add: driver_owner_def ParseGroup_def wf_owner_def)

lemma policy_dispatch:
  "dispatch (policy_SetupWithManager s) e w = (Ok (
     if event_kind e = ClusterPolicyKind then enqueueForObject e
     else if event_kind e \<in> {DaemonSetKind, ConfigMapKind, ServiceKind} then enqueueForOwner ''rebellions.ai'' ''RBLNClusterPolicy'' e
     else if event_kind e = NodeKind \<and> rblnNodeLabelUpdated (node_event_of e) then singletonRequest s
     else []), w)"
  by (cases e; cases "event_kind e") (simp_all add: watch_defs ret_def bind_def singletonRequest_def)

lemma driver_dispatch_owned:
  assumes "k \<notin> {DriverKind, ClusterPolicyKind, NodeKind}" and "event_kind e = k"
  shows "dispatch (driver_SetupWithManager c) e w =
     (Ok (if k = DaemonSetKind then enqueueForOwner ''rebellions.ai'' ''RBLNDriver'' e else []), w)"
  using assms by (cases k) (simp_all add: watch_defs ret_def bind_def)

lemma driver_dispatch_policy:
  assumes "event_kind e = ClusterPolicyKind"
  shows "dispatch (driver_SetupWithManager c) e w = bind (enqueueMapped (driverRequests c) e) ret w"
  using assms by (simp add: watch_defs ret_def bind_def split: prod.splits outcome.splits)

section \<open>Properties\<close>

text \<open>
  C12: The deployment of a policy triggers itself.  A successful status update writes another status than it has
  read as long as the clock has advanced since the last one, because the report of every component carries
  the time at which it is made, although nothing may have changed; and the watch of the policies has no predicate, so that
  the event of this update requests the reconciliation of the same policy.
\<close>

theorem reconciliation_requests_itself:
  assumes "NewRBLNClusterPolicyScope c env policy osVersion runtime = Inr s" and "clock_law time c"
    and "reconcileStatus c p s w = (Ok r, w')"
  shows "\<exists>(inst :: RBLNClusterPolicy) (p' :: RBLNClusterPolicy) z w2 w3.
     api_Get (clusterPolicies c) \<lparr>ok_Namespace = [], ok_Name = om_Name (cp_Meta p)\<rparr>
       (snd (AssembleComponentConditions s w)) = (Inr inst, w2) \<and>
     api_StatusUpdate (clusterPolicies c) p' w3 = (Inr z, w') \<and>
     list_all (stampedFrom (time w)) (cpst_Components (cp_Status p')) \<and>
     (list_all (stampedBefore (time w)) (cpst_Components (cp_Status inst)) \<longrightarrow>
        cp_Status p' \<noteq> cp_Status inst \<and>
        dispatch (policy_SetupWithManager singleton)
          (Changed (Watched ClusterPolicyKind (cp_Meta inst)) (Watched ClusterPolicyKind (cp_Meta p'))) w' =
        (Ok [key_of_meta (cp_Meta inst)], w'))"
proof -
  obtain inst p' :: RBLNClusterPolicy and z w2 w3
    where "api_Get (clusterPolicies c) \<lparr>ok_Namespace = [], ok_Name = om_Name (cp_Meta p)\<rparr>
        (snd (AssembleComponentConditions s w)) = (Inr inst, w2)"
      and "api_StatusUpdate (clusterPolicies c) p' w3 = (Inr z, w')" and meta: "cp_Meta p' = cp_Meta inst"
      and "list_all (stampedFrom (time w)) (cpst_Components (cp_Status p'))"
      and "list_all (stampedBefore (time w)) (cpst_Components (cp_Status inst)) \<longrightarrow> cp_Status p' \<noteq> cp_Status inst"
    using status_changes [OF assms] by blast
  moreover have "dispatch (policy_SetupWithManager singleton)
      (Changed (Watched ClusterPolicyKind (cp_Meta inst)) (Watched ClusterPolicyKind (cp_Meta p'))) w' =
      (Ok [key_of_meta (cp_Meta inst)], w')"
    by (simp add: policy_dispatch meta)
  ultimately show ?thesis by blast
qed

theorem reconciliation_requests_itself_witness:
  "\<exists>p' :: RBLNClusterPolicy. cp_Status p' \<noteq> cp_Status example_policy \<and>
     list_all (stampedFrom (cl_time example_cluster)) (cpst_Components (cp_Status p'))"
proof -
  obtain s where s: "NewRBLNClusterPolicyScope steady_client [] example_policy (ci_OpenshiftVersion example_info)
      (ci_ContainerRuntime example_info) = Inr s" using steady_scope by blast
  obtain w' where "reconcileStatus steady_client example_policy s example_cluster = (Ok noRequeue, w')"
    using reconcileStatus_answers [OF s steady_answering] by blast
  from reconciliation_requests_itself [OF s mem_clock this] show ?thesis
    by (auto simp: steady_fields) (auto simp: example_policy_def zero_ClusterPolicy_def)
qed

text \<open>
  C15: The changes of deployed objects that reach the operator.  When an object that a policy owns is changed or
  removed, the policy is reconciled if it is a DaemonSet, a ConfigMap or a service; the service
  accounts, roles and bindings are not watched, so that their removal goes unnoticed.  A DaemonSet of
  a driver brings a request for that driver; the service accounts, roles and bindings bring none there either.
\<close>

theorem deployed_objects_watched:
  assumes policy: "WithOwner (policy_owner p) m = Ok m'" and driver: "WithOwner (driver_owner d) n = Ok n'"
  shows "(k \<in> {DaemonSetKind, ConfigMapKind, ServiceKind} \<longrightarrow>
        (\<forall>e\<in>{Removed (Watched k m'), Changed (Watched k m') (Watched k x)}.
           \<exists>rs. dispatch (policy_SetupWithManager singleton) e w = (Ok rs, w) \<and>
             \<lparr>ok_Namespace = [], ok_Name = om_Name (cp_Meta p)\<rparr> \<in> set rs)) \<and>
     (\<forall>e\<in>{Removed (Watched DaemonSetKind n'), Changed (Watched DaemonSetKind n') (Watched DaemonSetKind x)}.
        \<exists>rs. dispatch (driver_SetupWithManager c) e w = (Ok rs, w) \<and>
          \<lparr>ok_Namespace = [], ok_Name = om_Name (dr_Meta d)\<rparr> \<in> set rs) \<and>
     (event_kind e \<in> {ServiceAccountKind, RoleKind, RoleBindingKind, ClusterRoleKind, ClusterRoleBindingKind} \<longrightarrow>
        dispatch (policy_SetupWithManager singleton) e w = (Ok [], w) \<and> dispatch (driver_SetupWithManager c) e w = (Ok [], w))"
proof (intro conjI impI ballI)
  fix e
  assume "k \<in> {DaemonSetKind, ConfigMapKind, ServiceKind}" "e \<in> {Removed (Watched k m'), Changed (Watched k m') (Watched k x)}"
  then show "\<exists>rs. dispatch (policy_SetupWithManager singleton) e w = (Ok rs, w) \<and> \<lparr>ok_Namespace = [], ok_Name = om_Name (cp_Meta p)\<rparr> \<in> set rs"
    by (auto simp: policy_dispatch policy_request [OF policy])
next
  fix e
  assume "e \<in> {Removed (Watched DaemonSetKind n'), Changed (Watched DaemonSetKind n') (Watched DaemonSetKind x)}"
  then show "\<exists>rs. dispatch (driver_SetupWithManager c) e w = (Ok rs, w) \<and> \<lparr>ok_Namespace = [], ok_Name = om_Name (dr_Meta d)\<rparr> \<in> set rs"
    by (auto simp: driver_dispatch_owned [where k = DaemonSetKind] driver_request [OF driver])
next
  assume e: "event_kind e \<in> {ServiceAccountKind, RoleKind, RoleBindingKind, ClusterRoleKind, ClusterRoleBindingKind}"
  then show "dispatch (policy_SetupWithManager singleton) e w = (Ok [], w)" by (auto simp: policy_dispatch)
  show "dispatch (driver_SetupWithManager c) e w = (Ok [], w)"
    using e driver_dispatch_owned [OF _ refl, of e c w] by auto
qed

theorem deployed_objects_watched_witness:
  "\<exists>m' rs. WithOwner (policy_owner example_policy) (new_meta ''rbln-daemon'' ''rbln'') = Ok m' \<and>
     dispatch (policy_SetupWithManager ''rbln-cluster-policy'') (Removed (Watched DaemonSetKind m')) () = (Ok rs, ()) \<and>
     \<lparr>ok_Namespace = [], ok_Name = ''rbln-cluster-policy''\<rparr> \<in> set rs"
proof -
  have "is_ok (WithOwner (policy_owner example_policy) (new_meta ''rbln-daemon'' ''rbln''))"
    "is_ok (WithOwner (driver_owner zero_Driver) (new_meta ''rbln-driver'' ''rbln''))" by code_simp+
  then obtain m' n' where owned: "WithOwner (policy_owner example_policy) (new_meta ''rbln-daemon'' ''rbln'') = Ok m'"
      "WithOwner (driver_owner zero_Driver) (new_meta ''rbln-driver'' ''rbln'') = Ok n'"
    by (auto simp: is_ok_iff)
  have "om_Name (cp_Meta example_policy) = ''rbln-cluster-policy''" by (simp add: example_policy_def)
  then show ?thesis
    using deployed_objects_watched [OF owned, of DaemonSetKind _ "''rbln-cluster-policy''" "()"] owned by auto
qed

end
