(* ===== verification/Work_Queue.thy ===== *)
theory Work_Queue
  imports Prelude "HOL-Library.Sublist"
begin

text \<open>
  The work queue between events and reconciliations (vendored \<open>client-go/util/workqueue/queue.go\<close>): an item that
  is added while it is processed waits until it has been processed, and one that is added twice is
  processed once.  Every operation holds the lock of the queue, so that they run one after the other.
\<close>

section \<open>Operations\<close>

record 'a workqueue =
  wq_queue :: "'a list"
  wq_dirty :: "'a set"
  wq_processing :: "'a set"
  wq_shuttingDown :: bool

definition newQueue :: "'a workqueue" where
  "newQueue = \<lparr>wq_queue = [], wq_dirty = {}, wq_processing = {}, wq_shuttingDown = False\<rparr>"

definition Add :: "'a \<Rightarrow> 'a workqueue \<Rightarrow> 'a workqueue" where
  "Add item q =
     (if wq_shuttingDown q then q
      else if item \<in> wq_dirty q then q
      else (let q1 = q\<lparr>wq_dirty := insert item (wq_dirty q)\<rparr> in
            if item \<in> wq_processing q1 then q1
            else q1\<lparr>wq_queue := wq_queue q1 @ [item]\<rparr>))"

text \<open>\<open>Get\<close> blocks while the queue is empty and is not shutting down.\<close>

datatype 'a got = Blocked | Shutdown | Item 'a

definition Get :: "'a workqueue \<Rightarrow> 'a got \<times> 'a workqueue" where
  "Get q =
     (case wq_queue q of
        [] \<Rightarrow> (if wq_shuttingDown q then Shutdown else Blocked, q)
      | item # rest \<Rightarrow>
          (Item item, q\<lparr>wq_queue := rest, wq_processing := insert item (wq_processing q), wq_dirty := wq_dirty q - {item}\<rparr>))"

definition Done :: "'a \<Rightarrow> 'a workqueue \<Rightarrow> 'a workqueue" where
  "Done item q =
     (let q1 = q\<lparr>wq_processing := wq_processing q - {item}\<rparr> in
      if item \<in> wq_dirty q1 then q1\<lparr>wq_queue := wq_queue q1 @ [item]\<rparr> else q1)"

definition ShutDown :: "'a workqueue \<Rightarrow> 'a workqueue" where
  "ShutDown q = q\<lparr>wq_shuttingDown := True\<rparr>"

lemmas wq_defs = Add_def Get_def Done_def ShutDown_def newQueue_def Let_def

section \<open>The invariant\<close>

text \<open>The comments of the struct, made exact: the queue lists the dirty items that are not processed, once each.\<close>

definition wq_inv :: "'a workqueue \<Rightarrow> bool" where
  "wq_inv q \<longleftrightarrow> distinct (wq_queue q) \<and> set (wq_queue q) = wq_dirty q - wq_processing q"

lemma wq_inv_new: "wq_inv newQueue"
  by (simp add: wq_inv_def newQueue_def)

lemma wq_inv_Add: "wq_inv q \<Longrightarrow> wq_inv (Add item q)"
  by (auto simp: wq_inv_def wq_defs)

lemma wq_inv_Get: "wq_inv q \<Longrightarrow> wq_inv (snd (Get q))"
  by (cases "wq_queue q") (auto simp: wq_inv_def Get_def)

lemma wq_inv_Done: "wq_inv q \<Longrightarrow> item \<in> wq_processing q \<Longrightarrow> wq_inv (Done item q)"
  by (auto simp: wq_inv_def wq_defs)

lemma wq_inv_ShutDown: "wq_inv q \<Longrightarrow> wq_inv (ShutDown q)"
  by (simp add: wq_inv_def wq_defs)

lemmas wq_inv_intros = wq_inv_new wq_inv_Add wq_inv_Get wq_inv_Done wq_inv_ShutDown

section \<open>Events\<close>

text \<open>The operations as events; \<open>None\<close> when an event is not possible: nothing to get, or an item is done that is not processed.\<close>

datatype 'a wq_event = Adding 'a | Getting 'a | Finishing 'a | Stopping

fun wq_step :: "'a workqueue \<Rightarrow> 'a wq_event \<Rightarrow> 'a workqueue option" where
  "wq_step q (Adding x) = Some (Add x q)"
| "wq_step q (Getting x) = (if fst (Get q) = Item x then Some (snd (Get q)) else None)"
| "wq_step q (Finishing x) = (if x \<in> wq_processing q then Some (Done x q) else None)"
| "wq_step q Stopping = Some (ShutDown q)"

fun wq_steps :: "'a workqueue \<Rightarrow> 'a wq_event list \<Rightarrow> 'a workqueue option" where
  "wq_steps q [] = Some q"
| "wq_steps q (e # es) = (case wq_step q e of None \<Rightarrow> None | Some q' \<Rightarrow> wq_steps q' es)"

lemma wq_step_inv: "wq_inv q \<Longrightarrow> wq_step q e = Some q' \<Longrightarrow> wq_inv q'"
  by (cases e) (auto intro: wq_inv_intros split: if_splits)

lemma wq_steps_inv: "wq_inv q \<Longrightarrow> wq_steps q es = Some q' \<Longrightarrow> wq_inv q'"
  by (induction es arbitrary: q) (auto split: option.splits dest: wq_step_inv)

section \<open>The abstract queue\<close>

text \<open>What the queue promises: a set of pending items and the set of those in work.\<close>

record 'a pool =
  pl_pending :: "'a set"
  pl_active :: "'a set"
  pl_closed :: bool

fun pool_step :: "'a pool \<Rightarrow> 'a wq_event \<Rightarrow> 'a pool \<Rightarrow> bool" where
  "pool_step p (Adding x) p' \<longleftrightarrow> p' = (if pl_closed p then p else p\<lparr>pl_pending := insert x (pl_pending p)\<rparr>)"
| "pool_step p (Getting x) p' \<longleftrightarrow> x \<in> pl_pending p \<and> x \<notin> pl_active p \<and>
     p' = p\<lparr>pl_pending := pl_pending p - {x}, pl_active := insert x (pl_active p)\<rparr>"
| "pool_step p (Finishing x) p' \<longleftrightarrow> x \<in> pl_active p \<and> p' = p\<lparr>pl_active := pl_active p - {x}\<rparr>"
| "pool_step p Stopping p' \<longleftrightarrow> p' = p\<lparr>pl_closed := True\<rparr>"

definition pool_of :: "'a workqueue \<Rightarrow> 'a pool" where
  "pool_of q = \<lparr>pl_pending = wq_dirty q, pl_active = wq_processing q, pl_closed = wq_shuttingDown q\<rparr>"

lemma pool_simulation:
  assumes "wq_inv q" and "wq_step q e = Some q'"
  shows "pool_step (pool_of q) e (pool_of q')"
proof (cases e)
  case (Getting x)
  then have "fst (Get q) = Item x" "q' = snd (Get q)" using assms(2) by (auto split: if_splits)
  moreover from this obtain rest where "wq_queue q = x # rest" by (auto simp: Get_def split: list.splits if_splits)
  ultimately show ?thesis using assms(1) Getting by (auto simp: wq_inv_def wq_defs pool_of_def)
qed (use assms in \<open>auto simp: wq_defs pool_of_def split: if_splits\<close>)

fun pool_steps :: "'a pool \<Rightarrow> 'a wq_event list \<Rightarrow> 'a pool \<Rightarrow> bool" where
  "pool_steps p [] p'' \<longleftrightarrow> p'' = p"
| "pool_steps p (e # es) p'' \<longleftrightarrow> (\<exists>p'. pool_step p e p' \<and> pool_steps p' es p'')"

lemma pool_simulations:
  assumes "wq_inv q" and "wq_steps q es = Some q'"
  shows "pool_steps (pool_of q) es (pool_of q')"
  using assms
proof (induction es arbitrary: q)
  case (Cons e es)
  then obtain q1 where "wq_step q e = Some q1" "wq_steps q1 es = Some q'" by (auto split: option.splits)
  then show ?case using Cons.IH [of q1] wq_step_inv pool_simulation Cons.prems(1) by (metis pool_steps.simps(2))
qed simp

section \<open>Order\<close>

definition gets :: "'a wq_event list \<Rightarrow> 'a list" where
  "gets es = concat (List.map (\<lambda>e. case e of Getting x \<Rightarrow> [x] | _ \<Rightarrow> []) es)"

text \<open>No other operation than \<open>Get\<close> takes an item from the queue, and new items are put at its end.\<close>

lemma wq_step_queue:
  assumes "wq_step q e = Some q'"
  shows "case e of Getting x \<Rightarrow> wq_queue q = x # wq_queue q' | _ \<Rightarrow> prefix (wq_queue q) (wq_queue q')"
  using assms by (cases e) (auto simp: wq_defs split: if_splits list.splits)

lemma gets_in_order: "wq_steps q es = Some q' \<Longrightarrow> \<exists>rest. wq_queue q @ rest = gets es @ wq_queue q'"
proof (induction es arbitrary: q)
  case (Cons e es)
  then obtain q1 where q1: "wq_step q e = Some q1" "wq_steps q1 es = Some q'" by (auto split: option.splits)
  obtain rest where rest: "wq_queue q1 @ rest = gets es @ wq_queue q'" using Cons.IH [OF q1(2)] by blast
  show ?case
  proof (cases "\<exists>x. e = Getting x")
    case True
    then show ?thesis using wq_step_queue [OF q1(1)] rest by (auto simp: gets_def)
  next
    case False
    then obtain new where "wq_queue q1 = wq_queue q @ new" using wq_step_queue [OF q1(1)] by (cases e) (auto simp: prefix_def)
    moreover have "gets (e # es) = gets es" using False by (cases e) (auto simp: gets_def)
    ultimately show ?thesis using rest by (metis append.assoc)
  qed
qed (simp add: gets_def)

section \<open>Properties\<close>

text \<open>
  C10: The work queue implements a set of pending items and a set of items in work: whatever is added, taken and
  finished in any order, an item is taken only when it is pending and not in work, an item that is
  added while it is in work is pending again, and nothing pending is lost.  It is fair: the items are taken in the order
  of the queue, so that the item at position \<open>i\<close> is taken by the \<open>i\<close>-th \<open>Get\<close> from then on.
\<close>

theorem workqueue_refines:
  assumes "wq_steps newQueue es = Some q"
  shows "pool_steps (pool_of newQueue) es (pool_of q) \<and> wq_inv q \<and>
     (\<forall>es' q' i. wq_steps q es' = Some q' \<longrightarrow> i < length (wq_queue q) \<longrightarrow> i < length (gets es') \<longrightarrow>
        gets es' ! i = wq_queue q ! i)"
proof (intro conjI allI impI)
  show "pool_steps (pool_of newQueue) es (pool_of q)" using wq_inv_new assms by (rule pool_simulations)
  show "wq_inv q" using wq_inv_new assms by (rule wq_steps_inv)
  fix es' q' i
  assume "wq_steps q es' = Some q'" and i: "i < length (wq_queue q)" "i < length (gets es')"
  then obtain rest where "wq_queue q @ rest = gets es' @ wq_queue q'" using gets_in_order by blast
  then show "gets es' ! i = wq_queue q ! i" using i by (metis nth_append)
qed

theorem workqueue_refines_witness:
  "let q = the (wq_steps newQueue [Adding ''a'', Getting ''a'', Adding ''b'', Adding ''a'', Adding ''b'', Finishing ''a'']) in
   pl_pending (pool_of q) = {''a'', ''b''} \<and> wq_inv q"
proof -
  have run: "wq_steps newQueue [Adding ''a'', Getting ''a'', Adding ''b'', Adding ''a'', Adding ''b'', Finishing ''a''] =
      Some \<lparr>wq_queue = [''b'', ''a''], wq_dirty = {''a'', ''b''}, wq_processing = {}, wq_shuttingDown = False\<rparr>"
    by (simp add: wq_defs insert_Diff_if)
  from workqueue_refines [OF this] show ?thesis unfolding run by (simp add: pool_of_def)
qed

end
