(* ===== verification/Controller_Loop.thy ===== *)
theory Controller_Loop
  imports Watches Work_Queue
begin

text \<open>
  The loop of a controller (vendored \<open>controller-runtime/pkg/internal/controller/controller.go\<close>) with its delayed and
  rate limited queue (\<open>client-go/util/workqueue\<close>): what happens to a request between the event that
  asks for it and the reconciliation that serves it.  Times are in nanoseconds.  An entry in the channel between
  \<open>AddAfter\<close> and the loop that waits counts as waiting.
\<close>

section \<open>The queue with delays\<close>

text \<open>The items that wait, with the time at which they are ready, and the failures that the rate limiter counts.\<close>

record 'a controller =
  ct_queue :: "'a workqueue"
  ct_waiting :: "'a \<rightharpoonup> nat"
  ct_failures :: "'a \<Rightarrow> nat"

definition newController :: "'a controller" where
  "newController = \<lparr>ct_queue = newQueue, ct_waiting = Map.empty, ct_failures = (\<lambda>_. 0)\<rparr>"

definition enqueue :: "'a \<Rightarrow> 'a controller \<Rightarrow> 'a controller" where
  "enqueue item c = c\<lparr>ct_queue := Add item (ct_queue c)\<rparr>"

text \<open>\<open>insert\<close>: an item that waits already keeps the earlier time.\<close>

definition insertWaiting :: "'a \<Rightarrow> nat \<Rightarrow> 'a controller \<Rightarrow> 'a controller" where
  "insertWaiting item readyAt c =
     (case ct_waiting c item of
        Some existing \<Rightarrow> if readyAt < existing then c\<lparr>ct_waiting := (ct_waiting c)(item \<mapsto> readyAt)\<rparr> else c
      | None \<Rightarrow> c\<lparr>ct_waiting := (ct_waiting c)(item \<mapsto> readyAt)\<rparr>)"

definition AddAfter :: "nat \<Rightarrow> 'a \<Rightarrow> nat \<Rightarrow> 'a controller \<Rightarrow> 'a controller" where
  "AddAfter clock item duration c =
     (if wq_shuttingDown (ct_queue c) then c
      else if duration = 0 then enqueue item c
      else insertWaiting item (clock + duration) c)"

text \<open>\<open>backoff\<close> is the delay of the rate limiter after a number of failures.\<close>

definition AddRateLimited :: "(nat \<Rightarrow> nat) \<Rightarrow> nat \<Rightarrow> 'a \<Rightarrow> 'a controller \<Rightarrow> 'a controller" where
  "AddRateLimited backoff clock item c =
     AddAfter clock item (backoff (ct_failures c item)) (c\<lparr>ct_failures := (ct_failures c)(item := ct_failures c item + 1)\<rparr>)"

definition Forget :: "'a \<Rightarrow> 'a controller \<Rightarrow> 'a controller" where
  "Forget item c = c\<lparr>ct_failures := (ct_failures c)(item := 0)\<rparr>"

text \<open>The loop that waits: an entry that is ready is added.\<close>

definition addReady :: "'a \<Rightarrow> 'a controller \<Rightarrow> 'a controller" where
  "addReady item c = (enqueue item c)\<lparr>ct_waiting := (ct_waiting c)(item := None)\<rparr>"

section \<open>The worker\<close>

text \<open>The operator returns no terminal errors and never sets \<open>Requeue\<close>.  After a panic the process ends.\<close>

definition reconcileHandler :: "(nat \<Rightarrow> nat) \<Rightarrow> nat \<Rightarrow> 'a \<Rightarrow> Result outcome \<Rightarrow> 'a controller \<Rightarrow> 'a controller" where
  "reconcileHandler backoff clock req r c =
     (case r of
        Err e \<Rightarrow> AddRateLimited backoff clock req c
      | Ok result \<Rightarrow>
          if 0 < res_RequeueAfter result
          then AddAfter clock req (res_RequeueAfter result * 1000000000) (Forget req c)
          else Forget req c
      | Abort s \<Rightarrow> c)"

definition finish :: "(nat \<Rightarrow> nat) \<Rightarrow> nat \<Rightarrow> 'a \<Rightarrow> Result outcome \<Rightarrow> 'a controller \<Rightarrow> 'a controller" where
  "finish backoff clock req r c =
     (let c1 = reconcileHandler backoff clock req r c in c1\<lparr>ct_queue := Done req (ct_queue c1)\<rparr>)"

text \<open>One turn of a worker, and whether it goes on.\<close>

definition processNextWorkItem ::
  "(nat \<Rightarrow> nat) \<Rightarrow> nat \<Rightarrow> ('a \<Rightarrow> ('w, Result) op) \<Rightarrow> 'a controller \<Rightarrow> 'w \<Rightarrow> bool \<times> 'a controller \<times> 'w" where
  "processNextWorkItem backoff clock doReconcile c w =
     (case Get (ct_queue c) of
        (Item req, q) \<Rightarrow> (case doReconcile req w of (r, w') \<Rightarrow> (True, finish backoff clock req r (c\<lparr>ct_queue := q\<rparr>), w'))
      | (Blocked, q) \<Rightarrow> (True, c, w)
      | (Shutdown, q) \<Rightarrow> (False, c, w))"

text \<open>The reconciler of policies keeps the name of the policy in charge from one reconciliation to the next.\<close>

definition policyReconciler ::
  "'w client \<Rightarrow> string \<Rightarrow> ClusterInfo \<Rightarrow> ObjectKey \<Rightarrow> ('w \<times> string, Result) op" where
  "policyReconciler c operatorNamespace info req = (\<lambda>(w, singleton).
     case Reconcile c operatorNamespace info req singleton w of ((r, singleton'), w') \<Rightarrow> (r, (w', singleton')))"

text \<open>The requests of an event, as the handlers put them into the queue.\<close>

definition enqueueAll :: "'a list \<Rightarrow> 'a controller \<Rightarrow> 'a controller" where
  "enqueueAll reqs c = fold enqueue reqs c"

section \<open>Runs\<close>

text \<open>When a reconciliation has to be repeated.\<close>

fun retried :: "Result outcome \<Rightarrow> bool" where
  "retried (Err e) = True"
| "retried (Ok result) = (0 < res_RequeueAfter result)"
| "retried (Abort s) = False"

text \<open>
  A controller with any number of workers.  \<open>owed\<close> are the requests that have been asked for, by an event or by a
  reconciliation that has to be repeated, and not been taken since; \<open>hands\<close> those that the workers are reconciling.
\<close>

inductive ctl_run :: "(nat \<Rightarrow> nat) \<Rightarrow> 'a controller \<Rightarrow> nat \<Rightarrow> 'a set \<Rightarrow> 'a list \<Rightarrow> bool" for backoff where
  start: "ctl_run backoff newController clock {} []"
| tick: "ctl_run backoff c clock owed hands \<Longrightarrow> clock \<le> clock' \<Longrightarrow> ctl_run backoff c clock' owed hands"
| event: "ctl_run backoff c clock owed hands \<Longrightarrow> ctl_run backoff (enqueue x c) clock (insert x owed) hands"
| ready: "ctl_run backoff c clock owed hands \<Longrightarrow> ct_waiting c x = Some t \<Longrightarrow> t \<le> clock \<Longrightarrow>
     ctl_run backoff (addReady x c) clock owed hands"
| take: "ctl_run backoff c clock owed hands \<Longrightarrow> Get (ct_queue c) = (Item x, q) \<Longrightarrow>
     ctl_run backoff (c\<lparr>ct_queue := q\<rparr>) clock (owed - {x}) (x # hands)"
| reconciled: "ctl_run backoff c clock owed hands \<Longrightarrow> x \<in> set hands \<Longrightarrow> (\<And>s. r \<noteq> Abort s) \<Longrightarrow>
     ctl_run backoff (finish backoff clock x r c) clock (if retried r then insert x owed else owed) (remove1 x hands)"
| stop: "ctl_run backoff c clock owed hands \<Longrightarrow> ctl_run backoff (c\<lparr>ct_queue := ShutDown (ct_queue c)\<rparr>) clock owed hands"

section \<open>Lemmas\<close>

text \<open>The items that the queue still knows of.\<close>

definition scheduled :: "'a controller \<Rightarrow> 'a set" where
  "scheduled c = wq_dirty (ct_queue c) \<union> dom (ct_waiting c)"

definition ctl_inv :: "'a controller \<Rightarrow> 'a set \<Rightarrow> 'a list \<Rightarrow> bool" where
  "ctl_inv c owed hands \<longleftrightarrow> wq_inv (ct_queue c) \<and> distinct hands \<and> set hands = wq_processing (ct_queue c) \<and>
     (\<not> wq_shuttingDown (ct_queue c) \<longrightarrow> owed \<subseteq> scheduled c)"

lemma Add_fields:
  "wq_processing (Add x q) = wq_processing q" "wq_shuttingDown (Add x q) = wq_shuttingDown q"
  "wq_dirty (Add x q) = (if wq_shuttingDown q then wq_dirty q else insert x (wq_dirty q))"
  by (auto simp: wq_defs)

lemma Done_fields [simp]:
  "wq_processing (Done x q) = wq_processing q - {x}" "wq_shuttingDown (Done x q) = wq_shuttingDown q"
  "wq_dirty (Done x q) = wq_dirty q"
  by (auto simp: wq_defs)

lemma AddAfter_effect:
  "wq_inv (ct_queue c) \<Longrightarrow> wq_inv (ct_queue (AddAfter clock x d c))"
  "wq_processing (ct_queue (AddAfter clock x d c)) = wq_processing (ct_queue c)"
  "wq_shuttingDown (ct_queue (AddAfter clock x d c)) = wq_shuttingDown (ct_queue c)"
  "\<not> wq_shuttingDown (ct_queue c) \<Longrightarrow> scheduled (AddAfter clock x d c) = insert x (scheduled c)"
  by (auto simp: AddAfter_def enqueue_def insertWaiting_def scheduled_def Add_fields wq_inv_Add split: option.splits)

lemma scheduled_failures [simp]: "scheduled (c\<lparr>ct_failures := g\<rparr>) = scheduled c"
  by (simp add: scheduled_def)

lemma handler_effect:
  "wq_inv (ct_queue c) \<Longrightarrow> wq_inv (ct_queue (reconcileHandler backoff clock x r c))"
  "wq_processing (ct_queue (reconcileHandler backoff clock x r c)) = wq_processing (ct_queue c)"
  "wq_shuttingDown (ct_queue (reconcileHandler backoff clock x r c)) = wq_shuttingDown (ct_queue c)"
  "\<not> wq_shuttingDown (ct_queue c) \<Longrightarrow>
     scheduled (reconcileHandler backoff clock x r c) = (if retried r then insert x (scheduled c) else scheduled c)"
  by (cases r; simp add: reconcileHandler_def AddRateLimited_def Forget_def AddAfter_effect)+

lemma ctl_run_inv: "ctl_run backoff c clock owed hands \<Longrightarrow> ctl_inv c owed hands"
proof (induction rule: ctl_run.induct)
  case (start clock)
  then show ?case by (simp add: ctl_inv_def newController_def wq_inv_def newQueue_def)
next
  case (event c clock owed hands x)
  then show ?case by (auto simp: ctl_inv_def enqueue_def scheduled_def Add_fields wq_inv_Add)
next
  case (ready c clock owed hands x t)
  then show ?case by (auto simp: ctl_inv_def addReady_def enqueue_def scheduled_def Add_fields wq_inv_Add)
next
  case (take c clock owed hands x q)
  then obtain rest where rest: "wq_queue (ct_queue c) = x # rest" and
    q: "q = (ct_queue c)\<lparr>wq_queue := rest, wq_processing := insert x (wq_processing (ct_queue c)), wq_dirty := wq_dirty (ct_queue c) - {x}\<rparr>"
    by (auto simp: Get_def split: list.splits if_splits)
  have "x \<notin> wq_processing (ct_queue c)" using take.IH rest by (auto simp: ctl_inv_def wq_inv_def)
  then show ?case using take.IH wq_inv_Get [of "ct_queue c"] take.hyps(2) q by (auto simp: ctl_inv_def scheduled_def)
next
  case (reconciled c clock owed hands x r)
  let ?c1 = "reconcileHandler backoff clock x r c"
  note h = handler_effect [where c = c and backoff = backoff and clock = clock and x = x and r = r]
  have "x \<in> wq_processing (ct_queue ?c1)" using reconciled h(2) by (auto simp: ctl_inv_def)
  moreover have "wq_inv (ct_queue ?c1)" using reconciled.IH h(1) by (simp add: ctl_inv_def)
  ultimately have "wq_inv (Done x (ct_queue ?c1))" by (intro wq_inv_Done)
  then show ?case
    using reconciled.IH h(2,3,4) by (auto simp: ctl_inv_def finish_def Let_def scheduled_def split: if_splits)
next
  case (stop c clock owed hands)
  then show ?case by (simp add: ctl_inv_def wq_inv_ShutDown) (simp add: wq_defs)
qed simp

section \<open>Properties\<close>

text \<open>
  C9: No request is lost, and no object is reconciled twice at a time.  In every run of a controller, with any
  number of workers and in any order of events, the workers have different requests in hand; and until
  the controller is stopped, every request that an event has asked for, or whose last reconciliation failed or
  asked to be repeated, is in the queue, or is put there as soon as its object is no longer in hand, or waits for
  its time.  A worker that takes a request whose reconciliation has to be repeated leaves it scheduled.
\<close>

theorem requests_kept:
  assumes run: "ctl_run backoff c clock owed hands"
  shows "distinct hands \<and>
     (\<not> wq_shuttingDown (ct_queue c) \<longrightarrow>
        (\<forall>x\<in>owed. x \<in> set (wq_queue (ct_queue c)) \<or> x \<in> set hands \<and> x \<in> wq_dirty (ct_queue c) \<or> ct_waiting c x \<noteq> None)) \<and>
     (\<forall>req q r w' goesOn c' w''. \<not> wq_shuttingDown (ct_queue c) \<longrightarrow> Get (ct_queue c) = (Item req, q) \<longrightarrow>
        doReconcile req w = (r, w') \<longrightarrow> retried r \<longrightarrow> processNextWorkItem backoff clock doReconcile c w = (goesOn, c', w'') \<longrightarrow>
        goesOn \<and> w'' = w' \<and> (req \<in> set (wq_queue (ct_queue c')) \<or> ct_waiting c' req \<noteq> None))"
proof (intro conjI impI allI ballI)
  have inv: "ctl_inv c owed hands" by (rule ctl_run_inv [OF run])
  then show "distinct hands" by (simp add: ctl_inv_def)
  show "x \<in> set (wq_queue (ct_queue c)) \<or> x \<in> set hands \<and> x \<in> wq_dirty (ct_queue c) \<or> ct_waiting c x \<noteq> None"
    if "\<not> wq_shuttingDown (ct_queue c)" "x \<in> owed" for x
    using inv that by (auto simp: ctl_inv_def wq_inv_def scheduled_def)
  fix req q r w' goesOn c' w''
  assume open_: "\<not> wq_shuttingDown (ct_queue c)" and get: "Get (ct_queue c) = (Item req, q)"
    and r: "doReconcile req w = (r, w')" "retried r" and turn: "processNextWorkItem backoff clock doReconcile c w = (goesOn, c', w'')"
  have c': "c' = finish backoff clock req r (c\<lparr>ct_queue := q\<rparr>)" and go: goesOn "w'' = w'"
    using turn get r(1) by (auto simp: processNextWorkItem_def)
  then show goesOn "w'' = w'" by simp_all
  have "ctl_run backoff c' clock (insert req (owed - {req})) (remove1 req (req # hands))"
    unfolding c' using ctl_run.reconciled [OF ctl_run.take [OF run get], of req r] r(2) by (cases r) auto
  from ctl_run_inv [OF this] have inv': "ctl_inv c' (insert req (owed - {req})) hands" by simp
  have "wq_shuttingDown (ct_queue c') = wq_shuttingDown q"
    unfolding c' by (simp add: finish_def Let_def handler_effect)
  moreover have "wq_shuttingDown q = wq_shuttingDown (ct_queue c)" "req \<in> wq_processing q"
    using get by (auto simp: Get_def split: list.splits if_splits)
  moreover have "req \<notin> wq_processing (ct_queue c')" unfolding c' by (simp add: finish_def Let_def)
  ultimately show "req \<in> set (wq_queue (ct_queue c')) \<or> ct_waiting c' req \<noteq> None"
    using inv' open_ by (auto simp: ctl_inv_def wq_inv_def scheduled_def)
qed

text \<open>A reconciliation without NFD asks to be repeated: the request waits for its thirty seconds.\<close>

theorem requests_kept_witness:
  "\<exists>c'. processNextWorkItem (\<lambda>_. 5) 0 (\<lambda>_ w. (Ok \<lparr>res_RequeueAfter = 30\<rparr>, w)) (enqueue ''p'' newController) () = (True, c', ()) \<and>
     (''p'' \<in> set (wq_queue (ct_queue c')) \<or> ct_waiting c' ''p'' \<noteq> None)"
proof -
  let ?c = "enqueue ''p'' newController"
  have run: "ctl_run (\<lambda>_. 5) ?c 0 {''p''} []" using ctl_run.event [OF ctl_run.start] by fastforce
  have get: "Get (ct_queue ?c) = (Item ''p'', snd (Get (ct_queue ?c)))" and "\<not> wq_shuttingDown (ct_queue ?c)"
    by (simp_all add: enqueue_def newController_def wq_defs)
  obtain go c' w'' where "processNextWorkItem (\<lambda>_. 5) 0 (\<lambda>_ w. (Ok \<lparr>res_RequeueAfter = 30\<rparr>, w)) ?c () = (go, c', w'')"
    by (metis prod.exhaust)
  moreover from this requests_kept [OF run, where doReconcile = "\<lambda>_ w. (Ok \<lparr>res_RequeueAfter = 30\<rparr>, w)" and w = "()"] get
  have "go \<and> (''p'' \<in> set (wq_queue (ct_queue c')) \<or> ct_waiting c' ''p'' \<noteq> None)"
    using \<open>\<not> wq_shuttingDown (ct_queue ?c)\<close> by (metis retried.simps(2) Result.select_convs(1) zero_less_numeral)
  ultimately show ?thesis by auto
qed

text \<open>
  C13: A policy that was not in charge does not take over.  When the policy in charge is deleted and nothing
  else is scheduled, the event brings one request, for the deleted policy; its reconciliation clears
  the name of the policy in charge, and then nothing is scheduled any more, whatever other policies there
  are, and no event of a node asks for any.
\<close>

theorem no_succession:
  assumes inv: "wq_inv (ct_queue ct)" "\<not> wq_shuttingDown (ct_queue ct)" "scheduled ct = {}" "wq_processing (ct_queue ct) = {}"
    and req: "dispatch (policy_SetupWithManager (om_Name m)) (Removed (Watched ClusterPolicyKind m)) w = (Ok reqs, w1)"
    and gone: "api_Get (clusterPolicies c) (key_of_meta m) w1 = (Inl e, w2)" "IsNotFound e"
  shows "reqs = [key_of_meta m] \<and> w1 = w \<and>
     (\<exists>ct'. processNextWorkItem backoff clock (policyReconciler c operatorNamespace info) (enqueueAll reqs ct) (w1, om_Name m) =
        (True, ct', (w2, [])) \<and> scheduled ct' = {} \<and>
        (\<forall>ev v. event_kind ev = NodeKind \<longrightarrow> dispatch (policy_SetupWithManager []) ev v = (Ok [], v)))"
proof (intro conjI)
  show reqs: "reqs = [key_of_meta m]" "w1 = w" using req by (simp_all add: policy_dispatch)
  have "wq_dirty (ct_queue ct) = {}" "ct_waiting ct = Map.empty" using inv(3) by (auto simp: scheduled_def)
  moreover from this have "wq_queue (ct_queue ct) = []" using inv(1) by (simp add: wq_inv_def)
  ultimately have q: "ct_queue ct = newQueue" "ct_waiting ct = Map.empty" using inv(2,4) by (simp_all add: newQueue_def)
  have r: "policyReconciler c operatorNamespace info (key_of_meta m) (w1, om_Name m) = (Ok noRequeue, (w2, []))"
    using gone by (simp add: policyReconciler_def Reconcile_def key_of_meta_def)
  have "dispatch (policy_SetupWithManager []) ev v = (Ok [], v)" if "event_kind ev = NodeKind" for ev v
    using that by (simp add: policy_dispatch singletonRequest_def)
  then show "\<exists>ct'. processNextWorkItem backoff clock (policyReconciler c operatorNamespace info) (enqueueAll reqs ct) (w1, om_Name m) =
        (True, ct', (w2, [])) \<and> scheduled ct' = {} \<and>
        (\<forall>ev v. event_kind ev = NodeKind \<longrightarrow> dispatch (policy_SetupWithManager []) ev v = (Ok [], v))"
    using r by (auto simp: reqs processNextWorkItem_def enqueueAll_def enqueue_def q wq_defs finish_def reconcileHandler_def
        noRequeue_def Forget_def scheduled_def)
qed

text \<open>The policy in charge is deleted from a cluster that has another one.\<close>

theorem no_succession_witness:
  "\<forall>info. \<exists>ct'. processNextWorkItem (\<lambda>_. 5) 0 (policyReconciler mem_client ''rbln'' info)
       (enqueueAll [key_of_meta (new_meta ''p'' [])] newController) (empty_cluster\<lparr>cl_policies := [zero_ClusterPolicy]\<rparr>, ''p'') =
     (True, ct', (empty_cluster\<lparr>cl_policies := [zero_ClusterPolicy]\<rparr>, [])) \<and> scheduled ct' = {}"
proof -
  let ?w = "empty_cluster\<lparr>cl_policies := [zero_ClusterPolicy]\<rparr>"
  have fresh: "wq_inv (ct_queue newController)" "\<not> wq_shuttingDown (ct_queue newController)" "scheduled newController = {}"
      "wq_processing (ct_queue newController) = {}"
    by (simp_all add: newController_def newQueue_def wq_inv_def scheduled_def)
  have req: "dispatch (policy_SetupWithManager (om_Name (new_meta ''p'' [])))
      (Removed (Watched ClusterPolicyKind (new_meta ''p'' []))) ?w = (Ok [key_of_meta (new_meta ''p'' [])], ?w)"
    by (simp add: policy_dispatch)
  have gone: "api_Get (clusterPolicies mem_client) (key_of_meta (new_meta ''p'' [])) ?w = (Inl notFound, ?w)"
      "IsNotFound notFound"
    by (simp_all add: mem_client_def list_api_def key_of_meta_def key_of_def policy_kind_def plain_kind_def zero_ClusterPolicy_def
        empty_meta_def new_meta_def notFound_def IsNotFound_def)
  show ?thesis using no_succession [OF fresh req gone] by (simp add: new_meta_def) blast
qed

end
