(* ===== verification/Deep_Copy.thy ===== *)
theory Deep_Copy
  imports Prelude "HOL-Library.Sublist"
begin

text \<open>
  The statements of which generated \<open>DeepCopyInto\<close> methods consist, over a store with explicit references, so
  that it can be said when a copy shares nothing with its original.  Pointers, slices and maps refer to
  cells; structs are stored in place.
\<close>

section \<open>Values, cells and types\<close>

type_synonym addr = nat

text \<open>A value of a basic type is known by its text.\<close>

datatype goval = Prim string | NilRef | Ref addr | Struct "(string \<times> goval) list"

text \<open>The target of a pointer and the elements of a slice, and the entries of a map of strings.\<close>

datatype cell = Elems "goval list" | Entries "(string, string) fmap"

text \<open>Cells are never freed: the store grows at its end.\<close>

type_synonym heap = "cell list"

definition alloc :: "cell \<Rightarrow> heap \<Rightarrow> goval \<times> heap" where
  "alloc c h = (Ref (length h), h @ [c])"

definition cell_at :: "heap \<Rightarrow> addr \<Rightarrow> cell option" where
  "cell_at h a = (if a < length h then Some (h ! a) else None)"

datatype gotype = TPrim | TPtr gotype | TSlice gotype | TMap | TStruct "(string \<times> gotype) list"

section \<open>Statements\<close>

type_synonym copier = "goval \<Rightarrow> heap \<Rightarrow> goval \<times> heap"

text \<open>\<open>*out = *in\<close>\<close>

definition assign :: copier where
  "assign v h = (v, h)"

text \<open>\<open>*out = make([]T, len(*in))\<close> with a loop over the elements, each copied by \<open>f\<close>.\<close>

fun copyElems :: "copier \<Rightarrow> goval list \<Rightarrow> heap \<Rightarrow> goval list \<times> heap" where
  "copyElems f [] h = ([], h)"
| "copyElems f (v # vs) h =
     (case f v h of (v', h1) \<Rightarrow> case copyElems f vs h1 of (vs', h2) \<Rightarrow> (v' # vs', h2))"

definition copySlice :: "copier \<Rightarrow> copier" where
  "copySlice f v h =
     (case v of
        Ref a \<Rightarrow> (case cell_at h a of
            Some (Elems vs) \<Rightarrow> (case copyElems f vs h of (vs', h') \<Rightarrow> alloc (Elems vs') h')
          | _ \<Rightarrow> (v, h))
      | _ \<Rightarrow> (v, h))"

text \<open>\<open>*out = new(T)\<close> and the target copied by \<open>f\<close>.\<close>

definition copyPtr :: "copier \<Rightarrow> copier" where
  "copyPtr f v h =
     (case v of
        Ref a \<Rightarrow> (case cell_at h a of
            Some (Elems [x]) \<Rightarrow> (case f x h of (x', h') \<Rightarrow> alloc (Elems [x']) h')
          | _ \<Rightarrow> (v, h))
      | _ \<Rightarrow> (v, h))"

text \<open>\<open>*out = make(map[string]string, len(*in))\<close> with a loop over the entries.\<close>

definition copyMap :: copier where
  "copyMap v h =
     (case v of
        Ref a \<Rightarrow> (case cell_at h a of Some (Entries m) \<Rightarrow> alloc (Entries m) h | _ \<Rightarrow> (v, h))
      | _ \<Rightarrow> (v, h))"

text \<open>
  A method: the struct is assigned as a whole, then the listed fields are copied in order, from \<open>in\<close> to \<open>out\<close>.
\<close>

definition setField :: "string \<Rightarrow> goval \<Rightarrow> (string \<times> goval) list \<Rightarrow> (string \<times> goval) list" where
  "setField f x = List.map (\<lambda>(g, y). (g, if g = f then x else y))"

fun copyFields :: "(string \<times> copier) list \<Rightarrow> (string \<times> goval) list \<Rightarrow> (string \<times> goval) list \<Rightarrow> heap
    \<Rightarrow> (string \<times> goval) list \<times> heap" where
  "copyFields [] inn out h = (out, h)"
| "copyFields ((f, copy) # code) inn out h =
     (case map_of inn f of
        None \<Rightarrow> copyFields code inn out h
      | Some v \<Rightarrow> (case copy v h of (v', h') \<Rightarrow> copyFields code inn (setField f v' out) h'))"

definition copyInto :: "(string \<times> copier) list \<Rightarrow> copier" where
  "copyInto code v h =
     (case v of Struct vs \<Rightarrow> (case copyFields code vs vs h of (vs', h') \<Rightarrow> (Struct vs', h')) | _ \<Rightarrow> (v, h))"

section \<open>What a value stands for\<close>

datatype tree = Leaf string | Missing | Listed "tree list" | Mapped "(string, string) fmap" | Fields "(string \<times> tree) list"

text \<open>
  \<open>den lo h T v t\<close>: the value \<open>v\<close> of type \<open>T\<close> stands for the tree \<open>t\<close>, and all references in it lead to cells from
  \<open>lo\<close> on.
\<close>

inductive den :: "addr \<Rightarrow> heap \<Rightarrow> gotype \<Rightarrow> goval \<Rightarrow> tree \<Rightarrow> bool" for lo h where
  den_Prim: "den lo h TPrim (Prim s) (Leaf s)"
| den_nil_Ptr: "den lo h (TPtr T) NilRef Missing"
| den_Ptr: "lo \<le> a \<Longrightarrow> cell_at h a = Some (Elems [v]) \<Longrightarrow> den lo h T v t \<Longrightarrow> den lo h (TPtr T) (Ref a) (Listed [t])"
| den_nil_Slice: "den lo h (TSlice T) NilRef Missing"
| den_Slice: "lo \<le> a \<Longrightarrow> cell_at h a = Some (Elems vs) \<Longrightarrow> list_all2 (den lo h T) vs ts \<Longrightarrow>
     den lo h (TSlice T) (Ref a) (Listed ts)"
| den_nil_Map: "den lo h TMap NilRef Missing"
| den_Map: "lo \<le> a \<Longrightarrow> cell_at h a = Some (Entries m) \<Longrightarrow> den lo h TMap (Ref a) (Mapped m)"
| den_Struct: "List.map fst vs = List.map fst fs \<Longrightarrow> List.map fst ts = List.map fst fs \<Longrightarrow>
     (\<And>f T v t. map_of fs f = Some T \<Longrightarrow> map_of vs f = Some v \<Longrightarrow> map_of ts f = Some t \<Longrightarrow> den lo h T v t) \<Longrightarrow>
     den lo h (TStruct fs) (Struct vs) (Fields ts)"

inductive_simps den_simps:
  "den lo h TPrim v t" "den lo h (TPtr T) v t" "den lo h (TSlice T) v t" "den lo h TMap v t" "den lo h (TStruct fs) v t"

inductive_cases den_TMapE: "den lo h TMap v t"

text \<open>A value stands for the same tree in every store that has the same cells from \<open>lo\<close> on.\<close>

lemma den_agree:
  assumes "den lo h T v t" and "\<And>a c. lo \<le> a \<Longrightarrow> cell_at h a = Some c \<Longrightarrow> cell_at g a = Some c"
  shows "den lo g T v t"
  using assms by (induction rule: den.induct) (auto intro!: den.intros elim!: list_all2_mono)

lemma den_weaken: "den lo h T v t \<Longrightarrow> lo' \<le> lo \<Longrightarrow> den lo' h T v t"
  by (induction rule: den.induct) (auto intro!: den.intros elim!: list_all2_mono)

lemma cell_at_prefix: "prefix h h' \<Longrightarrow> cell_at h a = Some c \<Longrightarrow> cell_at h' a = Some c"
  by (auto simp: prefix_def cell_at_def nth_append split: if_splits)

lemma den_prefix: "den lo h T v t \<Longrightarrow> prefix h h' \<Longrightarrow> den lo h' T v t"
  by (erule den_agree) (rule cell_at_prefix)

lemma cell_at_alloc [simp]: "cell_at (h @ [c]) (length h) = Some c"
  by (simp add: cell_at_def)

text \<open>Types without references.\<close>

fun flat :: "gotype \<Rightarrow> bool" where
  "flat TPrim \<longleftrightarrow> True"
| "flat (TStruct fs) \<longleftrightarrow> list_all (\<lambda>(f, T). flat T) fs"
| "flat T \<longleftrightarrow> False"

lemma den_flat: "den lo h T v t \<Longrightarrow> flat T \<Longrightarrow> den lo' h' T v t"
proof (induction rule: den.induct)
  case (den_Struct vs fs ts)
  show ?case
  proof (rule den.den_Struct [OF den_Struct.hyps(1,2)])
    fix f T v t
    assume "map_of fs f = Some T" "map_of vs f = Some v" "map_of ts f = Some t"
    moreover have "flat T" using \<open>map_of fs f = Some T\<close> den_Struct.prems by (auto simp: list_all_iff dest: map_of_SomeD)
    ultimately show "den lo' h' T v t" by (rule den_Struct.IH)
  qed
qed (auto intro: den.intros)

section \<open>Correct copies\<close>

text \<open>
  A copier for values of a type: it leaves the cells of the store as they are, and its result stands for the
  same tree with new cells only.
\<close>

definition copies :: "gotype \<Rightarrow> copier \<Rightarrow> bool" where
  "copies T f \<longleftrightarrow> (\<forall>h v t v' h'. den 0 h T v t \<longrightarrow> f v h = (v', h') \<longrightarrow> prefix h h' \<and> den (length h) h' T v' t)"

named_theorems copies_intros "copiers are correct"

lemma copiesD:
  assumes "copies T f" and "den 0 h T v t" and "f v h = (v', h')"
  shows "prefix h h'" and "den (length h) h' T v' t"
  using assms unfolding copies_def by blast+

lemma copies_assign [copies_intros]: "flat T \<Longrightarrow> copies T assign"
  unfolding copies_def assign_def by (auto intro: den_flat)

lemma copyElems_correct:
  assumes f: "copies T f" and "list_all2 (den 0 h0 T) vs ts" and "prefix h0 h" and "copyElems f vs h = (vs', h')"
  shows "prefix h h' \<and> list_all2 (den (length h0) h' T) vs' ts"
  using assms(2-)
proof (induction vs ts arbitrary: h vs' rule: list_all2_induct)
  case (Cons v vs t ts)
  obtain v1 h1 where v1: "f v h = (v1, h1)" by fastforce
  obtain vs1 where vs1: "copyElems f vs h1 = (vs1, h')" "vs' = v1 # vs1"
    using Cons.prems(2) v1 by (auto split: prod.splits)
  have "den 0 h T v t" using Cons.hyps(1) Cons.prems(1) by (rule den_prefix)
  note c = copiesD [OF f this v1]
  have rest: "prefix h1 h' \<and> list_all2 (den (length h0) h' T) vs1 ts"
    using Cons.IH [OF _ vs1(1)] Cons.prems(1) c(1) by (meson prefix_order.trans)
  have "den (length h0) h1 T v1 t" using c(2) prefix_length_le [OF Cons.prems(1)] by (rule den_weaken)
  then have "den (length h0) h' T v1 t" using rest den_prefix by blast
  then show ?case using rest c(1) vs1(2) by (auto intro: prefix_order.trans)
qed simp

lemma copies_copySlice [copies_intros]:
  assumes f: "copies T f"
  shows "copies (TSlice T) (copySlice f)"
  unfolding copies_def
proof (intro allI impI)
  fix h v t v' h'
  assume v: "den 0 h (TSlice T) v t" and run: "copySlice f v h = (v', h')"
  from v show "prefix h h' \<and> den (length h) h' (TSlice T) v' t"
  proof cases
    case den_nil_Slice
    then show ?thesis using run by (simp add: copySlice_def den.den_nil_Slice)
  next
    case (den_Slice a vs ts)
    obtain vs1 h1 where el: "copyElems f vs h = (vs1, h1)" by fastforce
    note c = copyElems_correct [OF f den_Slice(5) prefix_order.refl el]
    have "v' = Ref (length h1)" "h' = h1 @ [Elems vs1]"
      using run den_Slice el by (simp_all add: copySlice_def alloc_def)
    moreover have "list_all2 (den (length h) (h1 @ [Elems vs1]) T) vs1 ts"
      using c by (auto elim!: list_all2_mono intro: den_prefix)
    ultimately show ?thesis
      using c den_Slice by (auto intro!: den.den_Slice simp: prefix_length_le)
  qed
qed

lemma copies_copyPtr [copies_intros]:
  assumes f: "copies T f"
  shows "copies (TPtr T) (copyPtr f)"
  unfolding copies_def
proof (intro allI impI)
  fix h v t v' h'
  assume v: "den 0 h (TPtr T) v t" and run: "copyPtr f v h = (v', h')"
  from v show "prefix h h' \<and> den (length h) h' (TPtr T) v' t"
  proof cases
    case den_nil_Ptr
    then show ?thesis using run by (simp add: copyPtr_def den.den_nil_Ptr)
  next
    case (den_Ptr a x u)
    obtain x1 h1 where el: "f x h = (x1, h1)" by fastforce
    note c = copiesD [OF f den_Ptr(5) el]
    have "v' = Ref (length h1)" "h' = h1 @ [Elems [x1]]"
      using run den_Ptr el by (simp_all add: copyPtr_def alloc_def)
    moreover have "den (length h) (h1 @ [Elems [x1]]) T x1 u" by (rule den_prefix [OF c(2)]) simp
    ultimately show ?thesis
      using c(1) den_Ptr by (auto intro: den.den_Ptr simp: prefix_length_le)
  qed
qed

lemma copies_copyMap [copies_intros]: "copies TMap copyMap"
  unfolding copies_def copyMap_def alloc_def
  by (auto elim!: den_TMapE intro!: den_nil_Map den_Map)

lemma setField_fst [simp]: "List.map fst (setField f x vs) = List.map fst vs"
  by (auto simp: setField_def)

lemma map_of_setField: "map_of (setField f x vs) g = (if g = f then map_option (\<lambda>_. x) (map_of vs f) else map_of vs g)"
  by (induction vs) (auto simp: setField_def)

lemma copyFields_correct:
  assumes "\<And>f T v t. map_of fs f = Some T \<Longrightarrow> map_of inn f = Some v \<Longrightarrow> map_of ts f = Some t \<Longrightarrow> den 0 h0 T v t"
    and "\<And>f T copy. map_of fs f = Some T \<Longrightarrow> (f, copy) \<in> set code \<Longrightarrow> copies T copy"
    and "distinct (List.map fst code)" and "prefix h0 h" and "copyFields code inn out h = (out', h')"
    and "List.map fst inn = List.map fst fs" and "List.map fst out = List.map fst fs" and "List.map fst ts = List.map fst fs"
  shows "prefix h h' \<and> List.map fst out' = List.map fst fs \<and>
     (\<forall>f T v t. map_of fs f = Some T \<longrightarrow> map_of out' f = Some v \<longrightarrow> map_of ts f = Some t \<longrightarrow>
        (if f \<in> fst ` set code then den (length h0) h' T v t else map_of out f = Some v))"
  using assms
proof (induction code arbitrary: out h)
  case (Cons entry code)
  obtain f copy where [simp]: "entry = (f, copy)" by fastforce
  have dom: "map_of inn g = None \<longleftrightarrow> map_of fs g = None" "map_of ts g = None \<longleftrightarrow> map_of fs g = None" for g
    by (metis Cons.prems(6,8) list.set_map map_of_eq_None_iff)+
  show ?case
  proof (cases "map_of inn f")
    case None
    then show ?thesis using Cons.prems Cons.IH [of h out] dom(1) [of f] by (auto simp: image_iff)
  next
    case (Some v)
    obtain T where T: "map_of fs f = Some T" using Some dom(1) [of f] by fastforce
    obtain t where t: "map_of ts f = Some t" using T dom(2) [of f] by fastforce
    obtain v1 h1 where v1: "copy v h = (v1, h1)" by fastforce
    have "den 0 h T v t" using Cons.prems(1) [OF T Some t] Cons.prems(4) by (rule den_prefix)
    moreover have "copies T copy" using Cons.prems(2) [OF T, of copy] by simp
    ultimately have c: "prefix h h1" "den (length h) h1 T v1 t" using copiesD v1 by blast+
    have "copyFields code inn (setField f v1 out) h1 = (out', h')" using Cons.prems(5) Some v1 by simp
    then have IH: "prefix h1 h' \<and> List.map fst out' = List.map fst fs \<and>
       (\<forall>g T v t. map_of fs g = Some T \<longrightarrow> map_of out' g = Some v \<longrightarrow> map_of ts g = Some t \<longrightarrow>
          (if g \<in> fst ` set code then den (length h0) h' T v t else map_of (setField f v1 out) g = Some v))"
      using Cons.IH [of h1 "setField f v1 out"] Cons.prems c(1) by (auto intro: prefix_order.trans)
    have "den (length h0) h1 T v1 t" using c(2) prefix_length_le [OF Cons.prems(4)] by (rule den_weaken)
    then have new: "den (length h0) h' T v1 t" using IH den_prefix by blast
    have "f \<notin> fst ` set code" using Cons.prems(3) by simp
    have "if g \<in> fst ` set (entry # code) then den (length h0) h' S x u else map_of out g = Some x"
      if "map_of fs g = Some S" "map_of out' g = Some x" "map_of ts g = Some u" for g S x u
    proof (cases "g = f")
      case True
      then have "map_of (setField f v1 out) f = Some x" using IH that \<open>f \<notin> fst ` set code\<close> by metis
      then have "x = v1" by (auto simp: map_of_setField)
      then show ?thesis using True T t that new by simp
    next
      case False
      then show ?thesis using IH that by (fastforce simp: map_of_setField)
    qed
    then show ?thesis using IH c(1) by (auto intro: prefix_order.trans)
  qed
qed simp

text \<open>
  A method is correct when it names no field twice, has a correct copier for every field it names, and every
  field that it does not name is without references.
\<close>

lemma copies_copyInto [copies_intros]:
  assumes code: "distinct (List.map fst code)"
    and fields: "list_all (\<lambda>(f, T). case map_of code f of None \<Rightarrow> flat T | Some copy \<Rightarrow> copies T copy) fs"
  shows "copies (TStruct fs) (copyInto code)"
  unfolding copies_def
proof (intro allI impI)
  have field: "case map_of code f of None \<Rightarrow> flat T | Some copy \<Rightarrow> copies T copy" if "map_of fs f = Some T" for f T
    using fields map_of_SomeD [OF that] by (auto simp: list_all_iff)
  have named: "copies T copy" if "map_of fs f = Some T" "(f, copy) \<in> set code" for f T copy
    using field [OF that(1)] map_of_is_SomeI [OF code that(2)] by simp
  fix h v t v' h'
  assume v: "den 0 h (TStruct fs) v t" and run: "copyInto code v h = (v', h')"
  from v show "prefix h h' \<and> den (length h) h' (TStruct fs) v' t"
  proof cases
    case (den_Struct vs ts)
    obtain vs' where vs': "copyFields code vs vs h = (vs', h')" "v' = Struct vs'"
      using run den_Struct(1) by (auto simp: copyInto_def split: prod.splits)
    have c: "prefix h h' \<and> List.map fst vs' = List.map fst fs \<and>
       (\<forall>f T v t. map_of fs f = Some T \<longrightarrow> map_of vs' f = Some v \<longrightarrow> map_of ts f = Some t \<longrightarrow>
          (if f \<in> fst ` set code then den (length h) h' T v t else map_of vs f = Some v))"
      by (rule copyFields_correct [OF _ _ code prefix_order.refl vs'(1) den_Struct(3,3,4)]) (rule den_Struct(5) named, assumption+)+
    have "den (length h) h' T x u" if "map_of fs f = Some T" "map_of vs' f = Some x" "map_of ts f = Some u" for f T x u
    proof (cases "f \<in> fst ` set code")
      case False
      then have "map_of code f = None" by (simp add: map_of_eq_None_iff)
      then have "flat T" using field [OF that(1)] by simp
      moreover have "map_of vs f = Some x" using c that False by metis
      ultimately show ?thesis using den_Struct(5) [OF that(1) _ that(3)] den_flat by blast
    qed (use c that in metis)
    then show ?thesis using c den_Struct vs'(2) by (auto intro!: den.den_Struct)
  qed
qed

end
