(* ===== verification/Api_Copies.thy ===== *)
theory Api_Copies
  imports Deep_Copy
begin

text \<open>
  The structs of \<open>api/v1beta1\<close> and \<open>api/v1alpha1\<close> as types of the store, and their generated copies
  (\<open>zz_generated.deepcopy.go\<close>).  The types of Kubernetes and their copies are parameters \<open>ty\<close> and \<open>dc\<close>, by
  the names of the types.
\<close>

section \<open>Types and copies\<close>

definition TypeMeta_type :: gotype where
  "TypeMeta_type = TStruct [(''Kind'', TPrim), (''APIVersion'', TPrim)]"

text \<open>\<open>DeepCopyObject\<close>: the copy as an interface, which is nil when the copy is.\<close>

definition DeepCopyObject :: "copier \<Rightarrow> copier" where
  "DeepCopyObject deepCopy v h = (case deepCopy v h of (c, h') \<Rightarrow> if c \<noteq> NilRef then (c, h') else (NilRef, h'))"

definition DaemonsetsSpec_type :: "(string \<Rightarrow> gotype) \<Rightarrow> gotype" where
  "DaemonsetsSpec_type ty = TStruct [
     (''Labels'', TMap), (''Annotations'', TMap), (''Affinity'', TPtr (ty ''v1.Affinity'')),
     (''Tolerations'', TSlice (ty ''v1.Toleration'')), (''PriorityClassName'', TPrim)]"

definition DaemonsetsSpec_DeepCopyInto :: "(string \<Rightarrow> copier) \<Rightarrow> copier" where
  "DaemonsetsSpec_DeepCopyInto dc = copyInto [
     (''Labels'', copyMap), (''Annotations'', copyMap), (''Affinity'', copyPtr (dc ''v1.Affinity'')),
     (''Tolerations'', copySlice (dc ''v1.Toleration''))]"

definition DaemonsetsSpec_DeepCopy :: "(string \<Rightarrow> copier) \<Rightarrow> copier" where
  "DaemonsetsSpec_DeepCopy dc = copyPtr (DaemonsetsSpec_DeepCopyInto dc)"

definition PodSpec_type :: "(string \<Rightarrow> gotype) \<Rightarrow> gotype" where
  "PodSpec_type ty = TStruct [
     (''ImagePullPolicy'', TPrim), (''ImagePullSecrets'', TSlice TPrim),
     (''Resources'', ty ''v1.ResourceRequirements''), (''Labels'', TMap), (''Annotations'', TMap),
     (''Affinity'', TPtr (ty ''v1.Affinity'')), (''Tolerations'', TSlice (ty ''v1.Toleration''))]"

definition PodSpec_DeepCopyInto :: "(string \<Rightarrow> copier) \<Rightarrow> copier" where
  "PodSpec_DeepCopyInto dc = copyInto [
     (''ImagePullSecrets'', copySlice assign), (''Resources'', dc ''v1.ResourceRequirements''),
     (''Labels'', copyMap), (''Annotations'', copyMap), (''Affinity'', copyPtr (dc ''v1.Affinity'')),
     (''Tolerations'', copySlice (dc ''v1.Toleration''))]"

definition PodSpec_DeepCopy :: "(string \<Rightarrow> copier) \<Rightarrow> copier" where
  "PodSpec_DeepCopy dc = copyPtr (PodSpec_DeepCopyInto dc)"

definition RBLNVFIOManagerSpec_type :: "(string \<Rightarrow> gotype) \<Rightarrow> gotype" where
  "RBLNVFIOManagerSpec_type ty = TStruct [
     (''Enabled'', TPrim), (''Image'', TPrim), (''Registry'', TPrim), (''Version'', TPrim),
     (''PodSpec'', PodSpec_type ty), (''PriorityClassName'', TPrim)]"

definition RBLNVFIOManagerSpec_DeepCopyInto :: "(string \<Rightarrow> copier) \<Rightarrow> copier" where
  "RBLNVFIOManagerSpec_DeepCopyInto dc = copyInto [
     (''PodSpec'', PodSpec_DeepCopyInto dc)]"

definition RBLNVFIOManagerSpec_DeepCopy :: "(string \<Rightarrow> copier) \<Rightarrow> copier" where
  "RBLNVFIOManagerSpec_DeepCopy dc = copyPtr (RBLNVFIOManagerSpec_DeepCopyInto dc)"

definition VFIOCheckerSpec_type :: "(string \<Rightarrow> gotype) \<Rightarrow> gotype" where
  "VFIOCheckerSpec_type ty = TStruct [
     (''Image'', TPrim), (''Registry'', TPrim), (''Version'', TPrim)]"

definition VFIOCheckerSpec_DeepCopyInto :: "(string \<Rightarrow> copier) \<Rightarrow> copier" where
  "VFIOCheckerSpec_DeepCopyInto dc = copyInto []"

definition VFIOCheckerSpec_DeepCopy :: "(string \<Rightarrow> copier) \<Rightarrow> copier" where
  "VFIOCheckerSpec_DeepCopy dc = copyPtr (VFIOCheckerSpec_DeepCopyInto dc)"

definition RBLNDevicePluginResourceSpec_type :: "(string \<Rightarrow> gotype) \<Rightarrow> gotype" where
  "RBLNDevicePluginResourceSpec_type ty = TStruct [
     (''ResourceName'', TPrim), (''ResourcePrefix'', TPrim), (''ProductCardNames'', TSlice TPrim)]"

definition RBLNDevicePluginResourceSpec_DeepCopyInto :: "(string \<Rightarrow> copier) \<Rightarrow> copier" where
  "RBLNDevicePluginResourceSpec_DeepCopyInto dc = copyInto [
     (''ProductCardNames'', copySlice assign)]"

definition RBLNDevicePluginResourceSpec_DeepCopy :: "(string \<Rightarrow> copier) \<Rightarrow> copier" where
  "RBLNDevicePluginResourceSpec_DeepCopy dc = copyPtr (RBLNDevicePluginResourceSpec_DeepCopyInto dc)"

definition RBLNSandboxDevicePluginSpec_type :: "(string \<Rightarrow> gotype) \<Rightarrow> gotype" where
  "RBLNSandboxDevicePluginSpec_type ty = TStruct [
     (''Enabled'', TPrim), (''Image'', TPrim), (''Registry'', TPrim), (''Version'', TPrim),
     (''PodSpec'', PodSpec_type ty), (''VFIOChecker'', VFIOCheckerSpec_type ty), (''PriorityClassName'', TPrim),
     (''ResourceList'', TSlice (RBLNDevicePluginResourceSpec_type ty))]"

definition RBLNSandboxDevicePluginSpec_DeepCopyInto :: "(string \<Rightarrow> copier) \<Rightarrow> copier" where
  "RBLNSandboxDevicePluginSpec_DeepCopyInto dc = copyInto [
     (''PodSpec'', PodSpec_DeepCopyInto dc), (''VFIOChecker'', assign),
     (''ResourceList'', copySlice (RBLNDevicePluginResourceSpec_DeepCopyInto dc))]"

definition RBLNSandboxDevicePluginSpec_DeepCopy :: "(string \<Rightarrow> copier) \<Rightarrow> copier" where
  "RBLNSandboxDevicePluginSpec_DeepCopy dc = copyPtr (RBLNSandboxDevicePluginSpec_DeepCopyInto dc)"

definition RBLNDevicePluginSpec_type :: "(string \<Rightarrow> gotype) \<Rightarrow> gotype" where
  "RBLNDevicePluginSpec_type ty = TStruct [
     (''Enabled'', TPrim), (''Image'', TPrim), (''Registry'', TPrim), (''Version'', TPrim),
     (''PodSpec'', PodSpec_type ty), (''HostBinPath'', TPrim), (''PriorityClassName'', TPrim),
     (''ResourceList'', TSlice (RBLNDevicePluginResourceSpec_type ty))]"

definition RBLNDevicePluginSpec_DeepCopyInto :: "(string \<Rightarrow> copier) \<Rightarrow> copier" where
  "RBLNDevicePluginSpec_DeepCopyInto dc = copyInto [
     (''PodSpec'', PodSpec_DeepCopyInto dc),
     (''ResourceList'', copySlice (RBLNDevicePluginResourceSpec_DeepCopyInto dc))]"

definition RBLNDevicePluginSpec_DeepCopy :: "(string \<Rightarrow> copier) \<Rightarrow> copier" where
  "RBLNDevicePluginSpec_DeepCopy dc = copyPtr (RBLNDevicePluginSpec_DeepCopyInto dc)"

definition RBLNMetricsExporterSpec_type :: "(string \<Rightarrow> gotype) \<Rightarrow> gotype" where
  "RBLNMetricsExporterSpec_type ty = TStruct [
     (''Enabled'', TPrim), (''Image'', TPrim), (''Registry'', TPrim), (''Version'', TPrim),
     (''PodSpec'', PodSpec_type ty), (''PriorityClassName'', TPrim)]"

definition RBLNMetricsExporterSpec_DeepCopyInto :: "(string \<Rightarrow> copier) \<Rightarrow> copier" where
  "RBLNMetricsExporterSpec_DeepCopyInto dc = copyInto [
     (''PodSpec'', PodSpec_DeepCopyInto dc)]"

definition RBLNMetricsExporterSpec_DeepCopy :: "(string \<Rightarrow> copier) \<Rightarrow> copier" where
  "RBLNMetricsExporterSpec_DeepCopy dc = copyPtr (RBLNMetricsExporterSpec_DeepCopyInto dc)"

definition RBLNDaemonSpec_type :: "(string \<Rightarrow> gotype) \<Rightarrow> gotype" where
  "RBLNDaemonSpec_type ty = TStruct [
     (''Enabled'', TPrim), (''Image'', TPrim), (''Registry'', TPrim), (''Version'', TPrim),
     (''PodSpec'', PodSpec_type ty), (''PriorityClassName'', TPrim), (''Args'', TSlice TPrim),
     (''Env'', TSlice (ty ''v1.EnvVar'')), (''HostPort'', TPrim)]"

definition RBLNDaemonSpec_DeepCopyInto :: "(string \<Rightarrow> copier) \<Rightarrow> copier" where
  "RBLNDaemonSpec_DeepCopyInto dc = copyInto [
     (''PodSpec'', PodSpec_DeepCopyInto dc), (''Args'', copySlice assign), (''Env'', copySlice (dc ''v1.EnvVar''))]"

definition RBLNDaemonSpec_DeepCopy :: "(string \<Rightarrow> copier) \<Rightarrow> copier" where
  "RBLNDaemonSpec_DeepCopy dc = copyPtr (RBLNDaemonSpec_DeepCopyInto dc)"

definition RBLNNPUFeatureDiscoverySpec_type :: "(string \<Rightarrow> gotype) \<Rightarrow> gotype" where
  "RBLNNPUFeatureDiscoverySpec_type ty = TStruct [
     (''Enabled'', TPrim), (''Image'', TPrim), (''Registry'', TPrim), (''Version'', TPrim),
     (''PodSpec'', PodSpec_type ty), (''PriorityClassName'', TPrim)]"

definition RBLNNPUFeatureDiscoverySpec_DeepCopyInto :: "(string \<Rightarrow> copier) \<Rightarrow> copier" where
  "RBLNNPUFeatureDiscoverySpec_DeepCopyInto dc = copyInto [
     (''PodSpec'', PodSpec_DeepCopyInto dc)]"

definition RBLNNPUFeatureDiscoverySpec_DeepCopy :: "(string \<Rightarrow> copier) \<Rightarrow> copier" where
  "RBLNNPUFeatureDiscoverySpec_DeepCopy dc = copyPtr (RBLNNPUFeatureDiscoverySpec_DeepCopyInto dc)"

definition RBLNContainerToolkitSpec_type :: "(string \<Rightarrow> gotype) \<Rightarrow> gotype" where
  "RBLNContainerToolkitSpec_type ty = TStruct [
     (''Enabled'', TPrim), (''Image'', TPrim), (''Registry'', TPrim), (''Version'', TPrim),
     (''PodSpec'', PodSpec_type ty), (''PriorityClassName'', TPrim), (''Args'', TSlice TPrim),
     (''Env'', TSlice (ty ''v1.EnvVar''))]"

definition RBLNContainerToolkitSpec_DeepCopyInto :: "(string \<Rightarrow> copier) \<Rightarrow> copier" where
  "RBLNContainerToolkitSpec_DeepCopyInto dc = copyInto [
     (''PodSpec'', PodSpec_DeepCopyInto dc), (''Args'', copySlice assign), (''Env'', copySlice (dc ''v1.EnvVar''))]"

definition RBLNContainerToolkitSpec_DeepCopy :: "(string \<Rightarrow> copier) \<Rightarrow> copier" where
  "RBLNContainerToolkitSpec_DeepCopy dc = copyPtr (RBLNContainerToolkitSpec_DeepCopyInto dc)"

definition PluginValidatorSpec_type :: "(string \<Rightarrow> gotype) \<Rightarrow> gotype" where
  "PluginValidatorSpec_type ty = TStruct [
     (''Env'', TSlice (ty ''v1.EnvVar''))]"

definition PluginValidatorSpec_DeepCopyInto :: "(string \<Rightarrow> copier) \<Rightarrow> copier" where
  "PluginValidatorSpec_DeepCopyInto dc = copyInto [
     (''Env'', copySlice (dc ''v1.EnvVar''))]"

definition PluginValidatorSpec_DeepCopy :: "(string \<Rightarrow> copier) \<Rightarrow> copier" where
  "PluginValidatorSpec_DeepCopy dc = copyPtr (PluginValidatorSpec_DeepCopyInto dc)"

definition ToolkitValidatorSpec_type :: "(string \<Rightarrow> gotype) \<Rightarrow> gotype" where
  "ToolkitValidatorSpec_type ty = TStruct [
     (''Env'', TSlice (ty ''v1.EnvVar''))]"

definition ToolkitValidatorSpec_DeepCopyInto :: "(string \<Rightarrow> copier) \<Rightarrow> copier" where
  "ToolkitValidatorSpec_DeepCopyInto dc = copyInto [
     (''Env'', copySlice (dc ''v1.EnvVar''))]"

definition ToolkitValidatorSpec_DeepCopy :: "(string \<Rightarrow> copier) \<Rightarrow> copier" where
  "ToolkitValidatorSpec_DeepCopy dc = copyPtr (ToolkitValidatorSpec_DeepCopyInto dc)"

definition DriverValidatorSpec_type :: "(string \<Rightarrow> gotype) \<Rightarrow> gotype" where
  "DriverValidatorSpec_type ty = TStruct [
     (''Env'', TSlice (ty ''v1.EnvVar''))]"

definition DriverValidatorSpec_DeepCopyInto :: "(string \<Rightarrow> copier) \<Rightarrow> copier" where
  "DriverValidatorSpec_DeepCopyInto dc = copyInto [
     (''Env'', copySlice (dc ''v1.EnvVar''))]"

definition DriverValidatorSpec_DeepCopy :: "(string \<Rightarrow> copier) \<Rightarrow> copier" where
  "DriverValidatorSpec_DeepCopy dc = copyPtr (DriverValidatorSpec_DeepCopyInto dc)"

definition VFIOPCIValidatorSpec_type :: "(string \<Rightarrow> gotype) \<Rightarrow> gotype" where
  "VFIOPCIValidatorSpec_type ty = TStruct [
     (''Env'', TSlice (ty ''v1.EnvVar''))]"

definition VFIOPCIValidatorSpec_DeepCopyInto :: "(string \<Rightarrow> copier) \<Rightarrow> copier" where
  "VFIOPCIValidatorSpec_DeepCopyInto dc = copyInto [
     (''Env'', copySlice (dc ''v1.EnvVar''))]"

definition VFIOPCIValidatorSpec_DeepCopy :: "(string \<Rightarrow> copier) \<Rightarrow> copier" where
  "VFIOPCIValidatorSpec_DeepCopy dc = copyPtr (VFIOPCIValidatorSpec_DeepCopyInto dc)"

definition ValidatorSpec_type :: "(string \<Rightarrow> gotype) \<Rightarrow> gotype" where
  "ValidatorSpec_type ty = TStruct [
     (''Plugin'', PluginValidatorSpec_type ty), (''Toolkit'', ToolkitValidatorSpec_type ty),
     (''Driver'', DriverValidatorSpec_type ty), (''VFIOPCI'', VFIOPCIValidatorSpec_type ty), (''Registry'', TPrim),
     (''Image'', TPrim), (''Version'', TPrim), (''ImagePullPolicy'', TPrim), (''ImagePullSecrets'', TSlice TPrim),
     (''Resources'', TPtr (ty ''v1.ResourceRequirements'')), (''Args'', TSlice TPrim),
     (''Env'', TSlice (ty ''v1.EnvVar''))]"

definition ValidatorSpec_DeepCopyInto :: "(string \<Rightarrow> copier) \<Rightarrow> copier" where
  "ValidatorSpec_DeepCopyInto dc = copyInto [
     (''Plugin'', PluginValidatorSpec_DeepCopyInto dc), (''Toolkit'', ToolkitValidatorSpec_DeepCopyInto dc),
     (''Driver'', DriverValidatorSpec_DeepCopyInto dc), (''VFIOPCI'', VFIOPCIValidatorSpec_DeepCopyInto dc),
     (''ImagePullSecrets'', copySlice assign), (''Resources'', copyPtr (dc ''v1.ResourceRequirements'')),
     (''Args'', copySlice assign), (''Env'', copySlice (dc ''v1.EnvVar''))]"

definition ValidatorSpec_DeepCopy :: "(string \<Rightarrow> copier) \<Rightarrow> copier" where
  "ValidatorSpec_DeepCopy dc = copyPtr (ValidatorSpec_DeepCopyInto dc)"

definition RBLNClusterPolicySpec_type :: "(string \<Rightarrow> gotype) \<Rightarrow> gotype" where
  "RBLNClusterPolicySpec_type ty = TStruct [
     (''BaseName'', TPrim), (''Namespace'', TPrim), (''WorkloadType'', TPrim),
     (''Daemonsets'', TPtr (DaemonsetsSpec_type ty)), (''VFIOManager'', RBLNVFIOManagerSpec_type ty),
     (''SandboxDevicePlugin'', RBLNSandboxDevicePluginSpec_type ty),
     (''DevicePlugin'', RBLNDevicePluginSpec_type ty), (''MetricsExporter'', RBLNMetricsExporterSpec_type ty),
     (''RBLNDaemon'', RBLNDaemonSpec_type ty), (''NPUFeatureDiscovery'', RBLNNPUFeatureDiscoverySpec_type ty),
     (''ContainerToolkit'', RBLNContainerToolkitSpec_type ty), (''Validator'', ValidatorSpec_type ty)]"

definition RBLNClusterPolicySpec_DeepCopyInto :: "(string \<Rightarrow> copier) \<Rightarrow> copier" where
  "RBLNClusterPolicySpec_DeepCopyInto dc = copyInto [
     (''Daemonsets'', copyPtr (DaemonsetsSpec_DeepCopyInto dc)),
     (''VFIOManager'', RBLNVFIOManagerSpec_DeepCopyInto dc),
     (''SandboxDevicePlugin'', RBLNSandboxDevicePluginSpec_DeepCopyInto dc),
     (''DevicePlugin'', RBLNDevicePluginSpec_DeepCopyInto dc),
     (''MetricsExporter'', RBLNMetricsExporterSpec_DeepCopyInto dc),
     (''RBLNDaemon'', RBLNDaemonSpec_DeepCopyInto dc),
     (''NPUFeatureDiscovery'', RBLNNPUFeatureDiscoverySpec_DeepCopyInto dc),
     (''ContainerToolkit'', RBLNContainerToolkitSpec_DeepCopyInto dc), (''Validator'', ValidatorSpec_DeepCopyInto dc)]"

definition RBLNClusterPolicySpec_DeepCopy :: "(string \<Rightarrow> copier) \<Rightarrow> copier" where
  "RBLNClusterPolicySpec_DeepCopy dc = copyPtr (RBLNClusterPolicySpec_DeepCopyInto dc)"

definition RBLNComponentStatus_type :: "(string \<Rightarrow> gotype) \<Rightarrow> gotype" where
  "RBLNComponentStatus_type ty = TStruct [
     (''Name'', TPrim), (''Namespace'', TPrim), (''State'', TPrim), (''Condition'', TSlice (ty ''metav1.Condition''))]"

definition RBLNComponentStatus_DeepCopyInto :: "(string \<Rightarrow> copier) \<Rightarrow> copier" where
  "RBLNComponentStatus_DeepCopyInto dc = copyInto [
     (''Condition'', copySlice (dc ''metav1.Condition''))]"

definition RBLNComponentStatus_DeepCopy :: "(string \<Rightarrow> copier) \<Rightarrow> copier" where
  "RBLNComponentStatus_DeepCopy dc = copyPtr (RBLNComponentStatus_DeepCopyInto dc)"

definition RBLNClusterPolicyStatus_type :: "(string \<Rightarrow> gotype) \<Rightarrow> gotype" where
  "RBLNClusterPolicyStatus_type ty = TStruct [
     (''State'', TPrim), (''Components'', TSlice (RBLNComponentStatus_type ty)),
     (''Conditions'', TSlice (ty ''metav1.Condition''))]"

definition RBLNClusterPolicyStatus_DeepCopyInto :: "(string \<Rightarrow> copier) \<Rightarrow> copier" where
  "RBLNClusterPolicyStatus_DeepCopyInto dc = copyInto [
     (''Components'', copySlice (RBLNComponentStatus_DeepCopyInto dc)),
     (''Conditions'', copySlice (dc ''metav1.Condition''))]"

definition RBLNClusterPolicyStatus_DeepCopy :: "(string \<Rightarrow> copier) \<Rightarrow> copier" where
  "RBLNClusterPolicyStatus_DeepCopy dc = copyPtr (RBLNClusterPolicyStatus_DeepCopyInto dc)"

definition RBLNClusterPolicy_type :: "(string \<Rightarrow> gotype) \<Rightarrow> gotype" where
  "RBLNClusterPolicy_type ty = TStruct [
     (''TypeMeta'', TypeMeta_type), (''ObjectMeta'', ty ''metav1.ObjectMeta''),
     (''Spec'', RBLNClusterPolicySpec_type ty), (''Status'', RBLNClusterPolicyStatus_type ty)]"

definition RBLNClusterPolicy_DeepCopyInto :: "(string \<Rightarrow> copier) \<Rightarrow> copier" where
  "RBLNClusterPolicy_DeepCopyInto dc = copyInto [
     (''TypeMeta'', assign), (''ObjectMeta'', dc ''metav1.ObjectMeta''),
     (''Spec'', RBLNClusterPolicySpec_DeepCopyInto dc), (''Status'', RBLNClusterPolicyStatus_DeepCopyInto dc)]"

definition RBLNClusterPolicy_DeepCopy :: "(string \<Rightarrow> copier) \<Rightarrow> copier" where
  "RBLNClusterPolicy_DeepCopy dc = copyPtr (RBLNClusterPolicy_DeepCopyInto dc)"

definition RBLNClusterPolicy_DeepCopyObject :: "(string \<Rightarrow> copier) \<Rightarrow> copier" where
  "RBLNClusterPolicy_DeepCopyObject dc = DeepCopyObject (RBLNClusterPolicy_DeepCopy dc)"

definition RBLNClusterPolicyList_type :: "(string \<Rightarrow> gotype) \<Rightarrow> gotype" where
  "RBLNClusterPolicyList_type ty = TStruct [
     (''TypeMeta'', TypeMeta_type), (''ListMeta'', ty ''metav1.ListMeta''),
     (''Items'', TSlice (RBLNClusterPolicy_type ty))]"

definition RBLNClusterPolicyList_DeepCopyInto :: "(string \<Rightarrow> copier) \<Rightarrow> copier" where
  "RBLNClusterPolicyList_DeepCopyInto dc = copyInto [
     (''TypeMeta'', assign), (''ListMeta'', dc ''metav1.ListMeta''),
     (''Items'', copySlice (RBLNClusterPolicy_DeepCopyInto dc))]"

definition RBLNClusterPolicyList_DeepCopy :: "(string \<Rightarrow> copier) \<Rightarrow> copier" where
  "RBLNClusterPolicyList_DeepCopy dc = copyPtr (RBLNClusterPolicyList_DeepCopyInto dc)"

definition RBLNClusterPolicyList_DeepCopyObject :: "(string \<Rightarrow> copier) \<Rightarrow> copier" where
  "RBLNClusterPolicyList_DeepCopyObject dc = DeepCopyObject (RBLNClusterPolicyList_DeepCopy dc)"

definition EnvVar_type :: "(string \<Rightarrow> gotype) \<Rightarrow> gotype" where
  "EnvVar_type ty = TStruct [
     (''Name'', TPrim), (''Value'', TPrim)]"

definition EnvVar_DeepCopyInto :: "(string \<Rightarrow> copier) \<Rightarrow> copier" where
  "EnvVar_DeepCopyInto dc = copyInto []"

definition EnvVar_DeepCopy :: "(string \<Rightarrow> copier) \<Rightarrow> copier" where
  "EnvVar_DeepCopy dc = copyPtr (EnvVar_DeepCopyInto dc)"

definition DriverManagerSpec_type :: "(string \<Rightarrow> gotype) \<Rightarrow> gotype" where
  "DriverManagerSpec_type ty = TStruct [
     (''Registry'', TPrim), (''Image'', TPrim), (''Version'', TPrim), (''ImagePullPolicy'', TPrim),
     (''ImagePullSecrets'', TSlice TPrim), (''Env'', TSlice (EnvVar_type ty))]"

definition DriverManagerSpec_DeepCopyInto :: "(string \<Rightarrow> copier) \<Rightarrow> copier" where
  "DriverManagerSpec_DeepCopyInto dc = copyInto [
     (''ImagePullSecrets'', copySlice assign), (''Env'', copySlice assign)]"

definition DriverManagerSpec_DeepCopy :: "(string \<Rightarrow> copier) \<Rightarrow> copier" where
  "DriverManagerSpec_DeepCopy dc = copyPtr (DriverManagerSpec_DeepCopyInto dc)"

definition RBLNDriverSpec_type :: "(string \<Rightarrow> gotype) \<Rightarrow> gotype" where
  "RBLNDriverSpec_type ty = TStruct [
     (''Registry'', TPrim), (''Image'', TPrim), (''Version'', TPrim), (''ImagePullPolicy'', TPrim),
     (''ImagePullSecrets'', TSlice TPrim), (''Manager'', DriverManagerSpec_type ty), (''NodeSelector'', TMap),
     (''NodeAffinity'', TPtr (ty ''v1.NodeAffinity'')), (''Tolerations'', TSlice (ty ''v1.Toleration'')),
     (''Labels'', TMap), (''Annotations'', TMap), (''PriorityClassName'', TPrim),
     (''Resources'', ty ''v1.ResourceRequirements''), (''Args'', TSlice TPrim), (''Env'', TSlice (ty ''v1.EnvVar''))]"

definition RBLNDriverSpec_DeepCopyInto :: "(string \<Rightarrow> copier) \<Rightarrow> copier" where
  "RBLNDriverSpec_DeepCopyInto dc = copyInto [
     (''ImagePullSecrets'', copySlice assign), (''Manager'', DriverManagerSpec_DeepCopyInto dc),
     (''NodeSelector'', copyMap), (''NodeAffinity'', copyPtr (dc ''v1.NodeAffinity'')),
     (''Tolerations'', copySlice (dc ''v1.Toleration'')), (''Labels'', copyMap), (''Annotations'', copyMap),
     (''Resources'', dc ''v1.ResourceRequirements''), (''Args'', copySlice assign),
     (''Env'', copySlice (dc ''v1.EnvVar''))]"

definition RBLNDriverSpec_DeepCopy :: "(string \<Rightarrow> copier) \<Rightarrow> copier" where
  "RBLNDriverSpec_DeepCopy dc = copyPtr (RBLNDriverSpec_DeepCopyInto dc)"

definition RBLNDriverStatus_type :: "(string \<Rightarrow> gotype) \<Rightarrow> gotype" where
  "RBLNDriverStatus_type ty = TStruct [
     (''State'', TPrim), (''Conditions'', TSlice (ty ''metav1.Condition''))]"

definition RBLNDriverStatus_DeepCopyInto :: "(string \<Rightarrow> copier) \<Rightarrow> copier" where
  "RBLNDriverStatus_DeepCopyInto dc = copyInto [
     (''Conditions'', copySlice (dc ''metav1.Condition''))]"

definition RBLNDriverStatus_DeepCopy :: "(string \<Rightarrow> copier) \<Rightarrow> copier" where
  "RBLNDriverStatus_DeepCopy dc = copyPtr (RBLNDriverStatus_DeepCopyInto dc)"

definition RBLNDriver_type :: "(string \<Rightarrow> gotype) \<Rightarrow> gotype" where
  "RBLNDriver_type ty = TStruct [
     (''TypeMeta'', TypeMeta_type), (''ObjectMeta'', ty ''metav1.ObjectMeta''), (''Spec'', RBLNDriverSpec_type ty),
     (''Status'', RBLNDriverStatus_type ty)]"

definition RBLNDriver_DeepCopyInto :: "(string \<Rightarrow> copier) \<Rightarrow> copier" where
  "RBLNDriver_DeepCopyInto dc = copyInto [
     (''TypeMeta'', assign), (''ObjectMeta'', dc ''metav1.ObjectMeta''), (''Spec'', RBLNDriverSpec_DeepCopyInto dc),
     (''Status'', RBLNDriverStatus_DeepCopyInto dc)]"

definition RBLNDriver_DeepCopy :: "(string \<Rightarrow> copier) \<Rightarrow> copier" where
  "RBLNDriver_DeepCopy dc = copyPtr (RBLNDriver_DeepCopyInto dc)"

definition RBLNDriver_DeepCopyObject :: "(string \<Rightarrow> copier) \<Rightarrow> copier" where
  "RBLNDriver_DeepCopyObject dc = DeepCopyObject (RBLNDriver_DeepCopy dc)"

definition RBLNDriverList_type :: "(string \<Rightarrow> gotype) \<Rightarrow> gotype" where
  "RBLNDriverList_type ty = TStruct [
     (''TypeMeta'', TypeMeta_type), (''ListMeta'', ty ''metav1.ListMeta''), (''Items'', TSlice (RBLNDriver_type ty))]"

definition RBLNDriverList_DeepCopyInto :: "(string \<Rightarrow> copier) \<Rightarrow> copier" where
  "RBLNDriverList_DeepCopyInto dc = copyInto [
     (''TypeMeta'', assign), (''ListMeta'', dc ''metav1.ListMeta''),
     (''Items'', copySlice (RBLNDriver_DeepCopyInto dc))]"

definition RBLNDriverList_DeepCopy :: "(string \<Rightarrow> copier) \<Rightarrow> copier" where
  "RBLNDriverList_DeepCopy dc = copyPtr (RBLNDriverList_DeepCopyInto dc)"

definition RBLNDriverList_DeepCopyObject :: "(string \<Rightarrow> copier) \<Rightarrow> copier" where
  "RBLNDriverList_DeepCopyObject dc = DeepCopyObject (RBLNDriverList_DeepCopy dc)"

text \<open>All copies, with the types of their targets.\<close>

definition api_copies :: "(string \<Rightarrow> gotype) \<Rightarrow> (string \<Rightarrow> copier) \<Rightarrow> (gotype \<times> copier) list" where
  "api_copies ty dc = [
     (DaemonsetsSpec_type ty, DaemonsetsSpec_DeepCopy dc),
     (PodSpec_type ty, PodSpec_DeepCopy dc),
     (RBLNVFIOManagerSpec_type ty, RBLNVFIOManagerSpec_DeepCopy dc),
     (VFIOCheckerSpec_type ty, VFIOCheckerSpec_DeepCopy dc),
     (RBLNDevicePluginResourceSpec_type ty, RBLNDevicePluginResourceSpec_DeepCopy dc),
     (RBLNSandboxDevicePluginSpec_type ty, RBLNSandboxDevicePluginSpec_DeepCopy dc),
     (RBLNDevicePluginSpec_type ty, RBLNDevicePluginSpec_DeepCopy dc),
     (RBLNMetricsExporterSpec_type ty, RBLNMetricsExporterSpec_DeepCopy dc),
     (RBLNDaemonSpec_type ty, RBLNDaemonSpec_DeepCopy dc),
     (RBLNNPUFeatureDiscoverySpec_type ty, RBLNNPUFeatureDiscoverySpec_DeepCopy dc),
     (RBLNContainerToolkitSpec_type ty, RBLNContainerToolkitSpec_DeepCopy dc),
     (PluginValidatorSpec_type ty, PluginValidatorSpec_DeepCopy dc),
     (ToolkitValidatorSpec_type ty, ToolkitValidatorSpec_DeepCopy dc),
     (DriverValidatorSpec_type ty, DriverValidatorSpec_DeepCopy dc),
     (VFIOPCIValidatorSpec_type ty, VFIOPCIValidatorSpec_DeepCopy dc),
     (ValidatorSpec_type ty, ValidatorSpec_DeepCopy dc),
     (RBLNClusterPolicySpec_type ty, RBLNClusterPolicySpec_DeepCopy dc),
     (RBLNComponentStatus_type ty, RBLNComponentStatus_DeepCopy dc),
     (RBLNClusterPolicyStatus_type ty, RBLNClusterPolicyStatus_DeepCopy dc),
     (RBLNClusterPolicy_type ty, RBLNClusterPolicy_DeepCopy dc),
     (RBLNClusterPolicyList_type ty, RBLNClusterPolicyList_DeepCopy dc),
     (EnvVar_type ty, EnvVar_DeepCopy dc),
     (DriverManagerSpec_type ty, DriverManagerSpec_DeepCopy dc),
     (RBLNDriverSpec_type ty, RBLNDriverSpec_DeepCopy dc),
     (RBLNDriverStatus_type ty, RBLNDriverStatus_DeepCopy dc),
     (RBLNDriver_type ty, RBLNDriver_DeepCopy dc),
     (RBLNDriverList_type ty, RBLNDriverList_DeepCopy dc),
     (RBLNClusterPolicy_type ty, RBLNClusterPolicy_DeepCopyObject dc),
     (RBLNClusterPolicyList_type ty, RBLNClusterPolicyList_DeepCopyObject dc),
     (RBLNDriver_type ty, RBLNDriver_DeepCopyObject dc),
     (RBLNDriverList_type ty, RBLNDriverList_DeepCopyObject dc)]"

section \<open>Lemmas\<close>

lemmas flat_types = TypeMeta_type_def VFIOCheckerSpec_type_def EnvVar_type_def

text \<open>The copies of the types of Kubernetes are correct.\<close>

definition vendored :: "(string \<Rightarrow> gotype) \<Rightarrow> (string \<Rightarrow> copier) \<Rightarrow> bool" where
  "vendored ty dc \<longleftrightarrow> (\<forall>n. copies (ty n) (dc n))"

lemma vendoredD: "vendored ty dc \<Longrightarrow> copies (ty n) (dc n)"
  by (simp add: vendored_def)

lemma copies_DeepCopyObject [copies_intros]: "copies T f \<Longrightarrow> copies T (DeepCopyObject f)"
  unfolding copies_def DeepCopyObject_def by (fastforce split: prod.splits if_splits)

lemma DaemonsetsSpec_copies [copies_intros]:
  assumes "vendored ty dc"
  shows "copies (DaemonsetsSpec_type ty) (DaemonsetsSpec_DeepCopyInto dc)"
  unfolding DaemonsetsSpec_type_def DaemonsetsSpec_DeepCopyInto_def
  by (rule copies_copyInto) (simp_all add: copies_intros flat_types vendoredD [OF assms] assms)

lemma PodSpec_copies [copies_intros]:
  assumes "vendored ty dc"
  shows "copies (PodSpec_type ty) (PodSpec_DeepCopyInto dc)"
  unfolding PodSpec_type_def PodSpec_DeepCopyInto_def
  by (rule copies_copyInto) (simp_all add: copies_intros flat_types vendoredD [OF assms] assms)

lemma RBLNVFIOManagerSpec_copies [copies_intros]:
  assumes "vendored ty dc"
  shows "copies (RBLNVFIOManagerSpec_type ty) (RBLNVFIOManagerSpec_DeepCopyInto dc)"
  unfolding RBLNVFIOManagerSpec_type_def RBLNVFIOManagerSpec_DeepCopyInto_def
  by (rule copies_copyInto) (simp_all add: copies_intros flat_types vendoredD [OF assms] assms)

lemma VFIOCheckerSpec_copies [copies_intros]:
  assumes "vendored ty dc"
  shows "copies (VFIOCheckerSpec_type ty) (VFIOCheckerSpec_DeepCopyInto dc)"
  unfolding VFIOCheckerSpec_type_def VFIOCheckerSpec_DeepCopyInto_def
  by (rule copies_copyInto) (simp_all add: copies_intros flat_types vendoredD [OF assms] assms)

lemma RBLNDevicePluginResourceSpec_copies [copies_intros]:
  assumes "vendored ty dc"
  shows "copies (RBLNDevicePluginResourceSpec_type ty) (RBLNDevicePluginResourceSpec_DeepCopyInto dc)"
  unfolding RBLNDevicePluginResourceSpec_type_def RBLNDevicePluginResourceSpec_DeepCopyInto_def
  by (rule copies_copyInto) (simp_all add: copies_intros flat_types vendoredD [OF assms] assms)

lemma RBLNSandboxDevicePluginSpec_copies [copies_intros]:
  assumes "vendored ty dc"
  shows "copies (RBLNSandboxDevicePluginSpec_type ty) (RBLNSandboxDevicePluginSpec_DeepCopyInto dc)"
  unfolding RBLNSandboxDevicePluginSpec_type_def RBLNSandboxDevicePluginSpec_DeepCopyInto_def
  by (rule copies_copyInto) (simp_all add: copies_intros flat_types vendoredD [OF assms] assms)

lemma RBLNDevicePluginSpec_copies [copies_intros]:
  assumes "vendored ty dc"
  shows "copies (RBLNDevicePluginSpec_type ty) (RBLNDevicePluginSpec_DeepCopyInto dc)"
  unfolding RBLNDevicePluginSpec_type_def RBLNDevicePluginSpec_DeepCopyInto_def
  by (rule copies_copyInto) (simp_all add: copies_intros flat_types vendoredD [OF assms] assms)

lemma RBLNMetricsExporterSpec_copies [copies_intros]:
  assumes "vendored ty dc"
  shows "copies (RBLNMetricsExporterSpec_type ty) (RBLNMetricsExporterSpec_DeepCopyInto dc)"
  unfolding RBLNMetricsExporterSpec_type_def RBLNMetricsExporterSpec_DeepCopyInto_def
  by (rule copies_copyInto) (simp_all add: copies_intros flat_types vendoredD [OF assms] assms)

lemma RBLNDaemonSpec_copies [copies_intros]:
  assumes "vendored ty dc"
  shows "copies (RBLNDaemonSpec_type ty) (RBLNDaemonSpec_DeepCopyInto dc)"
  unfolding RBLNDaemonSpec_type_def RBLNDaemonSpec_DeepCopyInto_def
  by (rule copies_copyInto) (simp_all add: copies_intros flat_types vendoredD [OF assms] assms)

lemma RBLNNPUFeatureDiscoverySpec_copies [copies_intros]:
  assumes "vendored ty dc"
  shows "copies (RBLNNPUFeatureDiscoverySpec_type ty) (RBLNNPUFeatureDiscoverySpec_DeepCopyInto dc)"
  unfolding RBLNNPUFeatureDiscoverySpec_type_def RBLNNPUFeatureDiscoverySpec_DeepCopyInto_def
  by (rule copies_copyInto) (simp_all add: copies_intros flat_types vendoredD [OF assms] assms)

lemma RBLNContainerToolkitSpec_copies [copies_intros]:
  assumes "vendored ty dc"
  shows "copies (RBLNContainerToolkitSpec_type ty) (RBLNContainerToolkitSpec_DeepCopyInto dc)"
  unfolding RBLNContainerToolkitSpec_type_def RBLNContainerToolkitSpec_DeepCopyInto_def
  by (rule copies_copyInto) (simp_all add: copies_intros flat_types vendoredD [OF assms] assms)

lemma PluginValidatorSpec_copies [copies_intros]:
  assumes "vendored ty dc"
  shows "copies (PluginValidatorSpec_type ty) (PluginValidatorSpec_DeepCopyInto dc)"
  unfolding PluginValidatorSpec_type_def PluginValidatorSpec_DeepCopyInto_def
  by (rule copies_copyInto) (simp_all add: copies_intros flat_types vendoredD [OF assms] assms)

lemma ToolkitValidatorSpec_copies [copies_intros]:
  assumes "vendored ty dc"
  shows "copies (ToolkitValidatorSpec_type ty) (ToolkitValidatorSpec_DeepCopyInto dc)"
  unfolding ToolkitValidatorSpec_type_def ToolkitValidatorSpec_DeepCopyInto_def
  by (rule copies_copyInto) (simp_all add: copies_intros flat_types vendoredD [OF assms] assms)

lemma DriverValidatorSpec_copies [copies_intros]:
  assumes "vendored ty dc"
  shows "copies (DriverValidatorSpec_type ty) (DriverValidatorSpec_DeepCopyInto dc)"
  unfolding DriverValidatorSpec_type_def DriverValidatorSpec_DeepCopyInto_def
  by (rule copies_copyInto) (simp_all add: copies_intros flat_types vendoredD [OF assms] assms)

lemma VFIOPCIValidatorSpec_copies [copies_intros]:
  assumes "vendored ty dc"
  shows "copies (VFIOPCIValidatorSpec_type ty) (VFIOPCIValidatorSpec_DeepCopyInto dc)"
  unfolding VFIOPCIValidatorSpec_type_def VFIOPCIValidatorSpec_DeepCopyInto_def
  by (rule copies_copyInto) (simp_all add: copies_intros flat_types vendoredD [OF assms] assms)

lemma ValidatorSpec_copies [copies_intros]:
  assumes "vendored ty dc"
  shows "copies (ValidatorSpec_type ty) (ValidatorSpec_DeepCopyInto dc)"
  unfolding ValidatorSpec_type_def ValidatorSpec_DeepCopyInto_def
  by (rule copies_copyInto) (simp_all add: copies_intros flat_types vendoredD [OF assms] assms)

lemma RBLNClusterPolicySpec_copies [copies_intros]:
  assumes "vendored ty dc"
  shows "copies (RBLNClusterPolicySpec_type ty) (RBLNClusterPolicySpec_DeepCopyInto dc)"
  unfolding RBLNClusterPolicySpec_type_def RBLNClusterPolicySpec_DeepCopyInto_def
  by (rule copies_copyInto) (simp_all add: copies_intros flat_types vendoredD [OF assms] assms)

lemma RBLNComponentStatus_copies [copies_intros]:
  assumes "vendored ty dc"
  shows "copies (RBLNComponentStatus_type ty) (RBLNComponentStatus_DeepCopyInto dc)"
  unfolding RBLNComponentStatus_type_def RBLNComponentStatus_DeepCopyInto_def
  by (rule copies_copyInto) (simp_all add: copies_intros flat_types vendoredD [OF assms] assms)

lemma RBLNClusterPolicyStatus_copies [copies_intros]:
  assumes "vendored ty dc"
  shows "copies (RBLNClusterPolicyStatus_type ty) (RBLNClusterPolicyStatus_DeepCopyInto dc)"
  unfolding RBLNClusterPolicyStatus_type_def RBLNClusterPolicyStatus_DeepCopyInto_def
  by (rule copies_copyInto) (simp_all add: copies_intros flat_types vendoredD [OF assms] assms)

lemma RBLNClusterPolicy_copies [copies_intros]:
  assumes "vendored ty dc"
  shows "copies (RBLNClusterPolicy_type ty) (RBLNClusterPolicy_DeepCopyInto dc)"
  unfolding RBLNClusterPolicy_type_def RBLNClusterPolicy_DeepCopyInto_def
  by (rule copies_copyInto) (simp_all add: copies_intros flat_types vendoredD [OF assms] assms)

lemma RBLNClusterPolicyList_copies [copies_intros]:
  assumes "vendored ty dc"
  shows "copies (RBLNClusterPolicyList_type ty) (RBLNClusterPolicyList_DeepCopyInto dc)"
  unfolding RBLNClusterPolicyList_type_def RBLNClusterPolicyList_DeepCopyInto_def
  by (rule copies_copyInto) (simp_all add: copies_intros flat_types vendoredD [OF assms] assms)

lemma EnvVar_copies [copies_intros]:
  assumes "vendored ty dc"
  shows "copies (EnvVar_type ty) (EnvVar_DeepCopyInto dc)"
  unfolding EnvVar_type_def EnvVar_DeepCopyInto_def
  by (rule copies_copyInto) (simp_all add: copies_intros flat_types vendoredD [OF assms] assms)

lemma DriverManagerSpec_copies [copies_intros]:
  assumes "vendored ty dc"
  shows "copies (DriverManagerSpec_type ty) (DriverManagerSpec_DeepCopyInto dc)"
  unfolding DriverManagerSpec_type_def DriverManagerSpec_DeepCopyInto_def
  by (rule copies_copyInto) (simp_all add: copies_intros flat_types vendoredD [OF assms] assms)

lemma RBLNDriverSpec_copies [copies_intros]:
  assumes "vendored ty dc"
  shows "copies (RBLNDriverSpec_type ty) (RBLNDriverSpec_DeepCopyInto dc)"
  unfolding RBLNDriverSpec_type_def RBLNDriverSpec_DeepCopyInto_def
  by (rule copies_copyInto) (simp_all add: copies_intros flat_types vendoredD [OF assms] assms)

lemma RBLNDriverStatus_copies [copies_intros]:
  assumes "vendored ty dc"
  shows "copies (RBLNDriverStatus_type ty) (RBLNDriverStatus_DeepCopyInto dc)"
  unfolding RBLNDriverStatus_type_def RBLNDriverStatus_DeepCopyInto_def
  by (rule copies_copyInto) (simp_all add: copies_intros flat_types vendoredD [OF assms] assms)

lemma RBLNDriver_copies [copies_intros]:
  assumes "vendored ty dc"
  shows "copies (RBLNDriver_type ty) (RBLNDriver_DeepCopyInto dc)"
  unfolding RBLNDriver_type_def RBLNDriver_DeepCopyInto_def
  by (rule copies_copyInto) (simp_all add: copies_intros flat_types vendoredD [OF assms] assms)

lemma RBLNDriverList_copies [copies_intros]:
  assumes "vendored ty dc"
  shows "copies (RBLNDriverList_type ty) (RBLNDriverList_DeepCopyInto dc)"
  unfolding RBLNDriverList_type_def RBLNDriverList_DeepCopyInto_def
  by (rule copies_copyInto) (simp_all add: copies_intros flat_types vendoredD [OF assms] assms)

lemmas DeepCopy_defs = DaemonsetsSpec_DeepCopy_def PodSpec_DeepCopy_def RBLNVFIOManagerSpec_DeepCopy_def VFIOCheckerSpec_DeepCopy_def
  RBLNDevicePluginResourceSpec_DeepCopy_def RBLNSandboxDevicePluginSpec_DeepCopy_def
  RBLNDevicePluginSpec_DeepCopy_def RBLNMetricsExporterSpec_DeepCopy_def RBLNDaemonSpec_DeepCopy_def
  RBLNNPUFeatureDiscoverySpec_DeepCopy_def RBLNContainerToolkitSpec_DeepCopy_def PluginValidatorSpec_DeepCopy_def
  ToolkitValidatorSpec_DeepCopy_def DriverValidatorSpec_DeepCopy_def VFIOPCIValidatorSpec_DeepCopy_def
  ValidatorSpec_DeepCopy_def RBLNClusterPolicySpec_DeepCopy_def RBLNComponentStatus_DeepCopy_def
  RBLNClusterPolicyStatus_DeepCopy_def RBLNClusterPolicy_DeepCopy_def RBLNClusterPolicyList_DeepCopy_def
  EnvVar_DeepCopy_def DriverManagerSpec_DeepCopy_def RBLNDriverSpec_DeepCopy_def RBLNDriverStatus_DeepCopy_def
  RBLNDriver_DeepCopy_def RBLNDriverList_DeepCopy_def RBLNClusterPolicy_DeepCopyObject_def
  RBLNClusterPolicyList_DeepCopyObject_def RBLNDriver_DeepCopyObject_def RBLNDriverList_DeepCopyObject_def

lemma api_copies_correct:
  assumes "vendored ty dc" and "(T, copy) \<in> set (api_copies ty dc)"
  shows "copies (TPtr T) copy"
proof -
  have "list_all (\<lambda>(T, copy). copies (TPtr T) copy) (api_copies ty dc)"
    using assms(1) by (simp add: api_copies_def DeepCopy_defs copies_intros)
  then show ?thesis using assms(2) by (auto simp: list_all_iff)
qed

section \<open>Properties\<close>

text \<open>
  C31: The generated copies are independent of their originals.  The copy of an object of any API type stands for
  what the original stands for, and leaves the store as it was.  Whatever is written later to the cells of
  the original, the copy stands for the same, and whatever is written to the new cells, so does the original.
\<close>

theorem deep_copies_independent:
  assumes "vendored ty dc" and "(T, copy) \<in> set (api_copies ty dc)"
    and v: "den 0 h (TPtr T) v t" and run: "copy v h = (v', h')"
  shows "prefix h h' \<and> den 0 h' (TPtr T) v' t \<and>
     (\<forall>g. (\<forall>a\<ge>length h. cell_at g a = cell_at h' a) \<longrightarrow> den 0 g (TPtr T) v' t) \<and>
     (\<forall>g. (\<forall>a<length h. cell_at g a = cell_at h' a) \<longrightarrow> den 0 g (TPtr T) v t)"
proof (intro conjI allI impI)
  note c = copiesD [OF api_copies_correct [OF assms(1,2)] v run]
  show "prefix h h'" by (rule c(1))
  show "den 0 h' (TPtr T) v' t" using c(2) by (rule den_weaken) simp
  show "den 0 g (TPtr T) v' t" if "\<forall>a\<ge>length h. cell_at g a = cell_at h' a" for g
    using den_weaken [OF den_agree [OF c(2)], of g 0] that by simp
  show "den 0 g (TPtr T) v t" if "\<forall>a<length h. cell_at g a = cell_at h' a" for g
  proof (rule den_agree [OF v])
    fix a x assume "cell_at h a = Some x"
    then show "cell_at g a = Some x" using that cell_at_prefix [OF c(1)] by (auto simp: cell_at_def split: if_splits)
  qed
qed

text \<open>Tolerations have a pointer; of the other types of Kubernetes only values without fields occur.\<close>

definition example_ty :: "string \<Rightarrow> gotype" where
  "example_ty n = (if n = ''v1.Toleration''
     then TStruct [(''Key'', TPrim), (''Operator'', TPrim), (''Value'', TPrim), (''Effect'', TPrim), (''TolerationSeconds'', TPtr TPrim)]
     else TStruct [])"

definition example_dc :: "string \<Rightarrow> copier" where
  "example_dc n = (if n = ''v1.Toleration'' then copyInto [(''TolerationSeconds'', copyPtr assign)] else assign)"

lemma example_vendored: "vendored example_ty example_dc"
  unfolding vendored_def by (auto simp: example_ty_def example_dc_def intro!: copies_intros)

definition example_heap :: "string \<Rightarrow> heap" where
  "example_heap secs = [Elems [Prim secs],
     Elems [Struct [(''Key'', Prim ''k''), (''Operator'', Prim []), (''Value'', Prim []), (''Effect'', Prim []), (''TolerationSeconds'', Ref 0)]],
     Entries fmempty,
     Elems [Struct [(''Labels'', Ref 2), (''Annotations'', NilRef), (''Affinity'', NilRef), (''Tolerations'', Ref 1),
       (''PriorityClassName'', Prim ''high'')]]]"

definition example_tree :: "string \<Rightarrow> tree" where
  "example_tree secs = Listed [Fields [(''Labels'', Mapped fmempty), (''Annotations'', Missing), (''Affinity'', Missing),
     (''Tolerations'', Listed [Fields [(''Key'', Leaf ''k''), (''Operator'', Leaf []), (''Value'', Leaf []), (''Effect'', Leaf []),
        (''TolerationSeconds'', Listed [Leaf secs])]]),
     (''PriorityClassName'', Leaf ''high'')]]"

lemma example_den: "den 0 (example_heap secs) (TPtr (DaemonsetsSpec_type example_ty)) (Ref 3) (example_tree secs)"
  unfolding DaemonsetsSpec_type_def example_heap_def example_tree_def example_ty_def
  by (simp add: den_simps cell_at_def nth_Cons')

theorem deep_copies_independent_witness:
  "\<exists>v' h'. DaemonsetsSpec_DeepCopy example_dc (Ref 3) (example_heap ''60'') = (v', h') \<and>
     den 0 (h'[0 := Elems [Prim ''0'']]) (TPtr (DaemonsetsSpec_type example_ty)) v' (example_tree ''60'')"
proof -
  obtain v' h' where run: "DaemonsetsSpec_DeepCopy example_dc (Ref 3) (example_heap ''60'') = (v', h')" by fastforce
  have mem: "(DaemonsetsSpec_type example_ty, DaemonsetsSpec_DeepCopy example_dc) \<in> set (api_copies example_ty example_dc)"
    by (simp add: api_copies_def)
  have "cell_at (h'[0 := c]) a = cell_at h' a" if "length (example_heap ''60'') \<le> a" for a c
    using that by (cases a) (simp_all add: cell_at_def example_heap_def)
  then show ?thesis
    using deep_copies_independent [OF example_vendored mem example_den run] run by blast
qed

end
