(* ===== verification/Operator_Main.thy ===== *)
theory Operator_Main
  imports Watches
begin

text \<open>
  \<open>cmd/npu-operator/main.go\<close>: the flags, the options of the servers, and the order in which the manager is made, the
  controllers and the checks are registered and the manager is started.  The controller manager is a parameter.
\<close>

section \<open>Flags and options\<close>

text \<open>The flags as the flag package parsed them.\<close>

record main_flags =
  mf_metricsAddr :: string
  mf_probeAddr :: string
  mf_enableLeaderElection :: bool
  mf_secureMetrics :: bool
  mf_enableHTTP2 :: bool

definition default_flags :: main_flags where
  "default_flags = \<lparr>mf_metricsAddr = ''0'', mf_probeAddr = '':8081'', mf_enableLeaderElection = False,
     mf_secureMetrics = True, mf_enableHTTP2 = False\<rparr>"

record tls_config =
  tls_NextProtos :: "string list"

definition disableHTTP2 :: "tls_config \<Rightarrow> tls_config" where
  "disableHTTP2 c = c\<lparr>tls_NextProtos := [''http/1.1'']\<rparr>"

definition tlsOpts :: "main_flags \<Rightarrow> (tls_config \<Rightarrow> tls_config) list" where
  "tlsOpts f = (if \<not> mf_enableHTTP2 f then [disableHTTP2] else [])"

text \<open>\<open>mo_FilterProvider\<close>: whether requests are authenticated and authorized.\<close>

record metrics_options =
  mo_BindAddress :: string
  mo_SecureServing :: bool
  mo_TLSOpts :: "(tls_config \<Rightarrow> tls_config) list"
  mo_FilterProvider :: bool

definition metricsServerOptions :: "main_flags \<Rightarrow> metrics_options" where
  "metricsServerOptions f =
     (let opts = \<lparr>mo_BindAddress = mf_metricsAddr f, mo_SecureServing = mf_secureMetrics f, mo_TLSOpts = tlsOpts f,
                  mo_FilterProvider = False\<rparr>
      in if mf_secureMetrics f then opts\<lparr>mo_FilterProvider := True\<rparr> else opts)"

record manager_options =
  mg_Metrics :: metrics_options
  mg_WebhookTLSOpts :: "(tls_config \<Rightarrow> tls_config) list"
  mg_HealthProbeBindAddress :: string
  mg_LeaderElection :: bool
  mg_LeaderElectionID :: string

definition managerOptions :: "main_flags \<Rightarrow> manager_options" where
  "managerOptions f = \<lparr>mg_Metrics = metricsServerOptions f, mg_WebhookTLSOpts = tlsOpts f,
     mg_HealthProbeBindAddress = mf_probeAddr f, mg_LeaderElection = mf_enableLeaderElection f,
     mg_LeaderElectionID = ''91ec02eb.rebellions.ai''\<rparr>"

section \<open>\<open>main\<close>\<close>

text \<open>
  The manager and what else of the runtime is called; a controller is completed with its kind and its
  watches, which depend on the policy in charge for the reconciler of policies.
\<close>

record 'w manager =
  mgr_New :: "manager_options \<Rightarrow> ('w, unit) api"
  mgr_Complete :: "kind \<Rightarrow> (string \<Rightarrow> 'w watch list) \<Rightarrow> ('w, unit) api"
  mgr_AddHealthzCheck :: "string \<Rightarrow> ('w, unit) api"
  mgr_AddReadyzCheck :: "string \<Rightarrow> ('w, unit) api"
  mgr_Start :: "('w, unit) api"
  mgr_newOcpClient :: "('w, unit) api"
  mgr_getVersion :: "('w, UpdateHistory list) api"
  mgr_newCoreClient :: "('w, unit) api"

definition main :: "'w manager \<Rightarrow> 'w client \<Rightarrow> main_flags \<Rightarrow> ('w, unit) op" where
  "main mgr c f =
     bind (orExit (call (mgr_New mgr (managerOptions f)))) (\<lambda>_.
     bind (orExit (NewClusterInfo c (mgr_newOcpClient mgr) (mgr_getVersion mgr) (mgr_newCoreClient mgr))) (\<lambda>clusterInfo.
     seqE [
       orExit (call (mgr_Complete mgr ClusterPolicyKind policy_SetupWithManager)),
       orExit (call (mgr_Complete mgr DriverKind (\<lambda>_. driver_SetupWithManager c))),
       orExit (call (mgr_AddHealthzCheck mgr ''healthz'')),
       orExit (call (mgr_AddReadyzCheck mgr ''readyz'')),
       orExit (call (mgr_Start mgr))]))"

section \<open>Lemmas\<close>

text \<open>
  \<open>registered\<close> are the controllers and checks of the manager and \<open>started\<close> whether it has been started.  A
  registration that succeeds adds its entry, and nothing but \<open>Start\<close> starts the manager.
\<close>

datatype entry = Controller kind | Healthz | Readyz

definition adds :: "('w \<Rightarrow> entry list) \<Rightarrow> ('w \<Rightarrow> bool) \<Rightarrow> ('w, 'a) op \<Rightarrow> entry list \<Rightarrow> bool" where
  "adds registered started m es \<longleftrightarrow> (\<forall>w r w'. m w = (r, w') \<longrightarrow> started w' = started w \<and>
     (is_ok r \<longrightarrow> registered w' = registered w @ es))"

text \<open>An operation that neither registers nor starts anything.\<close>

definition idle :: "('w \<Rightarrow> entry list) \<Rightarrow> ('w \<Rightarrow> bool) \<Rightarrow> ('w, 'a) op \<Rightarrow> bool" where
  "idle registered started m \<longleftrightarrow> (\<forall>w. registered (snd (m w)) = registered w \<and> started (snd (m w)) = started w)"

definition manager_law :: "('w \<Rightarrow> entry list) \<Rightarrow> ('w \<Rightarrow> bool) \<Rightarrow> 'w manager \<Rightarrow> 'w client \<Rightarrow> bool" where
  "manager_law registered started mgr c \<longleftrightarrow>
     (\<forall>opts. idle registered started (call (mgr_New mgr opts))) \<and>
     idle registered started (call (mgr_newOcpClient mgr)) \<and> idle registered started (call (mgr_getVersion mgr)) \<and>
     idle registered started (call (mgr_newCoreClient mgr)) \<and> (\<forall>opts. idle registered started (call (api_List (nodes c) opts))) \<and>
     (\<forall>k was. adds registered started (call (mgr_Complete mgr k was)) [Controller k]) \<and>
     (\<forall>n. adds registered started (call (mgr_AddHealthzCheck mgr n)) [Healthz]) \<and>
     (\<forall>n. adds registered started (call (mgr_AddReadyzCheck mgr n)) [Readyz]) \<and>
     (\<forall>w. registered (snd (mgr_Start mgr w)) = registered w)"

named_theorems idle_intros "operations that register nothing"

lemma idle_basic [idle_intros]: "idle reg st (ret x)" "idle reg st (fail e)"
  by (simp_all add: idle_def op_defs)

lemma idle_bind [idle_intros]:
  assumes "idle reg st m" and "\<And>x. idle reg st (f x)"
  shows "idle reg st (bind m f)"
  unfolding idle_def
proof
  fix w
  show "reg (snd (bind m f w)) = reg w \<and> st (snd (bind m f w)) = st w"
    using assms unfolding idle_def by (cases "m w"; cases "fst (m w)") (auto simp: bind_def, (metis snd_conv)+)
qed

lemma idle_catch [idle_intros]:
  assumes "idle reg st m" and "\<And>e. idle reg st (f e)"
  shows "idle reg st (catch m f)"
  unfolding idle_def
proof
  fix w
  show "reg (snd (catch m f w)) = reg w \<and> st (snd (catch m f w)) = st w"
    using assms unfolding idle_def by (cases "m w"; cases "fst (m w)") (auto simp: catch_def, (metis snd_conv)+)
qed

lemma idle_adds: "idle reg st m \<Longrightarrow> adds reg st m []"
  unfolding idle_def adds_def by (metis append_Nil2 snd_conv)

lemma adds_bind:
  assumes "adds reg st m es" and "\<And>x. adds reg st (f x) es'"
  shows "adds reg st (bind m f) (es @ es')"
  unfolding adds_def
proof (intro allI impI)
  fix w r w'
  assume run: "bind m f w = (r, w')"
  obtain x v where m: "m w = (x, v)" by fastforce
  show "st w' = st w \<and> (is_ok r \<longrightarrow> reg w' = reg w @ es @ es')"
    using run m assms(1) assms(2) unfolding adds_def by (cases x) (auto simp: bind_def)
qed

lemma adds_orExit: "adds reg st m es \<Longrightarrow> adds reg st (orExit m) es"
  by (auto simp: adds_def orExit_def catch_def lift_outcome_def split: prod.splits outcome.splits)

lemma idle_NewClusterInfo:
  assumes "manager_law reg st mgr c"
  shows "idle reg st (NewClusterInfo c (mgr_newOcpClient mgr) (mgr_getVersion mgr) (mgr_newCoreClient mgr))"
  using assms unfolding NewClusterInfo_def getOpenshiftVersion_def getContainerRuntime_def manager_law_def
  by (auto simp: Let_def intro!: idle_intros split: option.splits)

text \<open>All of \<open>main\<close> before \<open>Start\<close>.\<close>

definition setUp :: "'w manager \<Rightarrow> 'w client \<Rightarrow> main_flags \<Rightarrow> ('w, unit) op" where
  "setUp mgr c f =
     bind (orExit (call (mgr_New mgr (managerOptions f)))) (\<lambda>_.
     bind (orExit (NewClusterInfo c (mgr_newOcpClient mgr) (mgr_getVersion mgr) (mgr_newCoreClient mgr))) (\<lambda>_.
     bind (orExit (call (mgr_Complete mgr ClusterPolicyKind policy_SetupWithManager))) (\<lambda>_.
     bind (orExit (call (mgr_Complete mgr DriverKind (\<lambda>_. driver_SetupWithManager c)))) (\<lambda>_.
     bind (orExit (call (mgr_AddHealthzCheck mgr ''healthz''))) (\<lambda>_.
     orExit (call (mgr_AddReadyzCheck mgr ''readyz'')))))))"

lemma main_setUp: "main mgr c f = bind (setUp mgr c f) (\<lambda>_. orExit (call (mgr_Start mgr)))"
  by (simp add: main_def setUp_def bind_assoc)

lemma setUp_adds:
  assumes law: "manager_law reg st mgr c"
  shows "adds reg st (setUp mgr c f) [Controller ClusterPolicyKind, Controller DriverKind, Healthz, Readyz]"
proof -
  have new: "adds reg st (orExit (call (mgr_New mgr (managerOptions f)))) []"
    using law by (intro adds_orExit idle_adds) (simp add: manager_law_def)
  have info: "adds reg st (orExit (NewClusterInfo c (mgr_newOcpClient mgr) (mgr_getVersion mgr) (mgr_newCoreClient mgr))) []"
    by (intro adds_orExit idle_adds idle_NewClusterInfo law)
  have steps: "adds reg st (orExit (call (mgr_Complete mgr k was))) [Controller k]"
      "adds reg st (orExit (call (mgr_AddHealthzCheck mgr n))) [Healthz]"
      "adds reg st (orExit (call (mgr_AddReadyzCheck mgr n))) [Readyz]" for k was n
    using law by (auto intro!: adds_orExit simp: manager_law_def)
  have "adds reg st (setUp mgr c f) ([] @ [] @ [Controller ClusterPolicyKind] @ [Controller DriverKind] @ [Healthz] @ [Readyz])"
    unfolding setUp_def by (intro adds_bind new info steps)
  then show ?thesis by simp
qed

section \<open>Properties\<close>

text \<open>
  C16: The manager is never started before both controllers and both checks are registered; \<open>main\<close> returns normally only
  when the manager has stopped without an error, and ends the process after any other error.  The servers of the manager
  refuse HTTP/2 unless it is enabled, and the metrics are authenticated whenever they are served securely.
\<close>

theorem main_correct:
  assumes law: "manager_law registered started mgr c" and fresh: "\<not> started w" and run: "main mgr c f w = (r, w')"
  shows "(started w' \<longrightarrow> registered w' = registered w @ [Controller ClusterPolicyKind, Controller DriverKind, Healthz, Readyz]) \<and>
     (\<forall>e. r \<noteq> Err e) \<and> (r = Ok () \<longrightarrow> (\<exists>v. mgr_Start mgr v = (Inr (), w'))) \<and>
     (\<not> mf_enableHTTP2 f \<longrightarrow>
        (\<forall>opts\<in>{mg_WebhookTLSOpts (managerOptions f), mo_TLSOpts (mg_Metrics (managerOptions f))}.
           tls_NextProtos (fold (\<lambda>opt. opt) opts cfg) = [''http/1.1''])) \<and>
     (mo_SecureServing (mg_Metrics (managerOptions f)) \<longrightarrow> mo_FilterProvider (mg_Metrics (managerOptions f)))"
proof -
  obtain x v where s: "setUp mgr c f w = (x, v)" by fastforce
  have v: "started v = started w" "is_ok x \<longrightarrow> registered v = registered w @ [Controller ClusterPolicyKind, Controller DriverKind, Healthz, Readyz]"
    using setUp_adds [OF law, of f] s by (simp_all add: adds_def)
  have noErr: "\<forall>e. x \<noteq> Err e"
    using s unfolding setUp_def by (auto simp: bind_def orExit_not_Err split: prod.splits outcome.splits)
  have "(started w' \<longrightarrow> registered w' = registered w @ [Controller ClusterPolicyKind, Controller DriverKind, Healthz, Readyz]) \<and>
     (\<forall>e. r \<noteq> Err e) \<and> (r = Ok () \<longrightarrow> (\<exists>v. mgr_Start mgr v = (Inr (), w')))"
  proof (cases "is_ok x")
    case True
    then have go: "orExit (call (mgr_Start mgr)) v = (r, w')" using run s by (auto simp: main_setUp bind_def is_ok_iff)
    then have "w' = snd (mgr_Start mgr v)" "r = Ok () \<longrightarrow> mgr_Start mgr v = (Inr (), w')" "\<forall>e. r \<noteq> Err e"
      by (auto simp: orExit_def catch_def call_def lift_outcome_def split: prod.splits sum.splits)
    then show ?thesis using v True law by (auto simp: manager_law_def)
  next
    case False
    then show ?thesis using run s v noErr fresh by (cases x) (auto simp: main_setUp bind_def)
  qed
  then show ?thesis
    by (auto simp: managerOptions_def metricsServerOptions_def tlsOpts_def disableHTTP2_def Let_def)
qed

text \<open>A manager in memory: its entries and whether it has been started.  Of the client only the nodes are listed.\<close>

type_synonym mem_state = "entry list \<times> bool"

definition mem_nodes :: "mem_state client" where
  "mem_nodes = undefined\<lparr>nodes := undefined\<lparr>api_List := (\<lambda>_ w. (Inr [], w))\<rparr>\<rparr>"

definition mem_manager :: "mem_state manager" where
  "mem_manager = \<lparr>mgr_New = (\<lambda>_ w. (Inr (), w)), mgr_Complete = (\<lambda>k _ w. (Inr (), (fst w @ [Controller k], snd w))),
     mgr_AddHealthzCheck = (\<lambda>_ w. (Inr (), (fst w @ [Healthz], snd w))),
     mgr_AddReadyzCheck = (\<lambda>_ w. (Inr (), (fst w @ [Readyz], snd w))),
     mgr_Start = (\<lambda>w. (Inr (), (fst w, True))), mgr_newOcpClient = (\<lambda>w. (Inr (), w)),
     mgr_getVersion = (\<lambda>w. (Inl notFound, w)), mgr_newCoreClient = (\<lambda>w. (Inr (), w))\<rparr>"

lemma mem_manager_law: "manager_law fst snd mem_manager mem_nodes"
  by (simp add: manager_law_def mem_manager_def mem_nodes_def idle_def adds_def call_def)

theorem main_correct_witness:
  "fst (snd (main mem_manager mem_nodes default_flags ([], False))) =
     [Controller ClusterPolicyKind, Controller DriverKind, Healthz, Readyz] \<and>
   mo_FilterProvider (mg_Metrics (managerOptions default_flags))"
proof -
  have "snd (snd (main mem_manager mem_nodes default_flags ([], False)))"
    by (simp add: main_def orExit_def mem_manager_def mem_nodes_def NewClusterInfo_def getOpenshiftVersion_def
        getContainerRuntime_def op_defs notFound_def IsNotFound_def Let_def)
  then show ?thesis
    using main_correct [OF mem_manager_law _ surjective_pairing, of "([], False)" default_flags]
    by (simp add: managerOptions_def metricsServerOptions_def default_flags_def)
qed

end
