(* ===== verification/Go_Paths.thy ===== *)
theory Go_Paths
  imports Go_Strings
begin

text \<open>
  The functions of Go's \<open>path/filepath\<close> (on Unix) and \<open>strconv\<close> that the node validator uses:
  \<open>Clean\<close>, \<open>Join\<close>, \<open>Dir\<close>, \<open>Base\<close>, \<open>SplitList\<close>, \<open>ParseBool\<close> and \<open>Atoi\<close>, with the lemmas on them: a
  cleaned path is clean, a file joined to a directory has that directory and that name, and \<open>Atoi\<close>
  reads back what \<open>%d\<close> prints.
\<close>

section \<open>Paths\<close>

text \<open>
  The elements of a path from the left, with the elements kept so far in reverse: empty elements and
  dots are dropped, a double dot removes the element before it, is dropped at the root and kept at the
  start of a relative path.
\<close>

fun clean_parts :: "bool \<Rightarrow> string list \<Rightarrow> string list \<Rightarrow> string list" where
  "clean_parts rooted kept [] = rev kept"
| "clean_parts rooted kept (p # ps) =
     (if p = [] \<or> p = ''.'' then clean_parts rooted kept ps
      else if p = ''..'' then
        (case kept of
           [] \<Rightarrow> clean_parts rooted (if rooted then [] else [''..'']) ps
         | t # ts \<Rightarrow> if t = ''..'' then clean_parts rooted (''..'' # kept) ps else clean_parts rooted ts ps)
      else clean_parts rooted (p # kept) ps)"

definition rooted :: "string \<Rightarrow> bool" where
  "rooted path \<longleftrightarrow> prefix ''/'' path"

definition render :: "bool \<Rightarrow> string list \<Rightarrow> string" where
  "render r parts = (if r then ''/'' @ Join parts ''/'' else if parts = [] then ''.'' else Join parts ''/'')"

definition Clean :: "string \<Rightarrow> string" where
  "Clean path = (if path = [] then ''.''
     else render (rooted path) (clean_parts (rooted path) [] (split_char (CHR ''/'') path)))"

definition PathJoin :: "string list \<Rightarrow> string" where
  "PathJoin elems = (case dropWhile (\<lambda>e. e = []) elems of [] \<Rightarrow> [] | es \<Rightarrow> Clean (Join es ''/''))"

definition Dir :: "string \<Rightarrow> string" where
  "Dir path = Clean (rev (dropWhile (\<lambda>c. c \<noteq> CHR ''/'') (rev path)))"

definition Base :: "string \<Rightarrow> string" where
  "Base path =
     (if path = [] then ''.''
      else (let stripped = rev (dropWhile (\<lambda>c. c = CHR ''/'') (rev path));
                base = rev (takeWhile (\<lambda>c. c \<noteq> CHR ''/'') (rev stripped))
            in if base = [] then ''/'' else base))"

definition SplitList :: "string \<Rightarrow> string list" where
  "SplitList path = (if path = [] then [] else split_char (CHR '':'') path)"

subsection \<open>Clean paths\<close>

text \<open>What \<open>clean_parts\<close> keeps: names, after double dots that only a relative path starts with.\<close>

definition name_part :: "string \<Rightarrow> bool" where
  "name_part p \<longleftrightarrow> p \<noteq> [] \<and> p \<noteq> ''.'' \<and> p \<noteq> ''..'' \<and> CHR ''/'' \<notin> set p"

definition normal :: "bool \<Rightarrow> string list \<Rightarrow> bool" where
  "normal r parts \<longleftrightarrow> (\<exists>n ns. parts = replicate n ''..'' @ ns \<and> list_all name_part ns \<and> (r \<longrightarrow> n = 0))"

lemma normal_name: "normal r (rev kept) \<Longrightarrow> name_part p \<Longrightarrow> normal r (rev (p # kept))"
proof -
  assume "normal r (rev kept)" and p: "name_part p"
  then obtain n ns where "rev kept = replicate n ''..'' @ ns" "list_all name_part ns" "r \<longrightarrow> n = 0"
    unfolding normal_def by blast
  then have "rev (p # kept) = replicate n ''..'' @ (ns @ [p]) \<and> list_all name_part (ns @ [p]) \<and> (r \<longrightarrow> n = 0)"
    using p by simp
  then show "normal r (rev (p # kept))" unfolding normal_def by blast
qed

lemma normal_cases:
  assumes "normal r (rev kept)"
  obtains "kept = []" | ts where "kept = ''..'' # ts" "\<not> r" "normal r (rev (''..'' # kept))"
    | t ts where "kept = t # ts" "t \<noteq> ''..''" "normal r (rev ts)"
proof -
  from assms obtain n ns where kept: "rev kept = replicate n ''..'' @ ns" and ns: "list_all name_part ns" and r: "r \<longrightarrow> n = 0"
    unfolding normal_def by blast
  show thesis
  proof (cases ns rule: rev_cases)
    case Nil
    show thesis
    proof (cases n)
      case 0
      then show thesis using that(1) kept Nil by simp
    next
      case (Suc m)
      have "rev kept = replicate m ''..'' @ [''..'']" using kept Nil Suc by (simp add: replicate_append_same)
      then have "kept = ''..'' # rev (replicate m ''..'')" by (metis rev_eq_Cons_iff rev_rev_ident)
      moreover have "rev (''..'' # kept) = replicate (Suc n) ''..'' @ []"
        using kept Nil by (simp add: replicate_append_same)
      then have "rev (''..'' # kept) = replicate (Suc n) ''..'' @ [] \<and> list_all name_part []" by simp
      then have "normal r (rev (''..'' # kept))" if "\<not> r" unfolding normal_def using that by blast
      ultimately show thesis using that(2) r Suc by blast
    qed
  next
    case (snoc ms t)
    then have "kept = t # rev (replicate n ''..'' @ ms)" using kept by (metis append.assoc rev_eq_Cons_iff rev_rev_ident)
    moreover have "t \<noteq> ''..''" using ns snoc by (auto simp: name_part_def)
    moreover have "normal r (replicate n ''..'' @ ms)" unfolding normal_def using ns snoc r by auto
    ultimately show thesis using that(3) by simp
  qed
qed

lemma normal_clean_parts:
  assumes "normal r (rev kept)" and "list_all (\<lambda>p. CHR ''/'' \<notin> set p) ps"
  shows "normal r (clean_parts r kept ps)"
  using assms
proof (induction ps arbitrary: kept)
  case (Cons p ps)
  have ps: "list_all (\<lambda>p. CHR ''/'' \<notin> set p) ps" using Cons.prems(2) by simp
  consider "p = [] \<or> p = ''.''" | "p = ''..''" | "name_part p"
    using Cons.prems(2) by (auto simp: name_part_def)
  then show ?case
  proof cases
    case 1
    then show ?thesis using Cons.IH [OF Cons.prems(1) ps] by auto
  next
    case 2
    have base: "normal r (rev (if r then [] else [''..'']))"
      unfolding normal_def by (rule exI [of _ "if r then 0 else 1"]) simp
    from Cons.prems(1) show ?thesis
      by (cases rule: normal_cases) (use 2 Cons.IH [OF _ ps] base in auto)
  next
    case 3
    then show ?thesis
      using Cons.IH [OF normal_name [OF Cons.prems(1) 3] ps] by (auto simp: name_part_def)
  qed
qed simp

lemma clean_parts_names:
  "list_all name_part ns \<Longrightarrow> clean_parts r kept ns = rev kept @ ns"
  by (induction ns arbitrary: kept) (auto simp: name_part_def)

lemma clean_parts_dots:
  "clean_parts False (replicate m ''..'') (replicate n ''..'' @ ns) = clean_parts False (replicate (m + n) ''..'') ns"
proof (induction n arbitrary: m)
  case (Suc n)
  have "clean_parts False (replicate m ''..'') (''..'' # (replicate n ''..'' @ ns)) =
      clean_parts False (replicate (Suc m) ''..'') (replicate n ''..'' @ ns)"
    by (cases m) simp_all
  then show ?case using Suc [of "Suc m"] by simp
qed simp

lemma clean_parts_normal: "normal r parts \<Longrightarrow> clean_parts r [] parts = parts"
proof -
  assume "normal r parts"
  then obtain n ns where parts: "parts = replicate n ''..'' @ ns" and ns: "list_all name_part ns" and n: "r \<longrightarrow> n = 0"
    unfolding normal_def by blast
  show ?thesis
  proof (cases r)
    case True
    then show ?thesis using parts n clean_parts_names [OF ns] by simp
  next
    case False
    then show ?thesis using parts clean_parts_dots [of 0 n ns] clean_parts_names [OF ns] by simp
  qed
qed

lemma normal_parts: "normal r parts \<Longrightarrow> p \<in> set parts \<Longrightarrow> p \<noteq> [] \<and> CHR ''/'' \<notin> set p"
proof -
  assume "normal r parts" and p: "p \<in> set parts"
  then obtain n ns where "parts = replicate n ''..'' @ ns" "list_all name_part ns" unfolding normal_def by blast
  then have "p = ''..'' \<or> name_part p" using p by (auto simp: list_all_iff)
  then show "p \<noteq> [] \<and> CHR ''/'' \<notin> set p" by (auto simp: name_part_def)
qed

lemma split_char_no: "c \<notin> set x \<Longrightarrow> split_char c x = [x]"
  by (induction x) auto

lemma split_char_sep: "split_char c (x @ c # s) = split_char c x @ split_char c s"
  by (induction x) (auto split: list.splits)

lemma split_char_Join:
  "parts \<noteq> [] \<Longrightarrow> (\<And>p. p \<in> set parts \<Longrightarrow> c \<notin> set p) \<Longrightarrow> split_char c (Join parts [c]) = parts"
  by (induction parts "[c]" rule: Join.induct) (simp_all add: split_char_sep split_char_no)

lemma split_no_slash: "list_all (\<lambda>p. CHR ''/'' \<notin> set p) (split_char (CHR ''/'') s)"
  using split_char_no_sep by (auto simp: list_all_iff)

definition path_parts :: "string \<Rightarrow> string list" where
  "path_parts path = clean_parts (rooted path) [] (split_char (CHR ''/'') path)"

lemma path_parts_normal: "normal (rooted path) (path_parts path)"
  unfolding path_parts_def
  by (rule normal_clean_parts [OF _ split_no_slash]) (simp add: normal_def exI [of _ 0])

lemma Clean_render: "Clean path = render (rooted path) (path_parts path)"
  by (auto simp: Clean_def path_parts_def render_def rooted_def)

lemma Join_nonempty: "parts \<noteq> [] \<Longrightarrow> (\<And>p. p \<in> set parts \<Longrightarrow> p \<noteq> []) \<Longrightarrow> Join parts sep \<noteq> []"
  by (cases "(parts, sep)" rule: Join.cases) auto

lemma rooted_render:
  assumes "normal r parts"
  shows "rooted (render r parts) = r"
proof (cases "r \<or> parts = []")
  case False
  then obtain p ps where ps: "parts = p # ps" by (cases parts) auto
  then have p: "p \<noteq> []" "CHR ''/'' \<notin> set p" using normal_parts [OF assms] by auto
  then have "hd (Join parts ''/'') = hd p" "Join parts ''/'' \<noteq> []" using ps by (cases ps; simp)+
  then show ?thesis using False p by (cases "Join parts ''/''") (auto simp: render_def rooted_def)
qed (auto simp: render_def rooted_def)

lemma path_parts_render:
  assumes "normal r parts"
  shows "path_parts (render r parts) = parts"
proof -
  have join: "clean_parts r [] (split_char (CHR ''/'') (Join parts ''/'')) = parts"
  proof (cases "parts = []")
    case False
    then have "split_char (CHR ''/'') (Join parts ''/'') = parts"
      using normal_parts [OF assms] by (intro split_char_Join) auto
    then show ?thesis using clean_parts_normal [OF assms] by simp
  qed simp
  show ?thesis
  proof (cases r)
    case True
    then have "split_char (CHR ''/'') (render r parts) = [] # split_char (CHR ''/'') (Join parts ''/'')"
      by (simp add: render_def)
    then show ?thesis using join True rooted_render [OF assms] by (simp add: path_parts_def)
  next
    case False
    then show ?thesis
      using join rooted_render [OF assms] by (cases "parts = []") (simp_all add: path_parts_def render_def)
  qed
qed

text \<open>Cleaning twice is cleaning once.\<close>

lemma Clean_idem [simp]: "Clean (Clean path) = Clean path"
  using path_parts_render [OF path_parts_normal] rooted_render [OF path_parts_normal]
  by (simp add: Clean_render)

subsection \<open>A file in a directory\<close>

lemma clean_parts_snoc: "name_part f \<Longrightarrow> clean_parts r kept (ps @ [f]) = clean_parts r kept ps @ [f]"
  by (induction r kept ps rule: clean_parts.induct) (auto simp: name_part_def split: list.splits)

lemma PathJoin_file:
  assumes "d \<noteq> []" and "name_part f"
  shows "PathJoin [d, f] = render (rooted d) (path_parts d @ [f])"
proof -
  have "rooted (d @ ''/'' @ f) = rooted d" using assms(1) by (cases d) (simp_all add: rooted_def)
  moreover have "split_char (CHR ''/'') (d @ ''/'' @ f) = split_char (CHR ''/'') d @ [f]"
    using assms(2) split_char_sep [of "CHR ''/''" d f] by (simp add: split_char_no name_part_def)
  ultimately have "path_parts (d @ ''/'' @ f) = path_parts d @ [f]"
    using assms(2) by (simp add: path_parts_def clean_parts_snoc)
  then show ?thesis
    using assms \<open>rooted (d @ ''/'' @ f) = rooted d\<close> by (simp add: PathJoin_def name_part_def Clean_render)
qed

lemma normal_snoc: "normal r parts \<Longrightarrow> name_part f \<Longrightarrow> normal r (parts @ [f])"
  using normal_name [of r "rev parts" f] by simp

lemma Join_snoc: "parts \<noteq> [] \<Longrightarrow> Join (parts @ [f]) sep = Join parts sep @ sep @ f"
  by (induction parts sep rule: Join.induct) auto

text \<open>\<open>PathJoin [d, f]\<close> ends in the name, after a directory part that cleans to \<open>Clean d\<close>.\<close>

lemma PathJoin_split:
  assumes "d \<noteq> []" and "name_part f"
  obtains pre where "PathJoin [d, f] = pre @ f" and "pre = [] \<or> last pre = CHR ''/''" and "Clean pre = Clean d"
proof (cases "path_parts d = []")
  case True
  show thesis
  proof (cases "rooted d")
    case True': True
    have "PathJoin [d, f] = ''/'' @ f" "Clean ''/'' = Clean d"
      using PathJoin_file [OF assms] True True' by (simp_all add: render_def Clean_render path_parts_def rooted_def)
    then show thesis using that [of "''/''"] by simp
  next
    case False
    have "PathJoin [d, f] = [] @ f" "Clean [] = Clean d"
      using PathJoin_file [OF assms] True False by (simp_all add: render_def Clean_render path_parts_def rooted_def)
    then show thesis using that [of "[]"] by simp
  qed
next
  case False
  let ?pre = "Clean d @ ''/''"
  have pre: "PathJoin [d, f] = ?pre @ f"
    using PathJoin_file [OF assms] False by (simp add: Clean_render render_def Join_snoc)
  have "Join (path_parts d) ''/'' \<noteq> []" using normal_parts [OF path_parts_normal] by (intro Join_nonempty [OF False]) blast
  then have ne: "Clean d \<noteq> []" using False by (simp add: Clean_render render_def)
  have "rooted ?pre = rooted (Clean d)" using ne by (cases "Clean d") (simp_all add: rooted_def)
  moreover have "split_char (CHR ''/'') ?pre = split_char (CHR ''/'') (Clean d) @ [[]]"
    using split_char_sep [of "CHR ''/''" "Clean d" "[]"] by simp
  moreover have skip: "clean_parts r kept (ps @ [[]]) = clean_parts r kept ps" for r kept ps
    by (induction r kept ps rule: clean_parts.induct) (auto split: list.splits)
  ultimately have "Clean ?pre = Clean (Clean d)" by (simp add: Clean_render path_parts_def)
  then show thesis using that [OF pre] by simp
qed

text \<open>The file's directory and name are what was joined.\<close>

lemma Dir_PathJoin: "d \<noteq> [] \<Longrightarrow> name_part f \<Longrightarrow> Dir (PathJoin [d, f]) = Clean d"
proof -
  assume "d \<noteq> []" and f: "name_part f"
  then obtain pre where pre: "PathJoin [d, f] = pre @ f" "pre = [] \<or> last pre = CHR ''/''" "Clean pre = Clean d"
    by (rule PathJoin_split)
  have "dropWhile (\<lambda>c. c \<noteq> CHR ''/'') (rev f @ rev pre) = dropWhile (\<lambda>c. c \<noteq> CHR ''/'') (rev pre)"
    using f by (intro dropWhile_append2) (auto simp: name_part_def)
  also have "\<dots> = rev pre" using pre(2) by (cases pre rule: rev_cases) auto
  finally show ?thesis using pre by (simp add: Dir_def)
qed

lemma Base_PathJoin: "d \<noteq> [] \<Longrightarrow> name_part f \<Longrightarrow> Base (PathJoin [d, f]) = f"
proof -
  assume "d \<noteq> []" and f: "name_part f"
  then obtain pre where pre: "PathJoin [d, f] = pre @ f" "pre = [] \<or> last pre = CHR ''/''"
    by (rule PathJoin_split)
  have ne: "f \<noteq> []" "CHR ''/'' \<notin> set f" using f by (auto simp: name_part_def)
  have strip: "dropWhile (\<lambda>c. c = CHR ''/'') (rev f @ rev pre) = rev f @ rev pre"
    using ne by (cases f rule: rev_cases) auto
  have "takeWhile (\<lambda>c. c \<noteq> CHR ''/'') (rev f @ rev pre) = rev f @ takeWhile (\<lambda>c. c \<noteq> CHR ''/'') (rev pre)"
    using ne by (intro takeWhile_append2) auto
  also have "takeWhile (\<lambda>c. c \<noteq> CHR ''/'') (rev pre) = []" using pre(2) by (cases pre rule: rev_cases) auto
  finally show ?thesis using pre(1) strip ne by (simp add: Base_def Let_def)
qed

section \<open>Numbers and booleans\<close>

definition ParseBool :: "string \<Rightarrow> bool option" where
  "ParseBool s =
     (if s \<in> {''1'', ''t'', ''T'', ''TRUE'', ''true'', ''True''} then Some True
      else if s \<in> {''0'', ''f'', ''F'', ''FALSE'', ''false'', ''False''} then Some False
      else None)"

definition is_digit :: "char \<Rightarrow> bool" where
  "is_digit c \<longleftrightarrow> 48 \<le> (of_char c :: nat) \<and> (of_char c :: nat) \<le> 57"

text \<open>\<open>Atoi\<close> on a platform with 64-bit integers.\<close>

definition Atoi :: "string \<Rightarrow> int option" where
  "Atoi s =
     (let neg = prefix ''-'' s;
          digits = (if prefix ''-'' s \<or> prefix ''+'' s then tl s else s);
          i = (if neg then - int (read_nat digits) else int (read_nat digits))
      in if digits = [] \<or> \<not> list_all is_digit digits then None
         else if - (2 ^ 63) \<le> i \<and> i < 2 ^ 63 then Some i else None)"

lemma show_nat_digits: "show_nat n \<noteq> [] \<and> list_all is_digit (show_nat n)"
proof (induction n rule: show_nat.induct)
  case (1 n)
  have digit: "is_digit (char_of (48 + k))" if "k < 10" for k :: nat
    using that by (simp add: is_digit_def)
  show ?case
    using 1 digit [of n] digit [of "n mod 10"] by (subst (1 2) show_nat.simps) auto
qed

lemma Atoi_bounds: "Atoi s = Some i \<Longrightarrow> - (2 ^ 63) \<le> i \<and> i < 2 ^ 63"
  by (simp add: Atoi_def Let_def split: if_splits)

lemma Atoi_show_int:
  assumes "- (2 ^ 63) \<le> i" and "i < 2 ^ 63"
  shows "Atoi (show_int i) = Some i"
proof (cases "i < 0")
  case True
  then show ?thesis
    using assms show_nat_digits [of "nat (- i)"] read_show_nat [of "nat (- i)"]
    by (simp add: Atoi_def show_int_def del: read_nat.simps)
next
  case False
  obtain c cs where c: "show_nat (nat i) = c # cs" using show_nat_digits [of "nat i"] by (cases "show_nat (nat i)") auto
  then have "is_digit c" using show_nat_digits [of "nat i"] by simp
  then have "c \<noteq> CHR ''-''" "c \<noteq> CHR ''+''" by (auto simp: is_digit_def)
  then show ?thesis
    using False assms c show_nat_digits [of "nat i"] read_show_nat [of "nat i"]
    by (simp add: Atoi_def show_int_def del: read_nat.simps)
qed

end
