(* ===== verification/Validator_Config.thy ===== *)
theory Validator_Config
  imports Go_Paths
begin

text \<open>
  \<open>cmd/rbln-validator/config.go\<close>: the configuration of the node validator, read from the environment,
  overridden by the flags of the command line and checked by \<open>finalize\<close>.
\<close>

section \<open>The environment\<close>

text \<open>
  \<open>os.Environ\<close>: strings \<open>key=value\<close>.  \<open>os.Getenv\<close> gives the value of the first string of a key, and
  the empty string for an absent one.
\<close>

definition envKey :: "string \<Rightarrow> string" where
  "envKey e = takeWhile (\<lambda>c. c \<noteq> CHR ''='') e"

definition envVal :: "string \<Rightarrow> string" where
  "envVal e = drop (Suc (length (envKey e))) e"

definition Getenv :: "string list \<Rightarrow> string \<Rightarrow> string" where
  "Getenv environ key = (case find (\<lambda>e. envKey e = key \<and> CHR ''='' \<in> set e) environ of None \<Rightarrow> [] | Some e \<Rightarrow> envVal e)"

abbreviation envOutputDir :: string where "envOutputDir \<equiv> ''OUTPUT_DIR''"
abbreviation envNamespace :: string where "envNamespace \<equiv> ''OPERATOR_NAMESPACE''"
abbreviation envWithWait :: string where "envWithWait \<equiv> ''WITH_WAIT''"
abbreviation envSleepIntervalSeconds :: string where "envSleepIntervalSeconds \<equiv> ''SLEEP_INTERVAL_SECONDS''"

definition envString :: "string list \<Rightarrow> string \<Rightarrow> string \<Rightarrow> string" where
  "envString environ key defaultValue =
     (let value = TrimSpace (Getenv environ key) in if value = [] then defaultValue else value)"

definition envBool :: "string list \<Rightarrow> string \<Rightarrow> bool \<Rightarrow> bool" where
  "envBool environ key defaultValue =
     (let value = TrimSpace (Getenv environ key) in
      if value = [] then defaultValue
      else (case ParseBool value of None \<Rightarrow> defaultValue | Some parsed \<Rightarrow> parsed))"

definition envInt :: "string list \<Rightarrow> string \<Rightarrow> int \<Rightarrow> int" where
  "envInt environ key defaultValue =
     (let value = TrimSpace (Getenv environ key) in
      if value = [] then defaultValue
      else (case Atoi value of None \<Rightarrow> defaultValue | Some parsed \<Rightarrow> parsed))"

section \<open>The configuration\<close>

record configBuilder =
  cb_namespace :: string
  cb_outputDir :: string
  cb_withWait :: bool
  cb_sleepIntervalSeconds :: int

record config =
  cfg_namespace :: string
  cfg_outputDir :: string
  cfg_withWait :: bool
  cfg_sleepIntervalSeconds :: int

definition newConfigBuilder :: "string list \<Rightarrow> configBuilder" where
  "newConfigBuilder environ = \<lparr>
     cb_namespace = envString environ envNamespace ''rbln-system'',
     cb_outputDir = envString environ envOutputDir ''/run/rbln/validations'',
     cb_withWait = envBool environ envWithWait False,
     cb_sleepIntervalSeconds = envInt environ envSleepIntervalSeconds 5\<rparr>"

text \<open>The flags of a command line as the flag package parsed them; \<open>None\<close> for a flag that is not given.\<close>

record flags =
  fl_namespace :: "string option"
  fl_outputDir :: "string option"
  fl_withWait :: "bool option"
  fl_sleepIntervalSeconds :: "int option"

text \<open>The effect of \<open>bindFlags\<close>: a flag that is given replaces the value of the environment.\<close>

definition bindFlags :: "flags \<Rightarrow> configBuilder \<Rightarrow> configBuilder" where
  "bindFlags f b = \<lparr>
     cb_namespace = case_option (cb_namespace b) id (fl_namespace f),
     cb_outputDir = case_option (cb_outputDir b) id (fl_outputDir f),
     cb_withWait = case_option (cb_withWait b) id (fl_withWait f),
     cb_sleepIntervalSeconds = case_option (cb_sleepIntervalSeconds b) id (fl_sleepIntervalSeconds f)\<rparr>"

definition finalize :: "configBuilder \<Rightarrow> error + config" where
  "finalize b =
     (let outputDir = TrimSpace (cb_outputDir b) in
      if outputDir = [] then Inl (Errorf ''output-dir must not be empty'')
      else (let namespace = TrimSpace (cb_namespace b) in
            if namespace = [] then Inl (Errorf ''namespace must not be empty'')
            else if cb_sleepIntervalSeconds b \<le> 0
            then Inl (Errorf ''sleep-interval-seconds must be greater than 0'')
            else Inr \<lparr>cfg_namespace = namespace, cfg_outputDir = outputDir, cfg_withWait = cb_withWait b,
                  cfg_sleepIntervalSeconds = cb_sleepIntervalSeconds b\<rparr>))"

section \<open>Lemmas\<close>

text \<open>A checked configuration: both names set and trimmed, a positive interval.\<close>

definition valid_config :: "config \<Rightarrow> bool" where
  "valid_config cfg \<longleftrightarrow> cfg_namespace cfg \<noteq> [] \<and> trimmed (cfg_namespace cfg) \<and>
     cfg_outputDir cfg \<noteq> [] \<and> trimmed (cfg_outputDir cfg) \<and> 0 < cfg_sleepIntervalSeconds cfg"

lemma finalize_Inr_iff:
  "finalize b = Inr cfg \<longleftrightarrow> TrimSpace (cb_outputDir b) \<noteq> [] \<and> TrimSpace (cb_namespace b) \<noteq> [] \<and>
     0 < cb_sleepIntervalSeconds b \<and> cfg = \<lparr>cfg_namespace = TrimSpace (cb_namespace b),
       cfg_outputDir = TrimSpace (cb_outputDir b), cfg_withWait = cb_withWait b,
       cfg_sleepIntervalSeconds = cb_sleepIntervalSeconds b\<rparr>"
  by (auto simp: finalize_def Let_def)

lemma finalize_valid: "finalize b = Inr cfg \<Longrightarrow> valid_config cfg"
  by (simp add: finalize_Inr_iff valid_config_def trimmed_TrimSpace)

lemma envString_default_nonempty: "d \<noteq> [] \<Longrightarrow> TrimSpace d = d \<Longrightarrow> TrimSpace (envString environ key d) = envString environ key d \<and> envString environ key d \<noteq> []"
  by (simp add: envString_def Let_def)

lemma envKey_entry: "CHR ''='' \<notin> set k \<Longrightarrow> envKey (k @ ''='' @ v) = k"
  unfolding envKey_def by (subst takeWhile_append2) auto

lemma envVal_entry: "CHR ''='' \<notin> set k \<Longrightarrow> envVal (k @ ''='' @ v) = v"
  using envKey_entry [of k v] by (simp add: envVal_def)

lemma Getenv_first: "CHR ''='' \<notin> set k \<Longrightarrow> Getenv ((k @ ''='' @ v) # environ) k = v"
  using envKey_entry [of k v] envVal_entry [of k v] by (simp add: Getenv_def)

text \<open>A string that begins and ends with a visible ASCII character has nothing to trim.\<close>

definition visible :: "char \<Rightarrow> bool" where
  "visible c \<longleftrightarrow> 33 \<le> (of_char c :: nat) \<and> (of_char c :: nat) < 127"

lemma trimmed_visible:
  assumes "s \<noteq> []" and "visible (hd s)" and "visible (last s)"
  shows "trimmed s"
proof -
  have seqs: "list_all (\<lambda>p. p \<noteq> [] \<and> \<not> visible (hd p) \<and> \<not> visible (last p)) space_seqs" by code_simp
  have "\<not> prefix p s" if "p \<in> set space_seqs" for p
    using seqs that assms by (cases p) (auto simp: list_all_iff prefix_def)
  moreover have "\<not> prefix (rev p) (rev s)" if "p \<in> set space_seqs" for p
    using seqs that assms by (cases p rule: rev_cases) (auto simp: list_all_iff prefix_def)
  ultimately show ?thesis by (auto simp: trimmed_def leading_def find_None_iff)
qed

lemma show_int_trimmed: "show_int i \<noteq> [] \<and> trimmed (show_int i)"
proof -
  have vis: "visible c" if "is_digit c" for c using that by (simp add: visible_def is_digit_def)
  have n: "show_nat n \<noteq> []" "visible (hd (show_nat n))" "visible (last (show_nat n))" for n
    using show_nat_digits [of n] vis by (auto simp: list_all_iff)
  have "show_int i \<noteq> [] \<and> visible (hd (show_int i)) \<and> visible (last (show_int i))"
    using n by (auto simp: show_int_def visible_def)
  then show ?thesis using trimmed_visible by blast
qed

section \<open>Properties\<close>

text \<open>
  A configuration is accepted exactly when the output directory and the namespace are not blank
  and the interval is positive; then both are trimmed and the rest is as given.  Without flags and
  with a positive interval, or none, in the environment the defaults make it acceptable.
\<close>

theorem finalize_correct:
  "(case finalize (bindFlags f (newConfigBuilder environ)) of
      Inr cfg \<Rightarrow> valid_config cfg \<and> cfg_withWait cfg = cb_withWait (bindFlags f (newConfigBuilder environ)) \<and>
        cfg_sleepIntervalSeconds cfg = cb_sleepIntervalSeconds (bindFlags f (newConfigBuilder environ))
    | Inl e \<Rightarrow> TrimSpace (cb_outputDir (bindFlags f (newConfigBuilder environ))) = [] \<or>
        TrimSpace (cb_namespace (bindFlags f (newConfigBuilder environ))) = [] \<or>
        cb_sleepIntervalSeconds (bindFlags f (newConfigBuilder environ)) \<le> 0) \<and>
   (fl_outputDir f = None \<and> fl_namespace f = None \<and> fl_sleepIntervalSeconds f = None \<and>
      0 < envInt environ envSleepIntervalSeconds 5 \<longrightarrow>
      (\<exists>cfg. finalize (bindFlags f (newConfigBuilder environ)) = Inr cfg))"
proof
  let ?b = "bindFlags f (newConfigBuilder environ)"
  show "case finalize ?b of
      Inr cfg \<Rightarrow> valid_config cfg \<and> cfg_withWait cfg = cb_withWait ?b \<and> cfg_sleepIntervalSeconds cfg = cb_sleepIntervalSeconds ?b
    | Inl e \<Rightarrow> TrimSpace (cb_outputDir ?b) = [] \<or> TrimSpace (cb_namespace ?b) = [] \<or> cb_sleepIntervalSeconds ?b \<le> 0"
  proof (cases "finalize ?b")
    case (Inl e)
    then show ?thesis by (auto simp: finalize_def Let_def split: if_splits)
  next
    case (Inr cfg)
    have "cfg_withWait cfg = cb_withWait ?b" "cfg_sleepIntervalSeconds cfg = cb_sleepIntervalSeconds ?b"
      using Inr by (auto simp: finalize_Inr_iff)
    then show ?thesis using finalize_valid [OF Inr] unfolding Inr sum.case by blast
  qed
  have d: "TrimSpace ''rbln-system'' = ''rbln-system''" "TrimSpace ''/run/rbln/validations'' = ''/run/rbln/validations''"
    by code_simp+
  have "TrimSpace (envString environ envNamespace ''rbln-system'') \<noteq> []"
    "TrimSpace (envString environ envOutputDir ''/run/rbln/validations'') \<noteq> []"
    using envString_default_nonempty [OF _ d(1)] envString_default_nonempty [OF _ d(2)] by simp_all
  then show "fl_outputDir f = None \<and> fl_namespace f = None \<and> fl_sleepIntervalSeconds f = None \<and>
      0 < envInt environ envSleepIntervalSeconds 5 \<longrightarrow> (\<exists>cfg. finalize ?b = Inr cfg)"
    by (auto simp: finalize_Inr_iff bindFlags_def newConfigBuilder_def)
qed

theorem finalize_correct_witness:
  "\<exists>cfg. finalize (bindFlags \<lparr>fl_namespace = None, fl_outputDir = None, fl_withWait = None, fl_sleepIntervalSeconds = None\<rparr>
     (newConfigBuilder [])) = Inr cfg"
  using finalize_correct [of "\<lparr>fl_namespace = None, fl_outputDir = None, fl_withWait = None, fl_sleepIntervalSeconds = None\<rparr>" "[]"]
  by (simp add: envInt_def Getenv_def)

text \<open>
  The interval read from the environment is a 64-bit integer or the default, and a decimal number
  of that range is read back as it was written.
\<close>

theorem envInt_roundtrip:
  assumes "- (2 ^ 63) \<le> i" and "i < 2 ^ 63"
  shows "envInt ((envSleepIntervalSeconds @ ''='' @ show_int i) # environ) envSleepIntervalSeconds d = i \<and>
     (envInt environ' key d' = d' \<or> - (2 ^ 63) \<le> envInt environ' key d' \<and> envInt environ' key d' < 2 ^ 63)"
proof
  have "Getenv ((envSleepIntervalSeconds @ ''='' @ show_int i) # environ) envSleepIntervalSeconds = show_int i"
    by (rule Getenv_first) simp
  moreover have "TrimSpace (show_int i) = show_int i" "show_int i \<noteq> []"
    using show_int_trimmed [of i] by (simp_all add: TrimSpace_trimmed)
  ultimately show "envInt ((envSleepIntervalSeconds @ ''='' @ show_int i) # environ) envSleepIntervalSeconds d = i"
    unfolding envInt_def using Atoi_show_int [OF assms] by simp
  show "envInt environ' key d' = d' \<or> - (2 ^ 63) \<le> envInt environ' key d' \<and> envInt environ' key d' < 2 ^ 63"
    using Atoi_bounds by (auto simp: envInt_def Let_def split: option.splits)
qed

theorem envInt_roundtrip_witness:
  "envInt ((envSleepIntervalSeconds @ ''='' @ show_int (-30)) # []) envSleepIntervalSeconds 5 = -30"
  using envInt_roundtrip [of "-30" "[]" 5] by simp

end
