(* ===== verification/Validator_Host.thy ===== *)
theory Validator_Host
  imports Validator_Config "HOL-Library.Word"
begin

text \<open>
  The host on which the node validator runs, as a record of the operations of \<open>os\<close>, \<open>filepath\<close>, \<open>exec\<close>
  and \<open>time\<close> that it calls, and \<open>cmd/rbln-validator/util.go\<close>: the status files and the commands.

  A loop that waits may run forever.  \<open>waitFor n\<close> makes at most \<open>n\<close> attempts and then gives
  \<open>Abort\<close>, which is no result of the program: what holds of the results holds for every number of
  attempts, and that a loop ends is stated as the number of attempts that suffices.
\<close>

section \<open>The host\<close>

record FileInfo =
  fi_Size :: nat
  fi_ModTime :: nat

record DirEntry =
  de_Name :: string
  de_IsDir :: bool

text \<open>A command; the environment is inherited unless it is set.  \<open>cmd_Silent\<close>: no output is passed on.\<close>

record command =
  cmd_Name :: string
  cmd_Args :: "string list"
  cmd_Env :: "string list option"
  cmd_Silent :: bool

text \<open>A command ends with status 0 and its output, ends with another status, or cannot be run.\<close>

datatype exec_result = Exited0 string | ExitError error | RunError error

text \<open>A file that is open is known by its name.\<close>

record 'w host =
  h_environ :: "string list"
  h_Remove :: "string \<Rightarrow> ('w, unit) api"
  h_MkdirAll :: "string \<Rightarrow> ('w, unit) api"
  h_Create :: "string \<Rightarrow> ('w, string) api"
  h_CreateTemp :: "string \<Rightarrow> string \<Rightarrow> ('w, string) api"
  h_WriteString :: "string \<Rightarrow> string \<Rightarrow> ('w, unit) api"
  h_Close :: "string \<Rightarrow> ('w, unit) api"
  h_Rename :: "string \<Rightarrow> string \<Rightarrow> ('w, unit) api"
  h_Stat :: "string \<Rightarrow> ('w, FileInfo) api"
  h_Lstat :: "string \<Rightarrow> ('w, FileInfo) api"
  h_ReadDir :: "string \<Rightarrow> ('w, DirEntry list) api"
  h_EvalSymlinks :: "string \<Rightarrow> ('w, string) api"
  h_Run :: "command \<Rightarrow> 'w \<Rightarrow> exec_result \<times> 'w"
  h_Sleep :: "int \<Rightarrow> 'w \<Rightarrow> 'w"

definition IsNotExist :: "error \<Rightarrow> bool" where
  "IsNotExist e \<longleftrightarrow> err_reason e = NotFound"

section \<open>Status files\<close>

definition ensureOutputDir :: "('w, 'm) host_scheme \<Rightarrow> string \<Rightarrow> ('w, unit) op" where
  "ensureOutputDir h path =
     catch (call (h_MkdirAll h path)) (\<lambda>e. fail (Wrap ''create output directory: '' e))"

definition deleteStatusFile :: "('w, 'm) host_scheme \<Rightarrow> string \<Rightarrow> ('w, unit) op" where
  "deleteStatusFile h statusFile =
     catch (call (h_Remove h statusFile))
       (\<lambda>e. if \<not> IsNotExist e then fail (Wrap (''remove status file '' @ statusFile @ '': '') e) else ret ())"

definition recreateStatusFile :: "('w, 'm) host_scheme \<Rightarrow> string \<Rightarrow> string \<Rightarrow> ('w, unit) op" where
  "recreateStatusFile h dir filename =
     (let statusFile = PathJoin [dir, filename] in
      seqE [
        catch (call (h_Remove h statusFile))
          (\<lambda>e. if \<not> IsNotExist e then fail (Wrap ''remove status file: '' e) else ret ()),
        bind (catch (call (h_Create h statusFile)) (\<lambda>e. fail (Wrap ''create status file: '' e))) (\<lambda>file.
          catch (call (h_Close h file)) (\<lambda>e. fail (Wrap ''close status file: '' e)))])"

text \<open>\<open>defer\<close>: the operation runs at the end, whatever the result, and its own is dropped.\<close>

definition deferred :: "('w, unit) op \<Rightarrow> ('w, 'a) op \<Rightarrow> ('w, 'a) op" where
  "deferred d m = (\<lambda>w. case m w of (r, w') \<Rightarrow> (r, snd (d w')))"

definition createStatusFileWithContent :: "('w, 'm) host_scheme \<Rightarrow> string \<Rightarrow> string \<Rightarrow> ('w, unit) op" where
  "createStatusFileWithContent h statusFile content =
     bind (catch (call (h_CreateTemp h (Dir statusFile) (Base statusFile @ ''.*.tmp'')))
             (\<lambda>e. fail (Wrap ''failed to create temporary status file: '' e))) (\<lambda>tmpFile.
     bind (catch (call (h_WriteString h tmpFile content))
             (\<lambda>e. bind (catch (call (h_Close h tmpFile)) (\<lambda>_. ret ()))
                    (\<lambda>_. fail (Wrap ''failed to write temporary status file: '' e)))) (\<lambda>_.
     bind (catch (call (h_Close h tmpFile))
             (\<lambda>e. fail (Wrap ''failed to close temporary status file: '' e))) (\<lambda>_.
     deferred (call (h_Remove h tmpFile))
       (catch (call (h_Rename h tmpFile statusFile))
          (\<lambda>e. fail (Wrap (''error moving temporary file to '' @ [CHR 0x27] @ statusFile @ [CHR 0x27] @ '': '') e))))))"

section \<open>Commands\<close>

definition runCmd :: "('w, 'm) host_scheme \<Rightarrow> command \<Rightarrow> ('w, unit) op" where
  "runCmd h cmd = (\<lambda>w. case h_Run h cmd w of
      (Exited0 _, w') \<Rightarrow> (Ok (), w') | (ExitError e, w') \<Rightarrow> (Err e, w') | (RunError e, w') \<Rightarrow> (Err e, w'))"

definition runCommand :: "('w, 'm) host_scheme \<Rightarrow> string \<Rightarrow> string list \<Rightarrow> bool \<Rightarrow> ('w, unit) op" where
  "runCommand h nm args silent = runCmd h \<lparr>cmd_Name = nm, cmd_Args = args, cmd_Env = None, cmd_Silent = silent\<rparr>"

text \<open>\<open>time.Duration(n) * time.Second\<close>: nanoseconds in a signed 64-bit integer.\<close>

definition durationSeconds :: "int \<Rightarrow> int" where
  "durationSeconds n = sint (word_of_int n * word_of_int 1000000000 :: 64 word)"

fun waitFor :: "nat \<Rightarrow> ('w \<Rightarrow> 'w) \<Rightarrow> ('w, unit) op \<Rightarrow> ('w, unit) op" where
  "waitFor 0 sleep check = lift_outcome (Abort ''still waiting'')"
| "waitFor (Suc n) sleep check = (\<lambda>w. case check w of
      (Err e, w') \<Rightarrow> waitFor n sleep check (sleep w')
    | (Ok x, w') \<Rightarrow> (Ok x, w')
    | (Abort s, w') \<Rightarrow> (Abort s, w'))"

definition runCommandWithWait ::
  "('w, 'm) host_scheme \<Rightarrow> nat \<Rightarrow> string \<Rightarrow> string list \<Rightarrow> int \<Rightarrow> bool \<Rightarrow> ('w, unit) op" where
  "runCommandWithWait h n nm args sleepSeconds silent =
     waitFor n (h_Sleep h (durationSeconds sleepSeconds)) (runCommand h nm args silent)"

section \<open>The file system\<close>

text \<open>
  How the operations change the files, by their contents.  A temporary file is new, and the operations
  on an open or named file touch that file only; a failed write may leave any part of it.
\<close>

definition removing_law :: "('w \<Rightarrow> string \<Rightarrow> string option) \<Rightarrow> ('w, 'm) host_scheme \<Rightarrow> bool" where
  "removing_law files h \<longleftrightarrow>
     (\<forall>p w u w'. h_Remove h p w = (Inr u, w') \<longrightarrow> files w' = (files w)(p := None)) \<and>
     (\<forall>p w e w'. h_Remove h p w = (Inl e, w') \<longrightarrow> files w' = files w \<and> (IsNotExist e \<longrightarrow> files w p = None))"

definition creating_law :: "('w \<Rightarrow> string \<Rightarrow> string option) \<Rightarrow> ('w, 'm) host_scheme \<Rightarrow> bool" where
  "creating_law files h \<longleftrightarrow>
     (\<forall>p w f w'. h_Create h p w = (Inr f, w') \<longrightarrow> f = p \<and> files w' = (files w)(p := Some [])) \<and>
     (\<forall>p w e w'. h_Create h p w = (Inl e, w') \<longrightarrow> files w' = files w)"

definition temp_law :: "('w \<Rightarrow> string \<Rightarrow> string option) \<Rightarrow> ('w, 'm) host_scheme \<Rightarrow> bool" where
  "temp_law files h \<longleftrightarrow>
     (\<forall>d pre suf w f w'. CHR ''*'' \<notin> set suf \<longrightarrow> h_CreateTemp h d (pre @ ''*'' @ suf) w = (Inr f, w') \<longrightarrow>
        (\<exists>r. f = (if suffix ''/'' d then d else d @ ''/'') @ pre @ r @ suf) \<and>
        files w f = None \<and> files w' = (files w)(f := Some [])) \<and>
     (\<forall>d pat w e w'. h_CreateTemp h d pat w = (Inl e, w') \<longrightarrow> files w' = files w)"

definition writing_law :: "('w \<Rightarrow> string \<Rightarrow> string option) \<Rightarrow> ('w, 'm) host_scheme \<Rightarrow> bool" where
  "writing_law files h \<longleftrightarrow>
     (\<forall>f s w u w'. h_WriteString h f s w = (Inr u, w') \<longrightarrow> files w' = (files w)(f := map_option (\<lambda>c. c @ s) (files w f))) \<and>
     (\<forall>f s w e w'. h_WriteString h f s w = (Inl e, w') \<longrightarrow> (\<exists>c. files w' = (files w)(f := Some c)))"

definition renaming_law :: "('w \<Rightarrow> string \<Rightarrow> string option) \<Rightarrow> ('w, 'm) host_scheme \<Rightarrow> bool" where
  "renaming_law files h \<longleftrightarrow>
     (\<forall>f p w u w'. h_Rename h f p w = (Inr u, w') \<longrightarrow> files w f \<noteq> None \<and> files w' = (files w)(f := None, p := files w f)) \<and>
     (\<forall>f p w e w'. h_Rename h f p w = (Inl e, w') \<longrightarrow> files w' = files w)"

definition fs_law :: "('w \<Rightarrow> string \<Rightarrow> string option) \<Rightarrow> ('w, 'm) host_scheme \<Rightarrow> bool" where
  "fs_law files h \<longleftrightarrow> removing_law files h \<and> creating_law files h \<and> temp_law files h \<and> writing_law files h \<and>
     renaming_law files h \<and> (\<forall>p w. files (snd (h_MkdirAll h p w)) = files w) \<and> (\<forall>f w. files (snd (h_Close h f w)) = files w)"

lemmas fs_laws = fs_law_def removing_law_def creating_law_def temp_law_def writing_law_def renaming_law_def

lemma fs_lawD:
  assumes "fs_law files h"
  shows "h_Remove h p w = (Inr u, w') \<Longrightarrow> files w' = (files w)(p := None)"
    and "h_Remove h p w = (Inl e, w') \<Longrightarrow> files w' = files w \<and> (IsNotExist e \<longrightarrow> files w p = None)"
    and "files (snd (h_MkdirAll h p w)) = files w"
    and "h_Create h p w = (Inr f, w') \<Longrightarrow> f = p \<and> files w' = (files w)(p := Some [])"
    and "h_Create h p w = (Inl e, w') \<Longrightarrow> files w' = files w"
    and "CHR ''*'' \<notin> set suf \<Longrightarrow> h_CreateTemp h d (pre @ ''*'' @ suf) w = (Inr f, w') \<Longrightarrow>
        (\<exists>r. f = (if suffix ''/'' d then d else d @ ''/'') @ pre @ r @ suf) \<and>
        files w f = None \<and> files w' = (files w)(f := Some [])"
    and "h_CreateTemp h d pat w = (Inl e, w') \<Longrightarrow> files w' = files w"
    and "h_WriteString h f s w = (Inr u, w') \<Longrightarrow> files w' = (files w)(f := map_option (\<lambda>c. c @ s) (files w f))"
    and "h_WriteString h f s w = (Inl e, w') \<Longrightarrow> \<exists>c. files w' = (files w)(f := Some c)"
    and "files (snd (h_Close h f w)) = files w"
    and "h_Rename h f p w = (Inr u, w') \<Longrightarrow> files w f \<noteq> None \<and> files w' = (files w)(f := None, p := files w f)"
    and "h_Rename h f p w = (Inl e, w') \<Longrightarrow> files w' = files w"
proof -
  have laws: "removing_law files h" "creating_law files h" "temp_law files h" "writing_law files h" "renaming_law files h"
    using assms by (simp_all add: fs_law_def)
  show "h_Remove h p w = (Inr u, w') \<Longrightarrow> files w' = (files w)(p := None)"
    "h_Remove h p w = (Inl e, w') \<Longrightarrow> files w' = files w \<and> (IsNotExist e \<longrightarrow> files w p = None)"
    using laws(1) unfolding removing_law_def by blast+
  show "h_Create h p w = (Inr f, w') \<Longrightarrow> f = p \<and> files w' = (files w)(p := Some [])"
    "h_Create h p w = (Inl e, w') \<Longrightarrow> files w' = files w"
    using laws(2) unfolding creating_law_def by blast+
  show "CHR ''*'' \<notin> set suf \<Longrightarrow> h_CreateTemp h d (pre @ ''*'' @ suf) w = (Inr f, w') \<Longrightarrow>
      (\<exists>r. f = (if suffix ''/'' d then d else d @ ''/'') @ pre @ r @ suf) \<and> files w f = None \<and> files w' = (files w)(f := Some [])"
    by (rule laws(3) [unfolded temp_law_def, THEN conjunct1, rule_format])
  show "h_CreateTemp h d pat w = (Inl e, w') \<Longrightarrow> files w' = files w"
    by (rule laws(3) [unfolded temp_law_def, THEN conjunct2, rule_format])
  show "h_WriteString h f s w = (Inr u, w') \<Longrightarrow> files w' = (files w)(f := map_option (\<lambda>c. c @ s) (files w f))"
    "h_WriteString h f s w = (Inl e, w') \<Longrightarrow> \<exists>c. files w' = (files w)(f := Some c)"
    using laws(4) unfolding writing_law_def by blast+
  show "h_Rename h f p w = (Inr u, w') \<Longrightarrow> files w f \<noteq> None \<and> files w' = (files w)(f := None, p := files w f)"
    "h_Rename h f p w = (Inl e, w') \<Longrightarrow> files w' = files w"
    using laws(5) unfolding renaming_law_def by blast+
qed (use assms in \<open>simp_all add: fs_law_def\<close>)

text \<open>What is left of a status file by the operations on it.\<close>

lemma wrapped_eq:
  "catch (call m) (\<lambda>e. fail (g e)) w = (case m w of (Inl e, w') \<Rightarrow> (Err (g e), w') | (Inr x, w') \<Rightarrow> (Ok x, w'))"
  by (simp add: op_defs split: prod.splits sum.splits)

lemma wrapped_Ok: "catch (call m) (\<lambda>e. fail (g e)) w = (Ok x, w') \<longleftrightarrow> m w = (Inr x, w')"
  by (auto simp: wrapped_eq split: prod.splits sum.splits)

lemma ensureOutputDir_files: "fs_law files h \<Longrightarrow> files (snd (ensureOutputDir h d w)) = files w"
  using fs_lawD(3) [of files h d w]
  by (auto simp: ensureOutputDir_def op_defs split: prod.splits sum.splits)

lemma deleteStatusFile_files:
  assumes "fs_law files h" and "deleteStatusFile h p w = (r, w')"
  shows "if is_ok r then files w' = (files w)(p := None) else files w' = files w"
proof -
  obtain x v where rm: "h_Remove h p w = (x, v)" by fastforce
  show ?thesis
  proof (cases x)
    case (Inl e)
    have v: "files v = files w" "IsNotExist e \<longrightarrow> files w p = None"
      using fs_lawD(2) [OF assms(1) rm [unfolded Inl]] by auto
    show ?thesis
      using assms(2) rm Inl v by (cases "IsNotExist e") (auto simp: deleteStatusFile_def op_defs fun_upd_idem)
  next
    case (Inr u)
    then show ?thesis
      using assms(2) rm fs_lawD(1) [OF assms(1) rm [unfolded Inr]] by (auto simp: deleteStatusFile_def op_defs)
  qed
qed

lemma recreateStatusFile_files:
  assumes law: "fs_law files h" and run: "recreateStatusFile h dir nm w = (Ok u, w')"
  shows "files w' (PathJoin [dir, nm]) = Some []"
proof -
  let ?p = "PathJoin [dir, nm]"
  let ?close = "\<lambda>f. catch (call (h_Close h f)) (\<lambda>e. fail (Wrap ''close status file: '' e))"
  from run obtain u0 v where "bind (bind (catch (call (h_Create h ?p)) (\<lambda>e. fail (Wrap ''create status file: '' e))) ?close)
      (\<lambda>_. ret ()) v = (Ok u, w')"
    unfolding recreateStatusFile_def Let_def seqE.simps by (rule bind_OkE)
  then obtain f v' where "catch (call (h_Create h ?p)) (\<lambda>e. fail (Wrap ''create status file: '' e)) v = (Ok f, v')"
      and "bind (?close f) (\<lambda>_. ret ()) v' = (Ok u, w')"
    unfolding bind_assoc by (rule bind_OkE)
  then have create: "h_Create h ?p v = (Inr f, v')" and close: "snd (h_Close h f v') = w'"
    by (auto simp: wrapped_Ok ret_def elim!: bind_OkE)
  from fs_lawD(4) [OF law create] fs_lawD(10) [OF law, of f v'] close show ?thesis by simp
qed

text \<open>The name of a temporary file is not the name of the status file.\<close>

lemma temp_name:
  assumes "fs_law files h" and "h_CreateTemp h d (pre @ ''.*.tmp'') w = (Inr f, w')" and "\<not> suffix ''.tmp'' p"
  shows "f \<noteq> p" and "files w f = None" and "files w' = (files w)(f := Some [])"
proof -
  have "pre @ ''.*.tmp'' = (pre @ ''.'') @ ''*'' @ ''.tmp''" by simp
  then have t: "h_CreateTemp h d ((pre @ ''.'') @ ''*'' @ ''.tmp'') w = (Inr f, w')" using assms(2) by metis
  note facts = fs_lawD(6) [OF assms(1) _ t]
  show "files w f = None" "files w' = (files w)(f := Some [])" using facts by simp_all
  obtain r where "f = (if suffix ''/'' d then d else d @ ''/'') @ (pre @ ''.'') @ r @ ''.tmp''" using facts by auto
  then have "suffix ''.tmp'' f" by (simp add: suffix_def)
  then show "f \<noteq> p" using assms(3) by blast
qed

lemma deferred_remove_files:
  assumes "fs_law files h" and "deferred (call (h_Remove h f)) m w = (r, w')" and "m w = (r', v)"
  shows "r' = r \<and> (files w' = (files v)(f := None) \<or> files w' = files v)"
proof -
  obtain x u where rm: "h_Remove h f v = (x, u)" by fastforce
  have "r' = r" "w' = u" using assms(2,3) rm by (auto simp: deferred_def call_def split: sum.splits)
  moreover have "files u = (files v)(f := None) \<or> files u = files v"
    using fs_lawD(1) [OF assms(1)] fs_lawD(2) [OF assms(1)] rm by (cases x) blast+
  ultimately show ?thesis by simp
qed

text \<open>The steps of \<open>createStatusFileWithContent\<close> after the temporary file \<open>f\<close> is there.\<close>

lemma createStatus_steps:
  assumes temp: "h_CreateTemp h (Dir p) (Base p @ ''.*.tmp'') w = (Inr f, w1)"
    and wr: "h_WriteString h f content w1 = (x, w2)"
  shows "createStatusFileWithContent h p content w =
     (case x of
        Inl e \<Rightarrow> (Err (Wrap ''failed to write temporary status file: '' e), snd (h_Close h f w2))
      | Inr _ \<Rightarrow> (case h_Close h f w2 of
          (Inl e, w3) \<Rightarrow> (Err (Wrap ''failed to close temporary status file: '' e), w3)
        | (Inr _, w3) \<Rightarrow> deferred (call (h_Remove h f)) (catch (call (h_Rename h f p))
            (\<lambda>e. fail (Wrap (''error moving temporary file to '' @ [CHR 0x27] @ p @ [CHR 0x27] @ '': '') e))) w3))"
proof -
  have 1: "catch (call (h_CreateTemp h (Dir p) (Base p @ ''.*.tmp'')))
      (\<lambda>e. fail (Wrap ''failed to create temporary status file: '' e)) w = (Ok f, w1)"
    using temp by (simp only: wrapped_Ok)
  show ?thesis
  proof (cases x)
    case (Inl e)
    have "catch (call (h_WriteString h f content)) (\<lambda>e. bind (catch (call (h_Close h f)) (\<lambda>_. ret ()))
        (\<lambda>_. fail (Wrap ''failed to write temporary status file: '' e))) w1
      = (Err (Wrap ''failed to write temporary status file: '' e), snd (h_Close h f w2))"
      using wr Inl by (simp add: op_defs split: prod.splits sum.splits)
    then show ?thesis unfolding createStatusFileWithContent_def bind_def 1 prod.case outcome.case Inl by simp
  next
    case (Inr u)
    have 2: "catch (call (h_WriteString h f content)) (\<lambda>e. bind (catch (call (h_Close h f)) (\<lambda>_. ret ()))
        (\<lambda>_. fail (Wrap ''failed to write temporary status file: '' e))) w1 = (Ok u, w2)"
      using wr Inr by (simp add: op_defs)
    show ?thesis
      unfolding createStatusFileWithContent_def bind_def 1 prod.case outcome.case
        2 [unfolded bind_def] Inr sum.case wrapped_eq [of "h_Close h f"]
      by (simp split: prod.splits sum.splits)
  qed
qed

lemma createStatus_rename:
  assumes law: "fs_law files h" and w: "files w = F(f := Some content)" and f: "f \<noteq> p" "F f = None"
    and d: "deferred (call (h_Remove h f)) (catch (call (h_Rename h f p)) (\<lambda>e. fail (g e))) w = (r, w')"
  shows "case r of Ok _ \<Rightarrow> files w' = F(p := Some content) | Err e \<Rightarrow> files w' p = F p | Abort s \<Rightarrow> False"
proof -
  obtain z v where re: "h_Rename h f p w = (z, v)" by fastforce
  obtain r' where r': "catch (call (h_Rename h f p)) (\<lambda>e. fail (g e)) w = (r', v)"
      and z: "case z of Inl _ \<Rightarrow> \<exists>e. r' = Err e | Inr _ \<Rightarrow> r' = Ok ()"
    using re by (cases z) (auto simp: wrapped_eq)
  have w': "r' = r" "files w' = (files v)(f := None) \<or> files w' = files v"
    using deferred_remove_files [OF law d r'] by auto
  show ?thesis
  proof (cases z)
    case (Inl e)
    then have "files w' p = F p" using fs_lawD(12) [OF law re [unfolded Inl]] w' w f by auto
    then show ?thesis using w'(1) z Inl by auto
  next
    case (Inr u)
    then have "files v = F(p := Some content)" using fs_lawD(11) [OF law re [unfolded Inr]] w f by auto
    then have "files w' = F(p := Some content)" using w'(2) f by auto
    then show ?thesis using w'(1) z Inr by auto
  qed
qed

text \<open>The outcome, with the temporary file there.\<close>

lemma createStatus_written:
  assumes law: "fs_law files h" and p: "\<not> suffix ''.tmp'' p"
    and temp: "h_CreateTemp h (Dir p) (Base p @ ''.*.tmp'') w = (Inr f, w1)"
  shows "case createStatusFileWithContent h p content w of
      (Ok _, w') \<Rightarrow> files w' = (files w)(p := Some content)
    | (Err e, w') \<Rightarrow> files w' p = files w p
    | (Abort s, w') \<Rightarrow> False"
proof -
  have f: "f \<noteq> p" "files w f = None" "files w1 = (files w)(f := Some [])" using temp_name [OF law temp p] by auto
  obtain x w2 where wr: "h_WriteString h f content w1 = (x, w2)" by fastforce
  obtain y w3 where cl: "h_Close h f w2 = (y, w3)" by fastforce
  have w3: "files w3 = files w2" using fs_lawD(10) [OF law, of f w2] cl by simp
  show ?thesis
  proof (cases x)
    case (Inl e)
    then have "files w2 p = files w p" using fs_lawD(9) [OF law wr [unfolded Inl]] f by auto
    then show ?thesis using createStatus_steps [OF temp wr] Inl cl w3 by simp
  next
    case (Inr u)
    have w2: "files w3 = (files w)(f := Some content)" using fs_lawD(8) [OF law wr [unfolded Inr]] f w3 by simp
    show ?thesis
    proof (cases y)
      case (Inl e)
      then show ?thesis using createStatus_steps [OF temp wr] Inr cl w2 f by simp
    next
      case Inr': (Inr u')
      obtain r w' where d: "deferred (call (h_Remove h f)) (catch (call (h_Rename h f p))
          (\<lambda>e. fail (Wrap (''error moving temporary file to '' @ [CHR 0x27] @ p @ [CHR 0x27] @ '': '') e))) w3 = (r, w')"
        by fastforce
      then have "createStatusFileWithContent h p content w = (r, w')"
        using createStatus_steps [OF temp wr] Inr Inr' cl by simp
      then show ?thesis using createStatus_rename [OF law w2 f(1,2) d] by (simp split: outcome.splits)
    qed
  qed
qed

lemma createStatus_outcome:
  assumes law: "fs_law files h" and p: "\<not> suffix ''.tmp'' p"
  shows "case createStatusFileWithContent h p content w of
      (Ok _, w') \<Rightarrow> files w' = (files w)(p := Some content)
    | (Err e, w') \<Rightarrow> files w' p = files w p
    | (Abort s, w') \<Rightarrow> False"
proof (cases "h_CreateTemp h (Dir p) (Base p @ ''.*.tmp'') w")
  case (Pair t w1)
  show ?thesis
  proof (cases t)
    case (Inl e)
    have "createStatusFileWithContent h p content w = (Err (Wrap ''failed to create temporary status file: '' e), w1)"
      using Pair Inl by (simp add: createStatusFileWithContent_def bind_def wrapped_eq)
    then show ?thesis using fs_lawD(7) [OF law] Pair Inl by simp
  next
    case (Inr f)
    show ?thesis by (rule createStatus_written [OF law p Pair [unfolded Inr]])
  qed
qed

section \<open>Operations that leave a file alone\<close>

text \<open>
  What is not done to a status file \<open>p\<close>: looking at files, running commands and sleeping leave it
  alone, whatever else changes meanwhile.
\<close>

definition spares :: "('w \<Rightarrow> string \<Rightarrow> string option) \<Rightarrow> string \<Rightarrow> ('w \<Rightarrow> 'w) \<Rightarrow> bool" where
  "spares files p f \<longleftrightarrow> (\<forall>w. files (f w) p = files w p)"

definition looking_law :: "('w \<Rightarrow> string \<Rightarrow> string option) \<Rightarrow> string \<Rightarrow> ('w, 'm) host_scheme \<Rightarrow> bool" where
  "looking_law files p h \<longleftrightarrow>
     (\<forall>q. spares files p (\<lambda>w. snd (h_Stat h q w))) \<and> (\<forall>q. spares files p (\<lambda>w. snd (h_Lstat h q w))) \<and>
     (\<forall>q. spares files p (\<lambda>w. snd (h_ReadDir h q w))) \<and> (\<forall>q. spares files p (\<lambda>w. snd (h_EvalSymlinks h q w))) \<and>
     (\<forall>cmd. spares files p (\<lambda>w. snd (h_Run h cmd w))) \<and> (\<forall>t. spares files p (h_Sleep h t))"

definition keeps :: "('w \<Rightarrow> string \<Rightarrow> string option) \<Rightarrow> string \<Rightarrow> ('w, 'a) op \<Rightarrow> bool" where
  "keeps files p m \<longleftrightarrow> spares files p (\<lambda>w. snd (m w))"

lemma keepsD: "keeps files p m \<Longrightarrow> m w = (r, w') \<Longrightarrow> files w' p = files w p"
  by (metis keeps_def spares_def snd_conv)

named_theorems keeps_intros "operations that leave a file alone"

lemma keeps_basic [keeps_intros]:
  "keeps files p (ret x)" "keeps files p (fail e)" "keeps files p (lift_outcome r)"
  by (simp_all add: keeps_def spares_def op_defs)

lemma keeps_bind [keeps_intros]:
  assumes "keeps files p m" and "\<And>x. keeps files p (f x)"
  shows "keeps files p (bind m f)"
  unfolding keeps_def spares_def
proof
  fix w
  obtain r v where mw: "m w = (r, v)" by fastforce
  have v: "files v p = files w p" by (rule keepsD [OF assms(1) mw])
  show "files (snd (bind m f w)) p = files w p"
    using v mw keepsD [OF assms(2), of _ v] by (cases r) (auto simp: bind_def, metis prod.collapse)
qed

lemma keeps_catch [keeps_intros]:
  assumes "keeps files p m" and "\<And>e. keeps files p (f e)"
  shows "keeps files p (catch m f)"
  unfolding keeps_def spares_def
proof
  fix w
  obtain r v where mw: "m w = (r, v)" by fastforce
  have v: "files v p = files w p" by (rule keepsD [OF assms(1) mw])
  show "files (snd (catch m f w)) p = files w p"
    using v mw keepsD [OF assms(2), of _ v] by (cases r) (auto simp: catch_def, metis prod.collapse)
qed

lemma keeps_call [keeps_intros]: "spares files p (\<lambda>w. snd (m w)) \<Longrightarrow> keeps files p (call m)"
  unfolding keeps_def spares_def by (auto simp: call_def split: prod.splits sum.splits) (metis snd_conv)+

lemma keeps_waitFor [keeps_intros]:
  assumes "keeps files p m" and "spares files p sleep"
  shows "keeps files p (waitFor n sleep m)"
proof (induction n)
  case (Suc n)
  show ?case
    unfolding keeps_def spares_def
  proof
    fix w
    obtain r v where mw: "m w = (r, v)" by fastforce
    have v: "files v p = files w p" by (rule keepsD [OF assms(1) mw])
    have "files (snd (waitFor n sleep m (sleep v))) p = files v p"
      using Suc assms(2) by (simp add: keeps_def spares_def)
    then show "files (snd (waitFor (Suc n) sleep m w)) p = files w p" using v mw by (cases r) simp_all
  qed
qed (simp add: keeps_basic)

lemma keeps_runCmd [keeps_intros]: "looking_law files p h \<Longrightarrow> keeps files p (runCmd h cmd)"
  by (auto simp: looking_law_def keeps_def spares_def runCmd_def split: prod.splits exec_result.splits) (metis snd_conv)+

lemma looking_spares [keeps_intros]:
  assumes "looking_law files p h"
  shows "spares files p (\<lambda>w. snd (h_Stat h q w))" "spares files p (\<lambda>w. snd (h_Lstat h q w))"
    "spares files p (\<lambda>w. snd (h_ReadDir h q w))" "spares files p (\<lambda>w. snd (h_EvalSymlinks h q w))"
    "spares files p (h_Sleep h t)" "spares files p (\<lambda>w. snd (h_Run h cmd w))"
  using assms by (simp_all add: looking_law_def)

lemma keeps_commands [keeps_intros]:
  assumes "looking_law files p h"
  shows "keeps files p (runCommand h nm args silent)"
    "keeps files p (runCommandWithWait h n nm args secs silent)"
  unfolding runCommand_def runCommandWithWait_def by (intro keeps_intros assms)+

section \<open>A file system in memory\<close>

definition pattern_pre :: "string \<Rightarrow> string" where
  "pattern_pre pat = rev (tl (dropWhile (\<lambda>c. c \<noteq> CHR ''*'') (rev pat)))"

definition pattern_suf :: "string \<Rightarrow> string" where
  "pattern_suf pat = rev (takeWhile (\<lambda>c. c \<noteq> CHR ''*'') (rev pat))"

lemma pattern_split:
  assumes "CHR ''*'' \<notin> set suf"
  shows "pattern_pre (pre @ ''*'' @ suf) = pre" and "pattern_suf (pre @ ''*'' @ suf) = suf"
proof -
  have "takeWhile (\<lambda>c. c \<noteq> CHR ''*'') (rev suf @ CHR ''*'' # rev pre) = rev suf"
    using assms by (subst takeWhile_append2) auto
  moreover have "dropWhile (\<lambda>c. c \<noteq> CHR ''*'') (rev suf @ CHR ''*'' # rev pre) = CHR ''*'' # rev pre"
    using assms by (subst dropWhile_append2) auto
  ultimately show "pattern_pre (pre @ ''*'' @ suf) = pre" "pattern_suf (pre @ ''*'' @ suf) = suf"
    by (simp_all add: pattern_pre_def pattern_suf_def)
qed

type_synonym file_map = "string \<Rightarrow> string option"

definition noEntry :: error where
  "noEntry = Error NotFound ''no such file or directory''"

text \<open>Commands succeed and print \<open>1.0\<close>; a directory has the given entries.\<close>

definition mem_host :: "string list \<Rightarrow> DirEntry list \<Rightarrow> file_map host" where
  "mem_host environ entries = \<lparr>
     h_environ = environ,
     h_Remove = (\<lambda>p w. case w p of None \<Rightarrow> (Inl noEntry, w) | Some _ \<Rightarrow> (Inr (), w(p := None))),
     h_MkdirAll = (\<lambda>_ w. (Inr (), w)),
     h_Create = (\<lambda>p w. (Inr p, w(p := Some []))),
     h_CreateTemp = (\<lambda>d pat w.
       let f = (if suffix ''/'' d then d else d @ ''/'') @ pattern_pre pat @ ''0'' @ pattern_suf pat
       in if w f = None then (Inr f, w(f := Some [])) else (Inl (Errorf ''exists''), w)),
     h_WriteString = (\<lambda>f s w. (Inr (), w(f := map_option (\<lambda>c. c @ s) (w f)))),
     h_Close = (\<lambda>_ w. (Inr (), w)),
     h_Rename = (\<lambda>f p w. if w f = None then (Inl noEntry, w) else (Inr (), w(f := None, p := w f))),
     h_Stat = (\<lambda>p w. case w p of None \<Rightarrow> (Inl noEntry, w) | Some c \<Rightarrow> (Inr \<lparr>fi_Size = length c, fi_ModTime = 0\<rparr>, w)),
     h_Lstat = (\<lambda>p w. case w p of None \<Rightarrow> (Inl noEntry, w) | Some c \<Rightarrow> (Inr \<lparr>fi_Size = length c, fi_ModTime = 0\<rparr>, w)),
     h_ReadDir = (\<lambda>_ w. (Inr entries, w)),
     h_EvalSymlinks = (\<lambda>p w. (if w p = None then Inl noEntry else Inr p, w)),
     h_Run = (\<lambda>_ w. (Exited0 ''1.0'', w)),
     h_Sleep = (\<lambda>_ w. w)\<rparr>"

lemma mem_host_law: "fs_law (\<lambda>w. w) (mem_host environ entries)"
  unfolding fs_laws
proof (intro conjI allI impI)
  fix d pre suf f :: string and w w' :: file_map
  assume "CHR ''*'' \<notin> set suf" and "h_CreateTemp (mem_host environ entries) d (pre @ ''*'' @ suf) w = (Inr f, w')"
  then have "f = (if suffix ''/'' d then d else d @ ''/'') @ pre @ ''0'' @ suf \<and> w f = None \<and> w' = w(f := Some [])"
    using pattern_split [of suf pre] by (auto simp: mem_host_def Let_def split: if_splits)
  then show "\<exists>r. f = (if suffix ''/'' d then d else d @ ''/'') @ pre @ r @ suf" "w f = None" "w' = w(f := Some [])"
    by blast+
qed (auto simp: mem_host_def noEntry_def IsNotExist_def Errorf_def Let_def split: option.splits if_splits)

lemma mem_host_looking: "looking_law (\<lambda>w. w) p (mem_host environ entries)"
  by (simp add: looking_law_def spares_def mem_host_def split: option.splits)

section \<open>Properties\<close>

text \<open>
  C37: A status file is written atomically.  When the write succeeds, the file has the content and no
  other file has changed, the temporary one included; when it fails, the status file is as it was.  A
  failed write of the temporary file leaves that file behind.
\<close>

theorem createStatusFile_atomic:
  assumes "fs_law files h" and "\<not> suffix ''.tmp'' p"
  shows "(case createStatusFileWithContent h p content w of
      (Ok _, w') \<Rightarrow> files w' = (files w)(p := Some content)
    | (Err e, w') \<Rightarrow> files w' p = files w p
    | (Abort s, w') \<Rightarrow> False) \<and>
   (\<forall>f w1 e w2. h_CreateTemp h (Dir p) (Base p @ ''.*.tmp'') w = (Inr f, w1) \<longrightarrow>
      h_WriteString h f content w1 = (Inl e, w2) \<longrightarrow>
      files w f = None \<and> files (snd (createStatusFileWithContent h p content w)) f \<noteq> None)"
proof (intro conjI allI impI)
  fix f w1 e w2
  assume t: "h_CreateTemp h (Dir p) (Base p @ ''.*.tmp'') w = (Inr f, w1)"
    and wr: "h_WriteString h f content w1 = (Inl e, w2)"
  show "files w f = None" using temp_name [OF assms(1) t assms(2)] by blast
  show "files (snd (createStatusFileWithContent h p content w)) f \<noteq> None"
    using createStatus_steps [OF t wr] fs_lawD(9) [OF assms(1) wr] fs_lawD(10) [OF assms(1), of f w2] by auto
qed (rule createStatus_outcome [OF assms])

theorem createStatusFile_atomic_witness:
  "case createStatusFileWithContent (mem_host [] []) ''/run/ready'' ''ok'' (\<lambda>_. None) of
      (Ok _, w') \<Rightarrow> w' = (\<lambda>_. None)(''/run/ready'' := Some ''ok'')
    | (Err e, w') \<Rightarrow> w' ''/run/ready'' = None
    | (Abort s, w') \<Rightarrow> False"
proof -
  have "\<not> suffix ''.tmp'' ''/run/ready''" by (simp add: suffix_to_prefix)
  from createStatusFile_atomic [OF mem_host_law this, where w = "\<lambda>_. None" and content = "''ok''"] show ?thesis by simp
qed

text \<open>
  C40: The pause between two attempts is the product of the interval and the number of nanoseconds of a second in 64 bits,
  with wrap-around.  It is the interval exactly up to 9223372036 seconds; for every longer interval, which the
  configuration accepts, it is another value, and there is an accepted configuration for which it is negative, so that the
  loop does not pause at all.
\<close>

theorem durationSeconds_bounds:
  "durationSeconds n = (n * 1000000000 + 2 ^ 63) mod 2 ^ 64 - 2 ^ 63 \<and>
   (durationSeconds n = n * 1000000000 \<longleftrightarrow> - 9223372036 \<le> n \<and> n \<le> 9223372036) \<and>
   (\<exists>b cfg. finalize b = Inr cfg \<and> durationSeconds (cfg_sleepIntervalSeconds cfg) < 0)"
proof (intro conjI)
  have "word_of_int n * word_of_int 1000000000 = (word_of_int (n * 1000000000) :: 64 word)" by (simp only: wi_hom_mult)
  then have "durationSeconds n = signed_take_bit 63 (n * 1000000000)"
    unfolding durationSeconds_def by (simp only: sint_sbintrunc') simp
  then show wrap: "durationSeconds n = (n * 1000000000 + 2 ^ 63) mod 2 ^ 64 - 2 ^ 63"
    by (simp add: signed_take_bit_eq_take_bit_shift take_bit_eq_mod)
  have range: "- (2 ^ 63) \<le> durationSeconds n \<and> durationSeconds n < 2 ^ 63"
    unfolding wrap using pos_mod_bound [of "2 ^ 64" "n * 1000000000 + 2 ^ 63"] pos_mod_sign [of "2 ^ 64" "n * 1000000000 + 2 ^ 63"]
    by simp
  show "durationSeconds n = n * 1000000000 \<longleftrightarrow> - 9223372036 \<le> n \<and> n \<le> 9223372036"
  proof
    assume "durationSeconds n = n * 1000000000"
    then show "- 9223372036 \<le> n \<and> n \<le> 9223372036" using range by simp
  next
    assume "- 9223372036 \<le> n \<and> n \<le> 9223372036"
    then have "(n * 1000000000 + 2 ^ 63) mod 2 ^ 64 = n * 1000000000 + 2 ^ 63" by (intro mod_pos_pos_trivial) simp_all
    then show "durationSeconds n = n * 1000000000" unfolding wrap by simp
  qed
  let ?b = "\<lparr>cb_namespace = ''rbln'', cb_outputDir = ''/run'', cb_withWait = True, cb_sleepIntervalSeconds = 9223372037\<rparr>"
  have "\<not> isl (finalize ?b)" by code_simp
  then obtain cfg where "finalize ?b = Inr cfg" by (cases "finalize ?b") simp_all
  moreover from this have "cfg_sleepIntervalSeconds cfg = 9223372037" by (simp add: finalize_Inr_iff)
  ultimately show "\<exists>b cfg. finalize b = Inr cfg \<and> durationSeconds (cfg_sleepIntervalSeconds cfg) < 0"
    by (intro exI [of _ ?b] exI [of _ cfg]) (simp add: durationSeconds_def)
qed

text \<open>
  C39: A loop that waits ends as soon as an attempt succeeds: when the attempts in the worlds it goes
  through fail \<open>n\<close> times and then succeed, every number of attempts above \<open>n\<close> suffices, and the result is
  that of the successful attempt.  It never returns an error.
\<close>

theorem waitFor_returns:
  assumes "\<forall>i<n. \<exists>e v. check (ws i) = (Err e, v) \<and> ws (Suc i) = sleep v" and "check (ws n) = (Ok (), w')"
    and "n < m"
  shows "waitFor m sleep check (ws 0) = (Ok (), w') \<and> (\<forall>k w e v. waitFor k sleep check w \<noteq> (Err e, v))"
proof
  show "waitFor m sleep check (ws 0) = (Ok (), w')"
    using assms
  proof (induction n arbitrary: m ws)
    case 0
    then show ?case by (cases m) auto
  next
    case (Suc n)
    then obtain k where m: "m = Suc k" "n < k" by (cases m) auto
    obtain e v where ev: "check (ws 0) = (Err e, v)" "ws (Suc 0) = sleep v" using Suc.prems(1) by blast
    have "waitFor k sleep check (ws (Suc 0)) = (Ok (), w')"
      using Suc.IH [of "\<lambda>i. ws (Suc i)" k] Suc.prems m(2) by auto
    then show ?case using m ev by simp
  qed
  have "waitFor k sleep check w \<noteq> (Err e, v)" for k w e v
    by (induction k arbitrary: w) (auto simp: lift_outcome_def split: prod.splits outcome.splits)
  then show "\<forall>k w e v. waitFor k sleep check w \<noteq> (Err e, v)" by blast
qed

theorem waitFor_returns_witness:
  "waitFor 3 (\<lambda>w. Suc w) (\<lambda>w. if w < (2 :: nat) then (Err (Errorf ''not yet''), w) else (Ok (), w)) 0 = (Ok (), 2)"
  using waitFor_returns [of 2 "\<lambda>w. if w < (2 :: nat) then (Err (Errorf ''not yet''), w) else (Ok (), w)" "\<lambda>i. i" Suc 2 3]
  by simp

end
