(* ===== verification/Validator_Driver.thy ===== *)
theory Validator_Driver
  imports Validator_Host Client
begin

text \<open>
  \<open>cmd/rbln-validator/driver_root.go\<close>, \<open>driver_validation.go\<close> and \<open>driver.go\<close>: the command \<open>driver\<close> of
  the node validator, which looks for a driver on the host and then for the driver container, runs
  \<open>rbln-smi\<close>, and writes the status file \<open>driver-ready\<close>.
\<close>

text \<open>The host with its access to the cluster.\<close>

record 'w cluster_host = "'w host" +
  h_InClusterConfig :: "('w, unit) api"
  h_NewForConfig :: "('w, unit) api"
  h_DaemonSets :: "ListOptions \<Rightarrow> ('w, DaemonSet list) api"

section \<open>Files of the driver (\<open>driver_root.go\<close>)\<close>

definition resolveLink :: "('w, 'm) host_scheme \<Rightarrow> string \<Rightarrow> ('w, string) op" where
  "resolveLink h l =
     catch (call (h_EvalSymlinks h l))
       (\<lambda>e. fail (Wrap (''error resolving link '' @ [CHR 0x27] @ l @ [CHR 0x27] @ '': '') e))"

fun locate :: "('w, 'm) host_scheme \<Rightarrow> string \<Rightarrow> string \<Rightarrow> string list \<Rightarrow> ('w, string) op" where
  "locate h r nm [] = fail (Errorf (''error locating '' @ [CHR 0x22] @ nm @ [CHR 0x22]))"
| "locate h r nm (d # ds) =
     (let relative = TrimPrefix d ''/'';
          l = PathJoin [r, relative, nm]
      in catch (resolveLink h l) (\<lambda>_. locate h r nm ds))"

definition findFile :: "('w, 'm) host_scheme \<Rightarrow> string \<Rightarrow> string \<Rightarrow> string list \<Rightarrow> ('w, string) op" where
  "findFile h r nm searchIn = locate h r nm ([] # searchIn)"

definition getDriverLibraryPath :: "('w, 'm) host_scheme \<Rightarrow> string \<Rightarrow> ('w, string) op" where
  "getDriverLibraryPath h r = findFile h r ''librbln-ml.so''
     [''/usr/lib'', ''/usr/lib64'', ''/usr/lib/x86_64-linux-gnu'', ''/usr/lib/aarch64-linux-gnu'',
      ''/lib64'', ''/lib/x86_64-linux-gnu'', ''/lib/aarch64-linux-gnu'']"

definition getRblnSMIPath :: "('w, 'm) host_scheme \<Rightarrow> string \<Rightarrow> ('w, string) op" where
  "getRblnSMIPath h r = findFile h r ''rbln-smi'' [''/usr/bin'', ''/usr/sbin'', ''/bin'', ''/sbin'']"

section \<open>Environment of \<open>rbln-smi\<close>\<close>

definition setEnvVar :: "string list \<Rightarrow> string \<Rightarrow> string \<Rightarrow> string list" where
  "setEnvVar envvars key val = filter (\<lambda>e. envKey e \<noteq> key) envvars @ [key @ ''='' @ val]"

definition prependPathListEnvvar :: "string list \<Rightarrow> string \<Rightarrow> string list \<Rightarrow> string" where
  "prependPathListEnvvar environ envvar prepend =
     (if prepend = [] then Getenv environ envvar
      else Join (prepend @ SplitList (Getenv environ envvar)) '':'')"

section \<open>A driver on the host\<close>

abbreviation hostDriverModuleName :: string where "hostDriverModuleName \<equiv> ''rebellions''"
abbreviation hostRootMountPath :: string where "hostRootMountPath \<equiv> ''/host''"
abbreviation hostRblnSMIPath :: string where "hostRblnSMIPath \<equiv> ''/host-usr-bin/rbln-smi''"

definition chroot :: "string list \<Rightarrow> command" where
  "chroot args = \<lparr>cmd_Name = ''chroot'', cmd_Args = hostRootMountPath # args, cmd_Env = None, cmd_Silent = True\<rparr>"

definition detectInstalledHostDriver :: "('w, 'm) host_scheme \<Rightarrow> ('w, bool \<times> string) op" where
  "detectInstalledHostDriver h = (\<lambda>w.
     case h_Run h (chroot [''modinfo'', ''-F'', ''version'', hostDriverModuleName]) w of
       (ExitError _, w') \<Rightarrow> (Ok (False, []), w')
     | (RunError e, w') \<Rightarrow> (Err e, w')
     | (Exited0 out, w') \<Rightarrow> (let version = TrimSpace out in (Ok (version \<noteq> [], version), w')))"

definition detectLoadedHostDriver :: "('w, 'm) host_scheme \<Rightarrow> ('w, bool) op" where
  "detectLoadedHostDriver h = (\<lambda>w.
     case h_Run h (chroot [''test'', ''-d'', ''/sys/module/'' @ hostDriverModuleName]) w of
       (ExitError _, w') \<Rightarrow> (Ok False, w')
     | (RunError e, w') \<Rightarrow> (Err e, w')
     | (Exited0 _, w') \<Rightarrow> (Ok True, w'))"

definition validateHostDriver :: "('w, 'm) host_scheme \<Rightarrow> bool \<Rightarrow> ('w, unit) op" where
  "validateHostDriver h silent =
     bind (detectInstalledHostDriver h) (\<lambda>(installed, version).
     if \<not> installed then fail (Errorf (''host driver module '' @ [CHR 0x22] @ hostDriverModuleName @ [CHR 0x22] @ '' not installed''))
     else bind (detectLoadedHostDriver h) (\<lambda>loaded.
       if \<not> loaded then fail (Errorf (''host driver module '' @ [CHR 0x22] @ hostDriverModuleName @ [CHR 0x22] @ '' not loaded''))
       else bind (catch (call (h_Lstat h hostRblnSMIPath))
               (\<lambda>e. fail (Wrap (''no '' @ [CHR 0x27] @ ''rbln-smi'' @ [CHR 0x27] @ '' file present on the host: '') e))) (\<lambda>fileInfo.
         if fi_Size fileInfo = 0
         then fail (Errorf (''empty '' @ [CHR 0x27] @ ''rbln-smi'' @ [CHR 0x27] @ '' file found on the host''))
         else runCommand h hostRblnSMIPath [] silent)))"

section \<open>The driver container\<close>

abbreviation driverContainerReadyFile :: string where "driverContainerReadyFile \<equiv> ''.driver-ctr-ready''"
abbreviation driverReadyFile :: string where "driverReadyFile \<equiv> ''driver-ready''"
abbreviation driverInstallDirDefault :: string where "driverInstallDirDefault \<equiv> ''/run/rbln/driver''"

definition ownedByOperator :: "DaemonSet \<Rightarrow> bool" where
  "ownedByOperator ds =
     (case GetControllerOf (ds_Meta ds) of
        None \<Rightarrow> False
      | Some owner \<Rightarrow> HasPrefix (or_APIVersion owner) ''rebellions.ai/'' \<and>
          (or_Kind owner = ''RBLNClusterPolicy'' \<or> or_Kind owner = ''RBLNDriver''))"

definition isDriverManagedByOperator :: "('w, 'm) cluster_host_scheme \<Rightarrow> string \<Rightarrow> ('w, bool) op" where
  "isDriverManagedByOperator h namespace =
     bind (catch (call (h_InClusterConfig h)) (\<lambda>e. fail (Wrap ''error getting cluster config: '' e))) (\<lambda>_.
     bind (catch (call (h_NewForConfig h)) (\<lambda>e. fail (Wrap ''error getting k8s client: '' e))) (\<lambda>_.
     bind (catch (call (h_DaemonSets h \<lparr>lo_Namespace = namespace,
               lo_MatchingLabels = map_lit [(''app.kubernetes.io/component'', ''rbln-driver'')]\<rparr>))
             (\<lambda>e. fail (Wrap ''error listing daemonsets: '' e))) (\<lambda>dsList.
     ret (list_ex ownedByOperator dsList))))"

definition assertDriverContainerReady :: "('w, 'm) host_scheme \<Rightarrow> nat \<Rightarrow> string \<Rightarrow> bool \<Rightarrow> int \<Rightarrow> bool \<Rightarrow> ('w, unit) op" where
  "assertDriverContainerReady h n outputDir withWait sleepIntervalSeconds silent =
     (let readyPath = PathJoin [outputDir, driverContainerReadyFile];
          args = [''-c'', ''stat '' @ readyPath]
      in if withWait then runCommandWithWait h n ''sh'' args sleepIntervalSeconds silent
         else runCommand h ''sh'' args silent)"

text \<open>The function literal \<open>validateDriver\<close> of \<open>validateDriverContainer\<close>.\<close>

definition runDriverSMI :: "('w, 'm) host_scheme \<Rightarrow> bool \<Rightarrow> ('w, unit) op" where
  "runDriverSMI h silent =
     bind (catch (getDriverLibraryPath h driverInstallDirDefault)
             (\<lambda>e. fail (Wrap ''failed to locate driver libraries: '' e))) (\<lambda>driverLibraryPath.
     bind (catch (getRblnSMIPath h driverInstallDirDefault)
             (\<lambda>e. fail (Wrap ''failed to locate rbln-smi: '' e))) (\<lambda>rblnSMIPath.
     runCmd h \<lparr>cmd_Name = rblnSMIPath, cmd_Args = [],
       cmd_Env = Some (setEnvVar (h_environ h) ''LD_PRELOAD''
         (prependPathListEnvvar (h_environ h) ''LD_PRELOAD'' [driverLibraryPath])),
       cmd_Silent = silent\<rparr>))"

definition validateDriverContainer ::
  "('w, 'm) cluster_host_scheme \<Rightarrow> nat \<Rightarrow> string \<Rightarrow> string \<Rightarrow> bool \<Rightarrow> int \<Rightarrow> bool \<Rightarrow> ('w, unit) op" where
  "validateDriverContainer h n namespace outputDir withWait sleepIntervalSeconds silent =
     bind (catch (isDriverManagedByOperator h namespace)
             (\<lambda>e. fail (Wrap ''error checking if driver is managed by operator: '' e))) (\<lambda>driverManagedByOperator.
     bind (if driverManagedByOperator
           then catch (assertDriverContainerReady h n outputDir withWait sleepIntervalSeconds silent)
                  (\<lambda>e. fail (Wrap ''error checking driver container status: '' e))
           else ret ()) (\<lambda>_.
     if \<not> withWait then catch (runDriverSMI h silent) (\<lambda>e. fail (Wrap ''error validating driver: '' e))
     else waitFor n (h_Sleep h (durationSeconds sleepIntervalSeconds)) (runDriverSMI h silent)))"

section \<open>The command\<close>

record driverInfo =
  di_isHostDriver :: bool
  di_hostRoot :: string
  di_driverRoot :: string
  di_driverRootCtrPath :: string
  di_containerLibraryPath :: string

definition getDriverInfo :: "bool \<Rightarrow> string \<Rightarrow> string \<Rightarrow> string \<Rightarrow> driverInfo" where
  "getDriverInfo isHostDriver hostRoot driverInstallDir containerLibraryPath =
     (if isHostDriver
      then \<lparr>di_isHostDriver = True, di_hostRoot = hostRoot, di_driverRoot = hostRoot,
            di_driverRootCtrPath = ''/host'', di_containerLibraryPath = containerLibraryPath\<rparr>
      else \<lparr>di_isHostDriver = False, di_hostRoot = hostRoot, di_driverRoot = driverInstallDir,
            di_driverRootCtrPath = ''/host'', di_containerLibraryPath = containerLibraryPath\<rparr>)"

text \<open>\<open>n\<close> bounds the attempts of each loop; the configuration has the fields of \<open>Driver\<close>.\<close>

definition runValidation :: "('w, 'm) cluster_host_scheme \<Rightarrow> nat \<Rightarrow> config \<Rightarrow> bool \<Rightarrow> ('w, driverInfo) op" where
  "runValidation h n d silent =
     bind (catch (bind (validateHostDriver h silent) (\<lambda>_. ret True)) (\<lambda>_. ret False)) (\<lambda>host.
     if host then ret (getDriverInfo True ''/'' ''/'' ''/usr/local/lib/rbln'')
     else bind (validateDriverContainer h n (cfg_namespace d) (cfg_outputDir d) (cfg_withWait d)
                  (cfg_sleepIntervalSeconds d) silent)
            (\<lambda>_. ret (getDriverInfo False ''/'' driverInstallDirDefault ''/usr/local/lib/rbln'')))"

definition show_bool :: "bool \<Rightarrow> string" where
  "show_bool b = (if b then ''true'' else ''false'')"

definition statusFileContent :: "driverInfo \<Rightarrow> string" where
  "statusFileContent info =
     Join [''IS_HOST_DRIVER='' @ show_bool (di_isHostDriver info),
           ''RBLN_CTK_DAEMON_HOST_ROOT='' @ di_driverRootCtrPath info,
           ''RBLN_CTK_DAEMON_DRIVER_ROOT='' @ di_driverRoot info,
           ''RBLN_CTK_DAEMON_CONTAINER_LIBRARY_PATH='' @ di_containerLibraryPath info] [CHR 0x0A] @ [CHR 0x0A]"

definition createStatusFile :: "('w, 'm) host_scheme \<Rightarrow> config \<Rightarrow> driverInfo \<Rightarrow> ('w, unit) op" where
  "createStatusFile h d info =
     createStatusFileWithContent h (PathJoin [cfg_outputDir d, driverReadyFile]) (statusFileContent info)"

definition validateDriver :: "('w, 'm) cluster_host_scheme \<Rightarrow> nat \<Rightarrow> config \<Rightarrow> ('w, unit) op" where
  "validateDriver h n cfg =
     bind (deleteStatusFile h (PathJoin [cfg_outputDir cfg, driverReadyFile])) (\<lambda>_.
     bind (ensureOutputDir h (cfg_outputDir cfg)) (\<lambda>_.
     bind (runValidation h n cfg False) (\<lambda>info.
     createStatusFile h cfg info)))"

text \<open>\<open>RunE\<close> of the command.\<close>

definition driverCommand :: "('w, 'm) cluster_host_scheme \<Rightarrow> nat \<Rightarrow> flags \<Rightarrow> ('w, unit) op" where
  "driverCommand h n f =
     (case finalize (bindFlags f (newConfigBuilder (h_environ h))) of
        Inl e \<Rightarrow> fail e
      | Inr cfg \<Rightarrow> validateDriver h n cfg)"

section \<open>Lemmas\<close>

text \<open>Asking the cluster leaves the status file alone as well.\<close>

definition asking_law :: "('w \<Rightarrow> string \<Rightarrow> string option) \<Rightarrow> string \<Rightarrow> ('w, 'm) cluster_host_scheme \<Rightarrow> bool" where
  "asking_law files p h \<longleftrightarrow> spares files p (\<lambda>w. snd (h_InClusterConfig h w)) \<and>
     spares files p (\<lambda>w. snd (h_NewForConfig h w)) \<and> (\<forall>opt. spares files p (\<lambda>w. snd (h_DaemonSets h opt w)))"

lemma keeps_locate [keeps_intros]: "looking_law files p h \<Longrightarrow> keeps files p (locate h r nm ds)"
  by (induction ds) (auto simp: Let_def resolveLink_def intro!: keeps_intros)

lemma keeps_runDriverSMI [keeps_intros]: "looking_law files p h \<Longrightarrow> keeps files p (runDriverSMI h silent)"
  unfolding runDriverSMI_def getDriverLibraryPath_def getRblnSMIPath_def findFile_def by (intro keeps_intros) assumption+

lemma keeps_validateHostDriver [keeps_intros]:
  assumes "looking_law files p h"
  shows "keeps files p (validateHostDriver h silent)"
proof -
  have run: "files w' p = files w p" if "h_Run h cmd w = (x, w')" for cmd w x w'
    using looking_spares(6) [OF assms, of cmd] that by (metis spares_def snd_conv)
  have "keeps files p (detectInstalledHostDriver h)" "keeps files p (detectLoadedHostDriver h)"
    unfolding keeps_def spares_def detectInstalledHostDriver_def detectLoadedHostDriver_def
    by (auto simp: Let_def split: prod.splits exec_result.splits dest: run)
  then show ?thesis
    unfolding validateHostDriver_def case_prod_beta using assms by (auto intro!: keeps_intros)
qed

lemma keeps_validateDriverContainer [keeps_intros]:
  assumes "looking_law files p h" and "asking_law files p h"
  shows "keeps files p (validateDriverContainer h n namespace outputDir withWait secs silent)"
  unfolding validateDriverContainer_def isDriverManagedByOperator_def assertDriverContainerReady_def Let_def
  using assms by (auto simp: asking_law_def intro!: keeps_intros)

lemma keeps_runValidation:
  assumes "looking_law files p h" and "asking_law files p h"
  shows "keeps files p (runValidation h n cfg silent)"
  unfolding runValidation_def using assms by (auto intro!: keeps_intros)

text \<open>The two results of a validation.\<close>

abbreviation hostDriver :: driverInfo where
  "hostDriver \<equiv> getDriverInfo True ''/'' ''/'' ''/usr/local/lib/rbln''"

abbreviation containerDriver :: driverInfo where
  "containerDriver \<equiv> getDriverInfo False ''/'' driverInstallDirDefault ''/usr/local/lib/rbln''"

lemma runValidation_result:
  assumes "runValidation h n cfg silent w = (Ok info, w')"
  shows "info = (if is_ok (fst (validateHostDriver h silent w)) then hostDriver else containerDriver)"
  using assms
  by (auto simp: runValidation_def op_defs is_ok_iff split: prod.splits outcome.splits)

lemma ready_not_temp:
  assumes "d \<noteq> []" and "name_part f" and "\<not> suffix ''.tmp'' f" and "4 \<le> length f"
  shows "\<not> suffix ''.tmp'' (PathJoin [d, f])"
proof
  assume tmp: "suffix ''.tmp'' (PathJoin [d, f])"
  have "suffix f (PathJoin [d, f])" using PathJoin_split [OF assms(1,2)] by (auto simp: suffix_def)
  then have "suffix ''.tmp'' f" by (rule suffix_length_suffix [OF tmp]) (use assms(4) in simp)
  then show False using assms(3) by blast
qed

lemma driverReady_not_temp: "d \<noteq> [] \<Longrightarrow> \<not> suffix ''.tmp'' (PathJoin [d, driverReadyFile])"
  by (rule ready_not_temp) (simp_all add: name_part_def suffix_to_prefix)

text \<open>A validation that succeeds has found a driver on the host or in the container.\<close>

lemma runValidation_sound:
  assumes "runValidation h n cfg silent w = (Ok info, w')"
  shows "if is_ok (fst (validateHostDriver h silent w)) then info = hostDriver
     else info = containerDriver \<and>
       is_ok (fst (validateDriverContainer h n (cfg_namespace cfg) (cfg_outputDir cfg) (cfg_withWait cfg)
         (cfg_sleepIntervalSeconds cfg) silent (snd (validateHostDriver h silent w))))"
  using assms
  by (auto simp: runValidation_def op_defs is_ok_iff split: prod.splits outcome.splits if_splits)

lemma createStatusFile_files:
  assumes "fs_law files h" and "cfg_outputDir cfg \<noteq> []"
    and "createStatusFile h cfg info w = (r, w')"
  shows "files w' (PathJoin [cfg_outputDir cfg, driverReadyFile]) =
     (if is_ok r then Some (statusFileContent info) else files w (PathJoin [cfg_outputDir cfg, driverReadyFile]))"
  using createStatus_outcome [OF assms(1) driverReady_not_temp [OF assms(2)], where content = "statusFileContent info" and w = w] assms(3)
  by (cases r) (auto simp: createStatusFile_def)

lemma validateDriver_written:
  assumes fs: "fs_law files h" and out: "cfg_outputDir cfg \<noteq> []" and run: "validateDriver h n cfg w = (Ok u, w')"
  shows "files w' (PathJoin [cfg_outputDir cfg, driverReadyFile]) \<in>
     {Some (statusFileContent hostDriver), Some (statusFileContent containerDriver)}"
proof -
  obtain info v1 v2 where val: "runValidation h n cfg False v1 = (Ok info, v2)"
      and new: "createStatusFile h cfg info v2 = (Ok u, w')"
    using run unfolding validateDriver_def by (elim bind_OkE)
  show ?thesis using createStatusFile_files [OF fs out new] runValidation_sound [OF val] by (auto split: if_splits)
qed

section \<open>Properties\<close>

text \<open>
  C33: The status file \<open>driver-ready\<close> is never a lie.  The command \<open>driver\<close> removes it first.  When the
  command succeeds, the file describes the driver that was found: that of the host when the checks of
  the host pass, and that of the container otherwise, and then the checks of the container have passed.
  When the command fails or still waits, there is no such file, unless the old one could not be removed.
\<close>

theorem driver_ready_sound:
  assumes fs: "fs_law files h" and look: "looking_law files p h" and ask: "asking_law files p h"
    and cfg: "valid_config cfg" and p: "p = PathJoin [cfg_outputDir cfg, driverReadyFile]"
  shows "let w1 = snd (ensureOutputDir h (cfg_outputDir cfg) (snd (deleteStatusFile h p w)));
             host = validateHostDriver h False w1
         in case validateDriver h n cfg w of
      (Ok _, w') \<Rightarrow> if is_ok (fst host) then files w' p = Some (statusFileContent hostDriver)
        else files w' p = Some (statusFileContent containerDriver) \<and>
          is_ok (fst (validateDriverContainer h n (cfg_namespace cfg) (cfg_outputDir cfg) (cfg_withWait cfg)
            (cfg_sleepIntervalSeconds cfg) False (snd host)))
    | (_, w') \<Rightarrow> files w' p = (if is_ok (fst (deleteStatusFile h p w)) then None else files w p)"
proof -
  obtain r0 w0 where del: "deleteStatusFile h p w = (r0, w0)" by fastforce
  obtain r1 w1 where dir: "ensureOutputDir h (cfg_outputDir cfg) w0 = (r1, w1)" by fastforce
  obtain r2 w2 where run: "runValidation h n cfg False w1 = (r2, w2)" by fastforce
  have f0: "if is_ok r0 then files w0 = (files w)(p := None) else files w0 = files w"
    by (rule deleteStatusFile_files [OF fs del])
  have f1: "files w1 = files w0" using ensureOutputDir_files [OF fs, of "cfg_outputDir cfg" w0] dir by simp
  have f2: "files w2 p = files w1 p" by (rule keepsD [OF keeps_runValidation [OF look ask] run])
  have out: "cfg_outputDir cfg \<noteq> []" using cfg by (simp add: valid_config_def)
  note steps = validateDriver_def bind_def del [unfolded p] dir run
  show ?thesis
  proof (cases "is_ok r0 \<and> is_ok r1 \<and> is_ok r2")
    case True
    then obtain info where ok: "r0 = Ok ()" "r1 = Ok ()" "r2 = Ok info" by (auto simp: is_ok_iff)
    obtain r3 w3 where create: "createStatusFile h cfg info w2 = (r3, w3)" by fastforce
    have "validateDriver h n cfg w = (r3, w3)" using ok create by (simp add: steps)
    then show ?thesis
      using createStatusFile_files [OF fs out create] runValidation_sound [OF run [unfolded ok]] f0 f1 f2 ok del dir p
      by (cases r3) (auto simp: Let_def split: if_splits)
  next
    case False
    then have "\<exists>r' w'. validateDriver h n cfg w = (r', w') \<and> \<not> is_ok r' \<and> files w' p = files w0 p"
      using f1 f2 by (cases r0; cases r1; cases r2) (simp_all add: steps)
    then show ?thesis using f0 del by (auto simp: Let_def split: outcome.splits if_splits)
  qed
qed

text \<open>A host with a driver and a stale status file; it cannot reach the cluster.\<close>

definition mem_cluster_host :: "file_map cluster_host" where
  "mem_cluster_host = host.extend (mem_host [] []) (cluster_host.fields
     (\<lambda>w. (Inl (Errorf ''not in a cluster''), w)) (\<lambda>w. (Inr (), w)) (\<lambda>_ w. (Inr [], w)))"

definition mem_config :: config where
  "mem_config = \<lparr>cfg_namespace = ''rbln'', cfg_outputDir = ''/run'', cfg_withWait = False, cfg_sleepIntervalSeconds = 5\<rparr>"

definition mem_files :: file_map where
  "mem_files = (\<lambda>_. None)(''/host-usr-bin/rbln-smi'' := Some ''ELF'', ''/run/driver-ready'' := Some ''stale'')"

lemma extend_laws:
  "fs_law files (host.extend r m) = fs_law files r"
  "looking_law files p (host.extend r m) = looking_law files p r"
  by (simp_all add: fs_laws looking_law_def host.extend_def)

lemma mem_cluster_laws:
  "fs_law (\<lambda>w. w) mem_cluster_host" "looking_law (\<lambda>w. w) p mem_cluster_host" "asking_law (\<lambda>w. w) p mem_cluster_host"
  unfolding mem_cluster_host_def extend_laws
  by (rule mem_host_law, rule mem_host_looking, simp add: asking_law_def spares_def host.extend_def cluster_host.fields_def)

lemma mem_config_valid: "valid_config mem_config"
  by code_simp

lemma mem_cluster_runs:
  "PathJoin [cfg_outputDir mem_config, driverReadyFile] = ''/run/driver-ready''"
  "fst (validateDriver mem_cluster_host 1 mem_config mem_files) = Ok ()"
  by code_simp+

lemma mem_cluster_host_driver:
  "is_ok (fst (validateHostDriver mem_cluster_host False (snd (ensureOutputDir mem_cluster_host (cfg_outputDir mem_config)
     (snd (deleteStatusFile mem_cluster_host ''/run/driver-ready'' mem_files))))))"
  by code_simp

theorem driver_ready_sound_witness:
  "snd (validateDriver mem_cluster_host 1 mem_config mem_files) ''/run/driver-ready'' = Some (statusFileContent hostDriver)"
  using driver_ready_sound [OF mem_cluster_laws mem_config_valid refl, where n = 1 and w = mem_files]
    mem_cluster_runs mem_cluster_host_driver
  by (simp add: Let_def split: prod.splits)

end
