(* ===== verification/Validator_Toolkit.thy ===== *)
theory Validator_Toolkit
  imports Validator_Driver
begin

text \<open>
  \<open>cmd/rbln-validator/toolkit.go\<close>: the command \<open>toolkit\<close> of the node validator, which waits for the
  driver's status file and for a CDI specification of the toolkit, and writes the status file
  \<open>toolkit-ready\<close>.
\<close>

abbreviation toolkitReadyFile :: string where "toolkitReadyFile \<equiv> ''toolkit-ready''"
abbreviation cdiRootPath :: string where "cdiRootPath \<equiv> ''/var/run/cdi''"

definition isRblnSpec :: "DirEntry \<Rightarrow> bool" where
  "isRblnSpec entry \<longleftrightarrow> \<not> de_IsDir entry \<and> Contains (ToLower (de_Name entry)) ''rbln''"

text \<open>
  The loop over the entries of the directory, with the newest specification so far: its path, empty
  for none, and its time.
\<close>

fun newestSpec :: "('w, 'm) host_scheme \<Rightarrow> DirEntry list \<Rightarrow> string \<Rightarrow> nat \<Rightarrow> ('w, string \<times> nat) op" where
  "newestSpec h [] newestSpecPath newestSpecTime = ret (newestSpecPath, newestSpecTime)"
| "newestSpec h (entry # entries) newestSpecPath newestSpecTime =
     (if \<not> isRblnSpec entry then newestSpec h entries newestSpecPath newestSpecTime
      else (let path = PathJoin [cdiRootPath, de_Name entry] in
        bind (catch (call (h_Lstat h path)) (\<lambda>e. fail (Wrap (''failed to stat '' @ path @ '': '') e))) (\<lambda>info.
          if fi_Size info = 0 then newestSpec h entries newestSpecPath newestSpecTime
          else if newestSpecPath = [] \<or> newestSpecTime < fi_ModTime info
          then newestSpec h entries path (fi_ModTime info)
          else newestSpec h entries newestSpecPath newestSpecTime)))"

text \<open>A stale specification is reported and accepted.\<close>

definition checkReady :: "('w, 'm) host_scheme \<Rightarrow> config \<Rightarrow> ('w, unit) op" where
  "checkReady h cfg =
     (let driverReadyPath = PathJoin [cfg_outputDir cfg, driverReadyFile] in
      bind (catch (call (h_Stat h driverReadyPath))
              (\<lambda>e. fail (Wrap (''failed to stat '' @ driverReadyPath @ '': '') e))) (\<lambda>driverReadyInfo.
      bind (catch (call (h_ReadDir h cdiRootPath))
              (\<lambda>e. fail (Wrap (''failed to read '' @ cdiRootPath @ '': '') e))) (\<lambda>entries.
      bind (newestSpec h entries [] 0) (\<lambda>(newestSpecPath, newestSpecTime).
      if newestSpecPath = [] then fail (Errorf (''no rbln cdi spec found in '' @ cdiRootPath))
      else if newestSpecTime < fi_ModTime driverReadyInfo then ret ()
      else ret ()))))"

definition validateToolkit :: "('w, 'm) host_scheme \<Rightarrow> nat \<Rightarrow> config \<Rightarrow> ('w, unit) op" where
  "validateToolkit h n cfg =
     seqE [
       deleteStatusFile h (PathJoin [cfg_outputDir cfg, toolkitReadyFile]),
       ensureOutputDir h (cfg_outputDir cfg),
       (if cfg_withWait cfg then waitFor n (h_Sleep h (durationSeconds (cfg_sleepIntervalSeconds cfg))) (checkReady h cfg)
        else checkReady h cfg),
       recreateStatusFile h (cfg_outputDir cfg) toolkitReadyFile]"

definition toolkitCommand :: "('w, 'm) host_scheme \<Rightarrow> nat \<Rightarrow> flags \<Rightarrow> ('w, unit) op" where
  "toolkitCommand h n f =
     (case finalize (bindFlags f (newConfigBuilder (h_environ h))) of
        Inl e \<Rightarrow> fail e
      | Inr cfg \<Rightarrow> validateToolkit h n cfg)"

section \<open>Lemmas\<close>

lemma keeps_newestSpec [keeps_intros]: "looking_law files p h \<Longrightarrow> keeps files p (newestSpec h es path t)"
  by (induction es arbitrary: path t) (auto simp: Let_def intro!: keeps_intros)

lemma keeps_checkReady [keeps_intros]: "looking_law files p h \<Longrightarrow> keeps files p (checkReady h cfg)"
  unfolding checkReady_def Let_def by (auto intro!: keeps_intros)

lemma recreateStatusFile_creates:
  assumes "fs_law files h" and "recreateStatusFile h dir nm w = (r, w')"
  shows "is_ok r \<longrightarrow> files w' (PathJoin [dir, nm]) = Some []"
  using recreateStatusFile_files [OF assms(1)] assms(2) by (auto simp: is_ok_iff)

text \<open>The command leaves every file but its own alone.\<close>

lemma fs_spares [keeps_intros]:
  assumes "fs_law files h"
  shows "q \<noteq> p \<Longrightarrow> spares files q (\<lambda>w. snd (h_Remove h p w))" "q \<noteq> p \<Longrightarrow> spares files q (\<lambda>w. snd (h_Create h p w))"
    "spares files q (\<lambda>w. snd (h_MkdirAll h p w))" "spares files q (\<lambda>w. snd (h_Close h p w))"
proof -
  have "files (snd (h_Remove h p w)) q = files w q" if "q \<noteq> p" for w
    using that fs_lawD(1,2) [OF assms, of p w] by (cases "h_Remove h p w"; cases "fst (h_Remove h p w)") auto
  then show "q \<noteq> p \<Longrightarrow> spares files q (\<lambda>w. snd (h_Remove h p w))" by (simp add: spares_def)
  have "files (snd (h_Create h p w)) q = files w q" if "q \<noteq> p" for w
    using that fs_lawD(4,5) [OF assms, of p w] by (cases "h_Create h p w"; cases "fst (h_Create h p w)") auto
  then show "q \<noteq> p \<Longrightarrow> spares files q (\<lambda>w. snd (h_Create h p w))" by (simp add: spares_def)
qed (simp_all add: spares_def fs_lawD(3,10) [OF assms])

lemma keeps_validateToolkit:
  assumes "fs_law files h" and "looking_law files q h" and "q \<noteq> PathJoin [cfg_outputDir cfg, toolkitReadyFile]"
  shows "keeps files q (validateToolkit h n cfg)"
  unfolding validateToolkit_def deleteStatusFile_def ensureOutputDir_def recreateStatusFile_def seqE.simps Let_def
  using assms by (auto intro!: keeps_intros)

text \<open>The output directory without a flag and a variable for it.\<close>

lemma default_outputDir:
  assumes "finalize (bindFlags f (newConfigBuilder environ)) = Inr cfg"
    and "fl_outputDir f = None" and "TrimSpace (Getenv environ envOutputDir) = []"
  shows "cfg_outputDir cfg = ''/run/rbln/validations''"
proof -
  have "TrimSpace ''/run/rbln/validations'' = ''/run/rbln/validations''"
    by (rule TrimSpace_trimmed, rule trimmed_visible) (simp_all add: visible_def)
  then show ?thesis
    using assms by (simp add: finalize_Inr_iff bindFlags_def newConfigBuilder_def envString_def)
qed

lemma default_paths:
  "PathJoin [''/run/rbln/validations'', driverReadyFile] = ''/run/rbln/validations/driver-ready''"
  "PathJoin [''/run/rbln/validations'', toolkitReadyFile] = ''/run/rbln/validations/toolkit-ready''"
  by code_simp+

text \<open>A host whose answers to looking are functions of its state, and leave the state alone.\<close>

definition observing :: "('w, 'm) host_scheme \<Rightarrow> bool" where
  "observing h \<longleftrightarrow> (\<forall>q w. snd (h_Stat h q w) = w) \<and> (\<forall>q w. snd (h_Lstat h q w) = w) \<and> (\<forall>q w. snd (h_ReadDir h q w) = w)"

definition specInfo :: "('w, 'm) host_scheme \<Rightarrow> 'w \<Rightarrow> DirEntry \<Rightarrow> error + FileInfo" where
  "specInfo h w entry = fst (h_Lstat h (PathJoin [cdiRootPath, de_Name entry]) w)"

definition usableSpec :: "('w, 'm) host_scheme \<Rightarrow> 'w \<Rightarrow> DirEntry \<Rightarrow> bool" where
  "usableSpec h w entry \<longleftrightarrow> isRblnSpec entry \<and> (case specInfo h w entry of Inl _ \<Rightarrow> False | Inr info \<Rightarrow> fi_Size info \<noteq> 0)"

lemma Clean_nonempty: "Clean p \<noteq> []"
  using Clean_render [of p] Join_nonempty [of "path_parts p" "''/''"] normal_parts [OF path_parts_normal [of p]]
  by (auto simp: render_def split: if_splits)

lemma specPath_nonempty: "PathJoin [cdiRootPath, nm] \<noteq> []"
  using Clean_nonempty by (auto simp: PathJoin_def)

lemma newestSpec_step:
  assumes obs: "observing h"
  shows "if isRblnSpec e \<and> isl (specInfo h w e) then \<exists>err. newestSpec h (e # es) path t w = (Err err, w)
     else \<exists>path' t'. newestSpec h (e # es) path t w = newestSpec h es path' t' w \<and>
       (path' = [] \<longleftrightarrow> path = [] \<and> \<not> usableSpec h w e)"
proof -
  have l: "h_Lstat h (PathJoin [cdiRootPath, de_Name e]) w = (specInfo h w e, w)"
    using obs by (simp add: observing_def specInfo_def prod_eq_iff)
  show ?thesis
  proof (cases "isRblnSpec e")
    case True
    show ?thesis
    proof (cases "specInfo h w e")
      case (Inr info)
      then have "newestSpec h (e # es) path t w =
          (if fi_Size info \<noteq> 0 \<and> (path = [] \<or> t < fi_ModTime info)
           then newestSpec h es (PathJoin [cdiRootPath, de_Name e]) (fi_ModTime info) w else newestSpec h es path t w)"
        using True l by (simp add: Let_def bind_def wrapped_eq)
      moreover have "usableSpec h w e \<longleftrightarrow> fi_Size info \<noteq> 0" using True Inr by (simp add: usableSpec_def)
      ultimately show ?thesis using Inr specPath_nonempty [of "de_Name e"] by (auto split: if_splits)
    qed (use True l in \<open>simp add: Let_def bind_def wrapped_eq\<close>)
  qed (auto simp: usableSpec_def)
qed

lemma newestSpec_result:
  assumes obs: "observing h"
  shows "if \<exists>e\<in>set es. isRblnSpec e \<and> isl (specInfo h w e) then \<exists>err. newestSpec h es path t w = (Err err, w)
     else \<exists>path' t'. newestSpec h es path t w = (Ok (path', t'), w) \<and> (path' = [] \<longleftrightarrow> path = [] \<and> \<not> list_ex (usableSpec h w) es)"
proof (induction es arbitrary: path t)
  case (Cons e es)
  show ?case
  proof (cases "isRblnSpec e \<and> isl (specInfo h w e)")
    case False
    then obtain path' t' where step: "newestSpec h (e # es) path t w = newestSpec h es path' t' w"
        "path' = [] \<longleftrightarrow> path = [] \<and> \<not> usableSpec h w e"
      using newestSpec_step [OF obs, of e w es path t] unfolding if_not_P [OF False] by blast
    have "(\<exists>x\<in>set (e # es). isRblnSpec x \<and> isl (specInfo h w x)) \<longleftrightarrow> (\<exists>x\<in>set es. isRblnSpec x \<and> isl (specInfo h w x))"
        "path = [] \<and> \<not> list_ex (usableSpec h w) (e # es) \<longleftrightarrow> path' = [] \<and> \<not> list_ex (usableSpec h w) es"
      using False step(2) by auto
    then show ?thesis unfolding step(1) by (simp only:) (rule Cons.IH)
  qed (use newestSpec_step [OF obs, of e w es path t] in auto)
qed (simp add: ret_def)

section \<open>Properties\<close>

text \<open>A host with a driver, a specification and an empty file.\<close>

definition toolkit_host :: "file_map host" where
  "toolkit_host = mem_host [] [\<lparr>de_Name = ''old-RBLN.json'', de_IsDir = False\<rparr>, \<lparr>de_Name = ''rbln.yaml'', de_IsDir = False\<rparr>]"

definition toolkit_files :: file_map where
  "toolkit_files = (\<lambda>_. None)(''/run/driver-ready'' := Some ''x'', ''/var/run/cdi/old-RBLN.json'' := Some [],
     ''/var/run/cdi/rbln.yaml'' := Some ''kind: rbln'')"

lemma toolkit_host_laws:
  "fs_law (\<lambda>w. w) toolkit_host" "looking_law (\<lambda>w. w) p toolkit_host" "observing toolkit_host"
  unfolding toolkit_host_def
  by (rule mem_host_law, rule mem_host_looking, simp add: observing_def mem_host_def split: option.splits)

lemma toolkit_host_runs:
  "PathJoin [cfg_outputDir mem_config, toolkitReadyFile] = ''/run/toolkit-ready''"
  "fst (validateToolkit toolkit_host 1 mem_config toolkit_files) = Ok ()"
  by code_simp+

text \<open>
  When the check of the toolkit succeeds.  The times of the files only choose a message: a specification that is older
  than \<open>driver-ready\<close> is reported as stale and accepted.
\<close>

lemma checkReady_iff:
  assumes "observing h"
  shows "is_ok (fst (checkReady h cfg w)) \<longleftrightarrow>
     \<not> isl (fst (h_Stat h (PathJoin [cfg_outputDir cfg, driverReadyFile]) w)) \<and>
     (case fst (h_ReadDir h cdiRootPath w) of Inl _ \<Rightarrow> False
      | Inr entries \<Rightarrow> (\<exists>e\<in>set entries. usableSpec h w e) \<and> (\<forall>e\<in>set entries. isRblnSpec e \<longrightarrow> \<not> isl (specInfo h w e)))"
proof -
  obtain s where s: "h_Stat h (PathJoin [cfg_outputDir cfg, driverReadyFile]) w = (s, w)"
    using assms by (metis observing_def prod.collapse)
  obtain d where d: "h_ReadDir h cdiRootPath w = (d, w)" using assms by (metis observing_def prod.collapse)
  show ?thesis
  proof (cases d)
    case (Inr entries)
    show ?thesis
      using newestSpec_result [OF assms, of entries w "[]" 0] s d Inr
      by (cases s) (auto simp: checkReady_def Let_def bind_def wrapped_eq list_ex_iff op_defs split: if_splits)
  qed (cases s, use s d in \<open>auto simp: checkReady_def Let_def bind_def wrapped_eq\<close>)
qed

text \<open>A specification that is at least as new as the driver.\<close>

definition currentSpec :: "('w, 'm) host_scheme \<Rightarrow> FileInfo \<Rightarrow> 'w \<Rightarrow> DirEntry \<Rightarrow> bool" where
  "currentSpec h driverReadyInfo w entry \<longleftrightarrow> usableSpec h w entry \<and>
     (case specInfo h w entry of Inl _ \<Rightarrow> False | Inr info \<Rightarrow> fi_ModTime driverReadyInfo \<le> fi_ModTime info)"

text \<open>
  C38: The check of the toolkit succeeds when the file \<open>driver-ready\<close> exists, the CDI directory can be read and has a
  specification of the toolkit, a file with \<open>rbln\<close> in its name, that is not empty and not older than
  \<open>driver-ready\<close>, and the status of all specifications of the toolkit can be read.  When it succeeds, the file
  \<open>driver-ready\<close> exists, there is a specification of the toolkit that is not empty, and the status of all can be read.
\<close>

theorem checkReady_correct:
  assumes "observing h"
  shows "((\<exists>info entries. fst (h_Stat h (PathJoin [cfg_outputDir cfg, driverReadyFile]) w) = Inr info \<and>
        fst (h_ReadDir h cdiRootPath w) = Inr entries \<and> (\<exists>e\<in>set entries. currentSpec h info w e) \<and>
        (\<forall>e\<in>set entries. isRblnSpec e \<longrightarrow> \<not> isl (specInfo h w e))) \<longrightarrow> is_ok (fst (checkReady h cfg w))) \<and>
     (is_ok (fst (checkReady h cfg w)) \<longrightarrow>
        (\<exists>info entries. fst (h_Stat h (PathJoin [cfg_outputDir cfg, driverReadyFile]) w) = Inr info \<and>
        fst (h_ReadDir h cdiRootPath w) = Inr entries \<and> (\<exists>e\<in>set entries. usableSpec h w e) \<and>
        (\<forall>e\<in>set entries. isRblnSpec e \<longrightarrow> \<not> isl (specInfo h w e))))"
  unfolding checkReady_iff [OF assms] currentSpec_def
  by (cases "fst (h_ReadDir h cdiRootPath w)";
      cases "fst (h_Stat h (PathJoin [cfg_outputDir cfg, driverReadyFile]) w)") auto

theorem checkReady_correct_witness: "is_ok (fst (checkReady toolkit_host mem_config toolkit_files))"
proof -
  have stat: "\<exists>info. fst (h_Stat toolkit_host (PathJoin [cfg_outputDir mem_config, driverReadyFile]) toolkit_files) = Inr info \<and>
      fi_ModTime info = 0"
    by (simp add: mem_cluster_runs(1)) (simp add: toolkit_host_def mem_host_def toolkit_files_def)
  let ?es = "[\<lparr>de_Name = ''old-RBLN.json'', de_IsDir = False\<rparr>, \<lparr>de_Name = ''rbln.yaml'', de_IsDir = False\<rparr>]"
  have dir: "fst (h_ReadDir toolkit_host cdiRootPath toolkit_files) = Inr ?es"
    by (simp add: toolkit_host_def mem_host_def)
  have spec: "usableSpec toolkit_host toolkit_files \<lparr>de_Name = ''rbln.yaml'', de_IsDir = False\<rparr>"
    "list_all (\<lambda>e. \<not> isl (specInfo toolkit_host toolkit_files e)) ?es" by code_simp+
  then have "currentSpec toolkit_host info toolkit_files \<lparr>de_Name = ''rbln.yaml'', de_IsDir = False\<rparr>" if "fi_ModTime info = 0" for info
    using that by (auto simp: currentSpec_def usableSpec_def split: sum.splits)
  then show ?thesis
    using checkReady_correct [OF toolkit_host_laws(3), of mem_config toolkit_files] stat dir spec(2) by (fastforce simp: list_all_iff)
qed

text \<open>
  C34: The status file \<open>toolkit-ready\<close> appears only after a check that has succeeded.  The command \<open>toolkit\<close>
  removes it first; when the command succeeds, the check has succeeded and the file exists; when the
  directory cannot be made, or the check fails or still waits, there is no such file, unless the old one
  could not be removed.
\<close>

theorem toolkit_ready_sound:
  assumes fs: "fs_law files h" and look: "looking_law files p h"
    and p: "p = PathJoin [cfg_outputDir cfg, toolkitReadyFile]"
  shows "let deleted = deleteStatusFile h p w;
             made = ensureOutputDir h (cfg_outputDir cfg) (snd deleted);
             check = (if cfg_withWait cfg
               then waitFor n (h_Sleep h (durationSeconds (cfg_sleepIntervalSeconds cfg))) (checkReady h cfg)
               else checkReady h cfg) (snd made)
         in case validateToolkit h n cfg w of
      (Ok _, w') \<Rightarrow> is_ok (fst check) \<and> files w' p = Some []
    | (_, w') \<Rightarrow> if is_ok (fst deleted) then is_ok (fst made) \<and> is_ok (fst check) \<or> files w' p = None
        else files w' p = files w p"
proof -
  obtain r0 w0 where del: "deleteStatusFile h p w = (r0, w0)" by fastforce
  obtain r1 w1 where dir: "ensureOutputDir h (cfg_outputDir cfg) w0 = (r1, w1)" by fastforce
  let ?check = "if cfg_withWait cfg
               then waitFor n (h_Sleep h (durationSeconds (cfg_sleepIntervalSeconds cfg))) (checkReady h cfg)
               else checkReady h cfg"
  obtain r2 w2 where run: "?check w1 = (r2, w2)" by fastforce
  have f0: "if is_ok r0 then files w0 = (files w)(p := None) else files w0 = files w"
    by (rule deleteStatusFile_files [OF fs del])
  have f1: "files w1 = files w0" using ensureOutputDir_files [OF fs, of "cfg_outputDir cfg" w0] dir by simp
  have "keeps files p ?check" using look by (auto intro!: keeps_intros)
  then have f2: "files w2 p = files w1 p" using run by (rule keepsD)
  obtain r3 w3 where new: "recreateStatusFile h (cfg_outputDir cfg) toolkitReadyFile w2 = (r3, w3)" by fastforce
  have f3: "is_ok r3 \<longrightarrow> files w3 p = Some []" using recreateStatusFile_creates [OF fs new] p by simp
  have "validateToolkit h n cfg w = (if is_ok r0 then if is_ok r1 then if is_ok r2 then (r3, w3) else (r2, w2) else (r1, w1) else (r0, w0))"
    unfolding validateToolkit_def
    by (cases r0; cases r1; cases r2; cases r3) (simp_all add: bind_def ret_def del [unfolded p] dir run new)
  then show ?thesis
    using f0 f1 f2 f3 del dir run
    by (cases r0; cases r1; cases r2; cases r3) (simp_all add: Let_def split: if_splits)
qed

theorem toolkit_ready_sound_witness:
  "snd (validateToolkit toolkit_host 1 mem_config toolkit_files) ''/run/toolkit-ready'' = Some []"
  using toolkit_ready_sound [OF toolkit_host_laws(1,2) refl, where cfg = mem_config and n = 1 and w = toolkit_files]
    toolkit_host_runs
  by (simp add: Let_def split: prod.splits)

end
