(* ===== verification/Vfio_Script.thy ===== *)
theory Vfio_Script
  imports Go_Strings
begin

text \<open>
  The script \<open>vfio-manage.sh\<close>, which \<open>vfio_manager.go\<close> deploys in a ConfigMap and the VFIO manager and the
  sandbox device plugin run on the nodes: it binds the NPUs to the driver \<open>vfio-pci\<close>, unbinds them,
  and checks that they are bound.

  The script runs with \<open>set -e\<close>: a command that fails ends it, except in a condition.  What it prints is not
  modelled.  A device is named by its PCI address, which the shell does not split or expand.
\<close>

section \<open>The shell and the PCI bus\<close>

text \<open>A function returns a value, or the script has ended with a status.\<close>

datatype 'a shell_result = Value 'a | Exit nat

type_synonym ('w, 'a) shell = "'w \<Rightarrow> 'a shell_result \<times> 'w"

definition shvalue :: "'a \<Rightarrow> ('w, 'a) shell" where
  "shvalue x = (\<lambda>w. (Value x, w))"

definition shexit :: "nat \<Rightarrow> ('w, 'a) shell" where
  "shexit n = (\<lambda>w. (Exit n, w))"

definition shbind :: "('w, 'a) shell \<Rightarrow> ('a \<Rightarrow> ('w, 'b) shell) \<Rightarrow> ('w, 'b) shell" where
  "shbind m f = (\<lambda>w. case m w of (Value x, w') \<Rightarrow> f x w' | (Exit n, w') \<Rightarrow> (Exit n, w'))"

text \<open>A command outside of conditions: the script ends when it fails.\<close>

definition errexit :: "('w \<Rightarrow> bool \<times> 'w) \<Rightarrow> ('w, unit) shell" where
  "errexit command = (\<lambda>w. case command w of (ok, w') \<Rightarrow> (if ok then Value () else Exit 1, w'))"

text \<open>
  The files below \<open>/sys/bus/pci\<close>.  The entries of \<open>devices\<close>; the files \<open>vendor\<close> and \<open>class\<close> of a device,
  \<open>None\<close> when there is no such file; the name of the driver that the link \<open>driver\<close> leads to; the writes to
  \<open>unbind\<close> of a driver, to \<open>driver_override\<close> of a device and to \<open>bind\<close> of \<open>vfio-pci\<close>, with whether they
  succeed; and \<open>modprobe vfio-pci\<close>.
\<close>

record 'w sysfs =
  sy_devices :: "'w \<Rightarrow> string list"
  sy_vendor :: "string \<Rightarrow> 'w \<Rightarrow> string option"
  sy_class :: "string \<Rightarrow> 'w \<Rightarrow> string option"
  sy_driver :: "string \<Rightarrow> 'w \<Rightarrow> string option"
  sy_unbind :: "string \<Rightarrow> string \<Rightarrow> 'w \<Rightarrow> bool \<times> 'w"
  sy_override :: "string \<Rightarrow> string \<Rightarrow> 'w \<Rightarrow> bool \<times> 'w"
  sy_bind :: "string \<Rightarrow> 'w \<Rightarrow> bool \<times> 'w"
  sy_modprobe :: "'w \<Rightarrow> bool \<times> 'w"

abbreviation vfio_pci :: string where "vfio_pci \<equiv> ''vfio-pci''"

section \<open>The functions of the script\<close>

definition usage :: "('w, 'a) shell" where
  "usage = shexit 0"

definition unbind_from_driver :: "'w sysfs \<Rightarrow> string \<Rightarrow> ('w, unit) shell" where
  "unbind_from_driver k npu = (\<lambda>w.
     case sy_driver k npu w of
       None \<Rightarrow> (Value (), w)
     | Some existing_driver_name \<Rightarrow>
         shbind (errexit (sy_unbind k existing_driver_name npu)) (\<lambda>_. errexit (sy_override k npu [])) w)"

definition unbind_from_other_driver :: "'w sysfs \<Rightarrow> string \<Rightarrow> ('w, unit) shell" where
  "unbind_from_other_driver k npu = (\<lambda>w.
     case sy_driver k npu w of
       None \<Rightarrow> (Value (), w)
     | Some existing_driver_name \<Rightarrow>
         if existing_driver_name = vfio_pci then (Value (), w)
         else shbind (errexit (sy_unbind k existing_driver_name npu)) (\<lambda>_. errexit (sy_override k npu [])) w)"

text \<open>Called in conditions only, so that a missing file is no error but no match.\<close>

definition is_target_npu_device :: "'w sysfs \<Rightarrow> string \<Rightarrow> 'w \<Rightarrow> bool" where
  "is_target_npu_device k npu w \<longleftrightarrow> (case sy_class k npu w of None \<Rightarrow> False | Some c \<Rightarrow> c \<in> set [''0x120000''])"

definition is_bound_to_vfio :: "'w sysfs \<Rightarrow> string \<Rightarrow> 'w \<Rightarrow> bool" where
  "is_bound_to_vfio k npu w \<longleftrightarrow> (case sy_driver k npu w of None \<Rightarrow> False | Some d \<Rightarrow> d = vfio_pci)"

definition unbind_device :: "'w sysfs \<Rightarrow> string \<Rightarrow> ('w, unit) shell" where
  "unbind_device k npu = (\<lambda>w. if \<not> is_target_npu_device k npu w then (Value (), w) else unbind_from_driver k npu w)"

text \<open>
  The loops of \<open>bind_all\<close> and \<open>unbind_all\<close>.  The pattern \<open>devices/*\<close> stands for itself when it matches nothing,
  and \<open>read\<close> fails on a file that does not exist.
\<close>

definition glob_devices :: "'w sysfs \<Rightarrow> 'w \<Rightarrow> string list" where
  "glob_devices k w = (if sy_devices k w = [] then [''*''] else sy_devices k w)"

fun for_devices :: "'w sysfs \<Rightarrow> (string \<Rightarrow> ('w, unit) shell) \<Rightarrow> string list \<Rightarrow> ('w, unit) shell" where
  "for_devices k act [] = shvalue ()"
| "for_devices k act (dev # devs) = (\<lambda>w.
     case sy_vendor k dev w of
       None \<Rightarrow> (Exit 1, w)
     | Some vendor \<Rightarrow>
         shbind (if vendor = ''0x1eff'' then act dev else shvalue ()) (\<lambda>_. for_devices k act devs) w)"

definition unbind_all :: "'w sysfs \<Rightarrow> ('w, unit) shell" where
  "unbind_all k = (\<lambda>w. for_devices k (unbind_device k) (glob_devices k w) w)"

definition bind_pci_device :: "'w sysfs \<Rightarrow> string \<Rightarrow> ('w, unit) shell" where
  "bind_pci_device k npu = (\<lambda>w.
     if \<not> is_bound_to_vfio k npu w
     then shbind (unbind_from_other_driver k npu) (\<lambda>_.
          shbind (errexit (sy_override k npu vfio_pci)) (\<lambda>_.
          errexit (sy_bind k npu))) w
     else (Value (), w))"

definition bind_device :: "'w sysfs \<Rightarrow> string \<Rightarrow> ('w, unit) shell" where
  "bind_device k npu = (\<lambda>w. if \<not> is_target_npu_device k npu w then (Value (), w) else bind_pci_device k npu w)"

definition bind_all :: "'w sysfs \<Rightarrow> ('w, unit) shell" where
  "bind_all k = (\<lambda>w. for_devices k (bind_device k) (glob_devices k w) w)"

text \<open>The checks only look; they give the status they return.\<close>

definition check_bind_device :: "'w sysfs \<Rightarrow> string \<Rightarrow> 'w \<Rightarrow> nat" where
  "check_bind_device k npu w =
     (if \<not> is_target_npu_device k npu w then 0 else if is_bound_to_vfio k npu w then 0 else 1)"

definition is_rebellions_npu :: "'w sysfs \<Rightarrow> string \<Rightarrow> 'w \<Rightarrow> bool" where
  "is_rebellions_npu k dev w \<longleftrightarrow>
     (case sy_vendor k dev w of None \<Rightarrow> False | Some vendor \<Rightarrow> vendor = ''0x1eff'' \<and> is_target_npu_device k dev w)"

fun count_devices :: "'w sysfs \<Rightarrow> 'w \<Rightarrow> string list \<Rightarrow> nat \<Rightarrow> nat" where
  "count_devices k w [] n = n"
| "count_devices k w (dev # devs) n = count_devices k w devs (if is_rebellions_npu k dev w then n + 1 else n)"

fun all_bound :: "'w sysfs \<Rightarrow> 'w \<Rightarrow> string list \<Rightarrow> bool \<Rightarrow> bool" where
  "all_bound k w [] b = b"
| "all_bound k w (dev # devs) b =
     all_bound k w devs (if is_rebellions_npu k dev w then (if \<not> is_bound_to_vfio k dev w then False else b) else b)"

definition check_bind_all :: "'w sysfs \<Rightarrow> 'w \<Rightarrow> nat" where
  "check_bind_all k w =
     (if count_devices k w (glob_devices k w) 0 = 0 then 0
      else if all_bound k w (glob_devices k w) True then 0 else 1)"

definition handle_bind :: "'w sysfs \<Rightarrow> string \<Rightarrow> bool \<Rightarrow> ('w, unit) shell" where
  "handle_bind k DEVICE_ID ALL_DEVICES =
     shbind (errexit (sy_modprobe k)) (\<lambda>_.
       if DEVICE_ID \<noteq> [] then bind_device k DEVICE_ID else if ALL_DEVICES then bind_all k else usage)"

definition handle_unbind :: "'w sysfs \<Rightarrow> string \<Rightarrow> bool \<Rightarrow> ('w, unit) shell" where
  "handle_unbind k DEVICE_ID ALL_DEVICES =
     (if DEVICE_ID \<noteq> [] then unbind_device k DEVICE_ID else if ALL_DEVICES then unbind_all k else usage)"

definition handle_check_bind :: "'w sysfs \<Rightarrow> string \<Rightarrow> bool \<Rightarrow> ('w, unit) shell" where
  "handle_check_bind k DEVICE_ID ALL_DEVICES = (\<lambda>w.
     if DEVICE_ID \<noteq> [] then (Exit (check_bind_device k DEVICE_ID w), w)
     else if ALL_DEVICES then (Exit (check_bind_all k w), w) else usage w)"

text \<open>The loop over the options: the status with which it ends the script, or the device and \<open>--all\<close>.\<close>

fun parse_options :: "string list \<Rightarrow> string \<Rightarrow> bool \<Rightarrow> nat + (string \<times> bool)" where
  "parse_options [] DEVICE_ID ALL_DEVICES = Inr (DEVICE_ID, ALL_DEVICES)"
| "parse_options (arg # args) DEVICE_ID ALL_DEVICES =
     (if arg = ''-a'' \<or> arg = ''--all'' then parse_options args DEVICE_ID True
      else if arg = ''-d'' \<or> arg = ''--device-id''
      then (case args of [] \<Rightarrow> Inl 2 | v # rest \<Rightarrow> parse_options rest v ALL_DEVICES)
      else if arg = ''-h'' \<or> arg = ''--help'' then Inl 0
      else if arg = ''--'' then Inr (DEVICE_ID, ALL_DEVICES)
      else Inl 0)"

text \<open>The script, with its status.\<close>

fun status :: "'a shell_result \<Rightarrow> nat" where
  "status (Value x) = 0"
| "status (Exit n) = n"

definition vfio_command :: "'w sysfs \<Rightarrow> string list \<Rightarrow> ('w, unit) shell" where
  "vfio_command k args =
     (case args of
        [] \<Rightarrow> usage
      | command # rest \<Rightarrow>
          (case parse_options rest [] False of
             Inl n \<Rightarrow> shexit n
           | Inr (DEVICE_ID, ALL_DEVICES) \<Rightarrow>
               if command = ''help'' then usage
               else if command = ''bind'' then handle_bind k DEVICE_ID ALL_DEVICES
               else if command = ''unbind'' then handle_unbind k DEVICE_ID ALL_DEVICES
               else if command = ''check_bind'' then handle_check_bind k DEVICE_ID ALL_DEVICES
               else usage))"

definition vfio_manage :: "'w sysfs \<Rightarrow> string list \<Rightarrow> 'w \<Rightarrow> nat \<times> 'w" where
  "vfio_manage k args w = (case vfio_command k args w of (r, w') \<Rightarrow> (status r, w'))"

section \<open>The kernel\<close>

text \<open>Two states of the same bus: the same devices with their vendors and classes.\<close>

definition same_bus :: "'w sysfs \<Rightarrow> 'w \<Rightarrow> 'w \<Rightarrow> bool" where
  "same_bus k w w' \<longleftrightarrow> sy_devices k w' = sy_devices k w \<and>
     (\<forall>dev. sy_vendor k dev w' = sy_vendor k dev w \<and> sy_class k dev w' = sy_class k dev w)"

definition drivers_of :: "'w sysfs \<Rightarrow> 'w \<Rightarrow> string \<Rightarrow> string option" where
  "drivers_of k w = (\<lambda>dev. sy_driver k dev w)"

text \<open>
  A write that succeeds has its effect on the device, and one that fails has none on the drivers.  The module
  may bind devices as it is loaded.
\<close>

definition unbind_law :: "'w sysfs \<Rightarrow> bool" where
  "unbind_law k \<longleftrightarrow> (\<forall>d dev w ok w'. sy_driver k dev w = Some d \<longrightarrow> sy_unbind k d dev w = (ok, w') \<longrightarrow>
     same_bus k w w' \<and> drivers_of k w' = (if ok then (drivers_of k w)(dev := None) else drivers_of k w))"

definition override_law :: "'w sysfs \<Rightarrow> bool" where
  "override_law k \<longleftrightarrow> (\<forall>dev s w ok w'. sy_override k dev s w = (ok, w') \<longrightarrow>
     same_bus k w w' \<and> drivers_of k w' = drivers_of k w)"

definition bind_law :: "'w sysfs \<Rightarrow> bool" where
  "bind_law k \<longleftrightarrow> (\<forall>dev w ok w'. sy_bind k dev w = (ok, w') \<longrightarrow>
     same_bus k w w' \<and> drivers_of k w' = (if ok then (drivers_of k w)(dev := Some vfio_pci) else drivers_of k w))"

definition modprobe_law :: "'w sysfs \<Rightarrow> bool" where
  "modprobe_law k \<longleftrightarrow> (\<forall>w ok w'. sy_modprobe k w = (ok, w') \<longrightarrow> same_bus k w w')"

definition sysfs_law :: "'w sysfs \<Rightarrow> bool" where
  "sysfs_law k \<longleftrightarrow> unbind_law k \<and> override_law k \<and> bind_law k \<and> modprobe_law k \<and> (\<forall>w. sy_vendor k ''*'' w = None)"

lemma same_bus_refl [simp]: "same_bus k w w"
  by (simp add: same_bus_def)

lemma same_bus_trans: "same_bus k w w' \<Longrightarrow> same_bus k w' w'' \<Longrightarrow> same_bus k w w''"
  by (simp add: same_bus_def)

lemma same_busD:
  assumes "same_bus k w w'"
  shows "is_target_npu_device k dev w' = is_target_npu_device k dev w" "glob_devices k w' = glob_devices k w"
    "sy_vendor k dev w' = sy_vendor k dev w" "is_rebellions_npu k dev w' = is_rebellions_npu k dev w"
  using assms by (simp_all add: same_bus_def is_target_npu_device_def glob_devices_def is_rebellions_npu_def split: option.splits)

section \<open>What the functions do to the drivers\<close>

text \<open>
  \<open>drives k npu m D\<close>: \<open>m\<close> leaves the bus and the drivers of all devices but \<open>npu\<close> alone, and when it returns,
  the driver of \<open>npu\<close> has changed to \<open>D\<close> of what it was.
\<close>

definition drives :: "'w sysfs \<Rightarrow> string \<Rightarrow> ('w, unit) shell \<Rightarrow> (string option \<Rightarrow> string option) \<Rightarrow> bool" where
  "drives k npu m D \<longleftrightarrow> (\<forall>w r w'. m w = (r, w') \<longrightarrow>
     same_bus k w w' \<and> (\<forall>dev. dev \<noteq> npu \<longrightarrow> drivers_of k w' dev = drivers_of k w dev) \<and>
     (r = Value () \<longrightarrow> drivers_of k w' npu = D (drivers_of k w npu)))"

lemma drivesD:
  assumes "drives k npu m D" and "m w = (r, w')"
  shows "same_bus k w w'" and "dev \<noteq> npu \<Longrightarrow> drivers_of k w' dev = drivers_of k w dev"
    and "r = Value () \<Longrightarrow> drivers_of k w' npu = D (drivers_of k w npu)"
  using assms unfolding drives_def by blast+

lemma drives_shbind:
  assumes m: "drives k npu m D" and f: "\<And>x. drives k npu (f x) E"
  shows "drives k npu (shbind m f) (E \<circ> D)"
  unfolding drives_def
proof (intro allI impI)
  fix w r w'
  assume run: "shbind m f w = (r, w')"
  obtain x v where mw: "m w = (x, v)" by fastforce
  show "same_bus k w w' \<and> (\<forall>dev. dev \<noteq> npu \<longrightarrow> drivers_of k w' dev = drivers_of k w dev) \<and>
     (r = Value () \<longrightarrow> drivers_of k w' npu = (E \<circ> D) (drivers_of k w npu))"
  proof (cases x)
    case (Value u)
    then have "f u v = (r, w')" using run mw by (simp add: shbind_def)
    note second = drivesD [OF f this]
    have "same_bus k w w'" by (rule same_bus_trans [OF drivesD(1) [OF m mw] second(1)])
    moreover have "drivers_of k w' dev = drivers_of k w dev" if "dev \<noteq> npu" for dev
      using second(2) [OF that] drivesD(2) [OF m mw that] by simp
    moreover have "drivers_of k w' npu = (E \<circ> D) (drivers_of k w npu)" if "r = Value ()"
      using second(3) [OF that] drivesD(3) [OF m mw] Value by simp
    ultimately show ?thesis by blast
  qed (use run mw drivesD [OF m mw] in \<open>auto simp: shbind_def\<close>)
qed

lemma drives_writes:
  assumes "sysfs_law k"
  shows "drives k npu (errexit (sy_override k npu s)) id"
    and "drives k npu (errexit (sy_bind k npu)) (\<lambda>_. Some vfio_pci)"
  using assms
  by (auto simp: drives_def sysfs_law_def override_law_def bind_law_def errexit_def split: prod.splits if_splits)

text \<open>A function that looks at the driver first.\<close>

lemma drives_case:
  assumes none: "D None = None"
    and some: "\<And>w d r w'. sy_driver k npu w = Some d \<Longrightarrow> m d w = (r, w') \<Longrightarrow>
      same_bus k w w' \<and> (\<forall>dev. dev \<noteq> npu \<longrightarrow> drivers_of k w' dev = drivers_of k w dev) \<and>
      (r = Value () \<longrightarrow> drivers_of k w' npu = D (Some d))"
  shows "drives k npu (\<lambda>w. case sy_driver k npu w of None \<Rightarrow> (Value (), w) | Some d \<Rightarrow> m d w) D"
  unfolding drives_def
proof (intro allI impI)
  fix w r w'
  assume run: "(case sy_driver k npu w of None \<Rightarrow> (Value (), w) | Some d \<Rightarrow> m d w) = (r, w')"
  show "same_bus k w w' \<and> (\<forall>dev. dev \<noteq> npu \<longrightarrow> drivers_of k w' dev = drivers_of k w dev) \<and>
     (r = Value () \<longrightarrow> drivers_of k w' npu = D (drivers_of k w npu))"
  proof (cases "sy_driver k npu w")
    case None
    then show ?thesis using run none by (simp add: drivers_of_def)
  next
    case (Some d)
    then have "m d w = (r, w')" using run by simp
    from some [OF Some this] show ?thesis using Some by (simp add: drivers_of_def)
  qed
qed

lemma unbind_step:
  assumes law: "sysfs_law k" and d: "sy_driver k npu w = Some d"
    and run: "shbind (errexit (sy_unbind k d npu)) (\<lambda>_. errexit (sy_override k npu [])) w = (r, w')"
  shows "same_bus k w w' \<and> (\<forall>dev. dev \<noteq> npu \<longrightarrow> drivers_of k w' dev = drivers_of k w dev) \<and>
     (r = Value () \<longrightarrow> drivers_of k w' npu = None)"
proof -
  obtain ok v where u: "sy_unbind k d npu w = (ok, v)" by fastforce
  have v: "same_bus k w v" "drivers_of k v = (if ok then (drivers_of k w)(npu := None) else drivers_of k w)"
    using law d u unfolding sysfs_law_def unbind_law_def by blast+
  show ?thesis
  proof (cases ok)
    case True
    then have "errexit (sy_override k npu []) v = (r, w')" using run u by (simp add: shbind_def errexit_def)
    from drivesD [OF drives_writes(1) [OF law] this] show ?thesis
      using v True same_bus_trans by simp
  qed (use run u v in \<open>auto simp: shbind_def errexit_def\<close>)
qed

lemma drives_unbind_from_driver: "sysfs_law k \<Longrightarrow> drives k npu (unbind_from_driver k npu) (\<lambda>_. None)"
  unfolding unbind_from_driver_def by (rule drives_case) (auto dest: unbind_step)

lemma drives_unbind_from_other_driver:
  "sysfs_law k \<Longrightarrow> drives k npu (unbind_from_other_driver k npu) (\<lambda>d. if d = Some vfio_pci then d else None)"
  unfolding unbind_from_other_driver_def
  by (rule drives_case) (auto dest: unbind_step simp: drivers_of_def split: if_splits)

lemma drives_bind_pci_device: "sysfs_law k \<Longrightarrow> drives k npu (bind_pci_device k npu) (\<lambda>_. Some vfio_pci)"
proof -
  assume law: "sysfs_law k"
  let ?m = "shbind (unbind_from_other_driver k npu) (\<lambda>_.
      shbind (errexit (sy_override k npu vfio_pci)) (\<lambda>_. errexit (sy_bind k npu)))"
  have "drives k npu ?m (((\<lambda>_. Some vfio_pci) \<circ> id) \<circ> (\<lambda>d. if d = Some vfio_pci then d else None))"
    by (intro drives_shbind drives_unbind_from_other_driver drives_writes law)
  then show ?thesis
    by (auto simp: drives_def bind_pci_device_def is_bound_to_vfio_def drivers_of_def comp_def split: option.splits if_splits)
qed

text \<open>The loops.  \<open>targeted\<close> is the guard by which \<open>bind_device\<close> and \<open>unbind_device\<close> begin.\<close>

definition targeted :: "'w sysfs \<Rightarrow> (string \<Rightarrow> ('w, unit) shell) \<Rightarrow> string \<Rightarrow> ('w, unit) shell" where
  "targeted k act npu = (\<lambda>w. if \<not> is_target_npu_device k npu w then (Value (), w) else act npu w)"

lemma targeted_devices:
  "bind_device k = targeted k (bind_pci_device k)" "unbind_device k = targeted k (unbind_from_driver k)"
  by (simp_all add: fun_eq_iff targeted_def bind_device_def unbind_device_def)

lemma targeted_step:
  assumes act: "drives k dev (act dev) (\<lambda>_. goal)" and vendor: "sy_vendor k dev w = Some v"
    and run: "(if v = ''0x1eff'' then targeted k act dev else shvalue ()) w = (r, w')"
  shows "same_bus k w w'" and "d \<noteq> dev \<or> \<not> is_rebellions_npu k d w \<Longrightarrow> drivers_of k w' d = drivers_of k w d"
    and "r = Value () \<Longrightarrow> is_rebellions_npu k dev w \<Longrightarrow> drivers_of k w' dev = goal"
proof -
  have npu: "is_rebellions_npu k dev w \<longleftrightarrow> v = ''0x1eff'' \<and> is_target_npu_device k dev w"
    using vendor by (simp add: is_rebellions_npu_def)
  have "act dev w = (r, w')" if "is_rebellions_npu k dev w" using run that npu by (simp add: targeted_def)
  note eff = drivesD [OF act this]
  have skip: "w' = w" if "\<not> is_rebellions_npu k dev w"
    using run that npu by (auto simp: targeted_def shvalue_def split: if_splits)
  show "same_bus k w w'" using eff(1) skip by (cases "is_rebellions_npu k dev w") auto
  show "d \<noteq> dev \<or> \<not> is_rebellions_npu k d w \<Longrightarrow> drivers_of k w' d = drivers_of k w d"
    using eff(2) skip by (cases "is_rebellions_npu k dev w") auto
  show "r = Value () \<Longrightarrow> is_rebellions_npu k dev w \<Longrightarrow> drivers_of k w' dev = goal" using eff(3) by blast
qed

lemma for_devices_drives:
  assumes act: "\<And>dev. drives k dev (act dev) (\<lambda>_. goal)" and run: "for_devices k (targeted k act) devs w = (r, w')"
  shows "same_bus k w w' \<and> (\<forall>d. d \<notin> set devs \<or> \<not> is_rebellions_npu k d w \<longrightarrow> drivers_of k w' d = drivers_of k w d) \<and>
     (r = Value () \<longrightarrow> (\<forall>d\<in>set devs. is_rebellions_npu k d w \<longrightarrow> drivers_of k w' d = goal))"
  using run
proof (induction devs arbitrary: w)
  case (Cons dev devs)
  show ?case
  proof (cases "sy_vendor k dev w")
    case (Some v)
    obtain x u where step: "(if v = ''0x1eff'' then targeted k act dev else shvalue ()) w = (x, u)" by fastforce
    note one = targeted_step [OF act Some step]
    show ?thesis
    proof (cases x)
      case (Exit n)
      then have "w' = u" "r = Exit n" using Cons.prems Some step by (auto simp: shbind_def)
      moreover have "drivers_of k u d = drivers_of k w d" if "d \<notin> set (dev # devs) \<or> \<not> is_rebellions_npu k d w" for d
        using that by (intro one(2)) auto
      ultimately show ?thesis using one(1) by auto
    next
      case (Value y)
      then have "for_devices k (targeted k act) devs u = (r, w')" using Cons.prems Some step by (simp add: shbind_def)
      note rest = Cons.IH [OF this]
      have npu: "is_rebellions_npu k d u = is_rebellions_npu k d w" for d by (rule same_busD(4) [OF one(1)])
      have "same_bus k w w'" using same_bus_trans [OF one(1)] rest by blast
      moreover have "drivers_of k w' d = drivers_of k w d" if "d \<notin> set (dev # devs) \<or> \<not> is_rebellions_npu k d w" for d
      proof -
        have "drivers_of k w' d = drivers_of k u d" using rest that npu by auto
        also have "\<dots> = drivers_of k w d" using that by (intro one(2)) auto
        finally show ?thesis .
      qed
      moreover have "drivers_of k w' d = goal" if "r = Value ()" "d \<in> set (dev # devs)" "is_rebellions_npu k d w" for d
      proof (cases "d \<in> set devs")
        case False
        then have "drivers_of k w' d = drivers_of k u d" using rest by blast
        then show ?thesis using that False one(3) Value by simp
      qed (use rest that npu in blast)
      ultimately show ?thesis by blast
    qed
  qed (use Cons.prems in auto)
qed (auto simp: shvalue_def)

lemma for_devices_readable:
  assumes act: "\<And>dev. drives k dev (act dev) (\<lambda>_. goal)" and "for_devices k (targeted k act) devs w = (Value (), w')"
  shows "\<forall>dev\<in>set devs. sy_vendor k dev w \<noteq> None"
  using assms(2)
proof (induction devs arbitrary: w)
  case (Cons dev devs)
  show ?case
  proof (cases "sy_vendor k dev w")
    case (Some v)
    then obtain u where step: "(if v = ''0x1eff'' then targeted k act dev else shvalue ()) w = (Value (), u)"
        and rest: "for_devices k (targeted k act) devs u = (Value (), w')"
      using Cons.prems by (auto simp: shbind_def split: prod.splits shell_result.splits)
    show ?thesis using Cons.IH [OF rest] targeted_step(1) [OF act Some step] Some by (simp add: same_busD)
  qed (use Cons.prems in simp)
qed simp

text \<open>The check, without its counters.\<close>

lemma count_devices_zero: "count_devices k w devs n = 0 \<longleftrightarrow> n = 0 \<and> (\<forall>d\<in>set devs. \<not> is_rebellions_npu k d w)"
  by (induction devs arbitrary: n) auto

lemma all_bound_iff: "all_bound k w devs b \<longleftrightarrow> b \<and> (\<forall>d\<in>set devs. is_rebellions_npu k d w \<longrightarrow> is_bound_to_vfio k d w)"
  by (induction devs arbitrary: b) auto

lemma check_bind_all_zero:
  "check_bind_all k w = 0 \<longleftrightarrow> (\<forall>d\<in>set (glob_devices k w). is_rebellions_npu k d w \<longrightarrow> drivers_of k w d = Some vfio_pci)"
  by (auto simp: check_bind_all_def count_devices_zero all_bound_iff is_bound_to_vfio_def drivers_of_def split: option.splits)

lemma glob_npus: "sysfs_law k \<Longrightarrow> (d \<in> set (glob_devices k w) \<and> is_rebellions_npu k d w) = (d \<in> set (sy_devices k w) \<and> is_rebellions_npu k d w)"
  by (auto simp: glob_devices_def sysfs_law_def is_rebellions_npu_def split: if_splits)

text \<open>A function that ends the script does so with status 1.\<close>

definition exits1 :: "('w, unit) shell \<Rightarrow> bool" where
  "exits1 m \<longleftrightarrow> (\<forall>w n w'. m w = (Exit n, w') \<longrightarrow> n = 1)"

lemma exits1_shbind: "exits1 m \<Longrightarrow> (\<And>x. exits1 (f x)) \<Longrightarrow> exits1 (shbind m f)"
  unfolding exits1_def shbind_def by (auto split: prod.splits shell_result.splits)

lemma exits1_errexit [simp]: "exits1 (errexit c)"
  by (auto simp: exits1_def errexit_def split: prod.splits if_splits)

lemma exits1_shvalue [simp]: "exits1 (shvalue ())"
  by (simp add: exits1_def shvalue_def)

lemma exits1_unbind:
  "exits1 (unbind_from_driver k npu)" "exits1 (unbind_from_other_driver k npu)"
  using exits1_shbind [OF exits1_errexit exits1_errexit, of "sy_unbind k _ npu" "\<lambda>_. sy_override k npu []"]
  unfolding exits1_def unbind_from_driver_def unbind_from_other_driver_def
  by (auto split: option.splits if_splits)

lemma exits1_bind: "exits1 (bind_pci_device k npu)"
  using exits1_shbind [OF exits1_unbind(2) exits1_shbind [OF exits1_errexit exits1_errexit],
      of k npu "\<lambda>_. sy_override k npu vfio_pci" "\<lambda>_ _. sy_bind k npu"]
  unfolding exits1_def bind_pci_device_def by (auto split: if_splits)

lemma exits1_for_devices:
  assumes "\<And>dev. exits1 (act dev)"
  shows "exits1 (for_devices k (targeted k act) devs)"
proof (induction devs)
  case (Cons dev devs)
  have "exits1 (if v = ''0x1eff'' then targeted k act dev else shvalue ())" for v :: string
    using assms [of dev] by (auto simp: exits1_def targeted_def shvalue_def split: if_splits)
  from exits1_shbind [OF this Cons.IH] show ?case
    by (auto simp: exits1_def split: option.splits)
qed simp

text \<open>The commands with \<open>--all\<close>.\<close>

lemma vfio_commands:
  "vfio_command k [''bind'', ''--all''] = shbind (errexit (sy_modprobe k)) (\<lambda>_. bind_all k)"
  "vfio_command k [''unbind'', ''--all''] = unbind_all k"
  "vfio_command k [''check_bind'', ''--all''] = (\<lambda>w. (Exit (check_bind_all k w), w))"
  by (simp_all add: vfio_command_def handle_bind_def handle_unbind_def handle_check_bind_def)

lemma all_devices_result:
  assumes law: "sysfs_law k" and act: "\<And>dev. drives k dev (act dev) (\<lambda>_. goal)" "\<And>dev. exits1 (act dev)"
    and run: "for_devices k (targeted k act) (glob_devices k w) w = (r, w')"
  shows "same_bus k w w'"
    and "d \<notin> set (sy_devices k w) \<or> \<not> is_rebellions_npu k d w \<Longrightarrow> drivers_of k w' d = drivers_of k w d"
    and "status r = 0 \<Longrightarrow> d \<in> set (sy_devices k w) \<Longrightarrow> is_rebellions_npu k d w \<Longrightarrow> drivers_of k w' d = goal"
proof -
  note result = for_devices_drives [OF act(1) run]
  show "same_bus k w w'" using result by blast
  show "d \<notin> set (sy_devices k w) \<or> \<not> is_rebellions_npu k d w \<Longrightarrow> drivers_of k w' d = drivers_of k w d"
    using result glob_npus [OF law, of d w] by blast
  have "r = Value ()" if "status r = 0"
    using exits1_for_devices [of act k, OF act(2)] run that unfolding exits1_def by (cases r) auto
  then show "status r = 0 \<Longrightarrow> d \<in> set (sy_devices k w) \<Longrightarrow> is_rebellions_npu k d w \<Longrightarrow> drivers_of k w' d = goal"
    using result glob_npus [OF law, of d w] by blast
qed

section \<open>A kernel that obliges\<close>

text \<open>
  \<open>override w dev\<close> is what \<open>driver_override\<close> of a device holds.  The kernel lets a bound device go, and binds a device
  without a driver to \<open>vfio-pci\<close> when the override says so.
\<close>

definition obliging :: "('w \<Rightarrow> string \<Rightarrow> string) \<Rightarrow> 'w sysfs \<Rightarrow> bool" where
  "obliging override k \<longleftrightarrow> (\<forall>w. fst (sy_modprobe k w)) \<and>
     (\<forall>d dev w. sy_driver k dev w = Some d \<longrightarrow> fst (sy_unbind k d dev w)) \<and>
     (\<forall>dev s w. fst (sy_override k dev s w) \<and> override (snd (sy_override k dev s w)) dev = s) \<and>
     (\<forall>dev w. sy_driver k dev w = None \<longrightarrow> override w dev = vfio_pci \<longrightarrow> fst (sy_bind k dev w))"

lemma errexit_ok: "fst (c w) \<Longrightarrow> errexit c w = (Value (), snd (c w))"
  by (cases "c w") (simp add: errexit_def)

lemma unbind_from_other_obliging:
  assumes law: "sysfs_law k" and kind: "obliging override k" and other: "drivers_of k w npu \<noteq> Some vfio_pci"
  shows "\<exists>w'. unbind_from_other_driver k npu w = (Value (), w') \<and> drivers_of k w' npu = None"
proof -
  have "\<exists>w'. unbind_from_other_driver k npu w = (Value (), w')"
  proof (cases "sy_driver k npu w")
    case (Some d)
    then have "d \<noteq> vfio_pci" using other by (simp add: drivers_of_def)
    then show ?thesis using Some kind by (simp add: unbind_from_other_driver_def shbind_def errexit_ok obliging_def)
  qed (simp add: unbind_from_other_driver_def)
  then obtain w' where run: "unbind_from_other_driver k npu w = (Value (), w')" by blast
  show ?thesis using drivesD(3) [OF drives_unbind_from_other_driver [OF law] run] other run by simp
qed

lemma bind_pci_device_obliging:
  assumes law: "sysfs_law k" and kind: "obliging override k"
  shows "\<exists>w'. bind_pci_device k npu w = (Value (), w')"
proof (cases "is_bound_to_vfio k npu w")
  case False
  then have "drivers_of k w npu \<noteq> Some vfio_pci" by (auto simp: is_bound_to_vfio_def drivers_of_def)
  then obtain v where v: "unbind_from_other_driver k npu w = (Value (), v)" "drivers_of k v npu = None"
    using unbind_from_other_obliging [OF law kind] by blast
  let ?u = "snd (sy_override k npu vfio_pci v)"
  have o: "errexit (sy_override k npu vfio_pci) v = (Value (), ?u)" "override ?u npu = vfio_pci"
    using kind by (simp_all add: errexit_ok obliging_def)
  have "sy_driver k npu ?u = None" using drivesD(3) [OF drives_writes(1) [OF law] o(1)] v(2) by (simp add: drivers_of_def)
  then have "fst (sy_bind k npu ?u)" using kind o(2) by (simp add: obliging_def)
  then show ?thesis using False v(1) o(1) by (simp add: bind_pci_device_def shbind_def errexit_ok)
qed (simp add: bind_pci_device_def)

lemma for_devices_obliging:
  assumes act: "\<And>dev. drives k dev (act dev) (\<lambda>_. goal)" "\<And>dev w. \<exists>w'. act dev w = (Value (), w')"
    and "\<forall>dev\<in>set devs. sy_vendor k dev w \<noteq> None"
  shows "\<exists>w'. for_devices k (targeted k act) devs w = (Value (), w')"
  using assms(3)
proof (induction devs arbitrary: w)
  case (Cons dev devs)
  then obtain v where v: "sy_vendor k dev w = Some v" by auto
  obtain u where step: "(if v = ''0x1eff'' then targeted k act dev else shvalue ()) w = (Value (), u)"
    using act(2) [of dev w] by (cases "v = ''0x1eff'' \<and> is_target_npu_device k dev w") (auto simp: targeted_def shvalue_def)
  have "\<forall>d\<in>set devs. sy_vendor k d u \<noteq> None"
    using Cons.prems targeted_step(1) [OF act(1) v step] by (simp add: same_busD(3))
  from Cons.IH [OF this] show ?case using v step by (simp add: shbind_def)
qed (simp add: shvalue_def)

section \<open>A bus in memory\<close>

record pci_bus =
  pb_devices :: "(string \<times> string \<times> string) list"
  pb_driver :: "string \<Rightarrow> string option"
  pb_override :: "string \<Rightarrow> string"

definition mem_sysfs :: "pci_bus sysfs" where
  "mem_sysfs = \<lparr>
     sy_devices = (\<lambda>w. List.map fst (pb_devices w)),
     sy_vendor = (\<lambda>dev w. if dev = ''*'' then None else map_option fst (map_of (pb_devices w) dev)),
     sy_class = (\<lambda>dev w. map_option snd (map_of (pb_devices w) dev)),
     sy_driver = (\<lambda>dev w. pb_driver w dev),
     sy_unbind = (\<lambda>d dev w. if pb_driver w dev = Some d then (True, w\<lparr>pb_driver := (pb_driver w)(dev := None)\<rparr>) else (False, w)),
     sy_override = (\<lambda>dev s w. (True, w\<lparr>pb_override := (pb_override w)(dev := s)\<rparr>)),
     sy_bind = (\<lambda>dev w. if pb_driver w dev = None \<and> pb_override w dev = vfio_pci
       then (True, w\<lparr>pb_driver := (pb_driver w)(dev := Some vfio_pci)\<rparr>) else (False, w)),
     sy_modprobe = (\<lambda>w. (True, w))\<rparr>"

lemma mem_sysfs_law: "sysfs_law mem_sysfs"
  by (auto simp: sysfs_law_def unbind_law_def override_law_def bind_law_def modprobe_law_def same_bus_def
      drivers_of_def mem_sysfs_def fun_eq_iff split: if_splits)

lemma mem_sysfs_obliging: "obliging pb_override mem_sysfs"
  by (simp add: obliging_def mem_sysfs_def)

text \<open>An NPU with its driver, an NPU without, and a network card.\<close>

definition example_bus :: pci_bus where
  "example_bus = \<lparr>pb_devices = [(''0000:01:00.0'', ''0x1eff'', ''0x120000''), (''0000:02:00.0'', ''0x8086'', ''0x020000''),
       (''0000:03:00.0'', ''0x1eff'', ''0x120000'')],
     pb_driver = (\<lambda>_. None)(''0000:01:00.0'' := Some ''rebellions'', ''0000:02:00.0'' := Some ''e1000e''),
     pb_override = (\<lambda>_. [])\<rparr>"

lemma example_bus_runs:
  "fst (vfio_manage mem_sysfs [''bind'', ''--all''] example_bus) = 0"
  "fst (vfio_manage mem_sysfs [''unbind'', ''--all''] example_bus) = 0"
  by code_simp+

lemma example_bus_facts:
  "sy_devices mem_sysfs example_bus = [''0000:01:00.0'', ''0000:02:00.0'', ''0000:03:00.0'']"
  "is_rebellions_npu mem_sysfs ''0000:01:00.0'' example_bus" "\<not> is_rebellions_npu mem_sysfs ''0000:02:00.0'' example_bus"
  "drivers_of mem_sysfs example_bus ''0000:01:00.0'' = Some ''rebellions''"
  "drivers_of mem_sysfs (snd (sy_modprobe mem_sysfs example_bus)) ''0000:02:00.0'' = Some ''e1000e''"
  "list_all (\<lambda>dev. sy_vendor mem_sysfs dev example_bus \<noteq> None) (sy_devices mem_sysfs example_bus)"
  by code_simp+

section \<open>Properties\<close>

text \<open>
  C21: \<open>vfio-manage.sh bind --all\<close> leaves every device alone that is not a Rebellions NPU, whatever happens,
  but for what loading the module does.  When it ends with status 0, every NPU is bound to \<open>vfio-pci\<close>, and
  \<open>check_bind --all\<close> succeeds afterwards.
\<close>

theorem vfio_bind_all_sound:
  assumes law: "sysfs_law k" and run: "vfio_manage k [''bind'', ''--all''] w = (n, w')"
  shows "(\<forall>d. d \<notin> set (sy_devices k w) \<or> \<not> is_rebellions_npu k d w \<longrightarrow>
        drivers_of k w' d = drivers_of k (snd (sy_modprobe k w)) d) \<and>
     (n = 0 \<longrightarrow> (\<forall>d\<in>set (sy_devices k w). is_rebellions_npu k d w \<longrightarrow> drivers_of k w' d = Some vfio_pci) \<and>
        vfio_manage k [''check_bind'', ''--all''] w' = (0, w'))"
proof -
  obtain ok v where mod: "sy_modprobe k w = (ok, v)" by fastforce
  have bus: "same_bus k w v" using law mod by (simp add: sysfs_law_def modprobe_law_def)
  obtain r where r: "vfio_command k [''bind'', ''--all''] w = (r, w')" "n = status r"
    using run by (auto simp: vfio_manage_def split: prod.splits)
  show ?thesis
  proof (cases ok)
    case True
    then have "for_devices k (targeted k (bind_pci_device k)) (glob_devices k v) v = (r, w')"
      using r(1) mod by (simp add: vfio_commands shbind_def errexit_def bind_all_def targeted_devices)
    note result = all_devices_result [OF law drives_bind_pci_device [OF law] exits1_bind this]
    have same: "sy_devices k v = sy_devices k w" "\<And>d. is_rebellions_npu k d v = is_rebellions_npu k d w"
      using bus by (simp_all add: same_bus_def same_busD(4) [OF bus])
    have npus: "d \<in> set (sy_devices k w) \<Longrightarrow> is_rebellions_npu k d w \<Longrightarrow> drivers_of k w' d = Some vfio_pci" if "n = 0" for d
      using result(3) [of d] that r(2) same by simp
    have "check_bind_all k w' = 0" if "n = 0"
      unfolding check_bind_all_zero
      using npus [OF that] glob_npus [OF law, of _ w] same_busD(2,4) [OF same_bus_trans [OF bus result(1)]] by metis
    then show ?thesis using result(2) npus same mod by (auto simp: vfio_manage_def vfio_commands)
  qed (use r mod in \<open>auto simp: vfio_commands shbind_def errexit_def\<close>)
qed

theorem vfio_bind_all_sound_witness:
  "let w' = snd (vfio_manage mem_sysfs [''bind'', ''--all''] example_bus) in
   drivers_of mem_sysfs w' ''0000:01:00.0'' = Some vfio_pci \<and> drivers_of mem_sysfs w' ''0000:02:00.0'' = Some ''e1000e''"
  using vfio_bind_all_sound [OF mem_sysfs_law surjective_pairing, of example_bus] example_bus_runs(1) example_bus_facts
  by (simp add: Let_def)

text \<open>
  \<open>vfio-manage.sh unbind --all\<close> leaves every device alone that is not a Rebellions NPU, whatever happens,
  and when it ends with status 0, no NPU has a driver.
\<close>

theorem vfio_unbind_all_sound:
  assumes law: "sysfs_law k" and run: "vfio_manage k [''unbind'', ''--all''] w = (n, w')"
  shows "(\<forall>d. d \<notin> set (sy_devices k w) \<or> \<not> is_rebellions_npu k d w \<longrightarrow> drivers_of k w' d = drivers_of k w d) \<and>
     (n = 0 \<longrightarrow> (\<forall>d\<in>set (sy_devices k w). is_rebellions_npu k d w \<longrightarrow> drivers_of k w' d = None))"
proof -
  obtain r where loop: "for_devices k (targeted k (unbind_from_driver k)) (glob_devices k w) w = (r, w')" and n: "n = status r"
    using run by (auto simp: vfio_manage_def vfio_commands unbind_all_def targeted_devices split: prod.splits)
  note result = all_devices_result [OF law drives_unbind_from_driver [OF law] exits1_unbind(1) loop]
  show ?thesis by (intro conjI allI ballI impI) (rule result(2), assumption, rule result(3), simp_all add: n)
qed

theorem vfio_unbind_all_sound_witness:
  "drivers_of mem_sysfs (snd (vfio_manage mem_sysfs [''unbind'', ''--all''] example_bus)) ''0000:01:00.0'' = None"
  using vfio_unbind_all_sound [OF mem_sysfs_law surjective_pairing, of example_bus] example_bus_runs(2) example_bus_facts
  by simp

text \<open>
  C23: \<open>vfio-manage.sh check_bind --all\<close> changes nothing and ends with status 0 exactly when every Rebellions NPU
  is bound to \<open>vfio-pci\<close>, and with status 1 otherwise.
\<close>

theorem vfio_check_bind_iff:
  assumes "sysfs_law k"
  shows "vfio_manage k [''check_bind'', ''--all''] w =
     (if \<forall>d\<in>set (sy_devices k w). is_rebellions_npu k d w \<longrightarrow> drivers_of k w d = Some vfio_pci then 0 else 1, w)"
proof -
  have "check_bind_all k w = 0 \<longleftrightarrow> (\<forall>d\<in>set (sy_devices k w). is_rebellions_npu k d w \<longrightarrow> drivers_of k w d = Some vfio_pci)"
    unfolding check_bind_all_zero using glob_npus [OF assms, of _ w] by blast
  moreover have "check_bind_all k w = 0 \<or> check_bind_all k w = 1" by (simp add: check_bind_all_def)
  ultimately show ?thesis by (auto simp: vfio_manage_def vfio_commands)
qed

theorem vfio_check_bind_iff_witness:
  "vfio_manage mem_sysfs [''check_bind'', ''--all''] example_bus = (1, example_bus)"
  using vfio_check_bind_iff [OF mem_sysfs_law, of example_bus] example_bus_facts by simp

text \<open>
  C22: On a kernel that obliges, \<open>vfio-manage.sh bind --all\<close> ends with status 0 exactly when there is a PCI
  device at all and the vendor of every device can be read.
\<close>

theorem vfio_bind_all_succeeds:
  assumes law: "sysfs_law k" and kind: "obliging override k"
  shows "fst (vfio_manage k [''bind'', ''--all''] w) = 0 \<longleftrightarrow>
     sy_devices k w \<noteq> [] \<and> (\<forall>dev\<in>set (sy_devices k w). sy_vendor k dev w \<noteq> None)"
proof -
  let ?v = "snd (sy_modprobe k w)"
  let ?loop = "for_devices k (targeted k (bind_pci_device k)) (glob_devices k ?v) ?v"
  have bus: "same_bus k w ?v" using law unfolding sysfs_law_def modprobe_law_def by (metis prod.collapse)
  have "vfio_command k [''bind'', ''--all''] w = ?loop"
    using kind by (simp add: vfio_commands shbind_def errexit_ok bind_all_def targeted_devices obliging_def)
  then have run: "fst (vfio_manage k [''bind'', ''--all''] w) = status (fst ?loop)"
    by (simp add: vfio_manage_def split: prod.splits)
  have read: "(\<forall>dev\<in>set (glob_devices k ?v). sy_vendor k dev ?v \<noteq> None) \<longleftrightarrow>
      sy_devices k w \<noteq> [] \<and> (\<forall>dev\<in>set (sy_devices k w). sy_vendor k dev w \<noteq> None)"
    using law bus by (auto simp: same_bus_def glob_devices_def sysfs_law_def)
  have "status (fst ?loop) = 0 \<longleftrightarrow> fst ?loop = Value ()"
    using exits1_for_devices [of "bind_pci_device k" k, OF exits1_bind] unfolding exits1_def
    by (cases ?loop; cases "fst ?loop") auto
  also have "\<dots> \<longleftrightarrow> (\<forall>dev\<in>set (glob_devices k ?v). sy_vendor k dev ?v \<noteq> None)"
    using for_devices_readable [of k "bind_pci_device k", OF drives_bind_pci_device [OF law]]
      for_devices_obliging [of k "bind_pci_device k", OF drives_bind_pci_device [OF law] bind_pci_device_obliging [OF law kind]]
    by (metis fst_conv prod.collapse)
  finally show ?thesis unfolding run read .
qed

theorem vfio_bind_all_succeeds_witness:
  "fst (vfio_manage mem_sysfs [''bind'', ''--all''] example_bus) = 0"
  using vfio_bind_all_succeeds [OF mem_sysfs_law mem_sysfs_obliging, of example_bus] example_bus_facts(1,6)
  by (simp add: list_all_iff)

end
