(* ===== verification/Node_Scripts.thy ===== *)
theory Node_Scripts
  imports Validator_Toolkit Vfio_Script
begin

text \<open>
  The other scripts that the operator puts on the nodes: the loop of the sandbox device plugin that waits for
  the NPUs to be bound (\<open>sandbox-device-plugin.go\<close>), the startup probe of the driver container
  (\<open>driver_manager.go\<close>), and the way in which the entry point of the container toolkit reads the file
  \<open>driver-ready\<close> (\<open>container_toolkit.go\<close>).
\<close>

section \<open>Waiting for the NPUs\<close>

text \<open>
  \<open>date\<close> is the clock in seconds and \<open>sleep\<close> the pause of two seconds, in which the bus may change.  At most \<open>n\<close> checks
  are made; \<open>None\<close> when they do not suffice.
\<close>

fun vfio_bind_loop :: "nat \<Rightarrow> 'w sysfs \<Rightarrow> ('w \<Rightarrow> int) \<Rightarrow> ('w \<Rightarrow> 'w) \<Rightarrow> int \<Rightarrow> 'w \<Rightarrow> (nat \<times> 'w) option" where
  "vfio_bind_loop 0 k date sleep START w = None"
| "vfio_bind_loop (Suc n) k date sleep START w =
     (case vfio_manage k [''check_bind'', ''--all''] w of (st, w') \<Rightarrow>
        if st = 0 then Some (0, w')
        else if 300 < date w' - START then Some (1, w')
        else vfio_bind_loop n k date sleep START (sleep w'))"

definition vfio_bind_check :: "nat \<Rightarrow> 'w sysfs \<Rightarrow> ('w \<Rightarrow> int) \<Rightarrow> ('w \<Rightarrow> 'w) \<Rightarrow> 'w \<Rightarrow> (nat \<times> 'w) option" where
  "vfio_bind_check n k date sleep w = vfio_bind_loop n k date sleep (date w) w"

definition npus_bound :: "'w sysfs \<Rightarrow> 'w \<Rightarrow> bool" where
  "npus_bound k w \<longleftrightarrow> (\<forall>d\<in>set (sy_devices k w). is_rebellions_npu k d w \<longrightarrow> drivers_of k w d = Some vfio_pci)"

lemma check_bind_result: "sysfs_law k \<Longrightarrow> vfio_manage k [''check_bind'', ''--all''] w = (if npus_bound k w then 0 else 1, w)"
  using glob_npus [of k _ w] check_bind_all_zero [of k w]
  by (auto simp: vfio_manage_def vfio_commands npus_bound_def check_bind_all_def)

lemma vfio_bind_loop_ends:
  assumes law: "sysfs_law k" and clock: "\<And>w. date w + 2 \<le> date (sleep w)" and n: "START + 300 < date w + 2 * int n"
  shows "\<exists>st w'. vfio_bind_loop (Suc n) k date sleep START w = Some (st, w') \<and>
     (st = 0 \<and> npus_bound k w' \<or> st = 1 \<and> \<not> npus_bound k w' \<and> START + 300 < date w')"
  using n
proof (induction n arbitrary: w)
  case 0
  then show ?case by (simp add: check_bind_result [OF law])
next
  case (Suc n)
  have "START + 300 < date (sleep w) + 2 * int n" using Suc.prems clock [of w] by simp
  from Suc.IH [OF this] show ?case by (subst vfio_bind_loop.simps(2)) (simp add: check_bind_result [OF law])
qed

section \<open>The startup probe of the driver container\<close>

abbreviation readyFile :: string where "readyFile \<equiv> ''/run/rbln/validations/.driver-ctr-ready''"

text \<open>\<open>set -e\<close>: every command that fails ends the probe with an error.\<close>

definition startup_probe :: "('w, 'm) host_scheme \<Rightarrow> ('w, unit) op" where
  "startup_probe h =
     bind (call (h_MkdirAll h ''/run/rbln/validations'')) (\<lambda>_.
     bind (catch (call (h_Stat h ''/sys/module/rebellions/refcnt''))
             (\<lambda>_. fail (Errorf ''Rebellions kernel module not loaded''))) (\<lambda>_.
     bind (catch (runCommand h ''command'' [''-v'', ''rbln-smi''] True) (\<lambda>_. fail (Errorf ''rbln-smi not found''))) (\<lambda>_.
     bind (catch (runCommand h ''rbln-smi'' [] False) (\<lambda>_. fail (Errorf ''rbln-smi failed''))) (\<lambda>_.
     bind (call (h_Create h (readyFile @ ''.tmp''))) (\<lambda>f.
     bind (call (h_Close h f)) (\<lambda>_.
     call (h_Rename h (readyFile @ ''.tmp'') readyFile)))))))"

lemma write_ready_outcome:
  assumes fs: "fs_law files h" and run: "bind (call (h_Create h (p @ ''.tmp''))) (\<lambda>f.
     bind (call (h_Close h f)) (\<lambda>_. call (h_Rename h (p @ ''.tmp'') p))) w = (r, w')"
  shows "files w' p = (if is_ok r then Some [] else files w p)"
proof -
  obtain x v where create: "h_Create h (p @ ''.tmp'') w = (x, v)" by fastforce
  show ?thesis
  proof (cases x)
    case (Inl e)
    then show ?thesis using run create fs_lawD(5) [OF fs create [unfolded Inl]] by (auto simp: bind_def call_def)
  next
    case (Inr f)
    have v: "files v = (files w)(p @ ''.tmp'' := Some [])" using fs_lawD(4) [OF fs create [unfolded Inr]] by simp
    obtain y u where close: "h_Close h f v = (y, u)" by fastforce
    have u: "files u = files v" using fs_lawD(10) [OF fs, of f v] close by simp
    show ?thesis
    proof (cases y)
      case (Inl e)
      then show ?thesis using run create Inr close u v by (auto simp: bind_def call_def)
    next
      case Inr': (Inr z)
      obtain q t where rename: "h_Rename h (p @ ''.tmp'') p u = (q, t)" by fastforce
      have "r = (case q of Inl e \<Rightarrow> Err e | Inr a \<Rightarrow> Ok a)" "w' = t"
        using run create Inr close Inr' rename by (auto simp: bind_def call_def split: sum.splits)
      then show ?thesis
        using fs_lawD(11,12) [OF fs, of "p @ ''.tmp''" p u] rename u v by (cases q) auto
    qed
  qed
qed

lemma startup_probe_outcome:
  assumes fs: "fs_law files h" and look: "looking_law files readyFile h" and run: "startup_probe h w = (r, w')"
  shows "files w' readyFile = (if is_ok r then Some [] else files w readyFile)"
proof -
  let ?rest = "\<lambda>f. bind (call (h_Close h f)) (\<lambda>_. call (h_Rename h (readyFile @ ''.tmp'') readyFile))"
  let ?mark = "bind (call (h_Create h (readyFile @ ''.tmp''))) ?rest"
  let ?checks = "bind (call (h_MkdirAll h ''/run/rbln/validations'')) (\<lambda>_.
     bind (catch (call (h_Stat h ''/sys/module/rebellions/refcnt''))
             (\<lambda>_. fail (Errorf ''Rebellions kernel module not loaded''))) (\<lambda>_.
     bind (catch (runCommand h ''command'' [''-v'', ''rbln-smi''] True) (\<lambda>_. fail (Errorf ''rbln-smi not found''))) (\<lambda>_.
     catch (runCommand h ''rbln-smi'' [] False) (\<lambda>_. fail (Errorf ''rbln-smi failed'')))))"
  have split: "startup_probe h = bind ?checks (\<lambda>_. ?mark)" by (simp add: startup_probe_def bind_assoc)
  have "keeps files readyFile ?checks" using fs look by (intro keeps_intros) assumption+
  obtain c v where c: "?checks w = (c, v)" by fastforce
  have v: "files v readyFile = files w readyFile" by (rule keepsD [OF \<open>keeps files readyFile ?checks\<close> c])
  show ?thesis
  proof (cases "is_ok c")
    case True
    then have "?mark v = (r, w')" using run split c by (auto simp: bind_def is_ok_iff)
    from write_ready_outcome [OF fs this] show ?thesis using v by simp
  next
    case False
    then show ?thesis using run split c v by (cases c) (auto simp: bind_def)
  qed
qed

section \<open>Reading \<open>driver-ready\<close>\<close>

text \<open>
  The command \<open>. file\<close> of a shell on a file of assignments whose values are plain: letters, digits and
  characters that the shell does not interpret.  \<open>None\<close> for any other file.
\<close>

definition plain_char :: "char \<Rightarrow> bool" where
  "plain_char c \<longleftrightarrow> (let n = (of_char c :: nat) in 48 \<le> n \<and> n \<le> 57 \<or> 65 \<le> n \<and> n \<le> 90 \<or> 97 \<le> n \<and> n \<le> 122 \<or>
     c \<in> set ''/_.-:'')"

definition assignment :: "string \<Rightarrow> (string \<times> string) option" where
  "assignment line =
     (let key = envKey line; val = envVal line
      in if CHR ''='' \<in> set line \<and> key \<noteq> [] \<and> list_all plain_char key \<and> list_all plain_char val then Some (key, val) else None)"

fun assignments :: "string list \<Rightarrow> (string \<times> string) list option" where
  "assignments [] = Some []"
| "assignments (line # rest) =
     (if line = [] then assignments rest
      else (case assignment line of None \<Rightarrow> None
            | Some kv \<Rightarrow> map_option (\<lambda>kvs. kv # kvs) (assignments rest)))"

definition source_file :: "string \<Rightarrow> (string \<times> string) list option" where
  "source_file content = assignments (split_char (CHR 0x0A) content)"

lemma assignment_entry:
  assumes "k \<noteq> []" and "list_all plain_char k" and "list_all plain_char v"
  shows "assignment (k @ ''='' @ v) = Some (k, v)"
proof -
  have "\<not> plain_char (CHR ''='')" by code_simp
  then have "CHR ''='' \<notin> set k" using assms(2) by (auto simp: list_all_iff)
  then show ?thesis using assms envKey_entry [of k v] envVal_entry [of k v] by (simp add: assignment_def Let_def)
qed

lemma plain_no_newline: "list_all plain_char s \<Longrightarrow> CHR 0x0A \<notin> set s"
proof -
  have "\<not> plain_char (CHR 0x0A)" by code_simp
  then show "list_all plain_char s \<Longrightarrow> CHR 0x0A \<notin> set s" by (auto simp: list_all_iff)
qed

lemma assignments_entries:
  assumes "list_all (\<lambda>(k, v). k \<noteq> [] \<and> list_all plain_char k \<and> list_all plain_char v) kvs"
  shows "assignments (List.map (\<lambda>(k, v). k @ ''='' @ v) kvs @ [[]]) = Some kvs"
  using assms by (induction kvs) (auto simp: assignment_entry [simplified])

lemma source_lines:
  assumes "kvs \<noteq> []" and "list_all (\<lambda>(k, v). k \<noteq> [] \<and> list_all plain_char k \<and> list_all plain_char v) kvs"
  shows "source_file (Join (List.map (\<lambda>(k, v). k @ ''='' @ v) kvs) [CHR 0x0A] @ [CHR 0x0A]) = Some kvs"
proof -
  have "CHR 0x0A \<notin> set (k @ ''='' @ v)" if "(k, v) \<in> set kvs" for k v
    using assms(2) that plain_no_newline by (auto simp: list_all_iff)
  then have "split_char (CHR 0x0A) (Join (List.map (\<lambda>(k, v). k @ ''='' @ v) kvs) [CHR 0x0A]) = List.map (\<lambda>(k, v). k @ ''='' @ v) kvs"
    using assms(1) by (intro split_char_Join) auto
  then show ?thesis
    using assignments_entries [OF assms(2)] by (simp add: source_file_def split_char_sep)
qed

section \<open>Properties\<close>

text \<open>
  C24: The init container of the sandbox device plugin always ends, after at most 152 checks as long as a pause
  of two seconds takes two seconds: with status 0 when all NPUs are bound to \<open>vfio-pci\<close>, and with status 1 when
  they are not and more than 300 seconds have passed.
\<close>

theorem vfio_bind_check_ends:
  assumes "sysfs_law k" and "\<forall>w. date w + 2 \<le> date (sleep w)"
  shows "\<exists>st w'. vfio_bind_check 152 k date sleep w = Some (st, w') \<and>
     (st = 0 \<and> npus_bound k w' \<or> st = 1 \<and> \<not> npus_bound k w' \<and> date w + 300 < date w')"
proof -
  have clock: "date v + 2 \<le> date (sleep v)" for v using assms(2) by blast
  have "(152::nat) = Suc 151" by simp
  then show ?thesis
    unfolding vfio_bind_check_def
    using vfio_bind_loop_ends [where n = 151 and date = date and sleep = sleep and START = "date w" and w = w, OF assms(1) clock]
    by simp
qed

text \<open>A clock beside the bus.\<close>

definition timed_sysfs :: "(pci_bus \<times> int) sysfs" where
  "timed_sysfs = \<lparr>sy_devices = sy_devices mem_sysfs \<circ> fst, sy_vendor = (\<lambda>d. sy_vendor mem_sysfs d \<circ> fst),
     sy_class = (\<lambda>d. sy_class mem_sysfs d \<circ> fst), sy_driver = (\<lambda>d. sy_driver mem_sysfs d \<circ> fst),
     sy_unbind = (\<lambda>d dev w. map_prod id (\<lambda>b. (b, snd w)) (sy_unbind mem_sysfs d dev (fst w))),
     sy_override = (\<lambda>dev s w. map_prod id (\<lambda>b. (b, snd w)) (sy_override mem_sysfs dev s (fst w))),
     sy_bind = (\<lambda>dev w. map_prod id (\<lambda>b. (b, snd w)) (sy_bind mem_sysfs dev (fst w))),
     sy_modprobe = (\<lambda>w. (True, w))\<rparr>"

lemma timed_sysfs_law: "sysfs_law timed_sysfs"
  by (auto simp: sysfs_law_def unbind_law_def override_law_def bind_law_def modprobe_law_def same_bus_def
      drivers_of_def timed_sysfs_def mem_sysfs_def fun_eq_iff split: if_splits)

theorem vfio_bind_check_ends_witness:
  "\<exists>st w'. vfio_bind_check 152 timed_sysfs snd (map_prod id (\<lambda>t. t + 2)) (example_bus, 0) = Some (st, w') \<and>
     (st = 0 \<and> npus_bound timed_sysfs w' \<or> st = 1 \<and> \<not> npus_bound timed_sysfs w' \<and> 0 + 300 < snd w')"
  using vfio_bind_check_ends [OF timed_sysfs_law, where date = snd and sleep = "map_prod id (\<lambda>t. t + 2)" and w = "(example_bus, 0)"] by simp

text \<open>
  C36: What the validator writes to \<open>driver-ready\<close>, the entry point of the container toolkit reads: sourcing the
  file sets the four variables to the fields of the driver, as long as the paths in them are plain.
\<close>

theorem driver_ready_roundtrip:
  assumes "list_all plain_char (di_driverRootCtrPath info)" and "list_all plain_char (di_driverRoot info)"
    and "list_all plain_char (di_containerLibraryPath info)"
  shows "source_file (statusFileContent info) = Some
     [(''IS_HOST_DRIVER'', show_bool (di_isHostDriver info)),
      (''RBLN_CTK_DAEMON_HOST_ROOT'', di_driverRootCtrPath info),
      (''RBLN_CTK_DAEMON_DRIVER_ROOT'', di_driverRoot info),
      (''RBLN_CTK_DAEMON_CONTAINER_LIBRARY_PATH'', di_containerLibraryPath info)]"
    (is "_ = Some ?kvs")
proof -
  have plain: "list_all plain_char ''IS_HOST_DRIVER''" "list_all plain_char ''RBLN_CTK_DAEMON_HOST_ROOT''"
      "list_all plain_char ''RBLN_CTK_DAEMON_DRIVER_ROOT''" "list_all plain_char ''RBLN_CTK_DAEMON_CONTAINER_LIBRARY_PATH''"
      "list_all plain_char (show_bool True)" "list_all plain_char (show_bool False)"
    by code_simp+
  then have bool: "list_all plain_char (show_bool b)" for b by (cases b) simp_all
  have "source_file (Join (List.map (\<lambda>(k, v). k @ ''='' @ v) ?kvs) [CHR 0x0A] @ [CHR 0x0A]) = Some ?kvs"
    using plain bool assms by (intro source_lines) simp_all
  then show ?thesis by (simp add: statusFileContent_def)
qed

theorem driver_ready_roundtrip_witness:
  "map_option (\<lambda>env. map_of env ''RBLN_CTK_DAEMON_DRIVER_ROOT'') (source_file (statusFileContent containerDriver)) = Some (Some ''/run/rbln/driver'')"
proof -
  have "list_all plain_char (di_driverRootCtrPath containerDriver)" "list_all plain_char (di_driverRoot containerDriver)"
    "list_all plain_char (di_containerLibraryPath containerDriver)" by code_simp+
  from driver_ready_roundtrip [OF this] show ?thesis by (simp add: getDriverInfo_def)
qed

end
