(* ===== verification/Validator_App.thy ===== *)
theory Validator_App
  imports Validator_Toolkit
begin

text \<open>
  The entry point of the validator: \<open>app.go\<close> and \<open>main.go\<close> of \<open>cmd/rbln-validator\<close>.  The parsing of the command line by cobra
  is a parameter: it gives an error, or the command that was chosen with the flags that were given.
\<close>

datatype validator_command = RootCommand | DriverCommand | ToolkitCommand

text \<open>\<open>RunE\<close> of the three commands; that of the root prints the help.\<close>

definition runE :: "('w, 'm) cluster_host_scheme \<Rightarrow> nat \<Rightarrow> validator_command \<Rightarrow> flags \<Rightarrow> ('w, unit) op" where
  "runE h n command f =
     (case command of
        RootCommand \<Rightarrow> ret ()
      | DriverCommand \<Rightarrow> driverCommand h n f
      | ToolkitCommand \<Rightarrow> toolkitCommand h n f)"

definition NewRBLNValidatorApp ::
  "(string list \<Rightarrow> error + validator_command \<times> flags) \<Rightarrow> ('w, 'm) cluster_host_scheme \<Rightarrow> nat \<Rightarrow> string list \<Rightarrow> ('w, unit) op" where
  "NewRBLNValidatorApp cobra h n args =
     (case cobra args of Inl e \<Rightarrow> fail e | Inr (command, f) \<Rightarrow> runE h n command f)"

definition validator_main ::
  "(string list \<Rightarrow> error + validator_command \<times> flags) \<Rightarrow> ('w, 'm) cluster_host_scheme \<Rightarrow> nat \<Rightarrow> string list \<Rightarrow> ('w, unit) op" where
  "validator_main cobra h n args = orExit (NewRBLNValidatorApp cobra h n args)"

lemma validator_mainD:
  assumes "validator_main cobra h n args w = (Ok (), w')"
  shows "cobra args = Inr (DriverCommand, f) \<Longrightarrow> driverCommand h n f w = (Ok (), w')"
    and "cobra args = Inr (ToolkitCommand, f) \<Longrightarrow> toolkitCommand h n f w = (Ok (), w')"
  using assms by (simp_all add: validator_main_def NewRBLNValidatorApp_def runE_def)

end
