(* ===== verification/Spec2Isabelle.thy ===== *)
theory Spec2Isabelle
  imports Pod_Checks Separation Controller_Loop Api_Copies Operator_Main Node_Scripts Validator_App
begin

text \<open>
  Verification of the RBLN NPU operator (\<open>src/\<close>), a Kubernetes operator in Go that deploys the software of
  Rebellions NPUs to the nodes of a cluster, and of its node validator.

  \<^bold>\<open>The program.\<close>  Two reconcilers run in the operator.  The \<^emph>\<open>policy reconciler\<close>
  (\<open>internal/controller/rblnclusterpolicy_controller.go\<close>) watches \<open>RBLNClusterPolicy\<close> objects and nodes.  It
  lets one policy be in charge (the singleton), labels the nodes with the components they get, deploys or
  removes the eight components, each through a patcher (\<open>internal/scope/patch/*.go\<close>), and writes the status.
  The \<^emph>\<open>driver reconciler\<close> (\<open>rblndriver_controller.go\<close>) watches \<open>RBLNDriver\<close> objects: it checks that no node
  is selected by two drivers, partitions the nodes by operating system and kernel, and deploys one DaemonSet
  per pool.  \<open>cmd/npu-operator/main.go\<close> registers both with the controller manager.  On the nodes, the pods that these
  DaemonSets start run shell scripts that the operator deploys (\<open>vfio-manage.sh\<close>, which binds the NPUs to
  \<open>vfio-pci\<close>, and three small ones), and wait for the status files that the
  \<^emph>\<open>validator\<close> (\<open>cmd/rbln-validator\<close>) writes when the driver and the container toolkit work.

  \<^bold>\<open>How it is modelled.\<close>  A Go function with effects is an operation \<open>'w \<Rightarrow> 'a outcome \<times> 'w\<close> over an abstract
  world (\<open>Prelude\<close>), with \<open>Err\<close> for a returned error and \<open>Abort\<close> for a panic or exit.  What is outside of the
  source is a parameter: the API server is a record \<open>client\<close> of requests, the operating system of a node a
  record \<open>host\<close>, its PCI bus a record \<open>sysfs\<close>, the controller manager a record \<open>manager\<close>, and cobra a function from
  arguments to a command with its flags.  What is assumed of them are named laws (\<open>store_law\<close>, \<open>available_client\<close>,
  \<open>answering\<close>, \<open>clock_law\<close>, \<open>fs_law\<close>, \<open>looking_law\<close>, \<open>asking_law\<close>, \<open>sysfs_law\<close>, \<open>obliging\<close>, \<open>manager_law\<close>, \<open>quiet_law\<close>, \<open>quiet_drivers\<close>, \<open>vendored\<close>), which the
  in-memory server, file system, bus and manager of the witnesses keep.
  Go structs are records, maps of strings are partial maps, strings are byte strings, builder chains are lists
  of steps applied in order.

  \<^bold>\<open>The theories\<close>, in the order of their imports:
  \<^item> \<open>Prelude\<close>, \<open>Go_Strings\<close>, \<open>Go_Paths\<close>, \<open>Json\<close>: outcomes and operations, the parts of Go's library that are used
    (\<open>strings\<close>, \<open>filepath\<close>, \<open>strconv\<close>, \<open>json.MarshalIndent\<close>) and their laws: trimming, splitting and joining,
    clean paths, decimal numbers.
  \<^item> \<open>K8s_Types\<close>, \<open>K8s_Builders\<close>, \<open>Api_Types\<close>: the API types of Kubernetes and of the operator (\<open>api/\<close>), the builders
    and label helpers of \<open>internal/utils/k8s\<close>, and owner references.
  \<^item> \<open>Client\<close>, \<open>Client_Logic\<close>, \<open>Store_Logic\<close>, \<open>Availability\<close>: the client, \<open>CreateOrPatch\<close>, and the reasoning on operations:
    which requests they send (\<open>footprint\<close>), what they leave in the store and that they converge (\<open>holds\<close>,
    \<open>converges\<close>), and when they succeed (\<open>achieves\<close>).  The locale \<open>api_object\<close> is interpreted for every kind of
    object, and \<open>mutator\<close>, the contract of the functions given to \<open>CreateOrPatch\<close>, for every such function.
  \<^item> \<open>Patch_Util\<close>, \<open>Patcher\<close>: \<open>util.go\<close>, \<open>consts.go\<close> and the interface of \<open>patcher.go\<close>; the locale \<open>patcher_contract\<close> says
    that \<open>Patch\<close> deploys exactly the objects that \<open>CleanUp\<close> removes.
  \<^item> \<open>Vfio_Manager\<close>, \<open>Feature_Discovery\<close>, \<open>Metrics_Exporter\<close>, \<open>Rbln_Daemon\<close>, \<open>Device_Plugin\<close>, \<open>Sandbox_Device_Plugin\<close>,
    \<open>Container_Toolkit\<close>, \<open>Validator_Patcher\<close>: one patcher each, with the pod templates and all handlers, and the
    interpretation of \<open>patcher_contract\<close>.  \<open>Pod_Checks\<close> checks the pod templates.
  \<^item> \<open>Node_Labels\<close>, \<open>Policy_Scope\<close>, \<open>Patch_Success\<close>, \<open>Policy_Deploy\<close>: \<open>internal/scope/cluster_policy.go\<close>, the labels
    of the nodes and the eight patchers together; \<open>Patch_Success\<close> interprets \<open>available_patcher\<close> for each.
  \<^item> \<open>Conditions\<close>, \<open>Cluster_Info\<close>, \<open>Policy_Controller\<close>, \<open>Policy_Runs\<close>, \<open>Policy_Guarantees\<close>: the policy reconciler, its status,
    its runs as an inductive relation with arbitrary changes of the cluster between the steps, and what it
    guarantees.
  \<^item> \<open>Node_Pool\<close>, \<open>Driver_Manager\<close>, \<open>Driver_Scope\<close>, \<open>Node_Selector\<close>, \<open>Driver_Controller\<close>, \<open>Driver_Runs\<close>, \<open>Driver_Guarantees\<close>:
    the pools, the driver's patcher, the check of the selectors, the driver reconciler and its guarantees; \<open>Driver_Outcomes\<close>: the outcomes of a whole reconciliation of a driver.
  \<^item> \<open>Separation\<close>: which objects each of the two reconcilers can change.
  \<^item> \<open>Policy_Status\<close>, \<open>Watches\<close>, \<open>Operator_Main\<close>: when the status of a policy changes; the watches that \<open>SetupWithManager\<close> of
    both reconcilers registers, with the event handlers of the controller runtime; and \<open>cmd/npu-operator/main.go\<close>.
  \<^item> \<open>Work_Queue\<close>, \<open>Controller_Loop\<close>: the work queue between events and reconciliations, with its delayed and rate
    limited additions, and the workers of a controller that take requests from it.
  \<^item> \<open>Deep_Copy\<close>, \<open>Api_Copies\<close>: the generated copies of the API types, over a store with explicit references.
  \<^item> \<open>Validator_Config\<close>, \<open>Validator_Host\<close>, \<open>Validator_Driver\<close>, \<open>Validator_Toolkit\<close>: the validator's configuration
    (\<open>config.go\<close>), status files and commands (\<open>util.go\<close>), and its two commands (\<open>driver*.go\<close>, \<open>toolkit.go\<close>);
    \<open>Validator_App\<close>: its entry point (\<open>app.go\<close>, \<open>main.go\<close>).
  \<^item> \<open>Vfio_Script\<close>: the script \<open>vfio-manage.sh\<close> of \<open>vfio_manager.go\<close>, function by function, over the files of the PCI bus.
    \<open>Node_Scripts\<close>: the waiting loop of the sandbox device plugin, the startup probe of the driver container and the
    sourcing of \<open>driver-ready\<close> by the entry point of the container toolkit.
  \<^item> This theory ends with the properties that connect the validator, the driver container and the pods that wait for them.

  \<^bold>\<open>What is shown.\<close>
  \<^item> Policies: a reconciliation succeeds on a server that answers and leaves every object of the enabled
    components present, of the disabled ones absent and every other object alone; it converges; it sends no other
    requests; over every run only the policy in charge sends more than reads and status updates of policies; what it writes to the status,
    and that it always reports the policy as ready; which events of nodes and of deployed objects trigger it, and that
    its own status update does.
  \<^item> Node labels: which labels a node has after labelling, that labelling is idempotent, and which nodes are updated.
  \<^item> Drivers: a reconciliation succeeds and leaves one DaemonSet for the pool of every selected node; a conflicting
    driver is not deployed; the pools partition the nodes, with the collision of kernels that differ in their
    suffix; that it never deletes anything, so that the shared objects stay; that a missing policy is reported once, and
    that no driver is ever reported ready; which updates of nodes it may miss.
  \<^item> Both reconcilers: which objects each can change, and that only DaemonSets can be objects of both.
  \<^item> Controllers: no request is lost and no object is reconciled by two workers at a time; the work queue
    implements a set of pending and a set of active items; no policy takes over from one that is deleted.
  \<^item> Copies: the copy of an API object is equal to the original and shares nothing with it, which is why
    the other theories can treat objects as values.
  \<^item> Operator: the controllers and checks are registered before the manager starts, and every error ends the process.
  \<^item> Scripts: binding leaves other devices alone and binds every NPU when it succeeds, when it succeeds, that the check is
    exact, that waiting ends, when the driver container is marked as ready, and that what the validator writes is what the
    container toolkit reads.
  \<^item> Validator: the status files are written atomically and only after successful checks, when the checks
    succeed, when the configuration is accepted, and that the loops end with the first success.

  \<^bold>\<open>Bounds.\<close>  Recursion is structural everywhere but in the loops of the validator that wait: \<open>waitFor n\<close> makes at
  most \<open>n\<close> attempts and then gives \<open>Abort\<close>.  The safety properties hold for every \<open>n\<close>, and \<open>waitFor_returns\<close> gives the
  number of attempts that suffices.  Likewise \<open>vfio_bind_check n\<close> makes at most \<open>n\<close> checks and gives \<open>None\<close> after them; 152 suffice,
  because a pause takes two seconds and the script gives up after 300.  The pause between attempts of the
  validator is computed in 64-bit words.  The order in
  which Go traverses the map of node pools is a parameter of \<open>drv_Patch\<close>; what it guarantees holds for every order.

  \<^bold>\<open>Not modelled.\<close>  Scheme registration (\<open>groupversion_info.go\<close>, the \<open>init\<close> functions); the caches of the controller
  runtime, the metrics and the draining of the work queue; the parsing of command lines by cobra and the flag package; what
  scripts print, and the commands of the container toolkit's entry point after it has read \<open>driver-ready\<close>; logging; the
  end-to-end tests.  A reconciliation is one step of the world of its reconciler: those of one reconciler run one after the
  other, as with the default of one worker.
\<close>

section \<open>The validator and the pods that wait for it\<close>

lemma driverCommand_written:
  assumes "fs_law files h" and "fl_outputDir f = None" and "TrimSpace (Getenv (h_environ h) envOutputDir) = []"
    and "driverCommand h n f w = (Ok (), w')"
  shows "files w' (validationsMountPath @ ''/driver-ready'') \<in>
     {Some (statusFileContent hostDriver), Some (statusFileContent containerDriver)}"
proof -
  obtain cfg where cfg: "finalize (bindFlags f (newConfigBuilder (h_environ h))) = Inr cfg"
      and run: "validateDriver h n cfg w = (Ok (), w')"
    using assms(4) by (auto simp: driverCommand_def fail_def split: sum.splits)
  have out: "cfg_outputDir cfg = validationsMountPath" by (rule default_outputDir [OF cfg assms(2,3)])
  show ?thesis using validateDriver_written [OF assms(1) _ run] by (simp add: out default_paths)
qed

lemma toolkitCommand_written:
  assumes fs: "fs_law files h" and look: "looking_law files (validationsMountPath @ ''/driver-ready'') h"
    and none: "fl_outputDir f = None" "TrimSpace (Getenv (h_environ h) envOutputDir) = []"
    and ok: "toolkitCommand h n f w = (Ok (), w')"
  shows "files w' (validationsMountPath @ ''/toolkit-ready'') = Some []"
    and "files w' (validationsMountPath @ ''/driver-ready'') = files w (validationsMountPath @ ''/driver-ready'')"
proof -
  obtain cfg where cfg: "finalize (bindFlags f (newConfigBuilder (h_environ h))) = Inr cfg"
      and run: "validateToolkit h n cfg w = (Ok (), w')"
    using ok by (auto simp: toolkitCommand_def fail_def split: sum.splits)
  have out: "cfg_outputDir cfg = validationsMountPath" by (rule default_outputDir [OF cfg none])
  show "files w' (validationsMountPath @ ''/driver-ready'') = files w (validationsMountPath @ ''/driver-ready'')"
    by (rule keepsD [OF keeps_validateToolkit [OF fs look] run]) (simp add: out default_paths)
  obtain v v' where "recreateStatusFile h (cfg_outputDir cfg) toolkitReadyFile v = (Ok (), v')" and "v' = w'"
    using run unfolding validateToolkit_def seqE.simps by (elim bind_OkE) (auto simp: ret_def)
  then show "files w' (validationsMountPath @ ''/toolkit-ready'') = Some []"
    using recreateStatusFile_files [OF fs] by (fastforce simp: out default_paths)
qed

text \<open>
  C35: The files for which pods wait are those that the validator writes.  When the two init containers of the
  validator have run on a node one after the other, with the arguments and thus the commands of its pod template, and
  both have succeeded, without an output directory in their flags or environments, then the file that the init
  container \<open>toolkit-validation\<close> of the components waits for exists, and the file that the entry point of the
  container toolkit sources still describes the driver.
\<close>

theorem validations_awaited:
  assumes "fs_law files h1" and "fs_law files h2" and "looking_law files (validationsMountPath @ ''/driver-ready'') h2"
    and "cobra (co_Args (val_driverInit spec)) = Inr (DriverCommand, fd)"
    and "cobra (co_Args (val_toolkitInit spec)) = Inr (ToolkitCommand, ft)"
    and "fl_outputDir fd = None" "TrimSpace (Getenv (h_environ h1) envOutputDir) = []"
    and "fl_outputDir ft = None" "TrimSpace (Getenv (h_environ h2) envOutputDir) = []"
    and "validator_main cobra h1 n (co_Args (val_driverInit spec)) w = (Ok (), w1)"
    and "validator_main cobra h2 m (co_Args (val_toolkitInit spec)) w1 = (Ok (), w2)"
  shows "(\<exists>p. co_Args (toolkitValidation v) =
        [''until [ -f '' @ p @ '' ]; do echo waiting for rbln container stack to be setup; sleep 5; done''] \<and>
        files w2 p = Some []) \<and>
     (\<exists>p before after. entrypointScript = before @ ''set -o allexport'' @ [CHR 0x0A] @ ''. '' @ p @ [CHR 0x0A] @ after \<and>
        files w2 p \<in> {Some (statusFileContent hostDriver), Some (statusFileContent containerDriver)})"
proof
  note driver = driverCommand_written [OF assms(1,6,7) validator_mainD(1) [OF assms(10,4)]]
  note toolkit = toolkitCommand_written [OF assms(2,3,8,9) validator_mainD(2) [OF assms(11,5)]]
  have "co_Args (toolkitValidation v) =
      [''until [ -f '' @ (validationsMountPath @ ''/toolkit-ready'') @ '' ]; do echo waiting for rbln container stack to be setup; sleep 5; done'']"
    by (simp add: toolkitValidation_def build_def container_steps)
  with toolkit(1) show "\<exists>p. co_Args (toolkitValidation v) =
        [''until [ -f '' @ p @ '' ]; do echo waiting for rbln container stack to be setup; sleep 5; done''] \<and> files w2 p = Some []"
    by blast
  have "prefix (''set -o allexport'' @ [CHR 0x0A] @ ''. '' @ (validationsMountPath @ ''/driver-ready'') @ [CHR 0x0A])
      (drop 137 entrypointScript)"
    by code_simp
  then have "\<exists>before after. entrypointScript = before @ ''set -o allexport'' @ [CHR 0x0A] @ ''. '' @
      (validationsMountPath @ ''/driver-ready'') @ [CHR 0x0A] @ after"
    unfolding prefix_def by (metis append.assoc append_take_drop_id)
  then show "\<exists>p before after. entrypointScript = before @ ''set -o allexport'' @ [CHR 0x0A] @ ''. '' @ p @ [CHR 0x0A] @ after \<and>
        files w2 p \<in> {Some (statusFileContent hostDriver), Some (statusFileContent containerDriver)}"
    using driver toolkit(2) by metis
qed

definition node_files :: file_map where
  "node_files = (\<lambda>_. None)(''/host-usr-bin/rbln-smi'' := Some ''ELF'', ''/var/run/cdi/old-RBLN.json'' := Some [],
     ''/var/run/cdi/rbln.yaml'' := Some ''kind: rbln'')"

text \<open>A command line with a command and \<open>--with-wait\<close> only.\<close>

fun plain_cobra :: "string list \<Rightarrow> error + validator_command \<times> flags" where
  "plain_cobra args =
     (let f = \<lparr>fl_namespace = None, fl_outputDir = None, fl_withWait = (if ''--with-wait'' \<in> set args then Some True else None),
               fl_sleepIntervalSeconds = None\<rparr>
      in case args of [] \<Rightarrow> Inr (RootCommand, f)
         | command # _ \<Rightarrow> if command = ''driver'' then Inr (DriverCommand, f)
             else if command = ''toolkit'' then Inr (ToolkitCommand, f) else Inl (Errorf ''unknown command''))"

definition plain_spec :: ValidatorSpec where
  "plain_spec = undefined\<lparr>vs_Args := []\<rparr>"

text \<open>The host of the node, which has specifications of the toolkit and cannot reach the cluster.\<close>

definition node_host :: "file_map cluster_host" where
  "node_host = host.extend toolkit_host (cluster_host.fields
     (\<lambda>w. (Inl (Errorf ''not in a cluster''), w)) (\<lambda>w. (Inr (), w)) (\<lambda>_ w. (Inr [], w)))"

lemma node_host_laws: "fs_law (\<lambda>w. w) node_host" "looking_law (\<lambda>w. w) p node_host"
  unfolding node_host_def extend_laws by (rule toolkit_host_laws)+

lemma plain_args: "co_Args (val_driverInit plain_spec) = [''driver'', ''--with-wait'']" "co_Args (val_toolkitInit plain_spec) = [''toolkit'']"
  by (simp_all add: val_driverInit_def val_toolkitInit_def build_def container_steps validatorComponentArgs_def plain_spec_def)

lemma node_runs:
  "fst (validator_main plain_cobra node_host 1 [''driver'', ''--with-wait''] node_files) = Ok ()"
  "fst (validator_main plain_cobra node_host 1 [''toolkit'']
     (snd (validator_main plain_cobra node_host 1 [''driver'', ''--with-wait''] node_files))) = Ok ()"
  "TrimSpace (Getenv (h_environ node_host) envOutputDir) = []"
  by code_simp+

theorem validations_awaited_witness:
  "let w1 = snd (validator_main plain_cobra node_host 1 (co_Args (val_driverInit plain_spec)) node_files);
       w2 = snd (validator_main plain_cobra node_host 1 (co_Args (val_toolkitInit plain_spec)) w1)
   in \<forall>v. \<exists>p. co_Args (toolkitValidation v) =
        [''until [ -f '' @ p @ '' ]; do echo waiting for rbln container stack to be setup; sleep 5; done''] \<and> w2 p = Some []"
proof -
  obtain w1 w2 where runs: "validator_main plain_cobra node_host 1 (co_Args (val_driverInit plain_spec)) node_files = (Ok (), w1)"
      "validator_main plain_cobra node_host 1 (co_Args (val_toolkitInit plain_spec)) w1 = (Ok (), w2)"
    using node_runs(1,2) unfolding plain_args by (metis prod.collapse)
  obtain fd ft where "plain_cobra (co_Args (val_driverInit plain_spec)) = Inr (DriverCommand, fd)" "fl_outputDir fd = None"
      "plain_cobra (co_Args (val_toolkitInit plain_spec)) = Inr (ToolkitCommand, ft)" "fl_outputDir ft = None"
    by (simp add: plain_args Let_def)
  then show ?thesis
    using validations_awaited [OF node_host_laws(1) node_host_laws(1,2) _ _ _ node_runs(3) _ node_runs(3) runs] runs
    by (simp add: Let_def)
qed

section \<open>The driver container and those that wait for it\<close>

text \<open>The command \<open>stat\<close> of a shell succeeds on the files that exist.\<close>

definition stat_law :: "('w \<Rightarrow> string \<Rightarrow> string option) \<Rightarrow> string \<Rightarrow> ('w, 'm) host_scheme \<Rightarrow> bool" where
  "stat_law files p h \<longleftrightarrow> (\<forall>silent w.
     (\<exists>out. fst (h_Run h \<lparr>cmd_Name = ''sh'', cmd_Args = [''-c'', ''stat '' @ p], cmd_Env = None, cmd_Silent = silent\<rparr> w) = Exited0 out)
     \<longleftrightarrow> files w p \<noteq> None)"

lemma readyPath: "PathJoin [validationsMountPath, driverContainerReadyFile] = readyFile"
  by code_simp

lemma stat_readyFile:
  assumes "stat_law files readyFile h"
  shows "is_ok (fst (runCommand h ''sh'' [''-c'', ''stat '' @ readyFile] silent w)) \<longleftrightarrow> files w readyFile \<noteq> None"
proof -
  let ?cmd = "\<lparr>cmd_Name = ''sh'', cmd_Args = [''-c'', ''stat '' @ readyFile], cmd_Env = None, cmd_Silent = silent\<rparr>"
  have "is_ok (fst (runCommand h ''sh'' [''-c'', ''stat '' @ readyFile] silent w)) \<longleftrightarrow> (\<exists>out. fst (h_Run h ?cmd w) = Exited0 out)"
    by (cases "h_Run h ?cmd w"; cases "fst (h_Run h ?cmd w)") (simp_all add: runCommand_def runCmd_def)
  then show ?thesis using assms unfolding stat_law_def by blast
qed

text \<open>
  C25: The startup probe of the driver container marks it as ready exactly when the probe succeeds; a probe that fails
  leaves the mark as it was.  After a probe that succeeded the check of the validator, with or without waiting, succeeds at
  its first attempt, and without the mark the check fails.  The init container of the sandbox device plugin waits for the
  same file, and the driver container removes it as it stops.
\<close>

theorem driver_container_handshake:
  assumes "fs_law files h" and "looking_law files readyFile h" and "stat_law files readyFile v"
    and "startup_probe h w = (r, w')"
  shows "files w' readyFile = (if is_ok r then Some [] else files w readyFile) \<and>
     (is_ok r \<longrightarrow> is_ok (fst (assertDriverContainerReady v (Suc n) validationsMountPath withWait secs silent w'))) \<and>
     (files u readyFile = None \<longrightarrow> \<not> is_ok (fst (assertDriverContainerReady v n validationsMountPath False secs silent u))) \<and>
     co_Args (driverReady spec) =
       [''until [ -f '' @ readyFile @ '' ]; do echo waiting for rbln driver container to be ready; sleep 5; done''] \<and>
     co_PreStop (drv_baseContainer d s) = Some [''/bin/sh'', ''-c'', ''rm -f '' @ readyFile]"
proof (intro conjI impI)
  show marked: "files w' readyFile = (if is_ok r then Some [] else files w readyFile)"
    by (rule startup_probe_outcome [OF assms(1,2,4)])
  assume "is_ok r"
  then have "is_ok (fst (runCommand v ''sh'' [''-c'', ''stat '' @ readyFile] silent w'))"
    using marked by (simp only: stat_readyFile [OF assms(3)] if_True) simp
  then show "is_ok (fst (assertDriverContainerReady v (Suc n) validationsMountPath withWait secs silent w'))"
    unfolding assertDriverContainerReady_def readyPath Let_def runCommandWithWait_def
    by (auto simp: is_ok_iff split: prod.splits outcome.splits)
next
  assume "files u readyFile = None"
  then show "\<not> is_ok (fst (assertDriverContainerReady v n validationsMountPath False secs silent u))"
    unfolding assertDriverContainerReady_def readyPath Let_def
    using stat_readyFile [OF assms(3), of silent u] by simp
qed (simp_all add: driverReady_def defaultPullPolicy_def drv_baseContainer_def build_def container_steps)

definition stat_host :: "file_map host" where
  "stat_host = (mem_host [] [])\<lparr>h_Run := (\<lambda>cmd w.
     (if cmd_Args cmd = [''-c'', ''stat '' @ readyFile] \<and> w readyFile = None then ExitError noEntry else Exited0 [], w))\<rparr>"

definition loaded_files :: file_map where
  "loaded_files = (\<lambda>_. None)(''/sys/module/rebellions/refcnt'' := Some ''0'')"

lemma stat_host_laws: "fs_law (\<lambda>w. w) stat_host" "looking_law (\<lambda>w. w) p stat_host" "stat_law (\<lambda>w. w) readyFile stat_host"
proof -
  show "fs_law (\<lambda>w. w) stat_host" using mem_host_law [of "[]" "[]"] unfolding stat_host_def by (simp add: fs_laws)
  show "looking_law (\<lambda>w. w) p stat_host"
    using mem_host_looking [of p "[]" "[]"] unfolding stat_host_def by (simp add: looking_law_def spares_def)
  show "stat_law (\<lambda>w. w) readyFile stat_host" by (simp add: stat_law_def stat_host_def)
qed

theorem driver_container_handshake_witness:
  "snd (startup_probe stat_host loaded_files) readyFile = Some [] \<and>
   is_ok (fst (assertDriverContainerReady stat_host 1 validationsMountPath True 5 False (snd (startup_probe stat_host loaded_files))))"
proof -
  have "is_ok (fst (startup_probe stat_host loaded_files))" by code_simp
  then show ?thesis
    using driver_container_handshake [OF stat_host_laws surjective_pairing,
        where n = 0 and withWait = True and secs = 5 and silent = False and w = loaded_files]
    by simp
qed

end
